(* ===== verification/Prelude.thy ===== *)
theory Prelude
  imports Main "HOL-Library.State_Monad" "HOL-Library.Char_ord" "HOL-Library.List_Lexorder"
begin

text \<open>
  Shared material of the development: the collections the component proofs draw on, the
  Go error values and result types, the helper functions of Go's \<^verbatim>\<open>strings\<close>
  package that the sources call, and generic lemmas on lists, strings and state programs.

  A Go function that may change state is a program of the state monad
  (\<^verbatim>\<open>HOL-Library.State_Monad\<close>); one that may fail returns \<open>Inl\<close> of the error or
  \<open>Inr\<close> of the value, so that \<^verbatim>\<open>x, err := f(); if err != nil { return err }\<close>
  reads as a \<^theory_text>\<open>do\<close> block with a case distinction.
\<close>

named_theorems run_simps "equations that run a program of the model on a state"
named_theorems frame_simps "fields an operation leaves unchanged"
named_theorems inv_intros "operations that keep an invariant"

type_synonym byte = "char"
type_synonym bytes = "byte list"

section \<open>Go strings\<close>

definition HasPrefix :: "string \<Rightarrow> string \<Rightarrow> bool" where
  "HasPrefix s p = (take (length p) s = p)"

definition TrimPrefix :: "string \<Rightarrow> string \<Rightarrow> string" where
  "TrimPrefix s p = (if HasPrefix s p then drop (length p) s else s)"

definition is_space :: "char \<Rightarrow> bool" where
  "is_space c = (c \<in> set [CHR 0x09, CHR 0x0A, CHR 0x0B, CHR 0x0C, CHR 0x0D, CHR '' ''])"

definition TrimSpace :: "string \<Rightarrow> string" where
  "TrimSpace s = rev (dropWhile is_space (rev (dropWhile is_space s)))"

definition TrimLeft :: "string \<Rightarrow> string \<Rightarrow> string" where
  "TrimLeft s cutset = dropWhile (\<lambda>c. c \<in> set cutset) s"

definition TrimRight :: "string \<Rightarrow> string \<Rightarrow> string" where
  "TrimRight s cutset = rev (dropWhile (\<lambda>c. c \<in> set cutset) (rev s))"

lemma HasPrefix_append [simp]: "HasPrefix (p @ s) p"
  by (simp add: HasPrefix_def)

lemma HasPrefix_iff: "HasPrefix s p \<longleftrightarrow> (\<exists>r. s = p @ r)"
  by (metis HasPrefix_def append_eq_conv_conj)

lemma TrimPrefix_append [simp]: "TrimPrefix (p @ s) p = s"
  by (simp add: TrimPrefix_def)

section \<open>Lexicographic order of texts\<close>

text \<open>SQLite's binary collation compares byte by byte, as \<open>List_Lexorder\<close> does.\<close>

lemma lex_less_append: "(xs @ ys :: 'a :: linorder list) < xs @ zs \<longleftrightarrow> ys < zs"
  by (induction xs) auto

lemma lex_less_same_length:
  "length xs = length ys \<Longrightarrow> (xs :: 'a :: linorder list) < ys \<Longrightarrow> xs @ us < ys @ vs"
  by (induction xs ys rule: list_induct2) auto

lemma lex_append_iff:
  "length xs = length ys \<Longrightarrow>
    (xs @ us :: 'a :: linorder list) < ys @ vs \<longleftrightarrow> xs < ys \<or> (xs = ys \<and> us < vs)"
  by (induction xs ys rule: list_induct2) auto

section \<open>Programs of the state monad\<close>

text \<open>\<open>keeps P m\<close>: every run of \<open>m\<close> from a state with \<open>P\<close> ends in a state with \<open>P\<close>.\<close>

definition keeps :: "('s \<Rightarrow> bool) \<Rightarrow> ('s, 'a) state \<Rightarrow> bool" where
  "keeps P m = (\<forall>s. P s \<longrightarrow> P (snd (run_state m s)))"

lemma keepsI: "(\<And>s. P s \<Longrightarrow> P (snd (run_state m s))) \<Longrightarrow> keeps P m"
  by (simp add: keeps_def)

lemma keepsD: "keeps P m \<Longrightarrow> P s \<Longrightarrow> P (snd (run_state m s))"
  by (simp add: keeps_def)

lemma keepsD': "keeps P m \<Longrightarrow> run_state m s = (r, s') \<Longrightarrow> P s \<Longrightarrow> P s'"
  by (metis keepsD snd_conv)

lemma keeps_return [inv_intros]: "keeps P (State_Monad.return x)"
  by (simp add: keeps_def)

lemma keeps_bind [inv_intros]:
  assumes "keeps P m" "\<And>x. keeps P (f x)"
  shows "keeps P (State_Monad.bind m f)"
  using assms by (auto simp: keeps_def split: prod.splits)

text \<open>With what the first program promises of its result.\<close>

lemma keeps_bind_post:
  assumes "\<And>s x s'. P s \<Longrightarrow> run_state m s = (x, s') \<Longrightarrow> P s' \<and> Q x" "\<And>x. Q x \<Longrightarrow> keeps P (f x)"
  shows "keeps P (State_Monad.bind m f)"
proof (rule keepsI)
  fix s assume P: "P s"
  obtain x s' where m: "run_state m s = (x, s')" by (metis surj_pair)
  from assms(1) [OF P m] assms(2) [of x] m show "P (snd (run_state (State_Monad.bind m f) s))"
    by (simp add: keepsD)
qed

lemma keeps_if [inv_intros]: "keeps P m \<Longrightarrow> keeps P n \<Longrightarrow> keeps P (if b then m else n)"
  by simp

lemma keeps_sum [inv_intros]:
  "(\<And>e. keeps P (f e)) \<Longrightarrow> (\<And>x. keeps P (g x)) \<Longrightarrow>
    keeps P (case r of Inl e \<Rightarrow> f e | Inr x \<Rightarrow> g x)"
  by (cases r) auto

lemma keeps_option [inv_intros]:
  "keeps P m \<Longrightarrow> (\<And>x. keeps P (g x)) \<Longrightarrow>
    keeps P (case r of None \<Rightarrow> m | Some x \<Rightarrow> g x)"
  by (cases r) auto

lemma keeps_prod [inv_intros]:
  "(\<And>x y. keeps P (g x y)) \<Longrightarrow> keeps P (case r of (x, y) \<Rightarrow> g x y)"
  by (cases r) auto

lemma keeps_list [inv_intros]:
  "keeps P m \<Longrightarrow> (\<And>x xs. keeps P (g x xs)) \<Longrightarrow>
    keeps P (case r of [] \<Rightarrow> m | x # xs \<Rightarrow> g x xs)"
  by (cases r) auto

lemma keeps_let [inv_intros]: "(\<And>x. keeps P (f x)) \<Longrightarrow> keeps P (let x = t in f x)"
  by simp

end
