(* ===== verification/Go_Time.thy ===== *)
theory Go_Time
  imports Prelude
begin

text \<open>
  Go's \<^verbatim>\<open>time.Time\<close> and the texts the stores keep of it.

  A time is its distance in nanoseconds from Go's zero time, 0001-01-01T00:00:00Z, and a
  duration is a number of nanoseconds. The stores write every timestamp with
  \<^verbatim>\<open>Format(time.RFC3339Nano)\<close>, compare the texts inside SQL statements and read them
  back with \<^verbatim>\<open>time.Parse\<close>. All of it is modelled to the digit: the proleptic Gregorian
  calendar, the layout (with the trailing zeros of the fraction dropped, as Go drops them)
  and the parser of the layout. The theory shows the round trip and where the order of the
  texts is the order of the times.
\<close>

type_synonym gotime = int
type_synonym duration = int

definition Nanosecond :: duration where "Nanosecond = 1"
definition Second :: duration where "Second = 1000000000"
definition Minute :: duration where "Minute = 60 * Second"
definition Hour :: duration where "Hour = 60 * Minute"

definition zero_time :: gotime where "zero_time = 0"

definition IsZero :: "gotime \<Rightarrow> bool" where "IsZero t = (t = zero_time)"

text \<open>\<^verbatim>\<open>Time.Sub\<close> saturates at the ends of the 64-bit duration.\<close>

definition maxDuration :: duration where "maxDuration = 9223372036854775807"
definition minDuration :: duration where "minDuration = - 9223372036854775808"

definition time_sub :: "gotime \<Rightarrow> gotime \<Rightarrow> duration" where
  "time_sub t u = max minDuration (min maxDuration (t - u))"

section \<open>The calendar\<close>

definition is_leap :: "int \<Rightarrow> bool" where
  "is_leap y = (y mod 4 = 0 \<and> (y mod 100 \<noteq> 0 \<or> y mod 400 = 0))"

definition days_before_year :: "int \<Rightarrow> int" where
  "days_before_year y = 365 * (y - 1) + (y - 1) div 4 - (y - 1) div 100 + (y - 1) div 400"

text \<open>Year and day of the year of a day number, by 400-, 100-, 4- and 1-year cycles.\<close>

definition year_yday :: "int \<Rightarrow> int \<times> int" where
  "year_yday d =
     (let n400 = d div 146097; r400 = d mod 146097;
          n100 = min 3 (r400 div 36524); r100 = r400 - n100 * 36524;
          n4 = r100 div 1461; r4 = r100 - n4 * 1461;
          n1 = min 3 (r4 div 365)
      in (1 + 400 * n400 + 100 * n100 + 4 * n4 + n1, r4 - n1 * 365))"

definition month_lengths :: "int \<Rightarrow> int list" where
  "month_lengths y =
     [31, if is_leap y then 29 else 28, 31, 30, 31, 30, 31, 31, 30, 31, 30, 31]"

fun month_day :: "int list \<Rightarrow> int \<Rightarrow> int \<Rightarrow> int \<times> int" where
  "month_day [] m d = (m, d)"
| "month_day (l # ls) m d = (if d < l then (m, d) else month_day ls (m + 1) (d - l))"

definition civil :: "int \<Rightarrow> int \<times> int \<times> int" where
  "civil d = (let (y, yd) = year_yday d; (m, md) = month_day (month_lengths y) 1 yd
              in (y, m, md + 1))"

definition days_of_civil :: "int \<Rightarrow> int \<Rightarrow> int \<Rightarrow> int" where
  "days_of_civil y m d =
     days_before_year y + sum_list (take (nat (m - 1)) (month_lengths y)) + (d - 1)"

section \<open>Layouts\<close>

definition digit :: "nat \<Rightarrow> char" where
  "digit n = char_of (48 + n)"

fun digits :: "nat \<Rightarrow> nat \<Rightarrow> string" where
  "digits 0 n = []"
| "digits (Suc w) n = digits w (n div 10) @ [digit (n mod 10)]"

fun ndigits :: "nat \<Rightarrow> nat" where
  "ndigits n = (if n < 10 then 1 else Suc (ndigits (n div 10)))"

declare ndigits.simps [simp del]

text \<open>\<^verbatim>\<open>appendInt(b, x, width)\<close> of package time.\<close>

definition appendInt :: "int \<Rightarrow> nat \<Rightarrow> string" where
  "appendInt x w = (let u = nat \<bar>x\<bar> in
     (if x < 0 then ''-'' else []) @ digits (max w (ndigits u)) u)"

definition frac_text :: "nat \<Rightarrow> string" where
  "frac_text n = (if n = 0 then []
     else CHR ''.'' # rev (dropWhile (\<lambda>c. c = CHR ''0'') (rev (digits 9 n))))"

definition secs_of :: "gotime \<Rightarrow> int" where "secs_of t = t div Second"
definition nanos_of :: "gotime \<Rightarrow> nat" where "nanos_of t = nat (t mod Second)"

definition seconds_text :: "int \<Rightarrow> string" where
  "seconds_text s =
     (let (y, m, d) = civil (s div 86400); r = s mod 86400 in
      appendInt y 4 @ ''-'' @ appendInt m 2 @ ''-'' @ appendInt d 2 @ ''T'' @
      appendInt (r div 3600) 2 @ '':'' @ appendInt (r div 60 mod 60) 2 @ '':'' @
      appendInt (r mod 60) 2)"

definition RFC3339Nano :: "gotime \<Rightarrow> string" where
  "RFC3339Nano t = seconds_text (secs_of t) @ frac_text (nanos_of t) @ ''Z''"

definition RFC3339 :: "gotime \<Rightarrow> string" where
  "RFC3339 t = seconds_text (secs_of t) @ ''Z''"

section \<open>The parser of the layout\<close>

definition isDigit :: "char \<Rightarrow> bool" where
  "isDigit c = (48 \<le> (of_char c :: nat) \<and> (of_char c :: nat) \<le> 57)"

definition digit_value :: "char \<Rightarrow> nat" where
  "digit_value c = of_char c - 48"

definition atoi :: "string \<Rightarrow> nat" where
  "atoi s = foldl (\<lambda>n c. n * 10 + digit_value c) 0 s"

definition parseUint :: "string \<Rightarrow> int \<Rightarrow> int \<Rightarrow> int option" where
  "parseUint s lo hi =
     (if list_all isDigit s \<and> lo \<le> int (atoi s) \<and> int (atoi s) \<le> hi
      then Some (int (atoi s)) else None)"

definition daysIn :: "int \<Rightarrow> int \<Rightarrow> int" where
  "daysIn m y = month_lengths y ! nat (m - 1)"

text \<open>The fraction: its digits after the point, read as nanoseconds, cut after nine.\<close>

definition parse_frac :: "string \<Rightarrow> int \<times> string" where
  "parse_frac s = (case s of
       CHR ''.'' # c # cs \<Rightarrow>
         (if isDigit c then
            (let ds = takeWhile isDigit (c # cs); ds9 = take 9 ds
             in (int (atoi ds9 * 10 ^ (9 - length ds9)), dropWhile isDigit (c # cs)))
          else (0, s))
     | _ \<Rightarrow> (0, s))"

definition parse_zone :: "string \<Rightarrow> int option" where
  "parse_zone s =
     (if s = ''Z'' then Some 0
      else if length s \<noteq> 6 \<or> (s ! 0 \<noteq> CHR ''-'' \<and> s ! 0 \<noteq> CHR ''+'') \<or> s ! 3 \<noteq> CHR '':'' then None
      else case (parseUint (take 2 (drop 1 s)) 0 23, parseUint (take 2 (drop 4 s)) 0 59) of
             (Some hr, Some mm) \<Rightarrow>
               Some ((if s ! 0 = CHR ''-'' then -1 else 1) * ((hr * 60 + mm) * 60))
           | _ \<Rightarrow> None)"

definition parse_date :: "string \<Rightarrow> int option" where
  "parse_date s =
     (case (parseUint (take 4 s) 0 9999, parseUint (take 2 (drop 5 s)) 1 12) of
        (Some y, Some m) \<Rightarrow>
          (case parseUint (take 2 (drop 8 s)) 1 (daysIn m y) of
             Some d \<Rightarrow> Some (days_of_civil y m d) | None \<Rightarrow> None)
      | _ \<Rightarrow> None)"

definition parse_clock :: "string \<Rightarrow> int option" where
  "parse_clock s =
     (case (parseUint (take 2 (drop 11 s)) 0 23, parseUint (take 2 (drop 14 s)) 0 59,
            parseUint (take 2 (drop 17 s)) 0 59) of
        (Some h, Some mi, Some se) \<Rightarrow> Some (h * 3600 + mi * 60 + se)
      | _ \<Rightarrow> None)"

definition parseRFC3339 :: "string \<Rightarrow> gotime option" where
  "parseRFC3339 s =
     (if length s < 19 then None
      else case (parse_date s, parse_clock s) of
        (Some day, Some clk) \<Rightarrow>
          (if s ! 4 = CHR ''-'' \<and> s ! 7 = CHR ''-'' \<and> s ! 10 = CHR ''T'' \<and>
              s ! 13 = CHR '':'' \<and> s ! 16 = CHR '':'' then
             (let (ns, rest) = parse_frac (drop 19 s) in
              case parse_zone rest of
                Some off \<Rightarrow> Some ((day * 86400 + clk - off) * Second + ns)
              | None \<Rightarrow> None)
           else None)
      | _ \<Rightarrow> None)"

text \<open>The store's reader: the error is dropped and the zero time taken instead.\<close>

definition mustParseTime :: "string \<Rightarrow> gotime" where
  "mustParseTime s = (case parseRFC3339 s of Some t \<Rightarrow> t | None \<Rightarrow> zero_time)"

text \<open>The times whose year has four digits: what the layout can carry.\<close>

definition in_year_range :: "int \<Rightarrow> bool" where
  "in_year_range s = (0 \<le> fst (civil (s div 86400)) \<and> fst (civil (s div 86400)) \<le> 9999)"

definition four_digit_year :: "gotime \<Rightarrow> bool" where
  "four_digit_year t = in_year_range (secs_of t)"

section \<open>The calendar is monotone\<close>

lemma div_step:
  fixes y k :: int
  assumes "0 < k"
  shows "y div k = (y - 1) div k + (if y mod k = 0 then 1 else 0)"
proof -
  define q r where "q = (y - 1) div k" and "r = (y - 1) mod k"
  have y: "y = k * q + (r + 1)" and r: "0 \<le> r" "r < k"
    using assms div_mult_mod_eq [of "y - 1" k] by (auto simp: q_def r_def algebra_simps)
  show ?thesis
  proof (cases "r + 1 = k")
    case True
    then have "y = k * (q + 1)" using y by (simp add: algebra_simps)
    then have "y mod k = 0" "y div k = q + 1" using assms by (auto simp: algebra_simps)
    then show ?thesis by (simp add: q_def)
  next
    case False
    with r have "0 \<le> r + 1" "r + 1 < k" by auto
    with y have "y div k = q" "y mod k = r + 1"
      by (auto intro: int_div_pos_eq int_mod_pos_eq)
    with r show ?thesis by (simp add: q_def)
  qed
qed

lemma leap_count:
  fixes p4 p100 p400 :: bool and a b c a' b' c' y :: int
  assumes "a' = a + (if p4 then 1 else 0)" "b' = b + (if p100 then 1 else 0)"
    "c' = c + (if p400 then 1 else 0)" "p100 \<Longrightarrow> p4" "p400 \<Longrightarrow> p100"
  shows "365 * y + a' - b' + c' = 365 * (y - 1) + a - b + c + 365 +
    (if p4 \<and> (\<not> p100 \<or> p400) then 1 else 0)"
  using assms by (cases p4; cases p100; cases p400) simp_all

lemma mod_0_trans:
  fixes y j k :: int
  assumes "j dvd k" "y mod k = 0"
  shows "y mod j = 0"
  using dvd_trans [OF assms(1), of y] assms(2) by (simp only: dvd_eq_mod_eq_0)

lemma days_before_year_Suc:
  "days_before_year (y + 1) = days_before_year y + 365 + (if is_leap y then 1 else 0)"
  unfolding days_before_year_def is_leap_def add_diff_cancel_right'
  by (rule leap_count [OF div_step div_step div_step])
    (simp_all only: zero_less_numeral, (rule mod_0_trans; simp)+)

lemma cap_div:
  fixes r k :: int
  assumes "0 < k" "0 \<le> r" "q = min 3 (r div k)"
  shows "0 \<le> q" "q \<le> 3" "0 \<le> r - q * k" "r - q * k < k \<or> q = 3"
proof -
  have d: "0 \<le> r div k" using assms by (simp add: pos_imp_zdiv_nonneg_iff)
  then show "0 \<le> q" "q \<le> 3" using assms(3) by simp_all
  have "q * k \<le> r div k * k" using assms by (intro mult_right_mono) auto
  also have "\<dots> \<le> r" using assms by (simp add: minus_mod_eq_div_mult [symmetric])
  finally show "0 \<le> r - q * k" by simp
  show "r - q * k < k \<or> q = 3"
  proof (cases "r div k \<le> 3")
    case True
    then have "r - q * k = r mod k" using assms(3) by (simp add: min_def minus_div_mult_eq_mod)
    with assms show ?thesis by simp
  qed (simp add: assms(3))
qed

lemma days_before_year_mono: "y \<le> z \<Longrightarrow> days_before_year y \<le> days_before_year z"
proof (induction "nat (z - y)" arbitrary: z)
  case 0
  then show ?case by simp
next
  case (Suc n)
  then have "days_before_year y \<le> days_before_year (z - 1)" by simp
  also have "\<dots> \<le> days_before_year z" using days_before_year_Suc [of "z - 1"] by simp
  finally show ?case .
qed

lemma year_yday_cycles:
  fixes a b c e r :: int
  assumes "0 \<le> b" "b \<le> 3" "0 \<le> c" "c \<le> 24" "0 \<le> e" "e \<le> 3"
  shows "days_before_year (1 + 400 * a + 100 * b + 4 * c + e) =
    146097 * a + 36524 * b + 1461 * c + 365 * e"
proof -
  have "(400 * a + 100 * b + 4 * c + e) div 4 = 100 * a + 25 * b + c"
    by (rule int_div_pos_eq [where r = e]) (use assms in auto)
  moreover have "(400 * a + 100 * b + 4 * c + e) div 100 = 4 * a + b"
    by (rule int_div_pos_eq [where r = "4 * c + e"]) (use assms in auto)
  moreover have "(400 * a + 100 * b + 4 * c + e) div 400 = a"
    by (rule int_div_pos_eq [where r = "100 * b + 4 * c + e"]) (use assms in auto)
  ultimately show ?thesis by (simp add: days_before_year_def add.assoc)
qed

lemma year_yday_spec:
  assumes "year_yday d = (y, yd)"
  shows "days_before_year y + yd = d \<and> 0 \<le> yd \<and> yd < 365 + (if is_leap y then 1 else 0)"
proof -
  define a where "a = d div 146097"
  define r where "r = d mod 146097"
  define b where "b = min 3 (r div 36524)"
  define r1 where "r1 = r - b * 36524"
  define c where "c = r1 div 1461"
  define r2 where "r2 = r1 - c * 1461"
  define e where "e = min 3 (r2 div 365)"
  have "1 + 400 * a + 100 * b + 4 * c + e = y \<and> r2 - e * 365 = yd"
    using assms unfolding year_yday_def Let_def prod.inject a_def r_def b_def r1_def c_def r2_def e_def .
  then have y: "y = 1 + 400 * a + 100 * b + 4 * c + e" and yd: "yd = r2 - e * 365"
    by blast+
  have r: "0 \<le> r" "r < 146097" by (simp_all add: r_def)
  note b = cap_div [OF zero_less_numeral r(1) b_def]
  have r1: "0 \<le> r1" "r1 < 36524 \<or> (b = 3 \<and> r1 \<le> 36524)" using b r(2) by (auto simp: r1_def)
  have "r1 \<le> 36524" using r1 by auto
  then have "c \<le> 36524 div 1461" unfolding c_def by (rule zdiv_mono1) simp
  then have c24: "c \<le> 24" by simp
  have c0: "0 \<le> c" unfolding c_def using r1(1) by (simp only: pos_imp_zdiv_nonneg_iff zero_less_numeral)
  note c = c0 c24
  have r2_mod: "r2 = r1 mod 1461" by (simp add: r2_def c_def minus_div_mult_eq_mod)
  then have r2: "0 \<le> r2" "r2 < 1461" by simp_all
  note e = cap_div [OF zero_less_numeral r2(1) e_def]
  have d: "d = 146097 * a + r" by (simp add: a_def r_def)
  have sum: "days_before_year y + yd = d"
    unfolding y year_yday_cycles [OF b(1,2) c e(1,2)] yd d r2_def r1_def by simp
  have yd0: "0 \<le> yd" and yd365: "yd < 365 \<or> (e = 3 \<and> yd = 365)"
    using r2(2) e by (auto simp: yd)
  have "is_leap y" if "\<not> yd < 365"
  proof -
    from that yd365 have e3: "e = 3" and "yd = 365" by auto
    then have "r2 = 1460" using yd by simp
    then have "c = 24 \<Longrightarrow> b = 3" using r1 unfolding r2_def by auto
    have y': "y = 400 * a + (100 * (b + 1) + 4 * (c - 24))" unfolding y e3 by simp
    show ?thesis
    proof (cases "c = 24")
      case True
      with \<open>c = 24 \<Longrightarrow> b = 3\<close> have "y = 400 * (a + 1)" unfolding y' by simp
      then have "y mod 400 = 0" by simp
      moreover from this have "y mod 4 = 0" by (rule mod_0_trans [rotated]) simp
      ultimately show ?thesis unfolding is_leap_def by blast
    next
      case False
      have "y = 4 * (100 * a + 25 * (b + 1) + (c - 24))" unfolding y' by simp
      then have "y mod 4 = 0" by (simp only: mod_mult_self1_is_0)
      moreover have "y mod 100 = 4 * (c + 1)"
        by (rule int_mod_pos_eq [where q = "4 * a + b"]) (use c False y' in auto)
      ultimately have "y mod 4 = 0" "y mod 100 \<noteq> 0" using c by auto
      then show ?thesis unfolding is_leap_def by blast
    qed
  qed
  with sum yd0 yd365 show ?thesis by auto
qed

lemma year_yday_less:
  assumes "d < d'" "year_yday d = (y, yd)" "year_yday d' = (y', yd')"
  shows "y < y' \<or> (y = y' \<and> yd < yd')"
proof (rule ccontr)
  assume "\<not> ?thesis"
  then have "y' < y \<or> (y = y' \<and> yd' \<le> yd)" by auto
  with year_yday_spec [OF assms(2)] year_yday_spec [OF assms(3)] assms(1)
  have "y' + 1 \<le> y" by auto
  then have "days_before_year (y' + 1) \<le> days_before_year y" by (rule days_before_year_mono)
  with year_yday_spec [OF assms(2)] year_yday_spec [OF assms(3)] assms(1)
    days_before_year_Suc [of y'] show False by auto
qed

lemma month_lengths_pos: "l \<in> set (month_lengths y) \<Longrightarrow> 28 \<le> l \<and> l \<le> 31"
  by (auto simp: month_lengths_def)

lemma sum_month_lengths: "sum_list (month_lengths y) = 365 + (if is_leap y then 1 else 0)"
  by (simp add: month_lengths_def)

lemma month_day_spec:
  assumes "month_day ls m d = (m', d')" "0 \<le> d" "d < sum_list ls"
  shows "m \<le> m' \<and> m' < m + int (length ls) \<and> 0 \<le> d' \<and> d' < ls ! nat (m' - m) \<and>
    sum_list (take (nat (m' - m)) ls) + d' = d"
  using assms
proof (induction ls m d rule: month_day.induct)
  case (1 m d)
  then show ?case by simp
next
  case (2 l ls m d)
  show ?case
  proof (cases "d < l")
    case True
    with 2 show ?thesis by auto
  next
    case False
    with 2 have IH: "m + 1 \<le> m' \<and> m' < m + 1 + int (length ls) \<and> 0 \<le> d' \<and>
      d' < ls ! nat (m' - (m + 1)) \<and> sum_list (take (nat (m' - (m + 1))) ls) + d' = d - l"
      by simp
    then have "nat (m' - m) = Suc (nat (m' - (m + 1)))" by linarith
    with IH show ?thesis by simp
  qed
qed

lemma month_day_less:
  assumes "d < d'" "0 \<le> d" "d' < sum_list ls" "month_day ls m d = (m1, d1)"
    "month_day ls m d' = (m2, d2)"
  shows "m1 < m2 \<or> (m1 = m2 \<and> d1 < d2)"
  using assms
proof (induction ls m d arbitrary: d' rule: month_day.induct)
  case (1 m d)
  then show ?case by simp
next
  case (2 l ls m d)
  show ?case
  proof (cases "d < l")
    case True
    show ?thesis
    proof (cases "d' < l")
      case True
      with 2 \<open>d < l\<close> show ?thesis by simp
    next
      case False
      with 2 \<open>d < l\<close> month_day_spec [of ls "m + 1" "d' - l" m2 d2] show ?thesis by auto
    qed
  next
    case False
    then have "\<not> d' < l" using 2 by simp
    then show ?thesis using "2.IH" [OF False, of "d' - l"] "2.prems" False by simp
  qed
qed

lemma civil_year: "fst (civil d) = fst (year_yday d)"
  by (simp add: civil_def Let_def split: prod.splits)

lemma civil_spec:
  assumes "civil d = (y, m, dd)"
  shows "1 \<le> m \<and> m \<le> 12 \<and> 1 \<le> dd \<and> dd \<le> daysIn m y \<and> dd \<le> 31 \<and> days_of_civil y m dd = d"
proof -
  obtain yd where yy: "year_yday d = (y, yd)" and md: "month_day (month_lengths y) 1 yd = (m, dd - 1)"
    using assms by (auto simp: civil_def Let_def split: prod.splits)
  note s = year_yday_spec [OF yy]
  have n: "nat (m - 1) < length (month_lengths y)" if "1 \<le> m" "m < 13"
    using that by (simp add: month_lengths_def)
  have k: "1 \<le> m \<and> m < 13 \<and> 0 \<le> dd - 1 \<and> dd - 1 < month_lengths y ! nat (m - 1) \<and>
    sum_list (take (nat (m - 1)) (month_lengths y)) + (dd - 1) = yd"
    using month_day_spec [OF md] s by (auto simp: sum_month_lengths month_lengths_def)
  moreover have "month_lengths y ! nat (m - 1) \<le> 31"
    using k n month_lengths_pos nth_mem by blast
  ultimately show ?thesis using s by (auto simp: daysIn_def days_of_civil_def)
qed

lemma civil_less:
  assumes "d < d'" "civil d = (y, m, dd)" "civil d' = (y', m', dd')"
  shows "y < y' \<or> (y = y' \<and> (m < m' \<or> (m = m' \<and> dd < dd')))"
proof -
  obtain yd where yy: "year_yday d = (y, yd)" and md: "month_day (month_lengths y) 1 yd = (m, dd - 1)"
    using assms by (auto simp: civil_def Let_def split: prod.splits)
  obtain yd' where yy': "year_yday d' = (y', yd')"
    and md': "month_day (month_lengths y') 1 yd' = (m', dd' - 1)"
    using assms by (auto simp: civil_def Let_def split: prod.splits)
  have "y < y' \<or> (y = y' \<and> yd < yd')" by (rule year_yday_less [OF assms(1) yy yy'])
  then show ?thesis
    using month_day_less [OF _ _ _ md, of yd' m' "dd' - 1"] md' year_yday_spec [OF yy]
      year_yday_spec [OF yy'] by (auto simp: sum_month_lengths)
qed

section \<open>Digits\<close>

lemma length_digits [simp]: "length (digits w n) = w"
  by (induction w arbitrary: n) auto

lemma of_char_digit: "n < 10 \<Longrightarrow> (of_char (digit n) :: nat) = 48 + n"
  by (simp add: digit_def of_char_of)

lemma isDigit_digit [simp]: "isDigit (digit (n mod 10))"
  by (simp add: isDigit_def of_char_digit)

lemma digit_value_digit [simp]: "digit_value (digit (n mod 10)) = n mod 10"
  by (simp add: digit_value_def of_char_digit)

lemma digit_less_iff: "m < 10 \<Longrightarrow> n < 10 \<Longrightarrow> digit m < digit n \<longleftrightarrow> m < n"
  by (simp add: less_char_def of_char_digit)

lemma digits_all_isDigit: "list_all isDigit (digits w n)"
  by (induction w arbitrary: n) auto

lemma atoi_snoc: "atoi (s @ [c]) = atoi s * 10 + digit_value c"
  by (simp add: atoi_def)

lemma atoi_digits: "atoi (digits w n) = n mod 10 ^ w"
proof (induction w arbitrary: n)
  case 0
  then show ?case by (simp add: atoi_def)
next
  case (Suc w)
  have "n mod 10 ^ Suc w = 10 * (n div 10 mod 10 ^ w) + n mod 10"
    by (metis mod_mult2_eq mult.commute power_Suc add.commute)
  with Suc show ?case by (simp add: atoi_snoc)
qed

lemma digits_less_iff: "m < 10 ^ w \<Longrightarrow> n < 10 ^ w \<Longrightarrow> digits w m < digits w n \<longleftrightarrow> m < n"
proof (induction w arbitrary: m n)
  case 0
  then show ?case by simp
next
  case (Suc w)
  have b: "m div 10 < 10 ^ w" "n div 10 < 10 ^ w" using Suc.prems by auto
  note IH = Suc.IH [OF b]
  show ?case
  proof (cases "m div 10 = n div 10")
    case True
    then have "m < n \<longleftrightarrow> m mod 10 < n mod 10" by (metis div_mult_mod_eq nat_add_left_cancel_less)
    with True show ?thesis by (simp add: lex_less_append digit_less_iff)
  next
    case False
    show ?thesis
    proof (cases "m div 10 < n div 10")
      case True
      then have "m < n" by (meson div_le_mono leD le_less_linear)
      with True IH show ?thesis by (simp add: lex_less_same_length)
    next
      case False
      with \<open>m div 10 \<noteq> n div 10\<close> have l: "n div 10 < m div 10" by simp
      then have "n < m" by (meson div_le_mono leD le_less_linear)
      moreover have "digits w (n div 10) < digits w (m div 10)" using l Suc.IH [OF b(2) b(1)] by simp
      then have "digits (Suc w) n < digits (Suc w) m" by (simp add: lex_less_same_length)
      ultimately show ?thesis by (meson order_less_asym)
    qed
  qed
qed

lemma ndigits_le: "n < 10 ^ w \<Longrightarrow> 0 < w \<Longrightarrow> ndigits n \<le> w"
proof (induction w arbitrary: n)
  case 0
  then show ?case by simp
next
  case (Suc w)
  show ?case
  proof (cases "n < 10")
    case True
    then show ?thesis by (simp add: ndigits.simps [of n])
  next
    case False
    then have "0 < w" using Suc.prems by (cases w) auto
    moreover have "n div 10 < 10 ^ w" using Suc.prems by auto
    ultimately have "ndigits (n div 10) \<le> w" by (rule Suc.IH [rotated])
    with False show ?thesis by (simp add: ndigits.simps [of n])
  qed
qed

lemma appendInt_digits:
  "0 \<le> x \<Longrightarrow> x < 10 ^ w \<Longrightarrow> 0 < w \<Longrightarrow> appendInt x w = digits w (nat x)"
  using ndigits_le [of "nat x" w] by (simp add: appendInt_def Let_def max_def nat_less_iff)

lemma parseUint_digits:
  "0 \<le> x \<Longrightarrow> x < 10 ^ w \<Longrightarrow> lo \<le> x \<Longrightarrow> x \<le> hi \<Longrightarrow> parseUint (digits w (nat x)) lo hi = Some x"
  by (simp add: parseUint_def digits_all_isDigit atoi_digits nat_less_iff)

section \<open>The text of the seconds\<close>

lemma seconds_text_digits:
  assumes "in_year_range s" "civil (s div 86400) = (y, m, d)" "r = s mod 86400"
  shows "seconds_text s = digits 4 (nat y) @ ''-'' @ digits 2 (nat m) @ ''-'' @ digits 2 (nat d) @
    ''T'' @ digits 2 (nat (r div 3600)) @ '':'' @ digits 2 (nat (r div 60 mod 60)) @ '':'' @
    digits 2 (nat (r mod 60))"
proof -
  have r: "0 \<le> r" "r < 86400" using assms(3) by auto
  then have c: "0 \<le> r div 3600" "r div 3600 < 10 ^ 2" "0 \<le> r div 60 mod 60" "r div 60 mod 60 < 10 ^ 2"
    "0 \<le> r mod 60" "r mod 60 < 10 ^ 2" by (auto intro: order.strict_trans [of _ 60])
  have d: "0 \<le> m" "m < 10 ^ 2" "0 \<le> d" "d < 10 ^ 2" "0 \<le> y" "y < 10 ^ 4"
    using civil_spec [OF assms(2)] assms(1,2) by (auto simp: in_year_range_def)
  show ?thesis
    unfolding seconds_text_def assms(2) Let_def prod.case assms(3) [symmetric]
    by (simp only: appendInt_digits c d zero_less_numeral)
qed


lemma digits_inject: "m < 10 ^ w \<Longrightarrow> n < 10 ^ w \<Longrightarrow> digits w m = digits w n \<longleftrightarrow> m = n"
  by (metis atoi_digits mod_less)

lemma digits_lex:
  assumes "0 \<le> a" "a < 10 ^ w" "0 \<le> b" "b < 10 ^ w"
  shows "digits w (nat a) @ us < digits w (nat b) @ vs \<longleftrightarrow> a < b \<or> (a = b \<and> us < vs)"
proof -
  have "nat a < 10 ^ w" "nat b < 10 ^ w" using assms by (simp_all add: nat_less_iff)
  then show ?thesis using assms by (auto simp: lex_append_iff digits_less_iff digits_inject)
qed

lemma div_mod_less:
  fixes a b k :: int
  assumes "0 < k" "a < b"
  shows "a div k < b div k \<or> (a div k = b div k \<and> a mod k < b mod k)"
proof (cases "a div k = b div k")
  case True
  moreover have "a = k * (a div k) + a mod k" "b = k * (b div k) + b mod k" by simp_all
  ultimately show ?thesis using assms(2) by (metis add_less_cancel_left)
next
  case False
  moreover have "a div k \<le> b div k" using assms by (intro zdiv_mono1) auto
  ultimately show ?thesis by simp
qed

lemma clock_bounds:
  fixes r :: int
  assumes "0 \<le> r" "r < 86400"
  shows "0 \<le> r div 3600" "r div 3600 < 10 ^ 2" "0 \<le> r div 60 mod 60" "r div 60 mod 60 < 10 ^ 2"
    "0 \<le> r mod 60" "r mod 60 < 10 ^ 2" "r div 3600 \<le> 23" "r div 60 mod 60 \<le> 59" "r mod 60 \<le> 59"
    "r div 3600 * 3600 + r div 60 mod 60 * 60 + r mod 60 = r"
proof -
  have "r div 3600 \<le> 86399 div 3600" using assms by (intro zdiv_mono1) auto
  then show h: "r div 3600 \<le> 23" by simp
  then show "r div 3600 < 10 ^ 2" by simp
  show "0 \<le> r div 3600" using assms by (simp only: pos_imp_zdiv_nonneg_iff zero_less_numeral)
  have m: "0 \<le> x mod 60 \<and> x mod 60 < 60" for x :: int by simp
  from m [of r] m [of "r div 60"]
  show "0 \<le> r div 60 mod 60" "r div 60 mod 60 < 10 ^ 2"
    "0 \<le> r mod 60" "r mod 60 < 10 ^ 2" "r div 60 mod 60 \<le> 59" "r mod 60 \<le> 59" by auto
  have "r div 3600 = r div 60 div 60" using zdiv_zmult2_eq [of 60 r 60] by simp
  then have "r div 3600 * 60 + r div 60 mod 60 = r div 60" by simp
  moreover have "r div 60 * 60 + r mod 60 = r" by simp
  ultimately show "r div 3600 * 3600 + r div 60 mod 60 * 60 + r mod 60 = r" by linarith
qed

lemma civil_bounds:
  assumes "in_year_range s" "civil (s div 86400) = (y, m, d)"
  shows "0 \<le> y" "y < 10 ^ 4" "y \<le> 9999" "0 \<le> m" "m < 10 ^ 2" "0 \<le> d" "d < 10 ^ 2"
  using civil_spec [OF assms(2)] assms by (auto simp: in_year_range_def)

lemma seconds_text_shape:
  assumes "in_year_range s"
  obtains y m d h mi se where
    "seconds_text s = digits 4 (nat y) @ ''-'' @ digits 2 (nat m) @ ''-'' @ digits 2 (nat d) @
      ''T'' @ digits 2 (nat h) @ '':'' @ digits 2 (nat mi) @ '':'' @ digits 2 (nat se)"
    "civil (s div 86400) = (y, m, d)" "h * 3600 + mi * 60 + se = s mod 86400"
    "0 \<le> h" "h < 10 ^ 2" "h \<le> 23" "0 \<le> mi" "mi < 10 ^ 2" "mi \<le> 59" "0 \<le> se" "se < 10 ^ 2" "se \<le> 59"
proof -
  obtain y m d where c: "civil (s div 86400) = (y, m, d)" by (cases "civil (s div 86400)") auto
  have r: "0 \<le> s mod 86400" "s mod 86400 < 86400" by simp_all
  show ?thesis
    by (rule that [OF seconds_text_digits [OF assms c refl] c]; rule clock_bounds [OF r])
qed

lemma length_seconds_text: "in_year_range s \<Longrightarrow> length (seconds_text s) = 19"
  by (erule seconds_text_shape) simp

lemma clock_tuple_less:
  fixes h mi se h' mi' se' :: int
  assumes "h * 3600 + mi * 60 + se < h' * 3600 + mi' * 60 + se'"
    "0 \<le> mi" "mi \<le> 59" "0 \<le> se" "se \<le> 59" "0 \<le> mi'" "mi' \<le> 59" "0 \<le> se'" "se' \<le> 59"
  shows "h < h' \<or> (h = h' \<and> (mi < mi' \<or> (mi = mi' \<and> se < se')))"
proof (rule ccontr)
  assume "\<not> ?thesis"
  then consider "h' + 1 \<le> h" | "h = h'" "mi' + 1 \<le> mi" | "h = h'" "mi = mi'" "se' \<le> se" by linarith
  then show False using assms by cases linarith+
qed

theorem seconds_text_less:
  assumes "in_year_range s" "in_year_range s'" "s < s'"
  shows "seconds_text s < seconds_text s'"
proof -
  obtain y m d h mi se where t: "seconds_text s = digits 4 (nat y) @ ''-'' @ digits 2 (nat m) @ ''-'' @
      digits 2 (nat d) @ ''T'' @ digits 2 (nat h) @ '':'' @ digits 2 (nat mi) @ '':'' @ digits 2 (nat se)"
    and c: "civil (s div 86400) = (y, m, d)" and r: "h * 3600 + mi * 60 + se = s mod 86400"
    and b: "0 \<le> h" "h < 10 ^ 2" "h \<le> 23" "0 \<le> mi" "mi < 10 ^ 2" "mi \<le> 59" "0 \<le> se" "se < 10 ^ 2" "se \<le> 59"
    by (rule seconds_text_shape [OF assms(1)])
  obtain y' m' d' h' mi' se' where t': "seconds_text s' = digits 4 (nat y') @ ''-'' @ digits 2 (nat m') @ ''-'' @
      digits 2 (nat d') @ ''T'' @ digits 2 (nat h') @ '':'' @ digits 2 (nat mi') @ '':'' @ digits 2 (nat se')"
    and c': "civil (s' div 86400) = (y', m', d')" and r': "h' * 3600 + mi' * 60 + se' = s' mod 86400"
    and b': "0 \<le> h'" "h' < 10 ^ 2" "h' \<le> 23" "0 \<le> mi'" "mi' < 10 ^ 2" "mi' \<le> 59" "0 \<le> se'" "se' < 10 ^ 2" "se' \<le> 59"
    by (rule seconds_text_shape [OF assms(2)])
  have "s div 86400 < s' div 86400 \<or> (s div 86400 = s' div 86400 \<and> s mod 86400 < s' mod 86400)"
    by (rule div_mod_less [OF zero_less_numeral assms(3)])
  then have "(y < y' \<or> (y = y' \<and> (m < m' \<or> (m = m' \<and> d < d')))) \<or>
    (y = y' \<and> m = m' \<and> d = d' \<and> (h < h' \<or> (h = h' \<and> (mi < mi' \<or> (mi = mi' \<and> se < se')))))"
  proof
    assume "s div 86400 < s' div 86400"
    from civil_less [OF this c c'] show ?thesis by blast
  next
    assume e: "s div 86400 = s' div 86400 \<and> s mod 86400 < s' mod 86400"
    then have "y = y'" "m = m'" "d = d'" using c c' by simp_all
    moreover have "h < h' \<or> (h = h' \<and> (mi < mi' \<or> (mi = mi' \<and> se < se')))"
      by (rule clock_tuple_less) (use e in \<open>simp_all only: r r' b b'\<close>)
    ultimately show ?thesis by blast
  qed
  moreover have "digits 2 (nat se) < digits 2 (nat se') \<longleftrightarrow> se < se'"
    using digits_lex [OF b(7,8) b'(7,8), of "[]" "[]"] by simp
  ultimately show ?thesis
    unfolding t t'
    by (simp only: digits_lex civil_bounds [OF assms(1) c] civil_bounds [OF assms(2) c'] b b'
        lex_less_append) blast
qed

section \<open>The round trip\<close>

lemma parse_date_seconds_text:
  assumes "in_year_range s"
  shows "parse_date (seconds_text s @ u) = Some (s div 86400)"
proof -
  obtain y m d h mi se where t: "seconds_text s = digits 4 (nat y) @ ''-'' @ digits 2 (nat m) @ ''-'' @
      digits 2 (nat d) @ ''T'' @ digits 2 (nat h) @ '':'' @ digits 2 (nat mi) @ '':'' @ digits 2 (nat se)"
    and c: "civil (s div 86400) = (y, m, d)"
    by (rule seconds_text_shape [OF assms])
  note b = civil_bounds [OF assms c] civil_spec [OF c]
  have "parseUint (digits 4 (nat y)) 0 9999 = Some y"
    "parseUint (digits 2 (nat m)) 1 12 = Some m"
    "parseUint (digits 2 (nat d)) 1 (daysIn m y) = Some d"
    using b by (simp_all add: parseUint_digits)
  with b show ?thesis by (simp add: parse_date_def t)
qed

lemma parse_clock_seconds_text:
  assumes "in_year_range s"
  shows "parse_clock (seconds_text s @ u) = Some (s mod 86400)"
proof -
  obtain y m d h mi se where t: "seconds_text s = digits 4 (nat y) @ ''-'' @ digits 2 (nat m) @ ''-'' @
      digits 2 (nat d) @ ''T'' @ digits 2 (nat h) @ '':'' @ digits 2 (nat mi) @ '':'' @ digits 2 (nat se)"
    and r: "h * 3600 + mi * 60 + se = s mod 86400"
    and b: "0 \<le> h" "h < 10 ^ 2" "h \<le> 23" "0 \<le> mi" "mi < 10 ^ 2" "mi \<le> 59" "0 \<le> se" "se < 10 ^ 2" "se \<le> 59"
    by (rule seconds_text_shape [OF assms])
  have "parseUint (digits 2 (nat h)) 0 23 = Some h" "parseUint (digits 2 (nat mi)) 0 59 = Some mi"
    "parseUint (digits 2 (nat se)) 0 59 = Some se"
    using b by (simp_all add: parseUint_digits)
  then show ?thesis by (simp add: parse_clock_def t r [symmetric])
qed

lemma seconds_text_marks:
  assumes "in_year_range s"
  shows "(seconds_text s @ u) ! 4 = CHR ''-''" "(seconds_text s @ u) ! 7 = CHR ''-''"
    "(seconds_text s @ u) ! 10 = CHR ''T''" "(seconds_text s @ u) ! 13 = CHR '':''"
    "(seconds_text s @ u) ! 16 = CHR '':''"
  by (rule seconds_text_shape [OF assms]; simp add: nth_append)+

lemma atoi_replicate_0: "atoi (s @ replicate k (CHR ''0'')) = atoi s * 10 ^ k"
proof (induction k)
  case 0
  then show ?case by simp
next
  case (Suc k)
  have "s @ replicate (Suc k) (CHR ''0'') = (s @ replicate k (CHR ''0'')) @ [CHR ''0'']"
    by (simp add: replicate_append_same)
  with Suc show ?case by (simp only: atoi_snoc) (simp add: digit_value_def)
qed

lemma dropWhile_rev_split:
  "xs = rev (dropWhile (\<lambda>c. c = z) (rev xs)) @
    replicate (length xs - length (rev (dropWhile (\<lambda>c. c = z) (rev xs)))) z"
proof (induction xs rule: rev_induct)
  case Nil
  then show ?case by simp
next
  case (snoc x xs)
  show ?case
  proof (cases "x = z")
    case True
    define ds where "ds = rev (dropWhile (\<lambda>c. c = z) (rev xs))"
    have "length ds \<le> length xs" by (simp add: ds_def length_dropWhile_le [THEN order_trans])
    then have "replicate (length xs - length ds) z @ [z] = replicate (Suc (length xs) - length ds) z"
      by (simp add: Suc_diff_le replicate_append_same)
    moreover have "xs = ds @ replicate (length xs - length ds) z" using snoc by (simp add: ds_def)
    ultimately have "xs @ [z] = ds @ replicate (Suc (length xs) - length ds) z"
      by (metis append_assoc)
    moreover have "rev (dropWhile (\<lambda>c. c = z) (rev (xs @ [x]))) = ds" using True by (simp add: ds_def)
    ultimately show ?thesis using True by (metis length_append_singleton)
  qed simp
qed

lemma parse_frac_frac_text:
  assumes "n < 10 ^ 9"
  shows "parse_frac (frac_text n @ ''Z'') = (int n, ''Z'')"
proof (cases "n = 0")
  case True
  then show ?thesis by (simp add: frac_text_def parse_frac_def)
next
  case False
  define ds where "ds = rev (dropWhile (\<lambda>c. c = CHR ''0'') (rev (digits 9 n)))"
  have split: "digits 9 n = ds @ replicate (9 - length ds) (CHR ''0'')"
    using dropWhile_rev_split [of "digits 9 n" "CHR ''0''"] by (simp add: ds_def)
  have len: "length ds \<le> 9" by (metis split length_digits length_append le_add1)
  have all: "list_all isDigit ds" by (metis split digits_all_isDigit list_all_append)
  have val: "atoi ds * 10 ^ (9 - length ds) = n"
    using atoi_digits [of 9 n] assms by (simp add: split atoi_replicate_0)
  with False obtain c cs where ds: "ds = c # cs" by (cases ds) (auto simp: atoi_def)
  have Z: "\<not> isDigit (CHR ''Z'')" by (simp add: isDigit_def)
  have "takeWhile isDigit (ds @ ''Z'') = ds" "dropWhile isDigit (ds @ ''Z'') = ''Z''"
    using all Z by (auto simp: list_all_iff takeWhile_append dropWhile_append)
  moreover have "int (atoi ds * 10 ^ (9 - length ds)) = int n" using val by (rule arg_cong)
  ultimately show ?thesis
    using False len all
    by (simp add: frac_text_def ds_def [symmetric] parse_frac_def ds Let_def)
qed

theorem parse_RFC3339Nano:
  assumes "four_digit_year t"
  shows "parseRFC3339 (RFC3339Nano t) = Some t"
proof -
  have s: "in_year_range (secs_of t)" using assms by (simp add: four_digit_year_def)
  have n: "nanos_of t < 10 ^ 9" by (simp add: nanos_of_def Second_def nat_less_iff)
  have t: "(secs_of t div 86400 * 86400 + secs_of t mod 86400) * Second + int (nanos_of t) = t"
    by (simp add: secs_of_def nanos_of_def Second_def)
  show ?thesis
    using t s length_seconds_text [OF s]
    by (simp add: parseRFC3339_def RFC3339Nano_def parse_date_seconds_text parse_clock_seconds_text
        seconds_text_marks parse_frac_frac_text [OF n] parse_zone_def del: div_mult_mod_eq)
qed

lemma mustParseTime_RFC3339Nano [simp]: "four_digit_year t \<Longrightarrow> mustParseTime (RFC3339Nano t) = t"
  by (simp add: mustParseTime_def parse_RFC3339Nano)

theorem RFC3339Nano_less:
  assumes "four_digit_year t" "four_digit_year u" "secs_of t < secs_of u"
  shows "RFC3339Nano t < RFC3339Nano u"
  using assms seconds_text_less [of "secs_of t" "secs_of u"]
  by (simp add: four_digit_year_def RFC3339Nano_def lex_append_iff length_seconds_text)

lemma RFC3339Nano_inject:
  "four_digit_year t \<Longrightarrow> four_digit_year u \<Longrightarrow> RFC3339Nano t = RFC3339Nano u \<longleftrightarrow> t = u"
  by (metis parse_RFC3339Nano option.inject)

lemma RFC3339Nano_lessD:
  assumes "four_digit_year t" "four_digit_year u" "RFC3339Nano t < RFC3339Nano u"
  shows "secs_of t \<le> secs_of u"
  using assms RFC3339Nano_less [of u t] by (meson leI order_less_asym)

lemma frac_text_head: "n \<noteq> 0 \<Longrightarrow> \<exists>r. frac_text n = CHR ''.'' # r"
  by (simp add: frac_text_def)

text \<open>
  Against a whole second the order of the texts is exact to the second, but within the
  second it is not the order of the times: the mark \<open>.\<close> of a fraction sorts before \<open>Z\<close>.
\<close>

lemma RFC3339Nano_less_whole:
  assumes "four_digit_year t" "four_digit_year u" "nanos_of u = 0"
  shows "RFC3339Nano t < RFC3339Nano u \<longleftrightarrow>
    secs_of t < secs_of u \<or> (secs_of t = secs_of u \<and> nanos_of t \<noteq> 0)"
proof (cases "secs_of t = secs_of u")
  case True
  have "frac_text (nanos_of t) @ ''Z'' < ''Z'' \<longleftrightarrow> nanos_of t \<noteq> 0"
    using frac_text_head [of "nanos_of t"] by (auto simp: frac_text_def less_char_def)
  then show ?thesis
    using True assms(3) by (simp add: RFC3339Nano_def lex_less_append frac_text_def [of 0])
next
  case False
  then show ?thesis
    using assms RFC3339Nano_less [of t u] RFC3339Nano_lessD [of t u] by (auto intro: le_neq_trans)
qed

end
