(* ===== verification/Go_Lib.thy ===== *)
theory Go_Lib
  imports Go_Time
begin

text \<open>
  What the sources use of Go's standard library beyond strings and times, and of the
  libraries they import.

  Hexadecimal and base64 texts are defined to the character. Cryptographic primitives and the
  parsers of foreign formats (SHA-256, X.509, PKCS\#10, PEM, JSON, URLs, JWS) are fields of
  the record \<open>golib\<close>, an argument of every definition that calls them; a theorem that relies
  on what they promise says so in a hypothesis. Go errors are the list of the sentinel errors
  that \<^verbatim>\<open>errors.Is\<close> finds in their chain.
\<close>

section \<open>Errors\<close>

datatype (plugins only: code size) sentinel =
  \<comment> \<open>package identity\<close>
    Identity_ErrNotFound | ErrNewLDIForbidden | ErrKeyRotationNotPermitted
  | ErrUnsupportedReplacementMethod | ErrSpuriousReplacementAuthorization
  | ErrReplacementNotAuthorized
  \<comment> \<open>package tokens\<close>
  | Tokens_ErrMalformedWire | Tokens_ErrNotFound | Tokens_ErrExpired | Tokens_ErrAlreadyUsed
  | Tokens_ErrOutcomeExists | Tokens_ErrRetryWindowExpired
  \<comment> \<open>packages replay, enrollmenttoken, factorycertmtls, factorycertjwt, bootstrap\<close>
  | Replay_ErrReplay | ErrMissingToken | ErrInvalidToken
  | Mtls_ErrMissingMTLS | Mtls_ErrUntrustedChain | Mtls_ErrUnexpectedProof
  | Jwt_ErrMissingAssertion | Jwt_ErrMalformedAssertion | Jwt_ErrUnsupportedAlg
  | Jwt_ErrBadSignature | Jwt_ErrUntrustedChain | Jwt_ErrClaimMissing | Jwt_ErrClaimInvalid
  | Jwt_ErrReplay | ErrUnsupportedMethod
  \<comment> \<open>package csr\<close>
  | Csr_ErrPEMArmor | Csr_ErrMalformed | Csr_ErrUnsupportedKey | Csr_ErrUnsupportedAlg
  | Csr_ErrBadSignature
  \<comment> \<open>package jwtexchange\<close>
  | ErrInvalidAudience | Xchg_ErrAssertionMissing | Xchg_ErrAssertionInvalid | Xchg_ErrReplay
  | Xchg_ErrUntrustedChain | Xchg_ErrUnknownSPIFFEID | Xchg_ErrUnsupportedAlg
  \<comment> \<open>package transport\<close>
  | ErrSPIFFEIDEncoding
  \<comment> \<open>package domain of the workload fleet manager\<close>
  | ErrInternal | ErrInvalidDeploymentDescriptor | ErrDeviceNotFound | ErrManifestNotFound
  | ErrDeploymentNotFound | ErrBundleNotFound
  \<comment> \<open>errors of the database and of foreign code\<close>
  | DB_UniqueViolation | DB_ForeignKeyViolation | DB_CheckViolation | DB_Fault
  | Opaque string

type_synonym goerr = "sentinel list"
type_synonym 'a result = "goerr + 'a"

definition errors_Is :: "goerr \<Rightarrow> sentinel \<Rightarrow> bool" where
  "errors_Is e s = (s \<in> set e)"

lemma errors_Is_simps [simp]:
  "errors_Is [] s \<longleftrightarrow> False"
  "errors_Is (x # e) s \<longleftrightarrow> s = x \<or> errors_Is e s"
  "errors_Is (e @ e') s \<longleftrightarrow> errors_Is e s \<or> errors_Is e' s"
  by (auto simp: errors_Is_def)

section \<open>Hexadecimal texts\<close>

definition hex_digit :: "nat \<Rightarrow> char" where
  "hex_digit n = (if n < 10 then char_of (48 + n) else char_of (87 + n))"

definition ToUpper_ascii :: "char \<Rightarrow> char" where
  "ToUpper_ascii c = (if 97 \<le> (of_char c :: nat) \<and> (of_char c :: nat) \<le> 122
     then char_of ((of_char c :: nat) - 32) else c)"

definition ToLower_ascii :: "char \<Rightarrow> char" where
  "ToLower_ascii c = (if 65 \<le> (of_char c :: nat) \<and> (of_char c :: nat) \<le> 90
     then char_of ((of_char c :: nat) + 32) else c)"

definition ToUpper :: "string \<Rightarrow> string" where
  "ToUpper s = map ToUpper_ascii s"

definition hex_EncodeToString :: "bytes \<Rightarrow> string" where
  "hex_EncodeToString bs =
     concat (map (\<lambda>b. [hex_digit (of_char b div 16), hex_digit (of_char b mod 16)]) bs)"

fun nat_text16 :: "nat \<Rightarrow> string" where
  "nat_text16 n = (if n < 16 then [hex_digit n] else nat_text16 (n div 16) @ [hex_digit (n mod 16)])"

declare nat_text16.simps [simp del]

text \<open>\<^verbatim>\<open>big.Int.Text(16)\<close>.\<close>

definition int_text16 :: "int \<Rightarrow> string" where
  "int_text16 x = (if x < 0 then ''-'' @ nat_text16 (nat (- x)) else nat_text16 (nat x))"

section \<open>Keys, certificates, requests\<close>

datatype curve = P256 | P384 | P521 | OtherCurve string

datatype pubkey = ECDSA_PublicKey curve int int | RSA_PublicKey int int | OtherKey string

record url =
  url_Scheme :: string
  url_Host :: string
  url_Path :: string
  url_String :: string

record certificate =
  cert_Raw :: bytes
  cert_SerialNumber :: int
  cert_NotBefore :: gotime
  cert_NotAfter :: gotime
  cert_PublicKey :: pubkey
  cert_URIs :: "url list"
  cert_IsCA :: bool
  cert_KeyUsageCertSign :: bool

text \<open>The template an issuer fills in: what of \<^verbatim>\<open>x509.Certificate\<close> it sets.\<close>

record cert_template =
  tmpl_SerialNumber :: int
  tmpl_NotBefore :: gotime
  tmpl_NotAfter :: gotime
  tmpl_URIs :: "url list"

datatype sigalg = ECDSAWithSHA256 | SHA256WithRSAPSS | OtherSigAlg string

record certreq =
  req_Raw :: bytes
  req_PublicKey :: pubkey
  req_SignatureAlgorithm :: sigalg
  req_SignatureOK :: bool

text \<open>
  Signed JWTs as \<^verbatim>\<open>go-jose\<close> hands them out: the protected headers, the claims a key
  verifies. Numeric dates have whole seconds. \<open>raw_jti\<close> is the claim \<^verbatim>\<open>jti\<close> of the
  untyped claims when it is a string.
\<close>

record jose_header =
  hdr_Algorithm :: string
  hdr_x5c :: "bytes list option"

record jwt_claims =
  jwt_Issuer :: string
  jwt_Subject :: string
  jwt_Audience :: "string list"
  jwt_Expiry :: "gotime option"
  jwt_NotBefore :: "gotime option"
  jwt_IssuedAt :: "gotime option"
  jwt_ID :: string
  jwt_raw_jti :: "string option"

record jws =
  jws_compact :: string
  jws_Headers :: "jose_header list"

text \<open>
  What a failed \<^verbatim>\<open>jwt.ParseSigned\<close> or \<^verbatim>\<open>Header.Certificates\<close> lets its caller tell apart.
\<close>

datatype parse_error = UnexpectedSignatureAlgorithm | ParseFailed
datatype chain_error = ErrMissingX5cHeader | ChainRejected

type_synonym cert_pool = "certificate list"

record golib =
  sha256 :: "bytes \<Rightarrow> bytes"
  ParseCertificate :: "bytes \<Rightarrow> certificate option"
  MarshalPKIXPublicKey :: "pubkey \<Rightarrow> bytes option"
  ParseCertificateRequest :: "bytes \<Rightarrow> certreq option"
  pem_certificate :: "bytes \<Rightarrow> string"
  json_strings :: "string list \<Rightarrow> string"
  json_parse_strings :: "string \<Rightarrow> string list option"
  url_Parse :: "string \<Rightarrow> url option"
  CreateCertificate :: "nat \<Rightarrow> cert_template \<Rightarrow> certificate \<Rightarrow> pubkey \<Rightarrow> bytes option"
  jwt_ParseSigned :: "string \<Rightarrow> string list \<Rightarrow> parse_error + jws"
  Header_Certificates :: "jose_header \<Rightarrow> cert_pool \<Rightarrow> chain_error + certificate list list"
  jws_Claims :: "jws \<Rightarrow> pubkey \<Rightarrow> jwt_claims option"
  cert_Verify :: "certificate \<Rightarrow> cert_pool \<Rightarrow> cert_pool \<Rightarrow> bool"
  jwt_Sign :: "jwt_claims \<Rightarrow> string option"

section \<open>Base64\<close>

text \<open>
  The raw (unpadded) URL alphabet, 3 bytes to 4 characters. Go's decoder skips carriage
  returns and line feeds; every other character outside the alphabet is an error. In the last
  group 2 characters carry one byte and 3 carry two; trailing bits are ignored.
\<close>

definition b64url_alphabet :: string where
  "b64url_alphabet = ''ABCDEFGHIJKLMNOPQRSTUVWXYZabcdefghijklmnopqrstuvwxyz0123456789-_''"

definition b64_char :: "nat \<Rightarrow> char" where
  "b64_char n = b64url_alphabet ! n"

fun find_index :: "'a \<Rightarrow> 'a list \<Rightarrow> nat option" where
  "find_index x [] = None"
| "find_index x (y # ys) = (if x = y then Some 0 else map_option Suc (find_index x ys))"

definition b64_value :: "char \<Rightarrow> nat option" where
  "b64_value c = find_index c b64url_alphabet"

fun RawURL_EncodeToString :: "bytes \<Rightarrow> string" where
  "RawURL_EncodeToString [] = []"
| "RawURL_EncodeToString [a] =
     [b64_char (of_char a div 4), b64_char (of_char a mod 4 * 16)]"
| "RawURL_EncodeToString [a, b] =
     [b64_char (of_char a div 4), b64_char (of_char a mod 4 * 16 + of_char b div 16),
      b64_char (of_char b mod 16 * 4)]"
| "RawURL_EncodeToString (a # b # c # cs) =
     b64_char (of_char a div 4) # b64_char (of_char a mod 4 * 16 + of_char b div 16) #
     b64_char (of_char b mod 16 * 4 + of_char c div 64) # b64_char (of_char c mod 64) #
     RawURL_EncodeToString cs"

fun b64_groups :: "nat list \<Rightarrow> bytes option" where
  "b64_groups [] = Some []"
| "b64_groups [w] = None"
| "b64_groups [w, x] = Some [char_of (w * 4 + x div 16)]"
| "b64_groups [w, x, y] = Some [char_of (w * 4 + x div 16), char_of (x mod 16 * 16 + y div 4)]"
| "b64_groups (w # x # y # z # r) =
     map_option (\<lambda>bs. char_of (w * 4 + x div 16) # char_of (x mod 16 * 16 + y div 4) #
       char_of (y mod 4 * 64 + z) # bs) (b64_groups r)"

definition RawURL_DecodeString :: "string \<Rightarrow> bytes option" where
  "RawURL_DecodeString s =
     (let t = filter (\<lambda>c. c \<noteq> CHR 0x0D \<and> c \<noteq> CHR 0x0A) s; vs = map b64_value t in
      if None \<in> set vs then None else b64_groups (map the vs))"

lemma length_b64url_alphabet [simp]: "length b64url_alphabet = 64"
  by (simp add: b64url_alphabet_def)

lemma b64_value_char_all: "list_all (\<lambda>n. b64_value (b64_char n) = Some n \<and>
    b64_char n \<noteq> CHR 0x0D \<and> b64_char n \<noteq> CHR 0x0A) [0..<64]"
  by code_simp

lemma b64_value_char [simp]: "n < 64 \<Longrightarrow> b64_value (b64_char n) = Some n"
  and b64_char_no_newline [simp]: "n < 64 \<Longrightarrow> b64_char n \<noteq> CHR 0x0D" "n < 64 \<Longrightarrow> b64_char n \<noteq> CHR 0x0A"
  using b64_value_char_all by (simp_all add: list_all_iff)

fun b64_values :: "bytes \<Rightarrow> nat list" where
  "b64_values [] = []"
| "b64_values [a] = [of_char a div 4, of_char a mod 4 * 16]"
| "b64_values [a, b] =
     [of_char a div 4, of_char a mod 4 * 16 + of_char b div 16, of_char b mod 16 * 4]"
| "b64_values (a # b # c # cs) =
     (of_char a div 4) # (of_char a mod 4 * 16 + of_char b div 16) #
     (of_char b mod 16 * 4 + of_char c div 64) # (of_char c mod 64) # b64_values cs"

lemma b64_bounds:
  fixes a b c :: nat
  assumes "a < 256" "b < 256" "c < 256"
  shows "a div 4 < 64" "a mod 4 * 16 < 64" "a mod 4 * 16 + b div 16 < 64" "b mod 16 * 4 < 64"
    "b mod 16 * 4 + c div 64 < 64"
proof -
  have "a mod 4 \<le> 3" "b mod 16 \<le> 15" "b div 16 \<le> 15" "c div 64 \<le> 3" using assms by auto
  then show "a div 4 < 64" "a mod 4 * 16 < 64" "a mod 4 * 16 + b div 16 < 64" "b mod 16 * 4 < 64"
    "b mod 16 * 4 + c div 64 < 64" using assms by linarith+
qed

lemma b64_values_less: "n \<in> set (b64_values bs) \<Longrightarrow> n < 64"
  by (induction bs rule: b64_values.induct)
    (auto intro: b64_bounds [OF nat_of_char_less_256 nat_of_char_less_256 nat_of_char_less_256])

lemma RawURL_Encode_values: "RawURL_EncodeToString bs = map b64_char (b64_values bs)"
  by (induction bs rule: b64_values.induct) auto

lemma b64_regroup:
  fixes a b c :: nat
  assumes "b < 256" "c < 256"
  shows "a div 4 * 4 + (a mod 4 * 16 + b div 16) div 16 = a"
    "(a mod 4 * 16 + b div 16) mod 16 * 16 + (b mod 16 * 4 + c div 64) div 4 = b"
    "(b mod 16 * 4 + c div 64) mod 4 * 64 + c mod 64 = c"
proof -
  have "b div 16 < 16" "c div 64 < 4" using assms by auto
  then show "a div 4 * 4 + (a mod 4 * 16 + b div 16) div 16 = a"
    "(a mod 4 * 16 + b div 16) mod 16 * 16 + (b mod 16 * 4 + c div 64) div 4 = b"
    "(b mod 16 * 4 + c div 64) mod 4 * 64 + c mod 64 = c" by simp_all
qed

lemma b64_groups_values: "b64_groups (b64_values bs) = Some bs"
proof (induction bs rule: b64_values.induct)
  case (2 a)
  show ?case using b64_regroup(1) [where a = "of_char a" and b = 0 and c = 0] by simp
next
  case (3 a b)
  show ?case
    using b64_regroup(1,2) [where a = "of_char a" and b = "of_char b" and c = 0] by simp
next
  case (4 a b c cs)
  then show ?case
    using b64_regroup(1,2) [where a = "of_char a" and b = "of_char b" and c = "of_char c"]
      b64_regroup(3) [where b = "of_char b" and c = "of_char c"] by simp
qed simp

lemma RawURL_round_trip [simp]: "RawURL_DecodeString (RawURL_EncodeToString bs) = Some bs"
proof -
  have f: "filter (\<lambda>c. c \<noteq> CHR 0x0D \<and> c \<noteq> CHR 0x0A) (map b64_char (b64_values bs)) = map b64_char (b64_values bs)"
    by (rule filter_True) (auto dest: b64_values_less)
  have "map b64_value (map b64_char (b64_values bs)) = map Some (b64_values bs)"
    by (auto dest: b64_values_less)
  then show ?thesis
    by (simp only: RawURL_DecodeString_def RawURL_Encode_values Let_def f)
      (simp add: b64_groups_values comp_def)
qed

text \<open>
  The padded standard alphabet. The encoder fills the last group with \<open>=\<close>; the decoder wants
  whole groups and takes at most two \<open>=\<close>, at the end.
\<close>

definition b64std_alphabet :: string where
  "b64std_alphabet = ''ABCDEFGHIJKLMNOPQRSTUVWXYZabcdefghijklmnopqrstuvwxyz0123456789+/''"

definition std_value :: "char \<Rightarrow> nat option" where
  "std_value c = find_index c b64std_alphabet"

definition strip_padding :: "string \<Rightarrow> string" where
  "strip_padding s =
     (if s \<noteq> [] \<and> last s = CHR ''='' then
        (if butlast s \<noteq> [] \<and> last (butlast s) = CHR ''='' then butlast (butlast s) else butlast s)
      else s)"

definition Std_EncodeToString :: "bytes \<Rightarrow> string" where
  "Std_EncodeToString bs =
     (let t = map (\<lambda>n. b64std_alphabet ! n) (b64_values bs) in
      t @ replicate ((4 - length t mod 4) mod 4) (CHR ''=''))"

definition Std_DecodeString :: "string \<Rightarrow> bytes option" where
  "Std_DecodeString s =
     (let t = filter (\<lambda>c. c \<noteq> CHR 0x0D \<and> c \<noteq> CHR 0x0A) s;
          vs = map std_value (strip_padding t) in
      if length t mod 4 \<noteq> 0 \<or> None \<in> set vs then None else b64_groups (map the vs))"

lemma std_value_char_all: "list_all (\<lambda>n. std_value (b64std_alphabet ! n) = Some n \<and>
    b64std_alphabet ! n \<noteq> CHR 0x0D \<and> b64std_alphabet ! n \<noteq> CHR 0x0A \<and>
    b64std_alphabet ! n \<noteq> CHR ''='') [0..<64]"
  by code_simp

lemma std_value_char [simp]:
  "n < 64 \<Longrightarrow> std_value (b64std_alphabet ! n) = Some n"
  "n < 64 \<Longrightarrow> b64std_alphabet ! n \<noteq> CHR 0x0D" "n < 64 \<Longrightarrow> b64std_alphabet ! n \<noteq> CHR 0x0A"
  "n < 64 \<Longrightarrow> b64std_alphabet ! n \<noteq> CHR ''=''"
  using std_value_char_all by (simp_all add: list_all_iff)

lemma length_b64_values: "length (b64_values bs) mod 4 \<noteq> 1"
  by (induction bs rule: b64_values.induct) auto

lemma padding_bounds:
  fixes l :: nat
  assumes "l mod 4 \<noteq> 1"
  shows "(4 - l mod 4) mod 4 \<le> 2" "(l + (4 - l mod 4) mod 4) mod 4 = 0"
proof -
  have "l mod 4 = 0 \<or> l mod 4 = 2 \<or> l mod 4 = 3" using assms by linarith
  then show "(4 - l mod 4) mod 4 \<le> 2" "(l + (4 - l mod 4) mod 4) mod 4 = 0"
    by (auto simp: mod_add_left_eq [symmetric, of l])
qed

lemma strip_padding_append:
  assumes "CHR ''='' \<notin> set t" "k \<le> 2"
  shows "strip_padding (t @ replicate k (CHR ''='')) = t"
proof -
  have k: "k = 0 \<or> k = 1 \<or> k = 2" using assms(2) by auto
  have "t \<noteq> [] \<Longrightarrow> last t \<noteq> CHR ''=''" using assms(1) by (metis last_in_set)
  with k show ?thesis by (auto simp: strip_padding_def numeral_2_eq_2 butlast_append)
qed

lemma Std_round_trip [simp]: "Std_DecodeString (Std_EncodeToString bs) = Some bs"
proof -
  let ?t = "map (\<lambda>n. b64std_alphabet ! n) (b64_values bs)"
  define k where "k = (4 - length ?t mod 4) mod 4"
  have k: "k \<le> 2" using padding_bounds(1) [OF length_b64_values [of bs]] by (simp add: k_def)
  have clean: "CHR ''='' \<notin> set ?t" by (auto dest!: b64_values_less dest: std_value_char(4))
  have f: "filter (\<lambda>c. c \<noteq> CHR 0x0D \<and> c \<noteq> CHR 0x0A) (?t @ replicate k (CHR ''='')) = ?t @ replicate k (CHR ''='')"
    by (rule filter_True) (auto dest: b64_values_less)
  have vs: "map std_value ?t = map Some (b64_values bs)" by (auto dest: b64_values_less)
  have len: "length (?t @ replicate k (CHR ''='')) mod 4 = 0"
    using padding_bounds(2) [OF length_b64_values [of bs]] by (simp add: k_def)
  show ?thesis
    unfolding Std_DecodeString_def Std_EncodeToString_def Let_def k_def [symmetric] f
      strip_padding_append [OF clean k] vs
    using len by (simp add: b64_groups_values comp_def)
qed

section \<open>ASCII texts\<close>

definition ascii :: "string \<Rightarrow> bool" where
  "ascii s \<longleftrightarrow> list_all (\<lambda>c. of_char c < (128 :: nat)) s"

lemma ascii_append [simp]: "ascii (s @ t) \<longleftrightarrow> ascii s \<and> ascii t"
  by (simp add: ascii_def)

lemma ascii_nth: "ascii t \<Longrightarrow> n < length t \<Longrightarrow> of_char (t ! n) < (128 :: nat)"
  by (simp add: ascii_def list_all_length)

lemma ascii_alphabets: "ascii b64url_alphabet" "ascii b64std_alphabet"
  by (simp_all add: ascii_def b64url_alphabet_def b64std_alphabet_def)

lemma ascii_RawURL: "ascii (RawURL_EncodeToString bs)"
  using ascii_nth [OF ascii_alphabets(1)]
  by (auto simp: ascii_def RawURL_Encode_values list_all_iff b64_char_def dest: b64_values_less)

lemma ascii_Std: "ascii (Std_EncodeToString bs)"
  using ascii_nth [OF ascii_alphabets(2)]
  by (auto simp: ascii_def Std_EncodeToString_def Let_def list_all_iff b64std_alphabet_def dest: b64_values_less)

lemma ascii_digits: "ascii (digits w n)"
proof (induction w n rule: digits.induct)
  case (2 w n)
  have "of_char (digit (n mod 10)) < (128 :: nat)" by (simp add: digit_def)
  with 2 show ?case by (simp add: ascii_def)
qed (simp add: ascii_def)

lemma ascii_RFC3339Nano: "ascii (RFC3339Nano t)"
proof -
  have "ascii (appendInt x w)" for x w
    by (simp add: appendInt_def Let_def ascii_digits) (simp add: ascii_def)
  moreover have "ascii (frac_text n)" for n
    using ascii_digits [of 9 n] by (auto simp: frac_text_def ascii_def list_all_iff dest: set_dropWhileD)
  ultimately show ?thesis
    by (simp add: RFC3339Nano_def seconds_text_def Let_def split: prod.split) (simp add: ascii_def)
qed

end
