(* ===== verification/MIS_State.thy ===== *)
theory MIS_State
  imports Go_Lib
begin

text \<open>
  The persistent state of the Margo Identity Service: the tables of
  \<^verbatim>\<open>pkg/mis/store/schema.sql\<close>, one list of rows per table in insertion order, and the
  data types of \<^verbatim>\<open>pkg/mis/identity\<close> that the store's adapters exchange with their callers.

  What the service takes from outside is part of the state: the readings of the clock, the
  draws of the random generator and, for every SQL statement in turn, whether the database
  fails it. They are functions of a counter, so a theorem that quantifies over the state
  quantifies over every schedule of readings, draws and failures. The two counters of the
  issuer's serial generator, the only other mutable state of the service, are kept here too.
\<close>

section \<open>Data of package identity\<close>

type_synonym LDIStatus = string

definition LDIStatusActive :: LDIStatus where "LDIStatusActive = ''active''"
definition LDIStatusRevoked :: LDIStatus where "LDIStatusRevoked = ''revoked''"
definition LDIStatusRetired :: LDIStatus where "LDIStatusRetired = ''retired''"

record LDI =
  LDI_UUID :: string
  LDI_SPIFFEID :: string
  LDI_Status :: LDIStatus
  LDI_CreatedAt :: gotime
  LDI_UpdatedAt :: gotime

type_synonym ESIBindingStatus = string

definition ESIBindingActive :: ESIBindingStatus where "ESIBindingActive = ''active''"
definition ESIBindingRetired :: ESIBindingStatus where "ESIBindingRetired = ''retired''"

record ESIBinding =
  EB_ESI :: bytes
  EB_LDIUUID :: string
  EB_Method :: string
  EB_Status :: ESIBindingStatus
  EB_BoundAt :: gotime
  EB_RetiredAt :: gotime

record IssuedSVIDRecord =
  IS_SerialHex :: string
  IS_FingerprintHex :: string
  IS_SPIFFEID :: string
  IS_LDIUUID :: string
  IS_Method :: string
  IS_IssuedAt :: gotime
  IS_NotBefore :: gotime
  IS_NotAfter :: gotime
  IS_Revoked :: bool
  IS_RevokedAt :: gotime
  IS_LeafDER :: bytes

record RevocationEntry =
  RE_SerialHex :: string
  RE_FingerprintHex :: string
  RE_RevokedAt :: gotime
  RE_Reason :: string
  RE_NotAfter :: gotime

record IssuedJWTSVIDRecord =
  IJ_JTI :: string
  IJ_SPIFFEID :: string
  IJ_Audiences :: "string list"
  IJ_IssuedAt :: gotime
  IJ_ExpiresAt :: gotime

section \<open>Rows\<close>

record ldi_row =
  l_uuid :: string
  l_spiffe_id :: string
  l_status :: string
  l_created_at :: string
  l_updated_at :: string

record binding_row =
  b_esi :: bytes
  b_ldi_uuid :: string
  b_method :: string
  b_status :: string
  b_bound_at :: string
  b_retired_at :: "string option"

record token_row =
  t_token_id :: string
  t_secret_hash :: bytes
  t_status :: string
  t_expires_at :: string
  t_created_at :: string
  t_consumed_at :: "string option"

record outcome_row =
  o_token_id :: string
  o_status_code :: int
  o_certificate_chain_pem :: string
  o_svid_profile_uri :: string
  o_csr_pub_key_sha256 :: bytes
  o_ldi_uuid :: string
  o_completed_at :: string
  o_retry_window_ends :: string

record replay_row =
  j_jti :: string
  j_expires_at :: string

record ticket_row =
  k_ticket_hash :: bytes
  k_ldi_uuid :: string
  k_status :: string
  k_expires_at :: string
  k_created_at :: string
  k_consumed_at :: "string option"

record event_row =
  e_spiffe_id :: string
  e_recorded_at :: string

record svid_row =
  s_serial_hex :: string
  s_fingerprint_hex :: string
  s_spiffe_id :: string
  s_ldi_uuid :: string
  s_method :: string
  s_issued_at :: string
  s_not_before :: string
  s_not_after :: string
  s_revoked :: bool
  s_revoked_at :: "string option"
  s_leaf_der :: bytes

record revoked_row =
  r_serial_hex :: string
  r_fingerprint_hex :: string
  r_revoked_at :: string
  r_reason :: string
  r_not_after :: string

record jwt_row =
  w_jti :: string
  w_spiffe_id :: string
  w_audiences :: string
  w_issued_at :: string
  w_expires_at :: string

record tables =
  ldis :: "ldi_row list"
  esi_bindings :: "binding_row list"
  enrollment_tokens :: "token_row list"
  enrollment_token_outcomes :: "outcome_row list"
  jwt_replay :: "replay_row list"
  replacement_tickets :: "ticket_row list"
  renewal_events :: "event_row list"
  issued_svids :: "svid_row list"
  revoked_svids :: "revoked_row list"
  issued_jwt_svids :: "jwt_row list"

text \<open>\<^verbatim>\<open>Open\<close> on a fresh file: the schema creates the tables empty.\<close>

definition empty_tables :: tables where
  "empty_tables = \<lparr>ldis = [], esi_bindings = [], enrollment_tokens = [],
     enrollment_token_outcomes = [], jwt_replay = [], replacement_tickets = [],
     renewal_events = [], issued_svids = [], revoked_svids = [], issued_jwt_svids = []\<rparr>"

record mis =
  tabs :: tables
  clock :: "nat \<Rightarrow> gotime"
  ticks :: nat
  uuids :: "nat \<Rightarrow> string"
  entropy :: "nat \<Rightarrow> bytes option"
  draws :: nat
  faults :: "nat \<Rightarrow> bool"
  stmts :: nat
  serial_base :: int
  serial_n :: int

type_synonym 'a prog = "(mis, 'a) state"

section \<open>Effects\<close>

text \<open>\<^verbatim>\<open>time.Now()\<close>, and \<^verbatim>\<open>Service.now()\<close>, which defaults to it.\<close>

definition time_Now :: "gotime prog" where
  "time_Now = State (\<lambda>w. (clock w (ticks w), w\<lparr>ticks := Suc (ticks w)\<rparr>))"

definition uuid_New :: "string prog" where
  "uuid_New = State (\<lambda>w. (uuids w (draws w), w\<lparr>draws := Suc (draws w)\<rparr>))"

text \<open>Filling a buffer of \<open>n\<close> bytes from \<^verbatim>\<open>crypto/rand\<close>: all of them, or an error.\<close>

definition rand_Read :: "nat \<Rightarrow> bytes result prog" where
  "rand_Read n = State (\<lambda>w.
     (case entropy w (draws w) of
        None \<Rightarrow> Inl [Opaque ''rand'']
      | Some bs \<Rightarrow> if length bs = n then Inr bs else Inl [Opaque ''rand''],
      w\<lparr>draws := Suc (draws w)\<rparr>))"

text \<open>One SQL statement: the database fails it, or it yields a result and new tables.\<close>

definition sql :: "(tables \<Rightarrow> 'a result \<times> tables) \<Rightarrow> 'a result prog" where
  "sql f = State (\<lambda>w.
     if faults w (stmts w) then (Inl [DB_Fault], w\<lparr>stmts := Suc (stmts w)\<rparr>)
     else (fst (f (tabs w)), w\<lparr>stmts := Suc (stmts w), tabs := snd (f (tabs w))\<rparr>))"

definition sql_query :: "(tables \<Rightarrow> 'a) \<Rightarrow> 'a result prog" where
  "sql_query q = sql (\<lambda>t. (Inr (q t), t))"

text \<open>
  A transaction: begin, the statements of the body, commit. An error of the body or of the
  commit leaves the tables as they were (\<^verbatim>\<open>defer tx.Rollback()\<close>).
\<close>

definition sql_tx :: "'a result prog \<Rightarrow> 'a result prog" where
  "sql_tx body = State (\<lambda>w.
     (case run_state (sql_query (\<lambda>_. ())) w of
        (Inl e, w1) \<Rightarrow> (Inl e, w1)
      | (Inr _, w1) \<Rightarrow>
          (case run_state body w1 of
             (Inl e, w2) \<Rightarrow> (Inl e, w2\<lparr>tabs := tabs w\<rparr>)
           | (Inr x, w2) \<Rightarrow>
               (case run_state (sql_query (\<lambda>_. ())) w2 of
                  (Inl e, w3) \<Rightarrow> (Inl e, w3\<lparr>tabs := tabs w\<rparr>)
                | (Inr _, w3) \<Rightarrow> (Inr x, w3)))))"

section \<open>Running effects\<close>

lemma run_time_Now [run_simps]:
  "run_state time_Now w = (clock w (ticks w), w\<lparr>ticks := Suc (ticks w)\<rparr>)"
  by (simp add: time_Now_def)

lemma run_uuid_New [run_simps]:
  "run_state uuid_New w = (uuids w (draws w), w\<lparr>draws := Suc (draws w)\<rparr>)"
  by (simp add: uuid_New_def)

lemma run_rand_Read [run_simps]:
  "run_state (rand_Read n) w =
    (case entropy w (draws w) of
       None \<Rightarrow> Inl [Opaque ''rand'']
     | Some bs \<Rightarrow> if length bs = n then Inr bs else Inl [Opaque ''rand''],
     w\<lparr>draws := Suc (draws w)\<rparr>)"
  by (simp add: rand_Read_def)

lemma run_sql [run_simps]:
  "run_state (sql f) w =
    (if faults w (stmts w) then (Inl [DB_Fault], w\<lparr>stmts := Suc (stmts w)\<rparr>)
     else (fst (f (tabs w)), w\<lparr>stmts := Suc (stmts w), tabs := snd (f (tabs w))\<rparr>))"
  by (simp add: sql_def)

lemma run_sql_query [run_simps]:
  "run_state (sql_query q) w =
    (if faults w (stmts w) then Inl [DB_Fault] else Inr (q (tabs w)), w\<lparr>stmts := Suc (stmts w)\<rparr>)"
  by (simp add: sql_query_def run_sql)

text \<open>
  A property of the tables alone is kept by every effect but a writing statement. Invariants
  of the store are stated as \<open>keeps (\<lambda>w. I (tabs w))\<close>.
\<close>

lemma keeps_time_Now [inv_intros]: "keeps (\<lambda>w. I (tabs w)) time_Now"
  and keeps_uuid_New [inv_intros]: "keeps (\<lambda>w. I (tabs w)) uuid_New"
  and keeps_rand_Read [inv_intros]: "keeps (\<lambda>w. I (tabs w)) (rand_Read n)"
  and keeps_sql_query [inv_intros]: "keeps (\<lambda>w. I (tabs w)) (sql_query q)"
  by (simp_all add: keeps_def run_simps)

lemma keeps_sql:
  "(\<And>t. I t \<Longrightarrow> I (snd (f t))) \<Longrightarrow> keeps (\<lambda>w. I (tabs w)) (sql f)"
  by (simp add: keeps_def run_simps)

lemma keeps_sql_tx:
  assumes "keeps (\<lambda>w. I (tabs w)) body"
  shows "keeps (\<lambda>w. I (tabs w)) (sql_tx body)"
proof (rule keepsI)
  fix w :: mis
  assume I: "I (tabs w)"
  show "I (tabs (snd (run_state (sql_tx body) w)))"
  proof (cases "run_state body (w\<lparr>stmts := Suc (stmts w)\<rparr>)")
    case (Pair r w2)
    then have "I (tabs w2)" using keepsD' [OF assms Pair] I by simp
    with Pair I show ?thesis
      by (auto simp: sql_tx_def run_simps split: sum.splits)
  qed
qed

lemma run_sql_tx:
  "run_state (sql_tx body) w =
    (if faults w (stmts w) then (Inl [DB_Fault], w\<lparr>stmts := Suc (stmts w)\<rparr>)
     else (case run_state body (w\<lparr>stmts := Suc (stmts w)\<rparr>) of
        (Inl e, w2) \<Rightarrow> (Inl e, w2\<lparr>tabs := tabs w\<rparr>)
      | (Inr x, w2) \<Rightarrow>
          if faults w2 (stmts w2) then (Inl [DB_Fault], w2\<lparr>stmts := Suc (stmts w2), tabs := tabs w\<rparr>)
          else (Inr x, w2\<lparr>stmts := Suc (stmts w2)\<rparr>)))"
  by (auto simp: sql_tx_def run_simps split: prod.splits sum.splits)

text \<open>A transaction that returns an error has not changed the tables, whatever failed.\<close>

lemma sql_tx_atomic:
  "run_state (sql_tx body) w = (Inl e, w') \<Longrightarrow> tabs w' = tabs w"
  by (auto simp: run_sql_tx split: prod.splits sum.splits if_splits)

section \<open>Queries\<close>

text \<open>A query of one row takes the first of its result; none is \<^verbatim>\<open>sql.ErrNoRows\<close>.\<close>

fun first_row :: "'a list \<Rightarrow> 'a option" where
  "first_row [] = None"
| "first_row (x # _) = Some x"

lemma first_row_None [simp]: "first_row xs = None \<longleftrightarrow> xs = []"
  by (cases xs) auto

lemma first_row_Some_in: "first_row xs = Some x \<Longrightarrow> x \<in> set xs"
  by (cases xs) auto

text \<open>\<^verbatim>\<open>ORDER BY\<close>: a stable sort by a key; \<open>asc\<close> and \<open>desc\<close> order.\<close>

definition order_by :: "('a \<Rightarrow> 'k :: linorder) \<Rightarrow> 'a list \<Rightarrow> 'a list" where
  "order_by k xs = sort_key k xs"

definition order_by_desc :: "('a \<Rightarrow> 'k :: linorder) \<Rightarrow> 'a list \<Rightarrow> 'a list" where
  "order_by_desc k xs = rev (sort_key k (rev xs))"

lemma set_order_by [simp]: "set (order_by k xs) = set xs"
  by (simp add: order_by_def)

lemma set_order_by_desc [simp]: "set (order_by_desc k xs) = set xs"
  by (simp add: order_by_desc_def)

lemma order_by_Nil [simp]: "order_by k xs = [] \<longleftrightarrow> xs = []"
  by (metis set_order_by set_empty)

lemma order_by_desc_Nil [simp]: "order_by_desc k xs = [] \<longleftrightarrow> xs = []"
  by (metis set_order_by_desc set_empty)

lemma order_by_desc_empty [simp]: "order_by_desc k [] = []"
  by (simp add: order_by_desc_def)

lemma order_by_desc_first:
  assumes "first_row (order_by_desc k xs) = Some x" "y \<in> set xs"
  shows "k y \<le> k x"
proof -
  have s: "sorted (map k (sort_key k (rev xs)))" by simp
  define ys where "ys = sort_key k (rev xs)"
  have "first_row (rev ys) = Some x" using assms(1) by (simp add: order_by_desc_def ys_def)
  then obtain zs where ys: "ys = zs @ [x]" by (cases ys rule: rev_cases) auto
  moreover have "y \<in> set ys" using assms(2) by (simp add: ys_def)
  ultimately show ?thesis using s unfolding ys_def [symmetric] by (auto simp: sorted_append)
qed

text \<open>\<^verbatim>\<open>UPDATE ... WHERE\<close>: the new rows, and how many matched.\<close>

definition update_where :: "('a \<Rightarrow> bool) \<Rightarrow> ('a \<Rightarrow> 'a) \<Rightarrow> 'a list \<Rightarrow> 'a list" where
  "update_where p f xs = map (\<lambda>x. if p x then f x else x) xs"

definition count_where :: "('a \<Rightarrow> bool) \<Rightarrow> 'a list \<Rightarrow> nat" where
  "count_where p xs = length (filter p xs)"

lemma update_where_map:
  "(\<And>x. p x \<Longrightarrow> g (f x) = g x) \<Longrightarrow> map g (update_where p f xs) = map g xs"
  by (auto simp: update_where_def)

lemma update_where_image:
  "(\<And>x. p x \<Longrightarrow> g (f x) = g x) \<Longrightarrow> g ` set (update_where p f xs) = g ` set xs"
  by (metis update_where_map list.set_map)

lemma update_where_Cons:
  "update_where p f (x # xs) = (if p x then f x else x) # update_where p f xs"
  by (simp add: update_where_def)

lemma filter_update_where:
  "(\<And>x. p x \<Longrightarrow> q (f x) = q x) \<Longrightarrow> filter q (update_where p f xs) = update_where p f (filter q xs)"
  by (induction xs) (auto simp: update_where_def)

lemma first_row_update_where:
  "first_row (update_where p f xs) = map_option (\<lambda>x. if p x then f x else x) (first_row xs)"
  by (cases xs) (auto simp: update_where_def)

lemma ball_update_where:
  "(\<forall>x\<in>set (update_where p f xs). Q x) \<longleftrightarrow> (\<forall>x\<in>set xs. if p x then Q (f x) else Q x)"
  by (auto simp: update_where_def)

lemma bex_update_where:
  "(\<exists>x\<in>set (update_where p f xs). Q x) \<longleftrightarrow> (\<exists>x\<in>set xs. if p x then Q (f x) else Q x)"
  by (auto simp: update_where_def)

lemma set_update_where:
  "set (update_where p f xs) = {x \<in> set xs. \<not> p x} \<union> f ` {x \<in> set xs. p x}"
  by (auto simp: update_where_def)

lemma update_where_none: "count_where p xs = 0 \<Longrightarrow> update_where p f xs = xs"
  by (auto simp: count_where_def update_where_def filter_empty_conv intro!: map_idI)

lemma count_where_0: "count_where p xs = 0 \<longleftrightarrow> (\<forall>x\<in>set xs. \<not> p x)"
  by (auto simp: count_where_def filter_empty_conv)

lemma count_where_pos: "0 < count_where p xs \<Longrightarrow> \<exists>x\<in>set xs. p x"
  using count_where_0 [of p xs] by auto

end
