(* ===== verification/MIS_Identities.thy ===== *)
theory MIS_Identities
  imports MIS_State
begin

text \<open>
  \<^verbatim>\<open>pkg/mis/store/identities.go\<close>: the repository of logical device identities (LDIs) and
  of the enrollment subject identifiers (ESIs) bound to them, with the constraints its tables
  declare. The invariant \<open>identities_inv\<close> is what those constraints promise; every operation
  keeps it under any schedule of database failures, and the two writing transactions are
  all-or-nothing.
\<close>

section \<open>Operations\<close>

definition scan_ldi :: "ldi_row \<Rightarrow> LDI" where
  "scan_ldi l = \<lparr>LDI_UUID = l_uuid l, LDI_SPIFFEID = l_spiffe_id l, LDI_Status = l_status l,
     LDI_CreatedAt = mustParseTime (l_created_at l), LDI_UpdatedAt = mustParseTime (l_updated_at l)\<rparr>"

definition scan_binding :: "binding_row \<Rightarrow> ESIBinding" where
  "scan_binding b = \<lparr>EB_ESI = b_esi b, EB_LDIUUID = b_ldi_uuid b, EB_Method = b_method b,
     EB_Status = b_status b, EB_BoundAt = mustParseTime (b_bound_at b),
     EB_RetiredAt = (case b_retired_at b of None \<Rightarrow> zero_time
                     | Some s \<Rightarrow> if s = [] then zero_time else mustParseTime s)\<rparr>"

definition esi_join :: "bytes \<Rightarrow> tables \<Rightarrow> (binding_row \<times> ldi_row) list" where
  "esi_join esi t =
     [(b, l). b \<leftarrow> esi_bindings t, b_esi b = esi, l \<leftarrow> ldis t, l_uuid l = b_ldi_uuid b]"

definition LookupByESI :: "bytes \<Rightarrow> (ESIBinding \<times> LDI) result prog" where
  "LookupByESI esi = do {
     r \<leftarrow> sql_query (\<lambda>t. first_row (esi_join esi t));
     case r of
       Inl e \<Rightarrow> State_Monad.return (Inl e)
     | Inr None \<Rightarrow> State_Monad.return (Inl [Identity_ErrNotFound])
     | Inr (Some (b, l)) \<Rightarrow> State_Monad.return (Inr (scan_binding b, scan_ldi l)) }"

text \<open>The two inserts, with the keys, unique indexes and references of the schema.\<close>

definition insert_ldi :: "ldi_row \<Rightarrow> tables \<Rightarrow> unit result \<times> tables" where
  "insert_ldi l t =
     (if l_uuid l \<in> l_uuid ` set (ldis t) \<or> l_spiffe_id l \<in> l_spiffe_id ` set (ldis t)
      then (Inl [DB_UniqueViolation], t)
      else if l_status l \<notin> set [''active'', ''revoked'', ''retired''] then (Inl [DB_CheckViolation], t)
      else (Inr (), t\<lparr>ldis := ldis t @ [l]\<rparr>))"

definition insert_binding :: "binding_row \<Rightarrow> tables \<Rightarrow> unit result \<times> tables" where
  "insert_binding b t =
     (if b_esi b \<in> b_esi ` set (esi_bindings t) \<or>
         (b_status b = ''active'' \<and>
          (\<exists>c\<in>set (esi_bindings t). b_ldi_uuid c = b_ldi_uuid b \<and> b_status c = ''active''))
      then (Inl [DB_UniqueViolation], t)
      else if b_status b \<notin> set [''active'', ''retired''] then (Inl [DB_CheckViolation], t)
      else if b_ldi_uuid b \<notin> l_uuid ` set (ldis t) then (Inl [DB_ForeignKeyViolation], t)
      else (Inr (), t\<lparr>esi_bindings := esi_bindings t @ [b]\<rparr>))"

definition spiffe_id_of :: "string \<Rightarrow> string \<Rightarrow> string" where
  "spiffe_id_of trustDomain i = ''spiffe://'' @ trustDomain @ ''/margo/device/'' @ i"

definition CreateLDIAndBind :: "bytes \<Rightarrow> string \<Rightarrow> string \<Rightarrow> LDI result prog" where
  "CreateLDIAndBind esi meth trustDomain = sql_tx (do {
     now \<leftarrow> time_Now;
     i \<leftarrow> uuid_New;
     let spiffeID = spiffe_id_of trustDomain i;
     r1 \<leftarrow> sql (insert_ldi \<lparr>l_uuid = i, l_spiffe_id = spiffeID, l_status = ''active'',
            l_created_at = RFC3339Nano now, l_updated_at = RFC3339Nano now\<rparr>);
     case r1 of
       Inl e \<Rightarrow> State_Monad.return (Inl e)
     | Inr _ \<Rightarrow> do {
         r2 \<leftarrow> sql (insert_binding \<lparr>b_esi = esi, b_ldi_uuid = i, b_method = meth,
                b_status = ''active'', b_bound_at = RFC3339Nano now, b_retired_at = None\<rparr>);
         case r2 of
           Inl e \<Rightarrow> State_Monad.return (Inl e)
         | Inr _ \<Rightarrow> State_Monad.return (Inr
             \<lparr>LDI_UUID = i, LDI_SPIFFEID = spiffeID, LDI_Status = LDIStatusActive,
              LDI_CreatedAt = now, LDI_UpdatedAt = now\<rparr>) } })"

definition retire_active :: "string \<Rightarrow> string \<Rightarrow> tables \<Rightarrow> unit result \<times> tables" where
  "retire_active u at t = (Inr (), t\<lparr>esi_bindings :=
     update_where (\<lambda>b. b_ldi_uuid b = u \<and> b_status b = ''active'')
       (\<lambda>b. b\<lparr>b_status := ''retired'', b_retired_at := Some at\<rparr>) (esi_bindings t)\<rparr>)"

definition touch_ldi :: "string \<Rightarrow> string \<Rightarrow> tables \<Rightarrow> unit result \<times> tables" where
  "touch_ldi u at t = (Inr (), t\<lparr>ldis :=
     update_where (\<lambda>l. l_uuid l = u) (\<lambda>l. l\<lparr>l_updated_at := at\<rparr>) (ldis t)\<rparr>)"

definition Rebind :: "string \<Rightarrow> bytes \<Rightarrow> string \<Rightarrow> ESIBinding result prog" where
  "Rebind ldiUUID esi meth = sql_tx (do {
     r0 \<leftarrow> sql_query (\<lambda>t. count_where (\<lambda>l. l_uuid l = ldiUUID) (ldis t));
     case r0 of
       Inl e \<Rightarrow> State_Monad.return (Inl e)
     | Inr n \<Rightarrow> if n = 0 then State_Monad.return (Inl [Identity_ErrNotFound]) else do {
         now \<leftarrow> time_Now;
         r1 \<leftarrow> sql (retire_active ldiUUID (RFC3339Nano now));
         case r1 of
           Inl e \<Rightarrow> State_Monad.return (Inl e)
         | Inr _ \<Rightarrow> do {
             r2 \<leftarrow> sql (insert_binding \<lparr>b_esi = esi, b_ldi_uuid = ldiUUID, b_method = meth,
                    b_status = ''active'', b_bound_at = RFC3339Nano now, b_retired_at = None\<rparr>);
             case r2 of
               Inl e \<Rightarrow> State_Monad.return (Inl e)
             | Inr _ \<Rightarrow> do {
                 r3 \<leftarrow> sql (touch_ldi ldiUUID (RFC3339Nano now));
                 case r3 of
                   Inl e \<Rightarrow> State_Monad.return (Inl e)
                 | Inr _ \<Rightarrow> State_Monad.return (Inr
                     \<lparr>EB_ESI = esi, EB_LDIUUID = ldiUUID, EB_Method = meth,
                      EB_Status = ESIBindingActive, EB_BoundAt = now, EB_RetiredAt = zero_time\<rparr>) } } } })"

definition GetLDI :: "string \<Rightarrow> LDI result prog" where
  "GetLDI i = do {
     r \<leftarrow> sql_query (\<lambda>t. first_row (filter (\<lambda>l. l_uuid l = i) (ldis t)));
     case r of
       Inl e \<Rightarrow> State_Monad.return (Inl e)
     | Inr None \<Rightarrow> State_Monad.return (Inl [Identity_ErrNotFound])
     | Inr (Some l) \<Rightarrow> State_Monad.return (Inr (scan_ldi l)) }"

definition GetLDIBySPIFFEID :: "string \<Rightarrow> LDI result prog" where
  "GetLDIBySPIFFEID spiffeID = do {
     r \<leftarrow> sql_query (\<lambda>t. first_row (filter (\<lambda>l. l_spiffe_id l = spiffeID) (ldis t)));
     case r of
       Inl e \<Rightarrow> State_Monad.return (Inl e)
     | Inr None \<Rightarrow> State_Monad.return (Inl [Identity_ErrNotFound])
     | Inr (Some l) \<Rightarrow> State_Monad.return (Inr (scan_ldi l)) }"

definition ListBindings :: "string \<Rightarrow> ESIBinding list result prog" where
  "ListBindings ldiUUID = do {
     r \<leftarrow> sql_query (\<lambda>t. order_by b_bound_at (filter (\<lambda>b. b_ldi_uuid b = ldiUUID) (esi_bindings t)));
     case r of
       Inl e \<Rightarrow> State_Monad.return (Inl e)
     | Inr bs \<Rightarrow> State_Monad.return (Inr (map scan_binding bs)) }"

definition update_ldi_status :: "string \<Rightarrow> string \<Rightarrow> string \<Rightarrow> tables \<Rightarrow> nat result \<times> tables" where
  "update_ldi_status i status at t =
     (let n = count_where (\<lambda>l. l_uuid l = i) (ldis t) in
      if n \<noteq> 0 \<and> status \<notin> set [''active'', ''revoked'', ''retired''] then (Inl [DB_CheckViolation], t)
      else (Inr n, t\<lparr>ldis := update_where (\<lambda>l. l_uuid l = i)
              (\<lambda>l. l\<lparr>l_status := status, l_updated_at := at\<rparr>) (ldis t)\<rparr>))"

definition SetLDIStatus :: "string \<Rightarrow> LDIStatus \<Rightarrow> unit result prog" where
  "SetLDIStatus i status = do {
     now \<leftarrow> time_Now;
     r \<leftarrow> sql (update_ldi_status i status (RFC3339Nano now));
     case r of
       Inl e \<Rightarrow> State_Monad.return (Inl e)
     | Inr n \<Rightarrow> State_Monad.return (if n = 0 then Inl [Identity_ErrNotFound] else Inr ()) }"

section \<open>The invariant of the identity tables\<close>

definition active_bindings :: "binding_row list \<Rightarrow> binding_row list" where
  "active_bindings bs = filter (\<lambda>b. b_status b = ''active'') bs"

definition identities_inv :: "tables \<Rightarrow> bool" where
  "identities_inv t \<longleftrightarrow>
     distinct (map l_uuid (ldis t)) \<and> distinct (map l_spiffe_id (ldis t)) \<and>
     (\<forall>l\<in>set (ldis t). l_status l \<in> {''active'', ''revoked'', ''retired''}) \<and>
     distinct (map b_esi (esi_bindings t)) \<and>
     distinct (map b_ldi_uuid (active_bindings (esi_bindings t))) \<and>
     (\<forall>b\<in>set (esi_bindings t). b_status b \<in> {''active'', ''retired''} \<and>
        b_ldi_uuid b \<in> l_uuid ` set (ldis t))"

lemma identities_inv_empty: "identities_inv empty_tables"
  by (simp add: identities_inv_def empty_tables_def active_bindings_def)

lemma insert_ldi_inv: "identities_inv t \<Longrightarrow> identities_inv (snd (insert_ldi l t))"
  by (auto simp: identities_inv_def insert_ldi_def)

lemma insert_binding_inv: "identities_inv t \<Longrightarrow> identities_inv (snd (insert_binding b t))"
  by (auto simp: identities_inv_def insert_binding_def active_bindings_def)

lemma active_bindings_retire:
  "active_bindings (update_where (\<lambda>b. b_ldi_uuid b = u \<and> b_status b = ''active'')
      (\<lambda>b. b\<lparr>b_status := ''retired'', b_retired_at := Some at\<rparr>) bs) =
    filter (\<lambda>b. b_ldi_uuid b \<noteq> u) (active_bindings bs)"
  by (induction bs) (auto simp: active_bindings_def update_where_def)

lemma distinct_map_filterI: "distinct (map f xs) \<Longrightarrow> distinct (map f (filter p xs))"
  by (induction xs) auto

lemma retire_active_inv: "identities_inv t \<Longrightarrow> identities_inv (snd (retire_active u at t))"
  by (auto simp: identities_inv_def retire_active_def active_bindings_retire update_where_map
      distinct_map_filterI ball_update_where)

lemma touch_ldi_inv: "identities_inv t \<Longrightarrow> identities_inv (snd (touch_ldi u at t))"
  by (simp add: identities_inv_def touch_ldi_def update_where_map update_where_image ball_update_where)

lemma update_ldi_status_inv:
  "identities_inv t \<Longrightarrow> identities_inv (snd (update_ldi_status i s at t))"
  by (auto simp: identities_inv_def update_ldi_status_def Let_def update_where_map update_where_image
      ball_update_where count_where_0)

lemmas identities_stmt_inv =
  insert_ldi_inv insert_binding_inv retire_active_inv touch_ldi_inv update_ldi_status_inv

lemma CreateLDIAndBind_inv [inv_intros]:
  "keeps (\<lambda>w. identities_inv (tabs w)) (CreateLDIAndBind esi m td)"
  unfolding CreateLDIAndBind_def Let_def
  by (intro keeps_sql_tx inv_intros keeps_sql insert_ldi_inv insert_binding_inv)

lemma Rebind_inv [inv_intros]: "keeps (\<lambda>w. identities_inv (tabs w)) (Rebind u esi m)"
  unfolding Rebind_def
  by (intro keeps_sql_tx inv_intros keeps_sql retire_active_inv insert_binding_inv touch_ldi_inv)

lemma SetLDIStatus_inv [inv_intros]: "keeps (\<lambda>w. identities_inv (tabs w)) (SetLDIStatus i s)"
  unfolding SetLDIStatus_def by (intro inv_intros keeps_sql update_ldi_status_inv)

section \<open>What the operations do\<close>

lemma run_LookupByESI:
  "run_state (LookupByESI esi) w =
    (if faults w (stmts w) then Inl [DB_Fault]
     else case first_row (esi_join esi (tabs w)) of
            None \<Rightarrow> Inl [Identity_ErrNotFound] | Some (b, l) \<Rightarrow> Inr (scan_binding b, scan_ldi l),
     w\<lparr>stmts := Suc (stmts w)\<rparr>)"
  by (simp add: LookupByESI_def run_simps split: option.splits)

lemma run_GetLDI:
  "run_state (GetLDI i) w =
    (if faults w (stmts w) then Inl [DB_Fault]
     else case first_row (filter (\<lambda>l. l_uuid l = i) (ldis (tabs w))) of
            None \<Rightarrow> Inl [Identity_ErrNotFound] | Some l \<Rightarrow> Inr (scan_ldi l),
     w\<lparr>stmts := Suc (stmts w)\<rparr>)"
  by (simp add: GetLDI_def run_simps split: option.splits)

lemma run_GetLDIBySPIFFEID:
  "run_state (GetLDIBySPIFFEID sp) w =
    (if faults w (stmts w) then Inl [DB_Fault]
     else case first_row (filter (\<lambda>l. l_spiffe_id l = sp) (ldis (tabs w))) of
            None \<Rightarrow> Inl [Identity_ErrNotFound] | Some l \<Rightarrow> Inr (scan_ldi l),
     w\<lparr>stmts := Suc (stmts w)\<rparr>)"
  by (simp add: GetLDIBySPIFFEID_def run_simps split: option.splits)

lemma CreateLDIAndBind_Inl:
  "run_state (CreateLDIAndBind esi m td) w = (Inl e, w') \<Longrightarrow> tabs w' = tabs w"
  unfolding CreateLDIAndBind_def by (rule sql_tx_atomic)

lemma Rebind_Inl: "run_state (Rebind u esi m) w = (Inl e, w') \<Longrightarrow> tabs w' = tabs w"
  unfolding Rebind_def by (rule sql_tx_atomic)

definition new_ldi_row :: "string \<Rightarrow> string \<Rightarrow> gotime \<Rightarrow> ldi_row" where
  "new_ldi_row i sp now = \<lparr>l_uuid = i, l_spiffe_id = sp, l_status = ''active'',
     l_created_at = RFC3339Nano now, l_updated_at = RFC3339Nano now\<rparr>"

definition new_binding_row :: "bytes \<Rightarrow> string \<Rightarrow> string \<Rightarrow> gotime \<Rightarrow> binding_row" where
  "new_binding_row esi u m now = \<lparr>b_esi = esi, b_ldi_uuid = u, b_method = m,
     b_status = ''active'', b_bound_at = RFC3339Nano now, b_retired_at = None\<rparr>"

lemma CreateLDIAndBind_Inr:
  assumes "run_state (CreateLDIAndBind esi m td) w = (Inr l, w')"
  obtains i now where
    "l = \<lparr>LDI_UUID = i, LDI_SPIFFEID = spiffe_id_of td i, LDI_Status = LDIStatusActive,
          LDI_CreatedAt = now, LDI_UpdatedAt = now\<rparr>"
    "now = clock w (ticks w)" "i = uuids w (draws w)"
    "tabs w' = (tabs w)\<lparr>ldis := ldis (tabs w) @ [new_ldi_row i (spiffe_id_of td i) now],
       esi_bindings := esi_bindings (tabs w) @ [new_binding_row esi i m now]\<rparr>"
    "esi \<notin> b_esi ` set (esi_bindings (tabs w))" "i \<notin> l_uuid ` set (ldis (tabs w))"
    "spiffe_id_of td i \<notin> l_spiffe_id ` set (ldis (tabs w))"
  using assms
  by (auto simp: CreateLDIAndBind_def run_sql_tx run_simps Let_def insert_ldi_def insert_binding_def
      new_ldi_row_def new_binding_row_def split: if_splits sum.splits prod.splits)

lemma Rebind_Inr:
  assumes "run_state (Rebind u esi m) w = (Inr b, w')"
  obtains now where
    "now = clock w (ticks w)" "u \<in> l_uuid ` set (ldis (tabs w))"
    "esi \<notin> b_esi ` set (esi_bindings (tabs w))"
    "ldis (tabs w') = update_where (\<lambda>l. l_uuid l = u) (\<lambda>l. l\<lparr>l_updated_at := RFC3339Nano now\<rparr>) (ldis (tabs w))"
    "esi_bindings (tabs w') = update_where (\<lambda>b. b_ldi_uuid b = u \<and> b_status b = ''active'')
       (\<lambda>b. b\<lparr>b_status := ''retired'', b_retired_at := Some (RFC3339Nano now)\<rparr>) (esi_bindings (tabs w)) @
       [new_binding_row esi u m now]"
    "tabs w' = (tabs w)\<lparr>ldis := ldis (tabs w'), esi_bindings := esi_bindings (tabs w')\<rparr>"
  using assms
  by (auto simp: Rebind_def run_sql_tx run_simps insert_binding_def retire_active_def touch_ldi_def
      new_binding_row_def count_where_0 update_where_image image_iff
      split: if_splits sum.splits prod.splits)

end
