(* ===== verification/MIS_SVIDs.thy ===== *)
theory MIS_SVIDs
  imports MIS_Identities
begin

text \<open>
  \<^verbatim>\<open>pkg/mis/store/issued_svids.go\<close>, \<^verbatim>\<open>revoked_svids.go\<close> and
  \<^verbatim>\<open>issued_jwt_svids.go\<close>: the audit of issued certificates, the revocation list and the
  audit of issued JWT SVIDs. Expiry is decided inside SQL by comparing the texts of two
  times, so the lemmas on expiry say for which times that comparison is right.
\<close>

section \<open>Issued X.509 SVIDs\<close>

definition svid_row_of :: "IssuedSVIDRecord \<Rightarrow> svid_row" where
  "svid_row_of rec = \<lparr>s_serial_hex = IS_SerialHex rec, s_fingerprint_hex = IS_FingerprintHex rec,
     s_spiffe_id = IS_SPIFFEID rec, s_ldi_uuid = IS_LDIUUID rec, s_method = IS_Method rec,
     s_issued_at = RFC3339Nano (IS_IssuedAt rec), s_not_before = RFC3339Nano (IS_NotBefore rec),
     s_not_after = RFC3339Nano (IS_NotAfter rec), s_revoked = IS_Revoked rec,
     s_revoked_at = (if IsZero (IS_RevokedAt rec) then None else Some (RFC3339Nano (IS_RevokedAt rec))),
     s_leaf_der = IS_LeafDER rec\<rparr>"

text \<open>
  \<^verbatim>\<open>INSERT ... ON CONFLICT(serial_hex) DO UPDATE\<close>: the other unique column, the
  fingerprint, and the reference to the LDI can still refuse the row.
\<close>

definition upsert_svid :: "svid_row \<Rightarrow> tables \<Rightarrow> unit result \<times> tables" where
  "upsert_svid r t =
     (if \<exists>q\<in>set (issued_svids t). s_fingerprint_hex q = s_fingerprint_hex r \<and> s_serial_hex q \<noteq> s_serial_hex r
      then (Inl [DB_UniqueViolation], t)
      else if s_ldi_uuid r \<notin> l_uuid ` set (ldis t) then (Inl [DB_ForeignKeyViolation], t)
      else if s_serial_hex r \<in> s_serial_hex ` set (issued_svids t)
      then (Inr (), t\<lparr>issued_svids := update_where (\<lambda>q. s_serial_hex q = s_serial_hex r) (\<lambda>_. r) (issued_svids t)\<rparr>)
      else (Inr (), t\<lparr>issued_svids := issued_svids t @ [r]\<rparr>))"

definition IssuedSVIDs_Record :: "IssuedSVIDRecord \<Rightarrow> unit result prog" where
  "IssuedSVIDs_Record rec = sql (upsert_svid (svid_row_of rec))"

definition scan_svid :: "svid_row \<Rightarrow> IssuedSVIDRecord" where
  "scan_svid r = \<lparr>IS_SerialHex = s_serial_hex r, IS_FingerprintHex = s_fingerprint_hex r,
     IS_SPIFFEID = s_spiffe_id r, IS_LDIUUID = s_ldi_uuid r, IS_Method = s_method r,
     IS_IssuedAt = mustParseTime (s_issued_at r), IS_NotBefore = mustParseTime (s_not_before r),
     IS_NotAfter = mustParseTime (s_not_after r), IS_Revoked = s_revoked r,
     IS_RevokedAt = (case s_revoked_at r of None \<Rightarrow> zero_time
                     | Some s \<Rightarrow> if s = [] then zero_time else mustParseTime s),
     IS_LeafDER = s_leaf_der r\<rparr>"

definition svid_active :: "string \<Rightarrow> string \<Rightarrow> svid_row \<Rightarrow> bool" where
  "svid_active sp now_text r = (s_spiffe_id r = sp \<and> \<not> s_revoked r \<and> now_text < s_not_after r)"

definition ActiveBySPIFFEID :: "string \<Rightarrow> gotime \<Rightarrow> IssuedSVIDRecord list result prog" where
  "ActiveBySPIFFEID sp now = do {
     r \<leftarrow> sql_query (\<lambda>t. order_by s_issued_at (filter (svid_active sp (RFC3339Nano now)) (issued_svids t)));
     case r of
       Inl e \<Rightarrow> State_Monad.return (Inl e)
     | Inr rows \<Rightarrow> State_Monad.return (Inr (map scan_svid rows)) }"

definition mark_revoked :: "string \<Rightarrow> string \<Rightarrow> tables \<Rightarrow> nat result \<times> tables" where
  "mark_revoked serialHex at t =
     (Inr (count_where (\<lambda>r. s_serial_hex r = serialHex) (issued_svids t)),
      t\<lparr>issued_svids := update_where (\<lambda>r. s_serial_hex r = serialHex)
          (\<lambda>r. r\<lparr>s_revoked := True, s_revoked_at := Some at\<rparr>) (issued_svids t)\<rparr>)"

definition MarkRevoked :: "string \<Rightarrow> gotime \<Rightarrow> unit result prog" where
  "MarkRevoked serialHex at = do {
     r \<leftarrow> sql (mark_revoked serialHex (RFC3339Nano at));
     case r of
       Inl e \<Rightarrow> State_Monad.return (Inl e)
     | Inr n \<Rightarrow> State_Monad.return (if n = 0 then Inl [Identity_ErrNotFound] else Inr ()) }"

definition LeafByActiveSPIFFEID :: "string \<Rightarrow> gotime \<Rightarrow> IssuedSVIDRecord result prog" where
  "LeafByActiveSPIFFEID sp now = do {
     r \<leftarrow> sql_query (\<lambda>t. first_row (order_by_desc s_issued_at
            (filter (svid_active sp (RFC3339Nano now)) (issued_svids t))));
     case r of
       Inl e \<Rightarrow> State_Monad.return (Inl e)
     | Inr None \<Rightarrow> State_Monad.return (Inl [Identity_ErrNotFound])
     | Inr (Some row) \<Rightarrow> State_Monad.return (Inr (scan_svid row)) }"

section \<open>The revocation list\<close>

definition insert_revoked :: "revoked_row \<Rightarrow> tables \<Rightarrow> nat result \<times> tables" where
  "insert_revoked r t =
     (if r_serial_hex r \<in> r_serial_hex ` set (revoked_svids t) then (Inr 0, t)
      else (Inr 1, t\<lparr>revoked_svids := revoked_svids t @ [r]\<rparr>))"

definition Revoke :: "string \<Rightarrow> string \<Rightarrow> string \<Rightarrow> gotime \<Rightarrow> gotime \<Rightarrow> bool result prog" where
  "Revoke serialHex fingerprintHex reason notAfter now = do {
     r \<leftarrow> sql (insert_revoked \<lparr>r_serial_hex = serialHex, r_fingerprint_hex = fingerprintHex,
            r_revoked_at = RFC3339Nano now, r_reason = reason, r_not_after = RFC3339Nano notAfter\<rparr>);
     case r of
       Inl e \<Rightarrow> State_Monad.return (Inl e)
     | Inr n \<Rightarrow> State_Monad.return (Inr (n = 1)) }"

definition scan_revoked :: "revoked_row \<Rightarrow> RevocationEntry" where
  "scan_revoked r = \<lparr>RE_SerialHex = r_serial_hex r, RE_FingerprintHex = r_fingerprint_hex r,
     RE_RevokedAt = mustParseTime (r_revoked_at r), RE_Reason = r_reason r,
     RE_NotAfter = mustParseTime (r_not_after r)\<rparr>"

definition list_revoked :: "string \<Rightarrow> tables \<Rightarrow> revoked_row list" where
  "list_revoked now_text t =
     order_by r_revoked_at (order_by r_serial_hex (filter (\<lambda>r. now_text < r_not_after r) (revoked_svids t)))"

definition latest_of :: "RevocationEntry list \<Rightarrow> gotime" where
  "latest_of es = foldl (\<lambda>latest e. if latest < RE_RevokedAt e then RE_RevokedAt e else latest) zero_time es"

definition RevokedSVIDs_List :: "gotime \<Rightarrow> (RevocationEntry list \<times> gotime) result prog" where
  "RevokedSVIDs_List now = do {
     r \<leftarrow> sql_query (list_revoked (RFC3339Nano now));
     case r of
       Inl e \<Rightarrow> State_Monad.return (Inl e)
     | Inr rows \<Rightarrow> State_Monad.return
         (Inr (map scan_revoked rows, latest_of (map scan_revoked rows))) }"

definition prune_revoked :: "string \<Rightarrow> tables \<Rightarrow> nat result \<times> tables" where
  "prune_revoked now_text t =
     (Inr (count_where (\<lambda>r. r_not_after r \<le> now_text) (revoked_svids t)),
      t\<lparr>revoked_svids := filter (\<lambda>r. \<not> r_not_after r \<le> now_text) (revoked_svids t)\<rparr>)"

definition PruneExpired :: "gotime \<Rightarrow> nat result prog" where
  "PruneExpired now = sql (prune_revoked (RFC3339Nano now))"

section \<open>Issued JWT SVIDs\<close>

definition insert_jwt_svid :: "jwt_row \<Rightarrow> tables \<Rightarrow> unit result \<times> tables" where
  "insert_jwt_svid r t =
     (if w_jti r \<in> w_jti ` set (issued_jwt_svids t) then (Inr (), t)
      else (Inr (), t\<lparr>issued_jwt_svids := issued_jwt_svids t @ [r]\<rparr>))"

definition IssuedJWTSVIDs_Record :: "golib \<Rightarrow> IssuedJWTSVIDRecord \<Rightarrow> unit result prog" where
  "IssuedJWTSVIDs_Record G rec = sql (insert_jwt_svid
     \<lparr>w_jti = IJ_JTI rec, w_spiffe_id = IJ_SPIFFEID rec, w_audiences = json_strings G (IJ_Audiences rec),
      w_issued_at = RFC3339Nano (IJ_IssuedAt rec), w_expires_at = RFC3339Nano (IJ_ExpiresAt rec)\<rparr>)"

section \<open>Running the operations\<close>

lemma run_IssuedSVIDs_Record:
  "run_state (IssuedSVIDs_Record rec) w = run_state (sql (upsert_svid (svid_row_of rec))) w"
  by (simp add: IssuedSVIDs_Record_def)

lemma run_ActiveBySPIFFEID:
  "run_state (ActiveBySPIFFEID sp now) w =
    (if faults w (stmts w) then Inl [DB_Fault]
     else Inr (map scan_svid (order_by s_issued_at
       (filter (svid_active sp (RFC3339Nano now)) (issued_svids (tabs w))))),
     w\<lparr>stmts := Suc (stmts w)\<rparr>)"
  by (simp add: ActiveBySPIFFEID_def run_simps)

lemma run_LeafByActiveSPIFFEID:
  "run_state (LeafByActiveSPIFFEID sp now) w =
    (if faults w (stmts w) then Inl [DB_Fault]
     else case first_row (order_by_desc s_issued_at
            (filter (svid_active sp (RFC3339Nano now)) (issued_svids (tabs w)))) of
            None \<Rightarrow> Inl [Identity_ErrNotFound] | Some r \<Rightarrow> Inr (scan_svid r),
     w\<lparr>stmts := Suc (stmts w)\<rparr>)"
  by (auto simp: LeafByActiveSPIFFEID_def run_simps split: option.splits)

lemma run_MarkRevoked:
  "run_state (MarkRevoked ser at) w =
    (if faults w (stmts w) then (Inl [DB_Fault], w\<lparr>stmts := Suc (stmts w)\<rparr>)
     else (if ser \<in> s_serial_hex ` set (issued_svids (tabs w)) then Inr () else Inl [Identity_ErrNotFound],
           w\<lparr>stmts := Suc (stmts w), tabs := snd (mark_revoked ser (RFC3339Nano at) (tabs w))\<rparr>))"
  by (auto simp: MarkRevoked_def run_simps mark_revoked_def count_where_0)

lemma run_Revoke:
  "run_state (Revoke ser fp reason na now) w =
    (if faults w (stmts w) then (Inl [DB_Fault], w\<lparr>stmts := Suc (stmts w)\<rparr>)
     else (Inr (ser \<notin> r_serial_hex ` set (revoked_svids (tabs w))),
           w\<lparr>stmts := Suc (stmts w), tabs := snd (insert_revoked
              \<lparr>r_serial_hex = ser, r_fingerprint_hex = fp, r_revoked_at = RFC3339Nano now,
               r_reason = reason, r_not_after = RFC3339Nano na\<rparr> (tabs w))\<rparr>))"
  by (auto simp: Revoke_def run_simps insert_revoked_def)

section \<open>Invariant of the SVID tables\<close>

definition svids_inv :: "tables \<Rightarrow> bool" where
  "svids_inv t \<longleftrightarrow>
     distinct (map s_serial_hex (issued_svids t)) \<and> distinct (map s_fingerprint_hex (issued_svids t)) \<and>
     (\<forall>r\<in>set (issued_svids t). s_ldi_uuid r \<in> l_uuid ` set (ldis t)) \<and>
     distinct (map r_serial_hex (revoked_svids t))"

lemma svids_inv_empty: "svids_inv empty_tables"
  by (simp add: svids_inv_def empty_tables_def)

lemma distinct_map_update_where:
  assumes "distinct (map k xs)" "distinct (map g xs)"
    "\<And>x. x \<in> set xs \<Longrightarrow> g x = g r \<Longrightarrow> k x = k r"
  shows "distinct (map g (update_where (\<lambda>x. k x = k r) (\<lambda>_. r) xs))"
  using assms
proof (induction xs)
  case Nil
  then show ?case by (simp add: update_where_def)
next
  case (Cons x xs)
  have ne: "k y \<noteq> k r" if "y \<in> set xs" "k r \<notin> k ` set xs" for y
    using that by (metis image_eqI)
  have img: "g ` set (update_where (\<lambda>x. k x = k r) (\<lambda>_. r) xs) \<subseteq>
    (if k r \<in> k ` set xs then {g r} else {}) \<union> g ` {y \<in> set xs. k y \<noteq> k r}"
    by (auto simp: set_update_where dest: ne)
  have IH: "distinct (map g (update_where (\<lambda>x. k x = k r) (\<lambda>_. r) xs))"
    using Cons by simp
  have new: "(if k x = k r then g r else g x) \<notin> g ` set (update_where (\<lambda>x. k x = k r) (\<lambda>_. r) xs)"
    using img Cons.prems by (auto split: if_splits)
  show ?case using IH new by (cases "k x = k r") (simp_all add: update_where_Cons)
qed

lemma upsert_svid_inv: "svids_inv t \<Longrightarrow> svids_inv (snd (upsert_svid r t))"
proof -
  assume inv: "svids_inv t"
  show ?thesis
  proof (cases "s_serial_hex r \<in> s_serial_hex ` set (issued_svids t)")
    case True
    with inv show ?thesis
      unfolding svids_inv_def upsert_svid_def
      by (auto simp: distinct_map_update_where update_where_map ball_update_where)
  next
    case False
    then have "s_fingerprint_hex r \<notin> s_fingerprint_hex ` set (issued_svids t)"
      if "\<not> (\<exists>q\<in>set (issued_svids t). s_fingerprint_hex q = s_fingerprint_hex r \<and> s_serial_hex q \<noteq> s_serial_hex r)"
      using that by (metis (no_types, lifting) imageE image_eqI)
    with False inv show ?thesis unfolding svids_inv_def upsert_svid_def by simp
  qed
qed

lemma mark_revoked_inv: "svids_inv t \<Longrightarrow> svids_inv (snd (mark_revoked ser at t))"
  by (auto simp: svids_inv_def mark_revoked_def update_where_map ball_update_where)

lemma insert_revoked_inv: "svids_inv t \<Longrightarrow> svids_inv (snd (insert_revoked r t))"
  by (auto simp: svids_inv_def insert_revoked_def)

lemma prune_revoked_inv: "svids_inv t \<Longrightarrow> svids_inv (snd (prune_revoked s t))"
  by (auto simp: svids_inv_def prune_revoked_def distinct_map_filterI)

end
