(* ===== verification/MIS_Credentials.thy ===== *)
theory MIS_Credentials
  imports MIS_SVIDs
begin

text \<open>
  The stores of one-time credentials: enrollment tokens
  (\<^verbatim>\<open>pkg/mis/store/enrollment_tokens.go\<close> and
  \<^verbatim>\<open>pkg/mis/bootstrap/enrollmenttoken/tokens\<close>), replacement tickets
  (\<^verbatim>\<open>pkg/mis/store/replacement_tickets.go\<close>) and the witnessed identifiers of signed
  assertions (\<^verbatim>\<open>pkg/mis/store/jwt_replay.go\<close> and the in-memory store of
  \<^verbatim>\<open>pkg/mis/bootstrap/factorycertjwt/replay\<close>).

  Two interfaces are stated as locales. \<open>single_use\<close>: a credential is spent by its first
  successful use and never becomes usable again; \<open>replay_store\<close>: a witnessed identifier is
  refused until it expires. Each is interpreted on both of its providers.
\<close>

section \<open>Enrollment-token secrets\<close>

definition WirePrefix :: string where "WirePrefix = ''margo-et-v1.''"

definition SecretLenBytes :: nat where "SecretLenBytes = 16"

definition StatusActive :: string where "StatusActive = ''active''"
definition StatusConsumed :: string where "StatusConsumed = ''consumed''"

record Secret =
  sec_raw :: bytes

definition NewSecret :: "Secret result prog" where
  "NewSecret = do {
     r \<leftarrow> rand_Read SecretLenBytes;
     case r of
       Inl e \<Rightarrow> State_Monad.return (Inl e)
     | Inr raw \<Rightarrow> State_Monad.return (Inr \<lparr>sec_raw = raw\<rparr>) }"

definition ParseSecret :: "string \<Rightarrow> Secret result" where
  "ParseSecret wire =
     (if \<not> HasPrefix wire WirePrefix then Inl [Tokens_ErrMalformedWire]
      else case RawURL_DecodeString (TrimPrefix wire WirePrefix) of
        None \<Rightarrow> Inl [Tokens_ErrMalformedWire, Opaque ''base64'']
      | Some raw \<Rightarrow> if length raw \<noteq> SecretLenBytes then Inl [Tokens_ErrMalformedWire]
                    else Inr \<lparr>sec_raw = raw\<rparr>)"

definition Secret_Bytes :: "Secret \<Rightarrow> bytes" where
  "Secret_Bytes s = sec_raw s"

definition Secret_Wire :: "Secret \<Rightarrow> string" where
  "Secret_Wire s = WirePrefix @ RawURL_EncodeToString (sec_raw s)"

definition Secret_Hash :: "golib \<Rightarrow> Secret \<Rightarrow> bytes" where
  "Secret_Hash G s = sha256 G (sec_raw s)"

record Outcome =
  Out_TokenID :: string
  Out_StatusCode :: int
  Out_CertificateChainPEM :: "string list"
  Out_SVIDProfileURI :: string
  Out_CSRPubKeySHA256 :: bytes
  Out_LDIUUID :: string
  Out_CompletedAt :: gotime
  Out_RetryWindowEnds :: gotime

record Created =
  Cr_TokenID :: string
  Cr_Secret :: Secret
  Cr_ExpiresAt :: gotime

section \<open>The enrollment-token store\<close>

definition insert_token :: "token_row \<Rightarrow> tables \<Rightarrow> unit result \<times> tables" where
  "insert_token r t =
     (if t_token_id r \<in> t_token_id ` set (enrollment_tokens t) \<or>
         t_secret_hash r \<in> t_secret_hash ` set (enrollment_tokens t)
      then (Inl [DB_UniqueViolation], t)
      else (Inr (), t\<lparr>enrollment_tokens := enrollment_tokens t @ [r]\<rparr>))"

definition EnrollmentTokens_Create :: "golib \<Rightarrow> duration \<Rightarrow> gotime \<Rightarrow> Created result prog" where
  "EnrollmentTokens_Create G ttl now =
     (if ttl \<le> 0 then State_Monad.return (Inl [Opaque ''ttl must be positive'']) else do {
        rs \<leftarrow> NewSecret;
        case rs of
          Inl e \<Rightarrow> State_Monad.return (Inl e)
        | Inr secret \<Rightarrow> do {
            tokenID \<leftarrow> uuid_New;
            let expiresAt = now + ttl;
            r \<leftarrow> sql (insert_token \<lparr>t_token_id = tokenID, t_secret_hash = Secret_Hash G secret,
                   t_status = ''active'', t_expires_at = RFC3339Nano expiresAt,
                   t_created_at = RFC3339Nano now, t_consumed_at = None\<rparr>);
            case r of
              Inl e \<Rightarrow> State_Monad.return (Inl e)
            | Inr _ \<Rightarrow> State_Monad.return (Inr
                \<lparr>Cr_TokenID = tokenID, Cr_Secret = secret, Cr_ExpiresAt = expiresAt\<rparr>) } })"

definition consume_token :: "string \<Rightarrow> string \<Rightarrow> tables \<Rightarrow> nat result \<times> tables" where
  "consume_token tokenID at t =
     (Inr (count_where (\<lambda>r. t_token_id r = tokenID \<and> t_status r = ''active'') (enrollment_tokens t)),
      t\<lparr>enrollment_tokens := update_where (\<lambda>r. t_token_id r = tokenID \<and> t_status r = ''active'')
          (\<lambda>r. r\<lparr>t_status := ''consumed'', t_consumed_at := Some at\<rparr>) (enrollment_tokens t)\<rparr>)"

definition token_by_hash :: "bytes \<Rightarrow> tables \<Rightarrow> token_row option" where
  "token_by_hash h t = first_row (filter (\<lambda>r. t_secret_hash r = h) (enrollment_tokens t))"

definition EnrollmentTokens_Consume :: "bytes \<Rightarrow> gotime \<Rightarrow> string result prog" where
  "EnrollmentTokens_Consume secretHash now = sql_tx (do {
     r \<leftarrow> sql_query (token_by_hash secretHash);
     case r of
       Inl e \<Rightarrow> State_Monad.return (Inl e)
     | Inr None \<Rightarrow> State_Monad.return (Inl [Tokens_ErrNotFound])
     | Inr (Some row) \<Rightarrow>
         (case parseRFC3339 (t_expires_at row) of
            None \<Rightarrow> State_Monad.return (Inl [Opaque ''parse expires_at''])
          | Some expiresAt \<Rightarrow>
              if \<not> now < expiresAt then State_Monad.return (Inl [Tokens_ErrExpired])
              else if t_status row = StatusConsumed then State_Monad.return (Inl [Tokens_ErrAlreadyUsed])
              else do {
                u \<leftarrow> sql (consume_token (t_token_id row) (RFC3339Nano now));
                case u of
                  Inl e \<Rightarrow> State_Monad.return (Inl e)
                | Inr affected \<Rightarrow> State_Monad.return
                    (if affected \<noteq> 1 then Inl [Tokens_ErrAlreadyUsed] else Inr (t_token_id row)) }) })"

definition outcome_by_hash :: "bytes \<Rightarrow> tables \<Rightarrow> outcome_row option" where
  "outcome_by_hash h t = first_row
     [q. r \<leftarrow> enrollment_tokens t, t_secret_hash r = h,
         q \<leftarrow> enrollment_token_outcomes t, o_token_id q = t_token_id r]"

definition decodeChain :: "golib \<Rightarrow> string \<Rightarrow> string list result" where
  "decodeChain G s = (case json_parse_strings G s of
     None \<Rightarrow> Inl [Opaque ''decode chain''] | Some xs \<Rightarrow> Inr xs)"

definition encodeChain :: "golib \<Rightarrow> string list \<Rightarrow> string" where
  "encodeChain G pems = json_strings G pems"

definition FindConsumed :: "golib \<Rightarrow> bytes \<Rightarrow> gotime \<Rightarrow> (string \<times> Outcome) result prog" where
  "FindConsumed G secretHash now = do {
     r \<leftarrow> sql_query (outcome_by_hash secretHash);
     case r of
       Inl e \<Rightarrow> State_Monad.return (Inl e)
     | Inr None \<Rightarrow> State_Monad.return (Inl [Tokens_ErrNotFound])
     | Inr (Some q) \<Rightarrow>
         State_Monad.return
         (case parseRFC3339 (o_retry_window_ends q) of
            None \<Rightarrow> Inl [Opaque ''parse retry_window_ends'']
          | Some retryEnds \<Rightarrow>
              if retryEnds < now then Inl [Tokens_ErrNotFound, Tokens_ErrRetryWindowExpired]
              else case parseRFC3339 (o_completed_at q) of
                None \<Rightarrow> Inl [Opaque ''parse completed_at'']
              | Some completedAt \<Rightarrow>
                  (case decodeChain G (o_certificate_chain_pem q) of
                     Inl e \<Rightarrow> Inl e
                   | Inr chain \<Rightarrow> Inr (o_token_id q,
                       \<lparr>Out_TokenID = o_token_id q, Out_StatusCode = o_status_code q,
                        Out_CertificateChainPEM = chain, Out_SVIDProfileURI = o_svid_profile_uri q,
                        Out_CSRPubKeySHA256 = o_csr_pub_key_sha256 q, Out_LDIUUID = o_ldi_uuid q,
                        Out_CompletedAt = completedAt, Out_RetryWindowEnds = retryEnds\<rparr>))) }"

definition insert_outcome :: "outcome_row \<Rightarrow> tables \<Rightarrow> unit result \<times> tables" where
  "insert_outcome q t =
     (if o_token_id q \<in> o_token_id ` set (enrollment_token_outcomes t) then (Inl [DB_UniqueViolation], t)
      else if o_token_id q \<notin> t_token_id ` set (enrollment_tokens t) then (Inl [DB_ForeignKeyViolation], t)
      else (Inr (), t\<lparr>enrollment_token_outcomes := enrollment_token_outcomes t @ [q]\<rparr>))"

definition RecordOutcome :: "golib \<Rightarrow> Outcome \<Rightarrow> unit result prog" where
  "RecordOutcome G out =
     (if Out_TokenID out = [] \<or> Out_SVIDProfileURI out = [] \<or> Out_CSRPubKeySHA256 out = []
      then State_Monad.return (Inl [Opaque ''Outcome fields incomplete''])
      else do {
        r \<leftarrow> sql (insert_outcome \<lparr>o_token_id = Out_TokenID out, o_status_code = Out_StatusCode out,
               o_certificate_chain_pem = encodeChain G (Out_CertificateChainPEM out),
               o_svid_profile_uri = Out_SVIDProfileURI out,
               o_csr_pub_key_sha256 = Out_CSRPubKeySHA256 out, o_ldi_uuid = Out_LDIUUID out,
               o_completed_at = RFC3339Nano (Out_CompletedAt out),
               o_retry_window_ends = RFC3339Nano (Out_RetryWindowEnds out)\<rparr>);
        case r of
          Inl e \<Rightarrow> State_Monad.return
            (if errors_Is e DB_UniqueViolation then Inl [Tokens_ErrOutcomeExists] else Inl e)
        | Inr _ \<Rightarrow> State_Monad.return (Inr ()) })"

section \<open>Replacement tickets\<close>

definition replacementTicketPrefix :: string where
  "replacementTicketPrefix = ''margo-rt-v1.''"

definition replacementTicketSecretLen :: nat where "replacementTicketSecretLen = 16"

record ReplacementTicketCreated =
  RT_Ticket :: string
  RT_LDIUUID :: string
  RT_ExpiresAt :: gotime

definition insert_ticket :: "ticket_row \<Rightarrow> tables \<Rightarrow> unit result \<times> tables" where
  "insert_ticket r t =
     (if k_ticket_hash r \<in> k_ticket_hash ` set (replacement_tickets t) then (Inl [DB_UniqueViolation], t)
      else if k_ldi_uuid r \<notin> l_uuid ` set (ldis t) then (Inl [DB_ForeignKeyViolation], t)
      else (Inr (), t\<lparr>replacement_tickets := replacement_tickets t @ [r]\<rparr>))"

definition ReplacementTickets_Create ::
    "golib \<Rightarrow> string \<Rightarrow> duration \<Rightarrow> gotime \<Rightarrow> ReplacementTicketCreated result prog" where
  "ReplacementTickets_Create G ldiUUID ttl now =
     (if ttl \<le> 0 then State_Monad.return (Inl [Opaque ''ttl must be positive''])
      else if ldiUUID = [] then State_Monad.return (Inl [Opaque ''ldi_uuid required''])
      else do {
        r0 \<leftarrow> sql_query (\<lambda>t. first_row (filter (\<lambda>l. l_uuid l = ldiUUID) (ldis t)));
        case r0 of
          Inl e \<Rightarrow> State_Monad.return (Inl e)
        | Inr None \<Rightarrow> State_Monad.return (Inl [Opaque ''no such ldi''])
        | Inr (Some _) \<Rightarrow> do {
            rb \<leftarrow> rand_Read replacementTicketSecretLen;
            case rb of
              Inl e \<Rightarrow> State_Monad.return (Inl e)
            | Inr buf \<Rightarrow> do {
                let wire = replacementTicketPrefix @ RawURL_EncodeToString buf;
                let expiresAt = now + ttl;
                r \<leftarrow> sql (insert_ticket \<lparr>k_ticket_hash = sha256 G wire, k_ldi_uuid = ldiUUID,
                       k_status = ''active'', k_expires_at = RFC3339Nano expiresAt,
                       k_created_at = RFC3339Nano now, k_consumed_at = None\<rparr>);
                case r of
                  Inl e \<Rightarrow> State_Monad.return (Inl e)
                | Inr _ \<Rightarrow> State_Monad.return (Inr
                    \<lparr>RT_Ticket = wire, RT_LDIUUID = ldiUUID, RT_ExpiresAt = expiresAt\<rparr>) } } })"

definition ticket_by_hash :: "bytes \<Rightarrow> tables \<Rightarrow> ticket_row option" where
  "ticket_by_hash h t = first_row (filter (\<lambda>r. k_ticket_hash r = h) (replacement_tickets t))"

definition consume_ticket :: "bytes \<Rightarrow> string \<Rightarrow> tables \<Rightarrow> nat result \<times> tables" where
  "consume_ticket h at t =
     (Inr (count_where (\<lambda>r. k_ticket_hash r = h \<and> k_status r = ''active'') (replacement_tickets t)),
      t\<lparr>replacement_tickets := update_where (\<lambda>r. k_ticket_hash r = h \<and> k_status r = ''active'')
          (\<lambda>r. r\<lparr>k_status := ''consumed'', k_consumed_at := Some at\<rparr>) (replacement_tickets t)\<rparr>)"

definition ReplacementTickets_Validate :: "golib \<Rightarrow> string \<Rightarrow> gotime \<Rightarrow> string result prog" where
  "ReplacementTickets_Validate G ticket now =
     (if \<not> HasPrefix ticket replacementTicketPrefix
      then State_Monad.return (Inl [ErrReplacementNotAuthorized])
      else sql_tx (do {
        r \<leftarrow> sql_query (ticket_by_hash (sha256 G ticket));
        case r of
          Inl e \<Rightarrow> State_Monad.return (Inl e)
        | Inr None \<Rightarrow> State_Monad.return (Inl [ErrReplacementNotAuthorized])
        | Inr (Some row) \<Rightarrow>
            (case parseRFC3339 (k_expires_at row) of
               None \<Rightarrow> State_Monad.return (Inl [Opaque ''parse expires_at''])
             | Some expiresAt \<Rightarrow>
                 if \<not> now < expiresAt \<or> k_status row \<noteq> ''active''
                 then State_Monad.return (Inl [ErrReplacementNotAuthorized])
                 else do {
                   u \<leftarrow> sql (consume_ticket (sha256 G ticket) (RFC3339Nano now));
                   case u of
                     Inl e \<Rightarrow> State_Monad.return (Inl e)
                   | Inr affected \<Rightarrow> State_Monad.return
                       (if affected \<noteq> 1 then Inl [ErrReplacementNotAuthorized]
                        else Inr (k_ldi_uuid row)) }) }))"

text \<open>The validator wired in when no replacement flow is enabled.\<close>

definition NoReplacements_Validate :: "string \<Rightarrow> gotime \<Rightarrow> string result prog" where
  "NoReplacements_Validate ticket now = State_Monad.return (Inl [ErrReplacementNotAuthorized])"

section \<open>Witnessed assertion identifiers\<close>

definition upsert_replay :: "replay_row \<Rightarrow> tables \<Rightarrow> unit result \<times> tables" where
  "upsert_replay r t =
     (if j_jti r \<in> j_jti ` set (jwt_replay t)
      then (Inr (), t\<lparr>jwt_replay := update_where (\<lambda>q. j_jti q = j_jti r)
              (\<lambda>q. q\<lparr>j_expires_at := j_expires_at r\<rparr>) (jwt_replay t)\<rparr>)
      else (Inr (), t\<lparr>jwt_replay := jwt_replay t @ [r]\<rparr>))"

definition replay_by_jti :: "string \<Rightarrow> tables \<Rightarrow> replay_row option" where
  "replay_by_jti jti t = first_row (filter (\<lambda>r. j_jti r = jti) (jwt_replay t))"

definition JWTReplay_Witness :: "string \<Rightarrow> gotime \<Rightarrow> unit result prog" where
  "JWTReplay_Witness jti expiresAt = sql_tx (do {
     r \<leftarrow> sql_query (replay_by_jti jti);
     case r of
       Inl e \<Rightarrow> State_Monad.return (Inl e)
     | Inr None \<Rightarrow> sql (upsert_replay \<lparr>j_jti = jti, j_expires_at = RFC3339Nano expiresAt\<rparr>)
     | Inr (Some row) \<Rightarrow>
         (case parseRFC3339 (j_expires_at row) of
            None \<Rightarrow> State_Monad.return (Inl [Opaque ''parse prev expiry''])
          | Some prevExp \<Rightarrow> do {
              now \<leftarrow> time_Now;
              if now < prevExp then State_Monad.return (Inl [Replay_ErrReplay])
              else sql (upsert_replay \<lparr>j_jti = jti, j_expires_at = RFC3339Nano expiresAt\<rparr>) }) })"

text \<open>The in-memory store: a map under a mutex, with its clock.\<close>

record MemoryStore =
  ms_seen :: "string \<Rightarrow> gotime option"
  ms_clock :: "nat \<Rightarrow> gotime"
  ms_ticks :: nat

definition NewMemoryStore :: "(nat \<Rightarrow> gotime) \<Rightarrow> MemoryStore" where
  "NewMemoryStore clk = \<lparr>ms_seen = Map.empty, ms_clock = clk, ms_ticks = 0\<rparr>"

definition Memory_Witness :: "string \<Rightarrow> gotime \<Rightarrow> (MemoryStore, unit result) state" where
  "Memory_Witness jti expiresAt = State (\<lambda>s.
     (let now = ms_clock s (ms_ticks s); s1 = s\<lparr>ms_ticks := Suc (ms_ticks s)\<rparr> in
      case ms_seen s jti of
        Some prev \<Rightarrow> if now < prev then (Inl [Replay_ErrReplay], s1)
                     else (Inr (), s1\<lparr>ms_seen := (ms_seen s)(jti \<mapsto> expiresAt)\<rparr>)
      | None \<Rightarrow> (Inr (), s1\<lparr>ms_seen := (ms_seen s)(jti \<mapsto> expiresAt)\<rparr>)))"

definition Memory_Sweep :: "(MemoryStore, unit) state" where
  "Memory_Sweep = State (\<lambda>s.
     (let now = ms_clock s (ms_ticks s) in
      ((), s\<lparr>ms_ticks := Suc (ms_ticks s),
             ms_seen := (\<lambda>j. case ms_seen s j of
                None \<Rightarrow> None | Some e \<Rightarrow> if \<not> now < e then None else Some e)\<rparr>)))"

section \<open>Enrollment tokens on the wire\<close>

lemma ParseSecret_Wire:
  "length (sec_raw s) = SecretLenBytes \<Longrightarrow> ParseSecret (Secret_Wire s) = Inr s"
  by (simp add: ParseSecret_def Secret_Wire_def)

lemma run_NewSecret:
  "run_state NewSecret w = (map_sum id (\<lambda>raw. \<lparr>sec_raw = raw\<rparr>) (fst (run_state (rand_Read SecretLenBytes) w)),
     snd (run_state (rand_Read SecretLenBytes) w))"
  by (simp add: NewSecret_def split: prod.split sum.split)

lemma NewSecret_length:
  "run_state NewSecret w = (Inr s, w') \<Longrightarrow> length (sec_raw s) = SecretLenBytes \<and> tabs w' = tabs w"
  by (auto simp: NewSecret_def run_simps split: prod.splits sum.splits option.splits if_splits)

section \<open>Single use\<close>

text \<open>
  Calls on a store of credentials: uses of a credential, and everything else. \<open>successes\<close>
  counts in a sequence of calls the successful uses of one credential.
\<close>

datatype ('c, 'a, 'b) call = Use 'c 'a | Other 'b

fun successes ::
    "('c \<Rightarrow> 'a \<Rightarrow> 's \<Rightarrow> 'r result \<times> 's) \<Rightarrow> ('b \<Rightarrow> 's \<Rightarrow> 's) \<Rightarrow> 'c \<Rightarrow> ('c, 'a, 'b) call list \<Rightarrow> 's \<Rightarrow> nat" where
  "successes use oth c [] s = 0"
| "successes use oth c (Use d a # xs) s =
     (case use d a s of
        (Inl _, s') \<Rightarrow> successes use oth c xs s'
      | (Inr _, s') \<Rightarrow> (if d = c then 1 else 0) + successes use oth c xs s')"
| "successes use oth c (Other b # xs) s = successes use oth c xs (oth b s)"

locale single_use =
  fixes consume :: "'c \<Rightarrow> 'a \<Rightarrow> 's \<Rightarrow> 'r result \<times> 's"
    and other :: "'b \<Rightarrow> 's \<Rightarrow> 's"
    and spent :: "'c \<Rightarrow> 's \<Rightarrow> bool"
    and inv :: "'s \<Rightarrow> bool"
  assumes consume_inv: "inv s \<Longrightarrow> inv (snd (consume c a s))"
    and other_inv: "inv s \<Longrightarrow> inv (other b s)"
    and consume_ok: "inv s \<Longrightarrow> consume c a s = (Inr r, s') \<Longrightarrow> \<not> spent c s \<and> spent c s'"
    and consume_spent: "inv s \<Longrightarrow> spent c s \<Longrightarrow> spent c (snd (consume d a s))"
    and other_spent: "inv s \<Longrightarrow> spent c s \<Longrightarrow> spent c (other b s)"
begin

lemma successes_bound: "inv s \<Longrightarrow> successes consume other c xs s \<le> (if spent c s then 0 else 1)"
proof (induction xs arbitrary: s)
  case Nil
  then show ?case by simp
next
  case (Cons x xs)
  show ?case
  proof (cases x)
    case (Other b)
    then show ?thesis
      using Cons.IH [OF other_inv [OF Cons.prems, of b]] other_spent [OF Cons.prems, of c b]
      by (auto split: if_splits)
  next
    case (Use d a)
    obtain r s' where run: "consume d a s = (r, s')" by force
    have inv: "inv s'" using consume_inv [OF Cons.prems, of d a] run by simp
    have mono: "spent c s \<Longrightarrow> spent c s'" using consume_spent [OF Cons.prems, of c d a] run by simp
    have ok: "r = Inr v \<Longrightarrow> \<not> spent d s \<and> spent d s'" for v
      using consume_ok [OF Cons.prems, of d a v s'] run by simp
    show ?thesis
      using Cons.IH [OF inv] mono ok run Use by (auto split: sum.splits if_splits)
  qed
qed

lemma at_most_once: "inv s \<Longrightarrow> successes consume other c xs s \<le> 1"
  using successes_bound [of s c xs] by (simp split: if_splits)

end

text \<open>The other calls on the enrollment-token store.\<close>

datatype token_op = Create duration gotime | Record Outcome | Find bytes gotime

fun token_other :: "golib \<Rightarrow> token_op \<Rightarrow> mis \<Rightarrow> mis" where
  "token_other G (Create ttl now) w = snd (run_state (EnrollmentTokens_Create G ttl now) w)"
| "token_other G (Record out) w = snd (run_state (RecordOutcome G out) w)"
| "token_other G (Find h now) w = snd (run_state (FindConsumed G h now) w)"

definition tokens_inv :: "tables \<Rightarrow> bool" where
  "tokens_inv t \<longleftrightarrow> distinct (map t_secret_hash (enrollment_tokens t)) \<and>
     distinct (map t_token_id (enrollment_tokens t)) \<and>
     distinct (map o_token_id (enrollment_token_outcomes t)) \<and>
     o_token_id ` set (enrollment_token_outcomes t) \<subseteq> t_token_id ` set (enrollment_tokens t)"

definition token_spent :: "bytes \<Rightarrow> tables \<Rightarrow> bool" where
  "token_spent h t \<longleftrightarrow> (\<exists>r\<in>set (enrollment_tokens t). t_secret_hash r = h \<and> t_status r = ''consumed'')"

lemma insert_token_inv: "tokens_inv t \<Longrightarrow> tokens_inv (snd (insert_token r t))"
  by (auto simp: tokens_inv_def insert_token_def)

lemma insert_outcome_inv: "tokens_inv t \<Longrightarrow> tokens_inv (snd (insert_outcome q t))"
  by (auto simp: tokens_inv_def insert_outcome_def)

lemma consume_token_inv: "tokens_inv t \<Longrightarrow> tokens_inv (snd (consume_token i at t))"
  by (simp add: tokens_inv_def consume_token_def update_where_map update_where_image)

lemmas tokens_stmt_inv = insert_token_inv insert_outcome_inv consume_token_inv

lemma insert_token_spent: "token_spent h t \<Longrightarrow> token_spent h (snd (insert_token r t))"
  and insert_outcome_spent: "token_spent h t \<Longrightarrow> token_spent h (snd (insert_outcome q t))"
  and consume_token_spent: "token_spent h t \<Longrightarrow> token_spent h (snd (consume_token i at t))"
  by (auto simp: token_spent_def insert_token_def insert_outcome_def consume_token_def
      set_update_where)

lemmas tokens_stmt_spent = insert_token_spent insert_outcome_spent consume_token_spent

text \<open>Every program of this store keeps what its three writing statements keep.\<close>

lemma keeps_NewSecret: "keeps (\<lambda>w. I (tabs w)) NewSecret"
  unfolding NewSecret_def by (intro inv_intros)

lemma keeps_token_programs:
  assumes "\<And>r t. I t \<Longrightarrow> I (snd (insert_token r t))" "\<And>q t. I t \<Longrightarrow> I (snd (insert_outcome q t))"
    "\<And>i at t. I t \<Longrightarrow> I (snd (consume_token i at t))"
  shows "keeps (\<lambda>w. I (tabs w)) (EnrollmentTokens_Create G ttl now)"
    and "keeps (\<lambda>w. I (tabs w)) (EnrollmentTokens_Consume h now)"
    and "keeps (\<lambda>w. I (tabs w)) (RecordOutcome G out)"
    and "keeps (\<lambda>w. I (tabs w)) (FindConsumed G h now)"
  unfolding EnrollmentTokens_Create_def EnrollmentTokens_Consume_def RecordOutcome_def FindConsumed_def Let_def
  by (intro keeps_sql_tx inv_intros keeps_NewSecret keeps_sql assms; assumption)+

lemmas EnrollmentTokens_inv [inv_intros] = keeps_token_programs [OF tokens_stmt_inv]

lemma token_other_keeps:
  assumes "\<And>r t. I t \<Longrightarrow> I (snd (insert_token r t))" "\<And>q t. I t \<Longrightarrow> I (snd (insert_outcome q t))"
    "\<And>i at t. I t \<Longrightarrow> I (snd (consume_token i at t))" "I (tabs w)"
  shows "I (tabs (token_other G b w))"
  using keeps_token_programs [where I = I, OF assms(1-3)] assms(4)
  by (cases b) (simp_all add: keeps_def)

lemma EnrollmentTokens_Consume_Inl:
  "run_state (EnrollmentTokens_Consume h now) w = (Inl e, w') \<Longrightarrow> tabs w' = tabs w"
  unfolding EnrollmentTokens_Consume_def by (rule sql_tx_atomic)

lemma EnrollmentTokens_Consume_Inr:
  assumes "run_state (EnrollmentTokens_Consume h now) w = (Inr i, w')"
  obtains row exp where "token_by_hash h (tabs w) = Some row" "t_token_id row = i"
    "parseRFC3339 (t_expires_at row) = Some exp" "now < exp" "t_status row \<noteq> ''consumed''"
    "count_where (\<lambda>r. t_token_id r = i \<and> t_status r = ''active'') (enrollment_tokens (tabs w)) = 1"
    "tabs w' = snd (consume_token i (RFC3339Nano now) (tabs w))"
  using assms
  by (auto simp: EnrollmentTokens_Consume_def run_sql_tx run_simps StatusConsumed_def consume_token_def
      split: if_splits sum.splits prod.splits option.splits)

lemma token_by_hash_Some:
  "token_by_hash h t = Some r \<Longrightarrow> r \<in> set (enrollment_tokens t) \<and> t_secret_hash r = h"
  by (auto simp: token_by_hash_def dest: first_row_Some_in)

lemma distinct_map_eq: "distinct (map f xs) \<Longrightarrow> x \<in> set xs \<Longrightarrow> y \<in> set xs \<Longrightarrow> f x = f y \<Longrightarrow> x = y"
  by (metis distinct_map inj_on_def)

lemma EnrollmentTokens_Consume_spends:
  assumes inv: "tokens_inv (tabs w)" and run: "run_state (EnrollmentTokens_Consume h now) w = (Inr i, w')"
  shows "\<not> token_spent h (tabs w) \<and> token_spent h (tabs w')"
proof -
  obtain row where row: "token_by_hash h (tabs w) = Some row" "t_token_id row = i" "t_status row \<noteq> ''consumed''"
    and one: "count_where (\<lambda>r. t_token_id r = i \<and> t_status r = ''active'') (enrollment_tokens (tabs w)) = 1"
    and tabs: "tabs w' = snd (consume_token i (RFC3339Nano now) (tabs w))"
    by (rule EnrollmentTokens_Consume_Inr [OF run]) blast
  have mem: "row \<in> set (enrollment_tokens (tabs w))" "t_secret_hash row = h"
    using row(1) by (auto dest: token_by_hash_Some)
  have ds: "distinct (map t_secret_hash (enrollment_tokens (tabs w)))"
    "distinct (map t_token_id (enrollment_tokens (tabs w)))" using inv by (simp_all add: tokens_inv_def)
  have fresh: "\<not> token_spent h (tabs w)"
    unfolding token_spent_def using distinct_map_eq [OF ds(1) _ mem(1)] mem(2) row(3) by metis
  have "\<exists>q\<in>set (enrollment_tokens (tabs w)). t_token_id q = i \<and> t_status q = ''active''"
    by (rule count_where_pos) (simp add: one)
  then obtain q where q: "q \<in> set (enrollment_tokens (tabs w))" "t_token_id q = i" "t_status q = ''active''"
    by blast
  have "q = row" by (rule distinct_map_eq [OF ds(2) q(1) mem(1)]) (simp add: q row)
  then have act: "t_token_id row = i \<and> t_status row = ''active''" using q by simp
  let ?f = "\<lambda>r. r\<lparr>t_status := ''consumed'', t_consumed_at := Some (RFC3339Nano now)\<rparr>"
  have "?f row \<in> set (enrollment_tokens (tabs w'))"
    using mem(1) act by (simp add: tabs consume_token_def set_update_where)
  then have "token_spent h (tabs w')" using mem(2) unfolding token_spent_def
    by (intro bexI [of _ "?f row"]) simp_all
  with fresh show ?thesis by blast
qed

lemma EnrollmentTokens_Consume_keeps_spent:
  "token_spent h (tabs w) \<Longrightarrow> token_spent h (tabs (snd (run_state (EnrollmentTokens_Consume k now) w)))"
  using keeps_token_programs(2) [where I = "token_spent h", OF tokens_stmt_spent] by (simp add: keeps_def)

interpretation enrollment_token: single_use
  "\<lambda>h now. run_state (EnrollmentTokens_Consume h now)" "token_other G"
  "\<lambda>h w. token_spent h (tabs w)" "\<lambda>w. tokens_inv (tabs w)" for G
proof (unfold_locales, goal_cases)
  case 1 then show ?case using EnrollmentTokens_inv(2) by (simp add: keeps_def)
next
  case 2 then show ?case by (intro token_other_keeps [where I = tokens_inv] tokens_stmt_inv)
next
  case 3 then show ?case by (rule EnrollmentTokens_Consume_spends)
next
  case 4 then show ?case by (simp add: EnrollmentTokens_Consume_keeps_spent)
next
  case 5 then show ?case by (intro token_other_keeps [where I = "token_spent _"] tokens_stmt_spent)
qed

section \<open>Replacement tickets are single use\<close>

definition tickets_inv :: "tables \<Rightarrow> bool" where
  "tickets_inv t \<longleftrightarrow> distinct (map k_ticket_hash (replacement_tickets t)) \<and>
     (\<forall>r\<in>set (replacement_tickets t). k_ldi_uuid r \<in> l_uuid ` set (ldis t))"

definition ticket_spent :: "bytes \<Rightarrow> tables \<Rightarrow> bool" where
  "ticket_spent h t \<longleftrightarrow> (\<exists>r\<in>set (replacement_tickets t). k_ticket_hash r = h \<and> k_status r \<noteq> ''active'')"

lemma insert_ticket_inv: "tickets_inv t \<Longrightarrow> tickets_inv (snd (insert_ticket r t))"
  by (auto simp: tickets_inv_def insert_ticket_def)

lemma consume_ticket_inv: "tickets_inv t \<Longrightarrow> tickets_inv (snd (consume_ticket h at t))"
  by (auto simp: tickets_inv_def consume_ticket_def update_where_map ball_update_where)

lemma insert_ticket_spent: "ticket_spent h t \<Longrightarrow> ticket_spent h (snd (insert_ticket r t))"
  and consume_ticket_spent: "ticket_spent h t \<Longrightarrow> ticket_spent h (snd (consume_ticket k at t))"
  by (auto simp: ticket_spent_def insert_ticket_def consume_ticket_def set_update_where)

lemma keeps_ticket_programs:
  assumes "\<And>r t. I t \<Longrightarrow> I (snd (insert_ticket r t))" "\<And>h at t. I t \<Longrightarrow> I (snd (consume_ticket h at t))"
  shows "keeps (\<lambda>w. I (tabs w)) (ReplacementTickets_Create G u ttl now)"
    and "keeps (\<lambda>w. I (tabs w)) (ReplacementTickets_Validate G tk now)"
  unfolding ReplacementTickets_Create_def ReplacementTickets_Validate_def Let_def
  by (intro keeps_sql_tx inv_intros keeps_sql assms; assumption)+

lemmas ReplacementTickets_inv [inv_intros] = keeps_ticket_programs [OF insert_ticket_inv consume_ticket_inv]

lemma ReplacementTickets_Validate_Inl:
  "run_state (ReplacementTickets_Validate G tk now) w = (Inl e, w') \<Longrightarrow> tabs w' = tabs w"
  by (auto simp: ReplacementTickets_Validate_def dest: sql_tx_atomic split: if_splits)

lemma ReplacementTickets_Validate_Inr:
  assumes "run_state (ReplacementTickets_Validate G tk now) w = (Inr u, w')"
  obtains row exp where "HasPrefix tk replacementTicketPrefix"
    "ticket_by_hash (sha256 G tk) (tabs w) = Some row" "k_ldi_uuid row = u"
    "parseRFC3339 (k_expires_at row) = Some exp" "now < exp" "k_status row = ''active''"
    "tabs w' = snd (consume_ticket (sha256 G tk) (RFC3339Nano now) (tabs w))"
  using assms
  by (auto simp: ReplacementTickets_Validate_def run_sql_tx run_simps consume_ticket_def
      split: if_splits sum.splits prod.splits option.splits)

lemma ticket_by_hash_Some:
  "ticket_by_hash h t = Some r \<Longrightarrow> r \<in> set (replacement_tickets t) \<and> k_ticket_hash r = h"
  by (auto simp: ticket_by_hash_def dest: first_row_Some_in)

lemma ReplacementTickets_Validate_spends:
  assumes inv: "tickets_inv (tabs w)" and run: "run_state (ReplacementTickets_Validate G tk now) w = (Inr u, w')"
  shows "\<not> ticket_spent (sha256 G tk) (tabs w) \<and> ticket_spent (sha256 G tk) (tabs w')"
proof -
  let ?h = "sha256 G tk"
  obtain row where row: "ticket_by_hash ?h (tabs w) = Some row" "k_status row = ''active''"
    and tabs: "tabs w' = snd (consume_ticket ?h (RFC3339Nano now) (tabs w))"
    by (rule ReplacementTickets_Validate_Inr [OF run]) blast
  have mem: "row \<in> set (replacement_tickets (tabs w))" "k_ticket_hash row = ?h"
    using row(1) by (auto dest: ticket_by_hash_Some)
  have ds: "distinct (map k_ticket_hash (replacement_tickets (tabs w)))" using inv by (simp add: tickets_inv_def)
  have fresh: "\<not> ticket_spent ?h (tabs w)"
    unfolding ticket_spent_def using distinct_map_eq [OF ds _ mem(1)] mem(2) row(2) by metis
  let ?f = "\<lambda>r. r\<lparr>k_status := ''consumed'', k_consumed_at := Some (RFC3339Nano now)\<rparr>"
  have "?f row \<in> set (replacement_tickets (tabs w'))"
    using mem row(2) by (simp add: tabs consume_ticket_def set_update_where)
  then have "ticket_spent ?h (tabs w')" using mem(2) unfolding ticket_spent_def
    by (intro bexI [of _ "?f row"]) simp_all
  with fresh show ?thesis by blast
qed

fun ticket_other :: "golib \<Rightarrow> string \<times> duration \<times> gotime \<Rightarrow> mis \<Rightarrow> mis" where
  "ticket_other G (u, ttl, now) w = snd (run_state (ReplacementTickets_Create G u ttl now) w)"

interpretation replacement_ticket: single_use
  "\<lambda>tk now. run_state (ReplacementTickets_Validate G tk now)" "ticket_other G"
  "\<lambda>tk w. ticket_spent (sha256 G tk) (tabs w)" "\<lambda>w. tickets_inv (tabs w)" for G
proof (unfold_locales, goal_cases)
  case 1 then show ?case using ReplacementTickets_inv(2) by (simp add: keeps_def)
next
  case (2 s b) then show ?case using ReplacementTickets_inv(1) by (cases b) (simp add: keeps_def)
next
  case 3 then show ?case by (rule ReplacementTickets_Validate_spends)
next
  case 4 then show ?case
    using keeps_ticket_programs(2) [where I = "ticket_spent _", OF insert_ticket_spent consume_ticket_spent]
    by (simp add: keeps_def)
next
  case (5 s c b) then show ?case
    using keeps_ticket_programs(1) [where I = "ticket_spent _", OF insert_ticket_spent consume_ticket_spent]
    by (cases b) (simp add: keeps_def)
qed

section \<open>Replay of assertion identifiers\<close>

text \<open>
  Calls on a replay store: witnesses of an identifier with an expiry, and housekeeping.
  \<open>accepted\<close> lists the accepted witnesses of a sequence of calls in order, each with the clock
  reading it was decided at.
\<close>

fun accepted ::
    "(string \<Rightarrow> gotime \<Rightarrow> 's \<Rightarrow> unit result \<times> 's) \<Rightarrow> ('b \<Rightarrow> 's \<Rightarrow> 's) \<Rightarrow> ('s \<Rightarrow> gotime) \<Rightarrow>
     (string, gotime, 'b) call list \<Rightarrow> 's \<Rightarrow> (string \<times> gotime \<times> gotime) list" where
  "accepted wit oth now [] s = []"
| "accepted wit oth now (Use j e # xs) s =
     (case wit j e s of
        (Inl _, s') \<Rightarrow> accepted wit oth now xs s'
      | (Inr _, s') \<Rightarrow> (j, e, now s) # accepted wit oth now xs s')"
| "accepted wit oth now (Other b # xs) s = accepted wit oth now xs (oth b s)"

fun storable_call :: "(gotime \<Rightarrow> bool) \<Rightarrow> (string, gotime, 'b) call \<Rightarrow> bool" where
  "storable_call ok (Use j e) = ok e"
| "storable_call ok (Other b) = True"

locale replay_store =
  fixes witness :: "string \<Rightarrow> gotime \<Rightarrow> 's \<Rightarrow> unit result \<times> 's"
    and housekeeping :: "'b \<Rightarrow> 's \<Rightarrow> 's"
    and now :: "'s \<Rightarrow> gotime"
    and expiry :: "'s \<Rightarrow> string \<Rightarrow> gotime option"
    and storable :: "gotime \<Rightarrow> bool"
    and inv :: "'s \<Rightarrow> bool"
  assumes witness_inv: "inv s \<Longrightarrow> inv (snd (witness j e s)) \<and> now s \<le> now (snd (witness j e s))"
    and housekeeping_inv: "inv s \<Longrightarrow> inv (housekeeping b s) \<and> now s \<le> now (housekeeping b s)"
    and witness_accept: "inv s \<Longrightarrow> storable e \<Longrightarrow> witness j e s = (Inr (), s') \<Longrightarrow>
      (\<forall>p. expiry s j = Some p \<longrightarrow> p \<le> now s) \<and> expiry s' = (expiry s)(j \<mapsto> e)"
    and witness_refuse: "inv s \<Longrightarrow> witness j e s = (Inl er, s') \<Longrightarrow> expiry s' = expiry s"
    and housekeeping_expiry: "inv s \<Longrightarrow> expiry s j = Some p \<Longrightarrow>
      expiry (housekeeping b s) j = Some p \<or> p \<le> now s"
begin

text \<open>An identifier accepted with expiry \<open>e\<close> is still remembered, or \<open>e\<close> has passed.\<close>

definition guarded :: "string \<Rightarrow> gotime \<Rightarrow> 's \<Rightarrow> bool" where
  "guarded j e s \<longleftrightarrow> e \<le> now s \<or> (\<exists>p. expiry s j = Some p \<and> e \<le> p)"

lemma guarded_housekeeping: "inv s \<Longrightarrow> guarded j e s \<Longrightarrow> guarded j e (housekeeping b s)"
  unfolding guarded_def using housekeeping_inv [of s b] housekeeping_expiry [of s j _ b]
  by (metis order_trans)

lemma guarded_witness:
  assumes "inv s" "guarded j e s" "storable f"
  shows "guarded j e (snd (witness k f s))"
proof (cases "witness k f s")
  case (Pair r s')
  have now: "now s \<le> now s'" using witness_inv [OF assms(1), of k f] Pair by simp
  show ?thesis
  proof (cases r)
    case (Inl er)
    then have "expiry s' = expiry s" using witness_refuse [OF assms(1)] Pair by simp
    then show ?thesis using assms(2) now Pair by (auto simp: guarded_def)
  next
    case (Inr u)
    then have "(\<forall>p. expiry s k = Some p \<longrightarrow> p \<le> now s) \<and> expiry s' = (expiry s)(k \<mapsto> f)"
      using witness_accept [OF assms(1,3)] Pair by (cases u) simp
    then show ?thesis using assms(2) now Pair unfolding guarded_def by fastforce
  qed
qed

lemma accepted_guarded:
  assumes "inv s" "guarded j e s" "\<forall>x\<in>set xs. storable_call storable x"
  shows "\<forall>(k, f, n)\<in>set (accepted witness housekeeping now xs s). k = j \<longrightarrow> e \<le> n"
  using assms
proof (induction xs arbitrary: s)
  case Nil
  then show ?case by simp
next
  case (Cons x xs)
  show ?case
  proof (cases x)
    case (Other b)
    have "inv (housekeeping b s)" using housekeeping_inv [OF Cons.prems(1), of b] by simp
    from Cons.IH [OF this guarded_housekeeping [OF Cons.prems(1,2)]] Cons.prems(3) Other
    show ?thesis by simp
  next
    case (Use k f)
    obtain r s' where run: "witness k f s = (r, s')" by force
    have inv: "inv s'" using witness_inv [OF Cons.prems(1), of k f] run by simp
    have g: "guarded j e s'" using guarded_witness [OF Cons.prems(1,2), of f k] Cons.prems(3) Use run by simp
    have IH: "\<forall>(k, f, n)\<in>set (accepted witness housekeeping now xs s'). k = j \<longrightarrow> e \<le> n"
      using Cons.IH [OF inv g] Cons.prems(3) by simp
    have "e \<le> now s" if "r = Inr u" "k = j" for u
      using witness_accept [OF Cons.prems(1), of f k s'] Cons.prems(2,3) Use run that
      by (cases u) (auto simp: guarded_def)
    then show ?thesis using IH Use run by (auto split: sum.splits)
  qed
qed

theorem no_replay:
  assumes "inv s" "\<forall>x\<in>set xs. storable_call storable x"
  shows "sorted_wrt (\<lambda>(j, e, _) (k, _, n). k = j \<longrightarrow> e \<le> n) (accepted witness housekeeping now xs s)"
  using assms
proof (induction xs arbitrary: s)
  case Nil
  then show ?case by simp
next
  case (Cons x xs)
  show ?case
  proof (cases x)
    case (Other b)
    then show ?thesis using Cons housekeeping_inv [of s b] by simp
  next
    case (Use k f)
    obtain r s' where run: "witness k f s = (r, s')" by force
    have inv: "inv s'" using witness_inv [OF Cons.prems(1), of k f] run by simp
    have IH: "sorted_wrt (\<lambda>(j, e, _) (k, _, n). k = j \<longrightarrow> e \<le> n) (accepted witness housekeeping now xs s')"
      using Cons.IH [OF inv] Cons.prems(2) by simp
    show ?thesis
    proof (cases r)
      case (Inl er)
      then show ?thesis using IH Use run by simp
    next
      case (Inr u)
      then have "guarded k f s'"
        using witness_accept [OF Cons.prems(1), of f k s'] Cons.prems(2) Use run
        by (cases u) (simp add: guarded_def)
      then have "\<forall>(j, e, n)\<in>set (accepted witness housekeeping now xs s'). j = k \<longrightarrow> f \<le> n"
        using Cons.prems(2) by (intro accepted_guarded [OF inv]) simp_all
      then show ?thesis using IH Inr Use run by (auto split: prod.splits)
    qed
  qed
qed

end

text \<open>The table \<open>jwt_replay\<close>.\<close>

definition replay_expiry :: "mis \<Rightarrow> string \<Rightarrow> gotime option" where
  "replay_expiry w j = Option.bind (replay_by_jti j (tabs w)) (\<lambda>r. parseRFC3339 (j_expires_at r))"

definition replay_inv :: "tables \<Rightarrow> bool" where
  "replay_inv t \<longleftrightarrow> distinct (map j_jti (jwt_replay t))"

lemma upsert_replay_inv: "replay_inv t \<Longrightarrow> replay_inv (snd (upsert_replay r t))"
  by (auto simp: replay_inv_def upsert_replay_def update_where_map)

lemma JWTReplay_Witness_inv [inv_intros]: "keeps (\<lambda>w. replay_inv (tabs w)) (JWTReplay_Witness j e)"
  unfolding JWTReplay_Witness_def by (intro keeps_sql_tx inv_intros keeps_sql upsert_replay_inv)

lemma replay_by_jti_upsert:
  "replay_by_jti k (snd (upsert_replay \<lparr>j_jti = j, j_expires_at = s\<rparr> t)) =
    (if k = j then Some \<lparr>j_jti = j, j_expires_at = s\<rparr> else replay_by_jti k t)"
proof (cases "j \<in> j_jti ` set (jwt_replay t)")
  case True
  let ?f = "\<lambda>q. if j_jti q = j then q\<lparr>j_expires_at := s\<rparr> else q"
  have "filter (\<lambda>r. j_jti r = k) (update_where (\<lambda>q. j_jti q = j) (\<lambda>q. q\<lparr>j_expires_at := s\<rparr>) (jwt_replay t)) =
    update_where (\<lambda>q. j_jti q = j) (\<lambda>q. q\<lparr>j_expires_at := s\<rparr>) (filter (\<lambda>r. j_jti r = k) (jwt_replay t))"
    by (rule filter_update_where) simp
  then have upd: "replay_by_jti k (snd (upsert_replay \<lparr>j_jti = j, j_expires_at = s\<rparr> t)) =
    map_option ?f (replay_by_jti k t)"
    using True by (simp add: replay_by_jti_def upsert_replay_def first_row_update_where)
  have jti: "j_jti r = k" if "replay_by_jti k t = Some r" for r
    using that first_row_Some_in by (fastforce simp: replay_by_jti_def)
  show ?thesis
  proof (cases "replay_by_jti k t")
    case None
    then have "k \<noteq> j" using True by (auto simp: replay_by_jti_def filter_empty_conv)
    with None upd show ?thesis by simp
  next
    case (Some r)
    with jti [OF Some] upd show ?thesis by simp
  qed
next
  case False
  then have "filter (\<lambda>r. j_jti r = j) (jwt_replay t) = []" by (auto simp: filter_empty_conv)
  with False show ?thesis by (cases "k = j") (simp_all add: replay_by_jti_def upsert_replay_def)
qed

lemma JWTReplay_Witness_clock:
  "clock (snd (run_state (JWTReplay_Witness j e) w)) = clock w \<and>
    ticks w \<le> ticks (snd (run_state (JWTReplay_Witness j e) w))"
  by (auto simp: JWTReplay_Witness_def run_sql_tx run_simps split: sum.splits prod.splits option.splits if_splits)

lemma JWTReplay_Witness_Inl:
  "run_state (JWTReplay_Witness j e) w = (Inl er, w') \<Longrightarrow> tabs w' = tabs w"
  unfolding JWTReplay_Witness_def by (rule sql_tx_atomic)

lemma JWTReplay_Witness_Inr:
  assumes "run_state (JWTReplay_Witness j e) w = (Inr (), w')"
  shows "tabs w' = snd (upsert_replay \<lparr>j_jti = j, j_expires_at = RFC3339Nano e\<rparr> (tabs w)) \<and>
    (\<forall>p. replay_expiry w j = Some p \<longrightarrow> p \<le> clock w (ticks w))"
  using assms
  by (auto simp: JWTReplay_Witness_def run_sql_tx run_simps replay_expiry_def
      split: sum.splits prod.splits option.splits if_splits)

interpretation jwt_replay_table: replay_store
  "\<lambda>j e. run_state (JWTReplay_Witness j e)" "\<lambda>_ :: unit. \<lambda>w. w" "\<lambda>w. clock w (ticks w)"
  replay_expiry four_digit_year "\<lambda>w. mono (clock w)"
proof (unfold_locales, goal_cases)
  case (1 s j e) then show ?case using JWTReplay_Witness_clock [of j e s] by (metis monoD)
next
  case 2 then show ?case by simp
next
  case (3 s e j s')
  then show ?case using JWTReplay_Witness_Inr [OF 3(3)]
    by (auto simp: replay_expiry_def fun_eq_iff replay_by_jti_upsert parse_RFC3339Nano)
next
  case 4 then show ?case using JWTReplay_Witness_Inl by (simp add: replay_expiry_def fun_eq_iff)
next
  case 5 then show ?case by simp
qed

text \<open>The in-memory store.\<close>

lemma run_Memory_Witness:
  "run_state (Memory_Witness j e) s =
    (if \<exists>p. ms_seen s j = Some p \<and> ms_clock s (ms_ticks s) < p
     then (Inl [Replay_ErrReplay], s\<lparr>ms_ticks := Suc (ms_ticks s)\<rparr>)
     else (Inr (), s\<lparr>ms_ticks := Suc (ms_ticks s), ms_seen := (ms_seen s)(j \<mapsto> e)\<rparr>))"
  by (auto simp: Memory_Witness_def Let_def split: option.splits)

interpretation memory_store: replay_store
  "\<lambda>j e. run_state (Memory_Witness j e)" "\<lambda>_ :: unit. \<lambda>s. snd (run_state Memory_Sweep s)"
  "\<lambda>s. ms_clock s (ms_ticks s)" ms_seen "\<lambda>_. True" "\<lambda>s. mono (ms_clock s)"
proof (unfold_locales, goal_cases)
  case (1 s j e) then show ?case by (auto simp: run_Memory_Witness intro: monoD)
next
  case (2 s b) then show ?case by (auto simp: Memory_Sweep_def Let_def intro: monoD)
next
  case (3 s e j s')
  then show ?case by (auto simp: run_Memory_Witness split: if_splits)
next
  case 4 then show ?case by (auto simp: run_Memory_Witness split: if_splits)
next
  case 5 then show ?case by (auto simp: Memory_Sweep_def Let_def)
qed

end
