(* ===== verification/MIS_CSR.thy ===== *)
theory MIS_CSR
  imports Go_Lib
begin

text \<open>
  \<^verbatim>\<open>pkg/mis/csr/parse.go\<close>: decoding a device's certificate request and enforcing the
  cryptographic requirements. \<open>Parse\<close> accepts exactly the base64 texts of unarmoured requests
  whose self-signature holds and whose key and algorithm are P-256 with ES256 or RSA of at
  least 3072 bits with PS256.
\<close>

record CSR =
  csr_der :: bytes
  csr_inner :: certreq
  csr_algorithm :: string

definition CSR_DER :: "CSR \<Rightarrow> bytes" where "CSR_DER c = csr_der c"
definition CSR_Inner :: "CSR \<Rightarrow> certreq" where "CSR_Inner c = csr_inner c"
definition PublicKeyAlgorithm :: "CSR \<Rightarrow> string" where "PublicKeyAlgorithm c = csr_algorithm c"

text \<open>\<^verbatim>\<open>big.Int.BitLen\<close> of the absolute value.\<close>

fun bit_len :: "nat \<Rightarrow> nat" where
  "bit_len n = (if n = 0 then 0 else Suc (bit_len (n div 2)))"

declare bit_len.simps [simp del]

definition BitLen :: "int \<Rightarrow> nat" where "BitLen x = bit_len (nat \<bar>x\<bar>)"

fun containsASCII :: "string \<Rightarrow> string \<Rightarrow> bool" where
  "containsASCII [] needle = (needle = [])"
| "containsASCII (c # cs) needle = (take (length needle) (c # cs) = needle \<or> containsASCII cs needle)"

definition hasPEMArmor :: "string \<Rightarrow> bool" where
  "hasPEMArmor s = (10 \<le> length s \<and> containsASCII s ''-----BEGIN'')"

definition enforceMIAFCrypto :: "certreq \<Rightarrow> string result" where
  "enforceMIAFCrypto req = (case req_PublicKey req of
     ECDSA_PublicKey c x y \<Rightarrow>
       if c \<noteq> P256 then Inl [Csr_ErrUnsupportedKey]
       else if req_SignatureAlgorithm req \<noteq> ECDSAWithSHA256 then Inl [Csr_ErrUnsupportedAlg]
       else Inr ''ES256''
   | RSA_PublicKey n e \<Rightarrow>
       if BitLen n < 3072 then Inl [Csr_ErrUnsupportedKey]
       else if req_SignatureAlgorithm req \<noteq> SHA256WithRSAPSS then Inl [Csr_ErrUnsupportedAlg]
       else Inr ''PS256''
   | OtherKey _ \<Rightarrow> Inl [Csr_ErrUnsupportedKey])"

definition Parse :: "golib \<Rightarrow> string \<Rightarrow> CSR result" where
  "Parse G encoded =
     (if length encoded = 0 then Inl [Csr_ErrMalformed]
      else if hasPEMArmor encoded then Inl [Csr_ErrPEMArmor]
      else case Std_DecodeString encoded of
        None \<Rightarrow> Inl [Csr_ErrMalformed]
      | Some der \<Rightarrow>
          if hasPEMArmor der then Inl [Csr_ErrPEMArmor]
          else case ParseCertificateRequest G der of
            None \<Rightarrow> Inl [Csr_ErrMalformed]
          | Some req \<Rightarrow>
              if \<not> req_SignatureOK req then Inl [Csr_ErrBadSignature]
              else case enforceMIAFCrypto req of
                Inl e \<Rightarrow> Inl e
              | Inr alg \<Rightarrow> Inr \<lparr>csr_der = der, csr_inner = req, csr_algorithm = alg\<rparr>)"

section \<open>Specification\<close>

lemma bit_len_le: "bit_len n \<le> k \<longleftrightarrow> n < 2 ^ k"
proof (induction n arbitrary: k rule: bit_len.induct)
  case (1 n)
  show ?case
  proof (cases "n = 0")
    case True
    then show ?thesis by (simp add: bit_len.simps)
  next
    case False
    then have step: "bit_len n = Suc (bit_len (n div 2))" by (subst bit_len.simps) simp
    show ?thesis
    proof (cases k)
      case 0
      with False step show ?thesis by simp
    next
      case (Suc j)
      have "n div 2 < 2 ^ j \<longleftrightarrow> n < 2 ^ j * 2" by (rule div_less_iff_less_mult) simp
      with Suc step 1 [OF False, of j] show ?thesis by (simp add: mult.commute)
    qed
  qed
qed

lemma containsASCII_iff: "containsASCII h n \<longleftrightarrow> (\<exists>a b. h = a @ n @ b)"
proof (induction h n rule: containsASCII.induct)
  case (2 c cs n)
  have "take (length n) (c # cs) = n \<longleftrightarrow> (\<exists>b. c # cs = n @ b)"
    using HasPrefix_iff [of "c # cs" n] by (simp add: HasPrefix_def)
  with 2 show ?case by (auto simp: Cons_eq_append_conv)
qed auto

text \<open>The keys and algorithms the SUP admits.\<close>

definition admissible :: "certreq \<Rightarrow> string \<Rightarrow> bool" where
  "admissible req alg \<longleftrightarrow>
     (\<exists>x y. req_PublicKey req = ECDSA_PublicKey P256 x y \<and> req_SignatureAlgorithm req = ECDSAWithSHA256 \<and>
        alg = ''ES256'') \<or>
     (\<exists>n e. req_PublicKey req = RSA_PublicKey n e \<and> 2 ^ 3071 \<le> \<bar>n\<bar> \<and>
        req_SignatureAlgorithm req = SHA256WithRSAPSS \<and> alg = ''PS256'')"

lemma BitLen_3072: "BitLen n < 3072 \<longleftrightarrow> \<bar>n\<bar> < 2 ^ 3071"
proof -
  have "BitLen n < Suc 3071 \<longleftrightarrow> nat \<bar>n\<bar> < 2 ^ 3071"
    unfolding less_Suc_eq_le BitLen_def by (rule bit_len_le)
  also have "\<dots> \<longleftrightarrow> \<bar>n\<bar> < int (2 ^ 3071)" by (rule nat_less_iff) (rule abs_ge_zero)
  finally show ?thesis unfolding of_nat_power of_nat_numeral by simp
qed

lemma enforceMIAFCrypto_iff: "enforceMIAFCrypto req = Inr alg \<longleftrightarrow> admissible req alg"
  unfolding enforceMIAFCrypto_def admissible_def BitLen_3072
  by (cases "req_PublicKey req") (auto simp del: power_numeral)

text \<open>No text of the standard alphabet has the dashes of an armour.\<close>

lemma std_alphabet_no_dash: "list_all (\<lambda>c. c \<noteq> CHR ''-'') b64std_alphabet"
  by code_simp

lemma length_b64std_alphabet: "length b64std_alphabet = 64"
  by code_simp

lemma hasPEMArmor_Std_Encode: "\<not> hasPEMArmor (Std_EncodeToString bs)"
proof
  assume "hasPEMArmor (Std_EncodeToString bs)"
  then have "CHR ''-'' \<in> set (Std_EncodeToString bs)"
    by (auto simp: hasPEMArmor_def containsASCII_iff)
  then obtain n where "n \<in> set (b64_values bs)" "b64std_alphabet ! n = CHR ''-''"
    by (auto simp: Std_EncodeToString_def Let_def)
  moreover have "b64std_alphabet ! n \<noteq> CHR ''-''" if "n < 64" for n
    using std_alphabet_no_dash that unfolding list_all_length length_b64std_alphabet by blast
  ultimately show False using b64_values_less by blast
qed

lemma Parse_Inr_iff:
  "Parse G s = Inr c \<longleftrightarrow>
    s \<noteq> [] \<and> \<not> hasPEMArmor s \<and> Std_DecodeString s = Some (csr_der c) \<and> \<not> hasPEMArmor (csr_der c) \<and>
    ParseCertificateRequest G (csr_der c) = Some (csr_inner c) \<and> req_SignatureOK (csr_inner c) \<and>
    admissible (csr_inner c) (csr_algorithm c) \<and> more c = ()"
  unfolding Parse_def
  by (cases c) (auto simp: enforceMIAFCrypto_iff [symmetric] split: option.splits sum.splits)

lemma Parse_Std_Encode:
  assumes "der \<noteq> []" "\<not> hasPEMArmor der" "ParseCertificateRequest G der = Some req" "req_SignatureOK req"
    "admissible req alg"
  shows "Parse G (Std_EncodeToString der) = Inr \<lparr>csr_der = der, csr_inner = req, csr_algorithm = alg\<rparr>"
proof -
  have "Std_DecodeString [] = Some []" by (simp add: Std_DecodeString_def strip_padding_def)
  then have "Std_EncodeToString der \<noteq> []" using assms(1) Std_round_trip [of der] by force
  then show ?thesis using assms by (simp add: Parse_Inr_iff hasPEMArmor_Std_Encode CSR.simps)
qed

end
