(* ===== verification/MIS_Identity.thy ===== *)
theory MIS_Identity
  imports MIS_Credentials MIS_CSR
begin

text \<open>
  \<^verbatim>\<open>pkg/mis/identity\<close>: the service that owns enrollment, re-enrollment, replacement,
  renewal, revocation and the issuance of JWT SVIDs (\<^verbatim>\<open>service.go\<close>, \<^verbatim>\<open>jwtsvid.go\<close>,
  \<^verbatim>\<open>policy.go\<close>). The repository, the issuance log and the revocation queue are the stores
  of the previous theories; the issuer and the validator of replacement tickets are fields of
  the service, and the locale \<open>service_env\<close> states what the service relies on of them.
\<close>

section \<open>The service\<close>

record StaticPolicy =
  NewLDI :: bool
  KeyRotation :: bool

definition AllowNewLDI :: "StaticPolicy \<Rightarrow> bool" where "AllowNewLDI p = NewLDI p"
definition AllowKeyRotation :: "StaticPolicy \<Rightarrow> bool" where "AllowKeyRotation p = KeyRotation p"

definition DefaultPolicy :: StaticPolicy where
  "DefaultPolicy = \<lparr>NewLDI = True, KeyRotation = True\<rparr>"

type_synonym issuer = "string \<Rightarrow> bytes \<Rightarrow> duration \<Rightarrow> (bytes list \<times> gotime) result prog"
type_synonym validator = "string \<Rightarrow> gotime \<Rightarrow> string result prog"

record Service =
  svc_issuer :: issuer
  svc_policy :: StaticPolicy
  svc_replacement :: validator
  svc_trustDomain :: string
  svc_svidTTL :: duration

datatype evidence = TokenEvidence string bytes | LeafEvidence certificate

record VerifiedBootstrap =
  VB_Method :: string
  VB_ESI :: bytes
  VB_Evidence :: evidence

record ReplacementAuthorizationDTO =
  RA_Method :: string
  RA_Ticket :: string

definition ReplacementAuthMethodOperatorTicket :: string where
  "ReplacementAuthMethodOperatorTicket = ''urn:margo:replacement-auth:operator-ticket:v1''"

record EnrollmentResult =
  ER_StatusCode :: int
  ER_LDI :: LDI
  ER_CertChainDER :: "bytes list"
  ER_ExpiresAt :: gotime

definition recordIssuance ::
    "golib \<Rightarrow> LDI \<Rightarrow> bytes list \<Rightarrow> string \<Rightarrow> gotime \<Rightarrow> unit result prog" where
  "recordIssuance G ldi chainDER meth notAfter = (case chainDER of
     [] \<Rightarrow> State_Monad.return (Inl [Opaque ''empty chain cannot be audited''])
   | leafDER # _ \<Rightarrow>
       (case ParseCertificate G leafDER of
          None \<Rightarrow> State_Monad.return (Inl [Opaque ''parse leaf for audit''])
        | Some leaf \<Rightarrow> do {
            issuedAt \<leftarrow> time_Now;
            IssuedSVIDs_Record
              \<lparr>IS_SerialHex = ToUpper (int_text16 (cert_SerialNumber leaf)),
               IS_FingerprintHex = hex_EncodeToString (sha256 G leafDER),
               IS_SPIFFEID = LDI_SPIFFEID ldi, IS_LDIUUID = LDI_UUID ldi, IS_Method = meth,
               IS_IssuedAt = issuedAt, IS_NotBefore = cert_NotBefore leaf, IS_NotAfter = notAfter,
               IS_Revoked = False, IS_RevokedAt = zero_time, IS_LeafDER = leafDER\<rparr> }))"

text \<open>The loop of \<^verbatim>\<open>revokeActivePriors\<close>: the entries so far, and the error that ended it.\<close>

fun revoke_priors_loop ::
    "string \<Rightarrow> IssuedSVIDRecord list \<Rightarrow> RevocationEntry list \<Rightarrow> (RevocationEntry list \<times> goerr option) prog" where
  "revoke_priors_loop reason [] out = State_Monad.return (out, None)"
| "revoke_priors_loop reason (p # ps) out = do {
     now \<leftarrow> time_Now;
     r \<leftarrow> Revoke (IS_SerialHex p) (IS_FingerprintHex p) reason (IS_NotAfter p) now;
     case r of
       Inl e \<Rightarrow> State_Monad.return (out, Some e)
     | Inr newly \<Rightarrow> do {
         now2 \<leftarrow> time_Now;
         _ \<leftarrow> MarkRevoked (IS_SerialHex p) now2;
         if newly then do {
           now3 \<leftarrow> time_Now;
           revoke_priors_loop reason ps (out @ [\<lparr>RE_SerialHex = IS_SerialHex p,
             RE_FingerprintHex = IS_FingerprintHex p, RE_RevokedAt = now3, RE_Reason = reason,
             RE_NotAfter = IS_NotAfter p\<rparr>]) }
         else revoke_priors_loop reason ps out } }"

definition revokeActivePriors :: "string \<Rightarrow> string \<Rightarrow> (RevocationEntry list \<times> goerr option) prog" where
  "revokeActivePriors spiffeID reason = do {
     now \<leftarrow> time_Now;
     r \<leftarrow> ActiveBySPIFFEID spiffeID now;
     case r of
       Inl e \<Rightarrow> State_Monad.return ([], Some e)
     | Inr priors \<Rightarrow> revoke_priors_loop reason priors [] }"

text \<open>The tail the four flows share: sign, audit, answer with the status code.\<close>

definition issue_for ::
    "golib \<Rightarrow> Service \<Rightarrow> int \<Rightarrow> LDI \<Rightarrow> CSR \<Rightarrow> string \<Rightarrow> EnrollmentResult result prog" where
  "issue_for G S code ldi parsed meth = do {
     i \<leftarrow> svc_issuer S (LDI_SPIFFEID ldi) (CSR_DER parsed) (svc_svidTTL S);
     case i of
       Inl e \<Rightarrow> State_Monad.return (Inl e)
     | Inr (chain, expires) \<Rightarrow> do {
         a \<leftarrow> recordIssuance G ldi chain meth expires;
         case a of
           Inl e \<Rightarrow> State_Monad.return (Inl e)
         | Inr _ \<Rightarrow> State_Monad.return (Inr \<lparr>ER_StatusCode = code, ER_LDI = ldi,
             ER_CertChainDER = chain, ER_ExpiresAt = expires\<rparr>) } }"

definition handleInitial ::
    "golib \<Rightarrow> Service \<Rightarrow> VerifiedBootstrap \<Rightarrow> CSR \<Rightarrow> EnrollmentResult result prog" where
  "handleInitial G S vb parsed =
     (if \<not> AllowNewLDI (svc_policy S) then State_Monad.return (Inl [ErrNewLDIForbidden])
      else do {
        r \<leftarrow> CreateLDIAndBind (VB_ESI vb) (VB_Method vb) (svc_trustDomain S);
        case r of
          Inl e \<Rightarrow> State_Monad.return (Inl e)
        | Inr ldi \<Rightarrow> issue_for G S 201 ldi parsed (VB_Method vb) })"

definition handleReplacement ::
    "golib \<Rightarrow> Service \<Rightarrow> VerifiedBootstrap \<Rightarrow> CSR \<Rightarrow> ReplacementAuthorizationDTO \<Rightarrow>
     EnrollmentResult result prog" where
  "handleReplacement G S vb parsed repl =
     (if RA_Method repl \<noteq> ReplacementAuthMethodOperatorTicket
      then State_Monad.return (Inl [ErrUnsupportedReplacementMethod])
      else do {
        now \<leftarrow> time_Now;
        v \<leftarrow> svc_replacement S (RA_Ticket repl) now;
        case v of
          Inl e \<Rightarrow> State_Monad.return (Inl e)
        | Inr ldiUUID \<Rightarrow> do {
            t \<leftarrow> GetLDI ldiUUID;
            case t of
              Inl e \<Rightarrow> State_Monad.return
                (if errors_Is e Identity_ErrNotFound then Inl [ErrReplacementNotAuthorized] else Inl e)
            | Inr target \<Rightarrow>
                if LDI_Status target \<noteq> LDIStatusActive
                then State_Monad.return (Inl [ErrReplacementNotAuthorized])
                else do {
                  b \<leftarrow> Rebind (LDI_UUID target) (VB_ESI vb) (VB_Method vb);
                  case b of
                    Inl e \<Rightarrow> State_Monad.return (Inl e)
                  | Inr _ \<Rightarrow> do {
                      _ \<leftarrow> revokeActivePriors (LDI_SPIFFEID target) ''replacement'';
                      issue_for G S 200 target parsed (VB_Method vb) } } } })"

definition renewalKeyChanged :: "golib \<Rightarrow> bytes \<Rightarrow> certreq \<Rightarrow> bool result" where
  "renewalKeyChanged G activeLeafDER req = (case ParseCertificate G activeLeafDER of
     None \<Rightarrow> Inl [Opaque ''parse active leaf'']
   | Some leaf \<Rightarrow> (case MarshalPKIXPublicKey G (cert_PublicKey leaf) of
       None \<Rightarrow> Inl [Opaque ''marshal active leaf public key'']
     | Some leafDER \<Rightarrow> (case MarshalPKIXPublicKey G (req_PublicKey req) of
         None \<Rightarrow> Inl [Opaque ''marshal renewal csr public key'']
       | Some csrDER \<Rightarrow> Inr (sha256 G leafDER \<noteq> sha256 G csrDER))))"

text \<open>
  \<^verbatim>\<open>handleReEnrollment\<close>: the check of the active leaf first (absent: nothing to compare
  with), then revocation of the priors and \<open>issue_for\<close>.
\<close>

definition handleReEnrollment ::
    "golib \<Rightarrow> Service \<Rightarrow> LDI \<Rightarrow> CSR \<Rightarrow> string \<Rightarrow> EnrollmentResult result prog" where
  "handleReEnrollment G S ldi parsed meth =
     (if LDI_Status ldi \<noteq> LDIStatusActive then State_Monad.return (Inl [ErrReplacementNotAuthorized])
      else do {
        now \<leftarrow> time_Now;
        c \<leftarrow> LeafByActiveSPIFFEID (LDI_SPIFFEID ldi) now;
        let check = (case c of
           Inl e \<Rightarrow> if errors_Is e Identity_ErrNotFound then Inr () else Inl e
         | Inr current \<Rightarrow>
             (case renewalKeyChanged G (IS_LeafDER current) (CSR_Inner parsed) of
                Inl e \<Rightarrow> Inl e
              | Inr keyChanged \<Rightarrow>
                  if keyChanged \<and> \<not> AllowKeyRotation (svc_policy S) then Inl [ErrKeyRotationNotPermitted]
                  else Inr ()));
        case check of
          Inl e \<Rightarrow> State_Monad.return (Inl e)
        | Inr _ \<Rightarrow> do {
            _ \<leftarrow> revokeActivePriors (LDI_SPIFFEID ldi) ''re-enrollment'';
            issue_for G S 200 ldi parsed meth } })"

definition Enroll ::
    "golib \<Rightarrow> Service \<Rightarrow> VerifiedBootstrap \<Rightarrow> CSR \<Rightarrow> ReplacementAuthorizationDTO option \<Rightarrow>
     EnrollmentResult result prog" where
  "Enroll G S vb parsedCSR repl = do {
     l \<leftarrow> LookupByESI (VB_ESI vb);
     case l of
       Inl e \<Rightarrow>
         if errors_Is e Identity_ErrNotFound then
           (case repl of
              Some ra \<Rightarrow> handleReplacement G S vb parsedCSR ra
            | None \<Rightarrow> handleInitial G S vb parsedCSR)
         else State_Monad.return (Inl e)
     | Inr (existingBinding, existingLDI) \<Rightarrow>
         if EB_Status existingBinding = ESIBindingActive then
           (case repl of
              Some _ \<Rightarrow> State_Monad.return (Inl [ErrSpuriousReplacementAuthorization])
            | None \<Rightarrow> handleReEnrollment G S existingLDI parsedCSR (VB_Method vb))
         else if EB_Status existingBinding = ESIBindingRetired
         then State_Monad.return (Inl [ErrReplacementNotAuthorized])
         else State_Monad.return (Inl [Opaque ''unexpected ESI binding status'']) }"

definition Renew :: "golib \<Rightarrow> Service \<Rightarrow> string \<Rightarrow> CSR \<Rightarrow> EnrollmentResult result prog" where
  "Renew G S spiffeID parsed = do {
     g \<leftarrow> GetLDIBySPIFFEID spiffeID;
     case g of
       Inl e \<Rightarrow> State_Monad.return (Inl e)
     | Inr ldi \<Rightarrow>
         if LDI_Status ldi \<noteq> LDIStatusActive then State_Monad.return (Inl [Identity_ErrNotFound])
         else do {
           now \<leftarrow> time_Now;
           c \<leftarrow> LeafByActiveSPIFFEID spiffeID now;
           case c of
             Inl e \<Rightarrow> State_Monad.return (Inl e)
           | Inr current \<Rightarrow>
               (case renewalKeyChanged G (IS_LeafDER current) (CSR_Inner parsed) of
                  Inl e \<Rightarrow> State_Monad.return (Inl e)
                | Inr keyChanged \<Rightarrow>
                    if keyChanged \<and> \<not> AllowKeyRotation (svc_policy S)
                    then State_Monad.return (Inl [ErrKeyRotationNotPermitted])
                    else if keyChanged then do {
                      _ \<leftarrow> revokeActivePriors (LDI_SPIFFEID ldi) ''key-rotation'';
                      issue_for G S 200 ldi parsed ''renewal'' }
                    else issue_for G S 200 ldi parsed ''renewal'') } }"

text \<open>The loop of \<^verbatim>\<open>RevokeSPIFFEID\<close>, with the serials found already revoked.\<close>

fun revoke_all_loop ::
    "string \<Rightarrow> IssuedSVIDRecord list \<Rightarrow> RevocationEntry list \<Rightarrow> string list \<Rightarrow>
     (RevocationEntry list \<times> string list \<times> goerr option) prog" where
  "revoke_all_loop reason [] new old = State_Monad.return (new, old, None)"
| "revoke_all_loop reason (p # ps) new old = do {
     now \<leftarrow> time_Now;
     r \<leftarrow> Revoke (IS_SerialHex p) (IS_FingerprintHex p) reason (IS_NotAfter p) now;
     case r of
       Inl e \<Rightarrow> State_Monad.return (new, old, Some e)
     | Inr newly \<Rightarrow> do {
         now2 \<leftarrow> time_Now;
         _ \<leftarrow> MarkRevoked (IS_SerialHex p) now2;
         if newly then do {
           now3 \<leftarrow> time_Now;
           revoke_all_loop reason ps (new @ [\<lparr>RE_SerialHex = IS_SerialHex p,
             RE_FingerprintHex = IS_FingerprintHex p, RE_RevokedAt = now3, RE_Reason = reason,
             RE_NotAfter = IS_NotAfter p\<rparr>]) old }
         else revoke_all_loop reason ps new (old @ [IS_SerialHex p]) } }"

definition RevokeSPIFFEID ::
    "string \<Rightarrow> string \<Rightarrow> (RevocationEntry list \<times> string list \<times> goerr option) prog" where
  "RevokeSPIFFEID spiffeID reason = do {
     g \<leftarrow> GetLDIBySPIFFEID spiffeID;
     case g of
       Inl e \<Rightarrow> State_Monad.return ([], [], Some e)
     | Inr ldi \<Rightarrow> do {
         now \<leftarrow> time_Now;
         a \<leftarrow> ActiveBySPIFFEID spiffeID now;
         case a of
           Inl e \<Rightarrow> State_Monad.return ([], [], Some e)
         | Inr priors \<Rightarrow> do {
             l \<leftarrow> revoke_all_loop reason priors [] [];
             case l of (new, old, err) \<Rightarrow>
               (case err of
                  Some e \<Rightarrow> State_Monad.return (new, old, Some e)
                | None \<Rightarrow> do {
                    u \<leftarrow> SetLDIStatus (LDI_UUID ldi) LDIStatusRevoked;
                    State_Monad.return (new, old, case u of Inl e \<Rightarrow> Some e | Inr _ \<Rightarrow> None) }) } } }"

section \<open>JWT SVIDs\<close>

record JWTSVIDConfig =
  JC_Issuer :: string
  JC_DefaultTTL :: duration
  JC_MaxTTL :: duration

record JWTSVIDResult =
  JR_JWT :: string
  JR_ExpiresAt :: gotime

text \<open>\<^verbatim>\<open>jwt.NewNumericDate\<close> keeps whole seconds.\<close>

definition NumericDate :: "gotime \<Rightarrow> gotime" where "NumericDate t = secs_of t * Second"

definition effective_ttl :: "JWTSVIDConfig \<Rightarrow> duration \<Rightarrow> duration" where
  "effective_ttl cfg requestedTTL =
     (let def = (if JC_DefaultTTL cfg \<le> 0 \<or> JC_MaxTTL cfg < JC_DefaultTTL cfg then JC_MaxTTL cfg else JC_DefaultTTL cfg);
          ttl = (if requestedTTL \<le> 0 then def else requestedTTL)
      in if JC_MaxTTL cfg < ttl then JC_MaxTTL cfg else ttl)"

definition IssueJWTSVID ::
    "(jwt_claims \<Rightarrow> string option) option \<Rightarrow> (IssuedJWTSVIDRecord \<Rightarrow> unit result prog) option \<Rightarrow>
     JWTSVIDConfig \<Rightarrow> string \<Rightarrow> string list \<Rightarrow> duration \<Rightarrow> JWTSVIDResult result prog" where
  "IssueJWTSVID signer auditLog cfg spiffeID requestedAudiences requestedTTL = (case signer of
     None \<Rightarrow> State_Monad.return (Inl [Opaque ''IssueJWTSVID requires a signer''])
   | Some sign \<Rightarrow> (case auditLog of
       None \<Rightarrow> State_Monad.return (Inl [Opaque ''IssueJWTSVID requires an audit log''])
     | Some audit \<Rightarrow>
         if JC_Issuer cfg = [] then State_Monad.return (Inl [Opaque ''JWTSVIDConfig.Issuer is required''])
         else if JC_MaxTTL cfg \<le> 0 then State_Monad.return (Inl [Opaque ''JWTSVIDConfig.MaxTTL must be > 0''])
         else do {
           g \<leftarrow> GetLDIBySPIFFEID spiffeID;
           case g of
             Inl e \<Rightarrow> State_Monad.return (Inl e)
           | Inr ldi \<Rightarrow>
               if LDI_Status ldi \<noteq> LDIStatusActive then State_Monad.return (Inl [Identity_ErrNotFound])
               else do {
                 let ttl = effective_ttl cfg requestedTTL;
                 now \<leftarrow> time_Now;
                 let exp = now + ttl;
                 jti \<leftarrow> uuid_New;
                 case sign \<lparr>jwt_Issuer = JC_Issuer cfg, jwt_Subject = spiffeID,
                            jwt_Audience = requestedAudiences, jwt_Expiry = Some (NumericDate exp),
                            jwt_NotBefore = None, jwt_IssuedAt = Some (NumericDate now),
                            jwt_ID = jti, jwt_raw_jti = Some jti\<rparr> of
                   None \<Rightarrow> State_Monad.return (Inl [Opaque ''sign jwt-svid''])
                 | Some compact \<Rightarrow> do {
                     _ \<leftarrow> audit \<lparr>IJ_JTI = jti, IJ_SPIFFEID = spiffeID, IJ_Audiences = requestedAudiences,
                                IJ_IssuedAt = now, IJ_ExpiresAt = exp\<rparr>;
                     State_Monad.return (Inr \<lparr>JR_JWT = compact, JR_ExpiresAt = exp\<rparr>) } } }))"

section \<open>What every operation keeps\<close>

text \<open>
  Predicates on the tables, by the statements that keep them: those of a revocation, all but
  the audit of an issued certificate, all. LDIs are only ever inserted as active, and their
  status is only ever set to revoked.
\<close>

locale revocation_invariant =
  fixes I :: "tables \<Rightarrow> bool"
  assumes mark_revoked_I: "I t \<Longrightarrow> I (snd (mark_revoked ser at t))"
    and insert_revoked_I: "I t \<Longrightarrow> I (snd (insert_revoked q t))"
begin

abbreviation "keepsI m \<equiv> keeps (\<lambda>w. I (tabs w)) m"

lemma keeps_reads:
  "keepsI (LookupByESI esi)" "keepsI (GetLDI u)" "keepsI (GetLDIBySPIFFEID sp)"
  "keepsI (ActiveBySPIFFEID sp now)" "keepsI (LeafByActiveSPIFFEID sp now)"
  unfolding LookupByESI_def GetLDI_def GetLDIBySPIFFEID_def ActiveBySPIFFEID_def LeafByActiveSPIFFEID_def
  by (intro inv_intros)+

lemma keeps_Revoke: "keepsI (Revoke ser fp reason na now)"
  and keeps_MarkRevoked: "keepsI (MarkRevoked ser now)"
  unfolding Revoke_def MarkRevoked_def
  by (intro inv_intros keeps_sql insert_revoked_I mark_revoked_I; assumption)+

lemma keeps_revoke_priors_loop: "keepsI (revoke_priors_loop reason ps out)"
  by (induction ps arbitrary: out) (auto intro!: inv_intros keeps_Revoke keeps_MarkRevoked)

lemma keeps_revokeActivePriors: "keepsI (revokeActivePriors sp reason)"
  unfolding revokeActivePriors_def by (intro inv_intros keeps_reads keeps_revoke_priors_loop)

lemma keeps_revoke_all_loop: "keepsI (revoke_all_loop reason ps new old)"
  by (induction ps arbitrary: new old) (auto intro!: inv_intros keeps_Revoke keeps_MarkRevoked)

end

locale identity_invariant = revocation_invariant I for I +
  assumes insert_ldi_I: "I t \<Longrightarrow> l_status l = ''active'' \<Longrightarrow> I (snd (insert_ldi l t))"
    and insert_binding_I: "I t \<Longrightarrow> I (snd (insert_binding b t))"
    and retire_active_I: "I t \<Longrightarrow> I (snd (retire_active u at t))"
    and touch_ldi_I: "I t \<Longrightarrow> I (snd (touch_ldi u at t))"
    and revoke_ldi_I: "I t \<Longrightarrow> I (snd (update_ldi_status u ''revoked'' at t))"
    and insert_jwt_svid_I: "I t \<Longrightarrow> I (snd (insert_jwt_svid j t))"
    and consume_ticket_I: "I t \<Longrightarrow> I (snd (consume_ticket h at t))"

locale table_invariant = identity_invariant I for I +
  assumes upsert_svid_I: "I t \<Longrightarrow> I (snd (upsert_svid r t))"

text \<open>
  What the service relies on of its issuer and of its validator of tickets: the first leaves
  the tables alone, the second changes them only by consuming a ticket.
\<close>

locale service_env =
  fixes S :: Service
  assumes issuer_tabs: "tabs (snd (run_state (svc_issuer S sp der ttl) w)) = tabs w"
    and issuer_env: "faults (snd (run_state (svc_issuer S sp der ttl) w)) = faults w \<and>
      clock (snd (run_state (svc_issuer S sp der ttl) w)) = clock w"
    and validate_keeps: "(\<And>h at t. J t \<Longrightarrow> J (snd (consume_ticket h at t))) \<Longrightarrow>
      keeps (\<lambda>w. J (tabs w)) (svc_replacement S tk now)"

context identity_invariant
begin

lemma keeps_CreateLDIAndBind: "keepsI (CreateLDIAndBind esi m td)"
  unfolding CreateLDIAndBind_def Let_def
  by (intro keeps_sql_tx inv_intros keeps_sql insert_ldi_I insert_binding_I) simp_all

lemma keeps_Rebind: "keepsI (Rebind u esi m)"
  unfolding Rebind_def
  by (intro keeps_sql_tx inv_intros keeps_sql retire_active_I insert_binding_I touch_ldi_I)

lemma keeps_SetRevoked: "keepsI (SetLDIStatus u ''revoked'')"
  unfolding SetLDIStatus_def by (intro inv_intros keeps_sql revoke_ldi_I)

lemma keeps_RevokeSPIFFEID: "keepsI (RevokeSPIFFEID sp reason)"
  unfolding RevokeSPIFFEID_def LDIStatusRevoked_def
  by (intro inv_intros keeps_reads keeps_revoke_all_loop keeps_SetRevoked)

lemma keeps_IssuedJWTSVIDs_Record: "keepsI (IssuedJWTSVIDs_Record G rec)"
  unfolding IssuedJWTSVIDs_Record_def by (intro keeps_sql insert_jwt_svid_I)

lemma keeps_IssueJWTSVID:
  "(\<And>a rec. auditLog = Some a \<Longrightarrow> keepsI (a rec)) \<Longrightarrow> keepsI (IssueJWTSVID sg auditLog cfg sp aud ttl)"
  unfolding IssueJWTSVID_def Let_def
  by (cases sg; cases auditLog) (auto intro!: inv_intros keeps_reads)

lemma keeps_IssueJWTSVID_store: "keepsI (IssueJWTSVID sg (Some (IssuedJWTSVIDs_Record G)) cfg sp aud ttl)"
  by (rule keeps_IssueJWTSVID) (auto intro: keeps_IssuedJWTSVIDs_Record)

end

context table_invariant
begin

lemma keeps_recordIssuance: "keepsI (recordIssuance G ldi chain m na)"
  unfolding recordIssuance_def IssuedSVIDs_Record_def
  by (intro inv_intros keeps_sql upsert_svid_I)

end

locale service_keeps = service_env S + table_invariant I for S I
begin

lemma keeps_issue_for: "keepsI (issue_for G S code ldi p m)"
  unfolding issue_for_def
  by (intro inv_intros keeps_recordIssuance) (simp add: keeps_def issuer_tabs)

lemma keeps_Enroll: "keepsI (Enroll G S vb p repl)"
  unfolding Enroll_def handleReplacement_def handleInitial_def handleReEnrollment_def Let_def
  by (intro inv_intros keeps_reads keeps_CreateLDIAndBind keeps_Rebind keeps_revokeActivePriors
      keeps_issue_for validate_keeps consume_ticket_I)

lemma keeps_Renew: "keepsI (Renew G S sp p)"
  unfolding Renew_def by (intro inv_intros keeps_reads keeps_revokeActivePriors keeps_issue_for)

end

section \<open>The invariant of the whole store\<close>

definition store_inv :: "tables \<Rightarrow> bool" where
  "store_inv t \<longleftrightarrow> identities_inv t \<and> svids_inv t \<and> tokens_inv t \<and> tickets_inv t \<and> replay_inv t \<and>
     distinct (map w_jti (issued_jwt_svids t))"

lemma store_inv_empty: "store_inv empty_tables"
  by (simp add: store_inv_def identities_inv_empty svids_inv_empty)
    (simp add: tokens_inv_def tickets_inv_def replay_inv_def empty_tables_def)

text \<open>The parts of the invariant a statement does not touch depend on it through the LDIs only.\<close>

lemmas other_invs = svids_inv_def tokens_inv_def tickets_inv_def replay_inv_def

lemma insert_ldi_store: "store_inv t \<Longrightarrow> store_inv (snd (insert_ldi l t))"
  unfolding store_inv_def by (auto simp: insert_ldi_inv) (auto simp: other_invs insert_ldi_def)

lemma insert_binding_store: "store_inv t \<Longrightarrow> store_inv (snd (insert_binding b t))"
  unfolding store_inv_def by (auto simp: insert_binding_inv) (auto simp: other_invs insert_binding_def)

lemma retire_active_store: "store_inv t \<Longrightarrow> store_inv (snd (retire_active u at t))"
  unfolding store_inv_def by (auto simp: retire_active_inv) (auto simp: other_invs retire_active_def)

lemma touch_ldi_store: "store_inv t \<Longrightarrow> store_inv (snd (touch_ldi u at t))"
  unfolding store_inv_def
  by (auto simp: touch_ldi_inv) (auto simp: other_invs touch_ldi_def update_where_image)

lemma update_ldi_status_store: "store_inv t \<Longrightarrow> store_inv (snd (update_ldi_status u s at t))"
  unfolding store_inv_def
  by (auto simp: update_ldi_status_inv)
    (auto simp: other_invs update_ldi_status_def Let_def update_where_image)

lemma upsert_svid_store: "store_inv t \<Longrightarrow> store_inv (snd (upsert_svid r t))"
  unfolding store_inv_def
  by (auto simp: upsert_svid_inv)
    (auto simp: identities_inv_def tokens_inv_def tickets_inv_def replay_inv_def upsert_svid_def)

lemma mark_revoked_store: "store_inv t \<Longrightarrow> store_inv (snd (mark_revoked ser at t))"
  unfolding store_inv_def
  by (auto simp: mark_revoked_inv)
    (auto simp: identities_inv_def tokens_inv_def tickets_inv_def replay_inv_def mark_revoked_def)

lemma insert_revoked_store: "store_inv t \<Longrightarrow> store_inv (snd (insert_revoked q t))"
  unfolding store_inv_def
  by (auto simp: insert_revoked_inv)
    (auto simp: identities_inv_def tokens_inv_def tickets_inv_def replay_inv_def insert_revoked_def)

lemma prune_revoked_store: "store_inv t \<Longrightarrow> store_inv (snd (prune_revoked s t))"
  unfolding store_inv_def
  by (auto simp: prune_revoked_inv)
    (auto simp: identities_inv_def tokens_inv_def tickets_inv_def replay_inv_def prune_revoked_def)

lemma insert_jwt_svid_store: "store_inv t \<Longrightarrow> store_inv (snd (insert_jwt_svid j t))"
  unfolding store_inv_def by (auto simp: identities_inv_def other_invs insert_jwt_svid_def)

lemma consume_ticket_store: "store_inv t \<Longrightarrow> store_inv (snd (consume_ticket h at t))"
  unfolding store_inv_def
  by (auto simp: consume_ticket_inv)
    (auto simp: identities_inv_def svids_inv_def tokens_inv_def replay_inv_def consume_ticket_def)

lemma insert_ticket_store: "store_inv t \<Longrightarrow> store_inv (snd (insert_ticket r t))"
  unfolding store_inv_def
  by (auto simp: insert_ticket_inv)
    (auto simp: identities_inv_def svids_inv_def tokens_inv_def replay_inv_def insert_ticket_def)

lemma insert_token_store: "store_inv t \<Longrightarrow> store_inv (snd (insert_token r t))"
  unfolding store_inv_def
  by (auto simp: insert_token_inv)
    (auto simp: identities_inv_def svids_inv_def tickets_inv_def replay_inv_def insert_token_def)

lemma insert_outcome_store: "store_inv t \<Longrightarrow> store_inv (snd (insert_outcome q t))"
  unfolding store_inv_def
  by (auto simp: insert_outcome_inv)
    (auto simp: identities_inv_def svids_inv_def tickets_inv_def replay_inv_def insert_outcome_def)

lemma consume_token_store: "store_inv t \<Longrightarrow> store_inv (snd (consume_token i at t))"
  unfolding store_inv_def
  by (auto simp: consume_token_inv)
    (auto simp: identities_inv_def svids_inv_def tickets_inv_def replay_inv_def consume_token_def)

lemma upsert_replay_store: "store_inv t \<Longrightarrow> store_inv (snd (upsert_replay r t))"
  unfolding store_inv_def
  by (auto simp: upsert_replay_inv)
    (auto simp: identities_inv_def svids_inv_def tokens_inv_def tickets_inv_def upsert_replay_def)

lemmas store_stmt_inv =
  insert_ldi_store insert_binding_store retire_active_store touch_ldi_store update_ldi_status_store
  upsert_svid_store mark_revoked_store insert_revoked_store prune_revoked_store insert_jwt_svid_store
  consume_ticket_store insert_ticket_store insert_token_store insert_outcome_store
  consume_token_store upsert_replay_store

interpretation store: table_invariant store_inv
  by unfold_locales (rule store_stmt_inv; assumption)+

text \<open>An ESI keeps the LDI it was bound to; a retired binding stays retired.\<close>

definition esi_bound :: "bytes \<Rightarrow> string \<Rightarrow> tables \<Rightarrow> bool" where
  "esi_bound esi u t \<longleftrightarrow> (\<exists>b\<in>set (esi_bindings t). b_esi b = esi \<and> b_ldi_uuid b = u)"

definition esi_retired :: "bytes \<Rightarrow> tables \<Rightarrow> bool" where
  "esi_retired esi t \<longleftrightarrow> (\<exists>b\<in>set (esi_bindings t). b_esi b = esi \<and> b_status b = ''retired'')"

text \<open>An LDI that is no longer active stays so.\<close>

definition spiffe_ended :: "string \<Rightarrow> tables \<Rightarrow> bool" where
  "spiffe_ended sp t \<longleftrightarrow> (\<exists>l\<in>set (ldis t). l_spiffe_id l = sp \<and> l_status l \<noteq> ''active'')"

definition on_revocation_list :: "string \<Rightarrow> tables \<Rightarrow> bool" where
  "on_revocation_list ser t \<longleftrightarrow> ser \<in> r_serial_hex ` set (revoked_svids t)"

lemmas stmt_defs =
  insert_ldi_def insert_binding_def retire_active_def touch_ldi_def update_ldi_status_def
  upsert_svid_def mark_revoked_def insert_revoked_def insert_jwt_svid_def consume_ticket_def

interpretation esi_bound: table_invariant "esi_bound esi u" for esi u
  by unfold_locales (auto simp: esi_bound_def stmt_defs bex_update_where Let_def)

interpretation esi_retired: table_invariant "esi_retired esi" for esi
  by unfold_locales (auto simp: esi_retired_def stmt_defs bex_update_where Let_def)

interpretation spiffe_ended: table_invariant "spiffe_ended sp" for sp
  by unfold_locales (auto simp: spiffe_ended_def stmt_defs bex_update_where Let_def)

interpretation revoked_listed: table_invariant "on_revocation_list ser" for ser
  by unfold_locales (auto simp: on_revocation_list_def stmt_defs Let_def)

end
