(* ===== verification/MIS_CA.thy ===== *)
theory MIS_CA
  imports MIS_Identity
begin

text \<open>
  \<^verbatim>\<open>pkg/mis/ca\<close>: the in-process intermediate CA (\<^verbatim>\<open>issuer.go\<close>) and the snapshot of trust
  anchors (\<^verbatim>\<open>trustanchors.go\<close>). Files, PEM blocks and private keys are read through the
  record \<open>oslib\<close>.
\<close>

section \<open>Loading the intermediate\<close>

record oslib =
  os_ReadFile :: "string \<Rightarrow> bytes option"
  pem_Decode :: "bytes \<Rightarrow> (string \<times> bytes \<times> bytes) option"
  ParsePKCS8PrivateKey :: "bytes \<Rightarrow> pubkey option option"
  ParseECPrivateKey :: "bytes \<Rightarrow> pubkey option"
  ParsePKCS1PrivateKey :: "bytes \<Rightarrow> pubkey option"

text \<open>
  A signer is known by its public key. \<open>pem_Decode\<close> gives the type and bytes of the first
  block and the rest; a PKCS\#8 key that is no signer is \<open>Some None\<close>.
\<close>

record CA_Config =
  CA_TrustDomain :: string
  CA_CertFile :: string
  CA_KeyFile :: string

record IntermediateIssuer =
  ii_trustDomain :: string
  ii_intermediate :: certificate
  ii_key :: pubkey

definition supportedPublicKey :: "pubkey \<Rightarrow> unit result" where
  "supportedPublicKey pub = (case pub of
     ECDSA_PublicKey c x y \<Rightarrow> if c \<noteq> P256 then Inl [Opaque ''unsupported EC curve''] else Inr ()
   | RSA_PublicKey n e \<Rightarrow> if BitLen n < 3072 then Inl [Opaque ''RSA key too small''] else Inr ()
   | OtherKey _ \<Rightarrow> Inl [Opaque ''unsupported public key type''])"

definition loadCert :: "golib \<Rightarrow> oslib \<Rightarrow> string \<Rightarrow> certificate result" where
  "loadCert G L path = (case os_ReadFile L path of
     None \<Rightarrow> Inl [Opaque ''read'']
   | Some raw \<Rightarrow> (case pem_Decode L raw of
       None \<Rightarrow> Inl [Opaque ''no CERTIFICATE PEM block'']
     | Some (typ, der, rest) \<Rightarrow>
         if typ \<noteq> ''CERTIFICATE'' then Inl [Opaque ''no CERTIFICATE PEM block'']
         else if (case pem_Decode L rest of Some (typ2, _, _) \<Rightarrow> typ2 = ''CERTIFICATE'' | None \<Rightarrow> False)
         then Inl [Opaque ''multiple certificates'']
         else (case ParseCertificate G der of None \<Rightarrow> Inl [Opaque ''x509''] | Some c \<Rightarrow> Inr c)))"

definition loadKey :: "oslib \<Rightarrow> string \<Rightarrow> pubkey result" where
  "loadKey L path = (case os_ReadFile L path of
     None \<Rightarrow> Inl [Opaque ''read'']
   | Some raw \<Rightarrow> (case pem_Decode L raw of
       None \<Rightarrow> Inl [Opaque ''no PEM block'']
     | Some (_, der, _) \<Rightarrow> (case ParsePKCS8PrivateKey L der of
         Some None \<Rightarrow> Inl [Opaque ''not a crypto.Signer'']
       | Some (Some k) \<Rightarrow> Inr k
       | None \<Rightarrow> (case ParseECPrivateKey L der of
           Some k \<Rightarrow> Inr k
         | None \<Rightarrow> (case ParsePKCS1PrivateKey L der of
             Some k \<Rightarrow> Inr k
           | None \<Rightarrow> Inl [Opaque ''unsupported key format''])))))"

definition matchPubKey :: "certificate \<Rightarrow> pubkey \<Rightarrow> unit result" where
  "matchPubKey cert key = (case cert_PublicKey cert of
     ECDSA_PublicKey c x y \<Rightarrow>
       if key \<noteq> ECDSA_PublicKey c x y then Inl [Opaque ''ECDSA public/private key mismatch''] else Inr ()
   | RSA_PublicKey n e \<Rightarrow>
       if key \<noteq> RSA_PublicKey n e then Inl [Opaque ''RSA public/private key mismatch''] else Inr ()
   | OtherKey _ \<Rightarrow> Inl [Opaque ''unsupported key type''])"

definition matchesTrustDomainAuthority :: "certificate \<Rightarrow> string \<Rightarrow> bool" where
  "matchesTrustDomainAuthority cert trustDomain = (case cert_URIs cert of
     [u] \<Rightarrow> if url_Scheme u \<noteq> ''spiffe'' \<or> url_Host u \<noteq> trustDomain then False
            else url_Path u = [] \<or> url_Path u = ''/''
   | _ \<Rightarrow> False)"

definition NewIntermediateIssuer :: "golib \<Rightarrow> oslib \<Rightarrow> CA_Config \<Rightarrow> IntermediateIssuer result" where
  "NewIntermediateIssuer G L cfg =
     (if CA_TrustDomain cfg = [] then Inl [Opaque ''trust_domain is required'']
      else case loadCert G L (CA_CertFile cfg) of
        Inl e \<Rightarrow> Inl e
      | Inr cert \<Rightarrow>
          if \<not> cert_IsCA cert then Inl [Opaque ''intermediate cert is not a CA'']
          else if \<not> cert_KeyUsageCertSign cert then Inl [Opaque ''missing KeyUsage=certSign'']
          else (case supportedPublicKey (cert_PublicKey cert) of
            Inl e \<Rightarrow> Inl e
          | Inr _ \<Rightarrow>
              if \<not> matchesTrustDomainAuthority cert (CA_TrustDomain cfg) then Inl [Opaque ''URI SANs'']
              else (case loadKey L (CA_KeyFile cfg) of
                Inl e \<Rightarrow> Inl e
              | Inr key \<Rightarrow> (case matchPubKey cert key of
                  Inl e \<Rightarrow> Inl e
                | Inr _ \<Rightarrow> Inr \<lparr>ii_trustDomain = CA_TrustDomain cfg, ii_intermediate = cert,
                              ii_key = key\<rparr>))))"

section \<open>Serial numbers\<close>

text \<open>64-bit two's complement, the arithmetic of \<^verbatim>\<open>atomic.Int64\<close> and \<^verbatim>\<open>time.Duration\<close>.\<close>

definition int64 :: "int \<Rightarrow> int" where
  "int64 x = (x + 9223372036854775808) mod 18446744073709551616 - 9223372036854775808"

definition unix_epoch :: gotime where "unix_epoch = 62135596800 * Second"

definition UnixNano :: "gotime \<Rightarrow> int" where "UnixNano t = int64 (t - unix_epoch)"

definition Next :: "int prog" where
  "Next = do {
     w0 \<leftarrow> State_Monad.get;
     (if serial_base w0 = 0 then do {
        t \<leftarrow> time_Now;
        w1 \<leftarrow> State_Monad.get;
        State_Monad.set (w1\<lparr>serial_base := UnixNano t\<rparr>) }
      else State_Monad.return ());
     w2 \<leftarrow> State_Monad.get;
     let n = int64 (serial_n w2 + 1);
     State_Monad.set (w2\<lparr>serial_n := n\<rparr>);
     State_Monad.return (serial_base w2 * 2 ^ 20 + n) }"

section \<open>Issuing\<close>

text \<open>
  The index into the random bytes of the signature is the count of draws; \<open>CreateCertificate\<close>
  stands for the signature with the intermediate's key.
\<close>

definition draw_index :: "nat prog" where
  "draw_index = State (\<lambda>w. (draws w, w\<lparr>draws := Suc (draws w)\<rparr>))"

definition IssueX509SVID :: "golib \<Rightarrow> IntermediateIssuer \<Rightarrow> issuer" where
  "IssueX509SVID G i spiffeID csrDER ttl = (case ParseCertificateRequest G csrDER of
     None \<Rightarrow> State_Monad.return (Inl [Opaque ''parse CSR''])
   | Some csr \<Rightarrow> (case supportedPublicKey (req_PublicKey csr) of
       Inl e \<Rightarrow> State_Monad.return (Inl e)
     | Inr _ \<Rightarrow>
         if \<not> req_SignatureOK csr then State_Monad.return (Inl [Opaque ''CSR signature invalid''])
         else (case url_Parse G spiffeID of
           None \<Rightarrow> State_Monad.return (Inl [Opaque ''invalid SPIFFE ID''])
         | Some uri \<Rightarrow>
             if url_Scheme uri \<noteq> ''spiffe'' then State_Monad.return (Inl [Opaque ''invalid SPIFFE ID''])
             else if url_Host uri \<noteq> ii_trustDomain i
             then State_Monad.return (Inl [Opaque ''not in trust domain''])
             else do {
               now \<leftarrow> time_Now;
               let notAfter = (if cert_NotAfter (ii_intermediate i) < now + ttl
                               then cert_NotAfter (ii_intermediate i) else now + ttl);
               serial \<leftarrow> Next;
               k \<leftarrow> draw_index;
               case CreateCertificate G k
                      \<lparr>tmpl_SerialNumber = serial, tmpl_NotBefore = now - 30 * Second,
                       tmpl_NotAfter = notAfter, tmpl_URIs = [uri]\<rparr>
                      (ii_intermediate i) (req_PublicKey csr) of
                 None \<Rightarrow> State_Monad.return (Inl [Opaque ''sign leaf''])
               | Some leafDER \<Rightarrow> State_Monad.return
                   (Inr ([leafDER, cert_Raw (ii_intermediate i)], notAfter)) })))"

section \<open>Trust anchors\<close>

record jwt_authority =
  JA_KeyID :: string
  JA_PublicKey :: pubkey

record TrustAnchorSet =
  TS_TrustDomain :: string
  TS_X509Authorities :: "certificate list"
  TS_JWTAuthorities :: "jwt_authority list"
  TS_SequenceNumber :: nat

record TrustAnchorsConfig =
  TA_TrustDomain :: string
  TA_RootFile :: string
  TA_JWTAuthorities :: "jwt_authority list"

text \<open>
  The loop over PEM blocks. \<^verbatim>\<open>pem.Decode\<close> consumes at least one byte with every block, so
  as many rounds as the file has bytes, and one more, reach its end.
\<close>

fun root_certs :: "golib \<Rightarrow> oslib \<Rightarrow> nat \<Rightarrow> bytes \<Rightarrow> certificate list \<Rightarrow> certificate list result" where
  "root_certs G L 0 rest certs = Inr certs"
| "root_certs G L (Suc fuel) rest certs = (case pem_Decode L rest of
     None \<Rightarrow> Inr certs
   | Some (typ, der, rest') \<Rightarrow>
       if typ \<noteq> ''CERTIFICATE'' then root_certs G L fuel rest' certs
       else (case ParseCertificate G der of
         None \<Rightarrow> Inl [Opaque ''parse certificate'']
       | Some c \<Rightarrow> root_certs G L fuel rest' (certs @ [c])))"

definition NewTrustAnchors ::
    "golib \<Rightarrow> oslib \<Rightarrow> TrustAnchorsConfig \<Rightarrow> (TrustAnchorSet \<times> gotime) result prog" where
  "NewTrustAnchors G L cfg =
     (if TA_TrustDomain cfg = [] then State_Monad.return (Inl [Opaque ''trust_domain is required''])
      else if TA_RootFile cfg = [] then State_Monad.return (Inl [Opaque ''root_file is required''])
      else case os_ReadFile L (TA_RootFile cfg) of
        None \<Rightarrow> State_Monad.return (Inl [Opaque ''read''])
      | Some raw \<Rightarrow> (case root_certs G L (Suc (length raw)) raw [] of
          Inl e \<Rightarrow> State_Monad.return (Inl e)
        | Inr certs \<Rightarrow>
            if certs = [] then State_Monad.return (Inl [Opaque ''no CERTIFICATE PEM blocks''])
            else do {
              loadedAt \<leftarrow> time_Now;
              State_Monad.return (Inr
                (\<lparr>TS_TrustDomain = TA_TrustDomain cfg, TS_X509Authorities = certs,
                  TS_JWTAuthorities = TA_JWTAuthorities cfg, TS_SequenceNumber = 0\<rparr>, loadedAt)) }))"

section \<open>Properties\<close>

lemma supportedPublicKey_iff:
  "supportedPublicKey pub = Inr () \<longleftrightarrow>
    (\<exists>x y. pub = ECDSA_PublicKey P256 x y) \<or> (\<exists>n e. pub = RSA_PublicKey n e \<and> 3072 \<le> BitLen n)"
  by (cases pub) (auto simp: supportedPublicKey_def)

lemma enforce_supported: "enforceMIAFCrypto req = Inr alg \<Longrightarrow> supportedPublicKey (req_PublicKey req) = Inr ()"
  by (cases "req_PublicKey req") (auto simp: enforceMIAFCrypto_def supportedPublicKey_def split: if_splits)

lemma int64_id: "- 9223372036854775808 \<le> x \<Longrightarrow> x < 9223372036854775808 \<Longrightarrow> int64 x = x"
  by (simp add: int64_def)

lemma run_Next:
  "run_state Next w =
    (let w1 = (if serial_base w = 0
               then w\<lparr>ticks := Suc (ticks w), serial_base := UnixNano (clock w (ticks w))\<rparr> else w)
     in (serial_base w1 * 2 ^ 20 + int64 (serial_n w + 1), w1\<lparr>serial_n := int64 (serial_n w + 1)\<rparr>))"
  by (simp add: Next_def run_simps Let_def State_Monad.get_def State_Monad.set_def)

lemma run_draw_index: "run_state draw_index w = (draws w, w\<lparr>draws := Suc (draws w)\<rparr>)"
  by (simp add: draw_index_def)

lemma IssueX509SVID_env:
  "tabs (snd (run_state (IssueX509SVID G i sp der ttl) w)) = tabs w \<and>
   faults (snd (run_state (IssueX509SVID G i sp der ttl) w)) = faults w \<and>
   clock (snd (run_state (IssueX509SVID G i sp der ttl) w)) = clock w"
  by (auto simp: IssueX509SVID_def run_simps run_Next run_draw_index Let_def
      split: option.splits sum.splits)

end
