(* ===== verification/Go_HTTP.thy ===== *)
theory Go_HTTP
  imports Go_Lib
begin

text \<open>
  What the handlers and clients use of \<^verbatim>\<open>net/http\<close>: a request with its method, the
  segments of its path, its header and its body, and the response a handler leaves behind.
  Header names are in canonical form. A body is \<open>None\<close> when reading it fails.
\<close>

type_synonym http_header = "(string \<times> string) list"

record http_request =
  rq_Method :: string
  rq_Path :: "string list"
  rq_Header :: http_header
  rq_Body :: "bytes option"
  rq_PeerCertificates :: "certificate list option"

record http_response =
  rs_Status :: int
  rs_Header :: http_header
  rs_Body :: bytes

text \<open>A response as a client has it.\<close>

record http_reply =
  rp_Status :: int
  rp_Header :: http_header
  rp_Body :: "bytes option"

definition Header_Values :: "http_header \<Rightarrow> string \<Rightarrow> string list" where
  "Header_Values h k = map snd (filter (\<lambda>p. fst p = k) h)"

definition Header_Get :: "http_header \<Rightarrow> string \<Rightarrow> string" where
  "Header_Get h k = (case Header_Values h k of [] \<Rightarrow> [] | v # _ \<Rightarrow> v)"

text \<open>\<^verbatim>\<open>http.Error\<close> answers a line of plain text.\<close>

definition http_Error :: "string \<Rightarrow> int \<Rightarrow> http_response" where
  "http_Error msg code = \<lparr>rs_Status = code,
     rs_Header = [(''Content-Type'', ''text/plain; charset=utf-8''), (''X-Content-Type-Options'', ''nosniff'')],
     rs_Body = msg @ [CHR 0x0A]\<rparr>"

lemma Header_Get_simps [simp]:
  "Header_Get [] k = []"
  "Header_Get ((j, v) # h) k = (if j = k then v else Header_Get h k)"
  by (auto simp: Header_Get_def Header_Values_def)

lemma rs_Status_http_Error [simp]: "rs_Status (http_Error msg code) = code"
  by (simp add: http_Error_def)

section \<open>Routes\<close>

text \<open>
  A pattern with the method \<^verbatim>\<open>GET\<close> also takes \<^verbatim>\<open>HEAD\<close>. \<^verbatim>\<open>ServeMux\<close> answers
  405 when only other methods are registered for a path and 404 when none is.
\<close>

definition is_get :: "string \<Rightarrow> bool" where
  "is_get m \<longleftrightarrow> m = ''GET'' \<or> m = ''HEAD''"

definition method_not_allowed :: http_response where
  "method_not_allowed = http_Error ''Method Not Allowed'' 405"

definition page_not_found :: http_response where
  "page_not_found = http_Error ''404 page not found'' 404"

section \<open>Paths\<close>

fun split_on :: "char \<Rightarrow> string \<Rightarrow> string list" where
  "split_on c [] = [[]]"
| "split_on c (x # xs) =
     (if x = c then [] # split_on c xs
      else (case split_on c xs of [] \<Rightarrow> [[x]] | s # ss \<Rightarrow> (x # s) # ss))"

fun join_with :: "char \<Rightarrow> string list \<Rightarrow> string" where
  "join_with c [] = []"
| "join_with c [s] = s"
| "join_with c (s # ss) = s @ c # join_with c ss"

lemma split_on_not_Nil [simp]: "split_on c s \<noteq> []"
  by (cases s) (auto split: list.splits)

lemma split_on_clean: "c \<notin> set s \<Longrightarrow> split_on c s = [s]"
  by (induction s) auto

lemma split_on_append: "c \<notin> set s \<Longrightarrow> split_on c (s @ c # t) = s # split_on c t"
  by (induction s) auto

lemma split_join:
  "ss \<noteq> [] \<Longrightarrow> (\<And>s. s \<in> set ss \<Longrightarrow> c \<notin> set s) \<Longrightarrow> split_on c (join_with c ss) = ss"
  by (induction c ss rule: join_with.induct) (auto simp: split_on_clean split_on_append)

lemma join_split: "join_with c (split_on c s) = s"
proof (induction s)
  case (Cons x xs)
  show ?case
  proof (cases "split_on c xs")
    case (Cons t ts)
    with Cons.IH show ?thesis by (cases ts) auto
  qed simp
qed simp

text \<open>\<^verbatim>\<open>filepath.Join\<close> of a directory and a name, which cleans the path.\<close>

fun clean_segments :: "bool \<Rightarrow> string list \<Rightarrow> string list \<Rightarrow> string list" where
  "clean_segments rooted acc [] = rev acc"
| "clean_segments rooted acc (s # ss) =
     (if s = [] \<or> s = ''.'' then clean_segments rooted acc ss
      else if s = ''..'' then
        (case acc of
           a # as \<Rightarrow> if a = ''..'' then clean_segments rooted (s # acc) ss else clean_segments rooted as ss
         | [] \<Rightarrow> clean_segments rooted (if rooted then [] else [s]) ss)
      else clean_segments rooted (s # acc) ss)"

definition filepath_Clean :: "string \<Rightarrow> string" where
  "filepath_Clean p =
     (let rooted = HasPrefix p ''/'';
          out = (if rooted then ''/'' else []) @ join_with (CHR ''/'') (clean_segments rooted [] (split_on (CHR ''/'') p)) in
      if out = [] then ''.'' else out)"

definition filepath_Join :: "string \<Rightarrow> string \<Rightarrow> string" where
  "filepath_Join dir name = filepath_Clean (if dir = [] then name else dir @ ''/'' @ name)"

end
