(* ===== verification/MIS_StepCA.thy ===== *)
theory MIS_StepCA
  imports MIS_CA Go_HTTP
begin

text \<open>
  \<^verbatim>\<open>pkg/mis/ra/stepca\<close>: the issuer that delegates the signature to a Step CA instance. A
  JWK provisioner credential is read from two files (\<^verbatim>\<open>credential.go\<close>), a client posts the
  request with a one-time token to \<^verbatim>\<open>/1.0/sign\<close> (\<^verbatim>\<open>client.go\<close>), and the issuer checks
  the request first (\<^verbatim>\<open>issuer.go\<close>). The context of a call is live. Step CA, JOSE, JSON and
  PEM are the record \<open>ralib\<close>; an exchange with Step CA is indexed by the count of draws, so that
  two of them may differ.
\<close>

section \<open>Data\<close>

text \<open>The key inside a JWK is a signer, known by its public key, or something else.\<close>

datatype jwk_key = Signing_Key pubkey | Other_Key string

record JSONWebKey =
  jwk_KeyID :: string
  jwk_Key :: jwk_key

record CredentialConfig =
  cc_ProvisionerFile :: string
  cc_PasswordFile :: string

record ra_credential =
  cd_ProvisionerName :: string
  cd_KeyID :: string
  cd_SigningKey :: pubkey
  cd_PublicJWK :: JSONWebKey

record provisionerFile =
  pf_Name :: string
  pf_Type :: string
  pf_Key :: bytes
  pf_EncryptedKey :: string

record ra_http =
  rh_RootCAs :: cert_pool
  rh_Timeout :: duration

record ra_client_config =
  rc_BaseURL :: string
  rc_RootPool :: cert_pool
  rc_Credential :: "ra_credential option"
  rc_HTTPTimeout :: duration

record ra_client =
  rcl_baseURL :: string
  rcl_provisioner :: string
  rcl_keyID :: string
  rcl_signer :: pubkey
  rcl_http :: ra_http

record signResponse =
  sr_Certificate :: string
  sr_CA :: string
  sr_CertChain :: "string list"

record ra_issuer =
  ri_trustDomain :: string
  ri_client :: ra_client

text \<open>
  \<open>jose_ParseEncrypted\<close> yields the method \<^verbatim>\<open>Decrypt\<close> of the JWE; \<open>jose_NewSigner\<close> says whether
  a signer for an algorithm can be made from a key; \<open>ott_Serialize\<close> signs the claims with the
  additional claim \<^verbatim>\<open>sans\<close> under the header \<^verbatim>\<open>kid\<close>.
\<close>

record ralib =
  ra_go :: golib
  ra_os :: oslib
  ra_CommonName :: "certreq \<Rightarrow> string"
  json_provisionerFile :: "bytes \<Rightarrow> provisionerFile option"
  json_JSONWebKey :: "bytes \<Rightarrow> JSONWebKey option"
  jose_ParseEncrypted :: "string \<Rightarrow> string list \<Rightarrow> string list \<Rightarrow> (bytes \<Rightarrow> bytes option) option"
  jose_NewSigner :: "string \<Rightarrow> pubkey \<Rightarrow> bool"
  ott_Serialize :: "nat \<Rightarrow> pubkey \<Rightarrow> string \<Rightarrow> jwt_claims \<Rightarrow> string list \<Rightarrow> string option"
  pem_certificate_request :: "bytes \<Rightarrow> string"
  json_sign :: "(string \<times> string) list \<Rightarrow> bytes option"
  url_JoinPath :: "string \<Rightarrow> string \<Rightarrow> string option"
  http_NewRequest :: "string \<Rightarrow> string \<Rightarrow> bool"
  ra_Do :: "nat \<Rightarrow> ra_http \<Rightarrow> string \<Rightarrow> string \<Rightarrow> http_header \<Rightarrow> bytes \<Rightarrow> http_reply option"
  json_signResponse :: "bytes \<Rightarrow> signResponse option"

section \<open>The credential\<close>

text \<open>
  \<^verbatim>\<open>strings.EqualFold\<close> of a text with an ASCII one: besides the other case, two letters of
  ASCII have a third form, the Kelvin sign and the long s.
\<close>

fun EqualFold :: "string \<Rightarrow> string \<Rightarrow> bool" where
  "EqualFold s [] = (s = [])"
| "EqualFold s (c # t) =
     ((case s of [] \<Rightarrow> False | d # s' \<Rightarrow> ToUpper_ascii d = ToUpper_ascii c \<and> EqualFold s' t) \<or>
      (ToUpper_ascii c = CHR ''K'' \<and> HasPrefix s [CHR 0xE2, CHR 0x84, CHR 0xAA] \<and> EqualFold (drop 3 s) t) \<or>
      (ToUpper_ascii c = CHR ''S'' \<and> HasPrefix s [CHR 0xC5, CHR 0xBF] \<and> EqualFold (drop 2 s) t))"

definition key_algorithms :: "string list" where
  "key_algorithms = [''PBES2-HS256+A128KW'', ''PBES2-HS384+A192KW'', ''PBES2-HS512+A256KW'']"

definition content_encryptions :: "string list" where
  "content_encryptions = [''A128GCM'', ''A192GCM'', ''A256GCM'', ''A128CBC-HS256'', ''A192CBC-HS384'', ''A256CBC-HS512'']"

definition decrypt_key :: "ralib \<Rightarrow> provisionerFile \<Rightarrow> string \<Rightarrow> pubkey result" where
  "decrypt_key R pf password =
     (case jose_ParseEncrypted R (pf_EncryptedKey pf) key_algorithms content_encryptions of
        None \<Rightarrow> Inl [Opaque ''parse encryptedKey JWE'']
      | Some decrypt \<Rightarrow> (case decrypt password of
          None \<Rightarrow> Inl [Opaque ''decrypt private JWK'']
        | Some privBytes \<Rightarrow> (case json_JSONWebKey R privBytes of
            None \<Rightarrow> Inl [Opaque ''parse private JWK'']
          | Some privJWK \<Rightarrow> (case jwk_Key privJWK of
              Other_Key _ \<Rightarrow> Inl [Opaque ''not a crypto.Signer''] | Signing_Key k \<Rightarrow> Inr k))))"

definition LoadCredential :: "ralib \<Rightarrow> CredentialConfig \<Rightarrow> ra_credential result" where
  "LoadCredential R cfg =
     (if cc_ProvisionerFile cfg = [] \<or> cc_PasswordFile cfg = []
      then Inl [Opaque ''ProvisionerFile and PasswordFile are required'']
      else case os_ReadFile (ra_os R) (cc_ProvisionerFile cfg) of
        None \<Rightarrow> Inl [Opaque ''read provisioner file'']
      | Some raw \<Rightarrow> (case json_provisionerFile R raw of
          None \<Rightarrow> Inl [Opaque ''parse provisioner file'']
        | Some pf \<Rightarrow>
            if \<not> EqualFold (pf_Type pf) ''JWK'' then Inl [Opaque ''only JWK is supported'']
            else if pf_EncryptedKey pf = [] then Inl [Opaque ''missing encryptedKey'']
            else (case os_ReadFile (ra_os R) (cc_PasswordFile cfg) of
              None \<Rightarrow> Inl [Opaque ''read password file'']
            | Some pwdRaw \<Rightarrow> (case json_JSONWebKey R (pf_Key pf) of
                None \<Rightarrow> Inl [Opaque ''parse public JWK'']
              | Some pubJWK \<Rightarrow> (case decrypt_key R pf (TrimRight pwdRaw [CHR 0x0D, CHR 0x0A]) of
                  Inl e \<Rightarrow> Inl e
                | Inr signer \<Rightarrow> Inr \<lparr>cd_ProvisionerName = pf_Name pf, cd_KeyID = jwk_KeyID pubJWK,
                    cd_SigningKey = signer, cd_PublicJWK = pubJWK\<rparr>)))))"

section \<open>The client\<close>

definition ra_NewClient :: "ra_client_config \<Rightarrow> ra_client result" where
  "ra_NewClient cfg = (case rc_Credential cfg of
     None \<Rightarrow> Inl [Opaque ''Credential is required'']
   | Some cred \<Rightarrow>
       if rc_BaseURL cfg = [] then Inl [Opaque ''BaseURL is required'']
       else Inr \<lparr>rcl_baseURL = rc_BaseURL cfg, rcl_provisioner = cd_ProvisionerName cred,
         rcl_keyID = cd_KeyID cred, rcl_signer = cd_SigningKey cred,
         rcl_http = \<lparr>rh_RootCAs = rc_RootPool cfg,
           rh_Timeout = (if rc_HTTPTimeout cfg = 0 then 15 * Second else rc_HTTPTimeout cfg)\<rparr>\<rparr>)"

definition ott_claims :: "ra_client \<Rightarrow> string \<Rightarrow> string \<Rightarrow> gotime \<Rightarrow> jwt_claims" where
  "ott_claims c jti subject now = \<lparr>jwt_Issuer = rcl_provisioner c, jwt_Subject = subject,
     jwt_Audience = [rcl_baseURL c @ ''/1.0/sign''], jwt_Expiry = Some (NumericDate (now + 5 * Minute)),
     jwt_NotBefore = Some (NumericDate (now - 30 * Second)), jwt_IssuedAt = Some (NumericDate now),
     jwt_ID = jti, jwt_raw_jti = Some jti\<rparr>"

definition mintOTT :: "ralib \<Rightarrow> ra_client \<Rightarrow> string \<Rightarrow> string \<Rightarrow> string result prog" where
  "mintOTT R c subject spiffeID =
     (if \<not> jose_NewSigner R ''ES256'' (rcl_signer c) then State_Monad.return (Inl [Opaque ''signer''])
      else do {
        now \<leftarrow> time_Now;
        jti \<leftarrow> uuid_New;
        k \<leftarrow> draw_index;
        State_Monad.return (case ott_Serialize R k (rcl_signer c) (rcl_keyID c) (ott_claims c jti subject now) [spiffeID] of
          None \<Rightarrow> Inl [Opaque ''serialize''] | Some ott \<Rightarrow> Inr ott) })"

definition pemToDER :: "oslib \<Rightarrow> string \<Rightarrow> bytes result" where
  "pemToDER L p = (case pem_Decode L p of None \<Rightarrow> Inl [Opaque ''no PEM block''] | Some (_, der, _) \<Rightarrow> Inr der)"

fun pems_to_DER :: "oslib \<Rightarrow> string list \<Rightarrow> bytes list result" where
  "pems_to_DER L [] = Inr []"
| "pems_to_DER L (p # ps) = (case pemToDER L p of
     Inl e \<Rightarrow> Inl e
   | Inr der \<Rightarrow> (case pems_to_DER L ps of Inl e \<Rightarrow> Inl e | Inr out \<Rightarrow> Inr (der # out)))"

definition decodePEMChain :: "oslib \<Rightarrow> string list \<Rightarrow> string \<Rightarrow> string \<Rightarrow> bytes list result" where
  "decodePEMChain L certChain crt ca =
     (if certChain \<noteq> [] then pems_to_DER L certChain
      else if crt = [] then Inl [Opaque ''no crt and no certChain'']
      else case pemToDER L crt of
        Inl e \<Rightarrow> Inl e
      | Inr leafDER \<Rightarrow>
          if ca = [] then Inr [leafDER]
          else (case pemToDER L ca of Inl e \<Rightarrow> Inl e | Inr caDER \<Rightarrow> Inr [leafDER, caDER]))"

text \<open>What \<^verbatim>\<open>Sign\<close> makes of the answer.\<close>

definition signed_chain :: "ralib \<Rightarrow> http_reply \<Rightarrow> (bytes list \<times> gotime) result" where
  "signed_chain R resp =
     (if rp_Status resp \<noteq> 200 \<and> rp_Status resp \<noteq> 201 then Inl [Opaque ''/1.0/sign returned'']
      else case Option.bind (rp_Body resp) (json_signResponse R) of
        None \<Rightarrow> Inl [Opaque ''decode sign response'']
      | Some sr \<Rightarrow> (case decodePEMChain (ra_os R) (sr_CertChain sr) (sr_Certificate sr) (sr_CA sr) of
          Inl e \<Rightarrow> Inl e
        | Inr [] \<Rightarrow> Inl [Opaque ''empty chain in response'']
        | Inr (der # ders) \<Rightarrow> (case ParseCertificate (ra_go R) der of
            None \<Rightarrow> Inl [Opaque ''parse leaf''] | Some leaf \<Rightarrow> Inr (der # ders, cert_NotAfter leaf))))"

definition ra_Sign :: "ralib \<Rightarrow> ra_client \<Rightarrow> issuer" where
  "ra_Sign R c spiffeID csrDER ttl = (case ParseCertificateRequest (ra_go R) csrDER of
     None \<Rightarrow> State_Monad.return (Inl [Opaque ''parse CSR for OTT subject''])
   | Some csr \<Rightarrow> do {
       let ottSubject = (if ra_CommonName R csr = [] then spiffeID else ra_CommonName R csr);
       tok \<leftarrow> mintOTT R c ottSubject spiffeID;
       case tok of
         Inl e \<Rightarrow> State_Monad.return (Inl e)
       | Inr ott \<Rightarrow> do {
           now \<leftarrow> time_Now;
           case json_sign R [(''ott'', ott), (''csr'', pem_certificate_request R csrDER),
                             (''notAfter'', RFC3339 (now + ttl))] of
             None \<Rightarrow> State_Monad.return (Inl [Opaque ''marshal sign request''])
           | Some body \<Rightarrow> (case url_JoinPath R (rcl_baseURL c) ''/1.0/sign'' of
               None \<Rightarrow> State_Monad.return (Inl [Opaque ''join path''])
             | Some endpoint \<Rightarrow>
                 if \<not> http_NewRequest R ''POST'' endpoint then State_Monad.return (Inl [Opaque ''new request''])
                 else do {
                   k \<leftarrow> draw_index;
                   State_Monad.return (case ra_Do R k (rcl_http c) ''POST'' endpoint
                       [(''Content-Type'', ''application/json'')] body of
                     None \<Rightarrow> Inl [Opaque ''POST''] | Some resp \<Rightarrow> signed_chain R resp) }) } })"

section \<open>The issuer\<close>

definition ra_NewIssuer :: "string \<Rightarrow> ra_client option \<Rightarrow> ra_issuer result" where
  "ra_NewIssuer trustDomain client =
     (if trustDomain = [] then Inl [Opaque ''trust_domain is required'']
      else case client of
        None \<Rightarrow> Inl [Opaque ''client is required'']
      | Some c \<Rightarrow> Inr \<lparr>ri_trustDomain = trustDomain, ri_client = c\<rparr>)"

definition ra_supportedPublicKey :: "pubkey \<Rightarrow> unit result" where
  "ra_supportedPublicKey pub = (case pub of
     ECDSA_PublicKey c x y \<Rightarrow> if c \<noteq> P256 then Inl [Opaque ''unsupported EC curve''] else Inr ()
   | RSA_PublicKey n e \<Rightarrow> if BitLen n < 3072 then Inl [Opaque ''RSA key too small''] else Inr ()
   | OtherKey _ \<Rightarrow> Inl [Opaque ''unsupported public key type''])"

definition ra_IssueX509SVID :: "ralib \<Rightarrow> ra_issuer \<Rightarrow> issuer" where
  "ra_IssueX509SVID R i spiffeID csrDER ttl = (case url_Parse (ra_go R) spiffeID of
     None \<Rightarrow> State_Monad.return (Inl [Opaque ''invalid SPIFFE ID''])
   | Some uri \<Rightarrow>
       if url_Scheme uri \<noteq> ''spiffe'' then State_Monad.return (Inl [Opaque ''invalid SPIFFE ID''])
       else if url_Host uri \<noteq> ri_trustDomain i then State_Monad.return (Inl [Opaque ''not in trust domain''])
       else (case ParseCertificateRequest (ra_go R) csrDER of
         None \<Rightarrow> State_Monad.return (Inl [Opaque ''parse CSR''])
       | Some csr \<Rightarrow> (case ra_supportedPublicKey (req_PublicKey csr) of
           Inl e \<Rightarrow> State_Monad.return (Inl e)
         | Inr _ \<Rightarrow>
             if \<not> req_SignatureOK csr then State_Monad.return (Inl [Opaque ''CSR signature invalid''])
             else ra_Sign R (ri_client i) spiffeID csrDER ttl)))"

section \<open>Properties\<close>

text \<open>
  What both issuers ask of a request: a key of a supported kind with its proof of possession,
  and a SPIFFE ID of the trust domain.
\<close>

definition issuable :: "golib \<Rightarrow> string \<Rightarrow> string \<Rightarrow> bytes \<Rightarrow> bool" where
  "issuable G td spiffeID csrDER =
     (case ParseCertificateRequest G csrDER of None \<Rightarrow> False
      | Some csr \<Rightarrow> supportedPublicKey (req_PublicKey csr) = Inr () \<and> req_SignatureOK csr \<and>
         (case url_Parse G spiffeID of None \<Rightarrow> False
          | Some uri \<Rightarrow> url_Scheme uri = ''spiffe'' \<and> url_Host uri = td))"

text \<open>The exchange of one call of \<^verbatim>\<open>Sign\<close>: token, request and answer.\<close>

definition signs ::
    "ralib \<Rightarrow> ra_client \<Rightarrow> string \<Rightarrow> bytes \<Rightarrow> duration \<Rightarrow> mis \<Rightarrow> http_reply \<Rightarrow> bool" where
  "signs R c spiffeID csrDER ttl w resp =
     (let now = clock w (ticks w) in
      \<exists>csr ott body endpoint. ParseCertificateRequest (ra_go R) csrDER = Some csr \<and>
        ott_Serialize R (Suc (draws w)) (rcl_signer c) (rcl_keyID c)
          (ott_claims c (uuids w (draws w)) (if ra_CommonName R csr = [] then spiffeID else ra_CommonName R csr) now)
          [spiffeID] = Some ott \<and>
        json_sign R [(''ott'', ott), (''csr'', pem_certificate_request R csrDER),
          (''notAfter'', RFC3339 (clock w (Suc (ticks w)) + ttl))] = Some body \<and>
        url_JoinPath R (rcl_baseURL c) ''/1.0/sign'' = Some endpoint \<and>
        ra_Do R (Suc (Suc (draws w))) (rcl_http c) ''POST'' endpoint [(''Content-Type'', ''application/json'')] body = Some resp)"

lemma ra_supportedPublicKey_eq: "ra_supportedPublicKey = supportedPublicKey"
  by (simp add: fun_eq_iff ra_supportedPublicKey_def supportedPublicKey_def)

lemma run_mintOTT:
  "run_state (mintOTT R c subject sp) w =
    (if \<not> jose_NewSigner R ''ES256'' (rcl_signer c) then (Inl [Opaque ''signer''], w)
     else (case ott_Serialize R (Suc (draws w)) (rcl_signer c) (rcl_keyID c)
             (ott_claims c (uuids w (draws w)) subject (clock w (ticks w))) [sp] of
             None \<Rightarrow> Inl [Opaque ''serialize''] | Some ott \<Rightarrow> Inr ott,
           w\<lparr>ticks := Suc (ticks w), draws := Suc (Suc (draws w))\<rparr>))"
  by (simp add: mintOTT_def run_simps run_draw_index uuid_New_def)

text \<open>A call of Step CA moves the clock and the random source forward, and nothing else.\<close>

definition moved_on :: "mis \<Rightarrow> mis \<Rightarrow> bool" where
  "moved_on w w' \<longleftrightarrow> ticks w \<le> ticks w' \<and> draws w \<le> draws w' \<and> w'\<lparr>ticks := ticks w, draws := draws w\<rparr> = w"

lemma moved_on_refl: "moved_on w w"
  by (simp add: moved_on_def)

lemma keeps_moved_on:
  "keeps (moved_on w) time_Now" "keeps (moved_on w) uuid_New" "keeps (moved_on w) draw_index"
  by (auto simp: keeps_def run_simps run_draw_index uuid_New_def moved_on_def)

lemma keeps_mintOTT: "keeps (moved_on w) (mintOTT R c subject sp)"
  unfolding mintOTT_def by (intro inv_intros keeps_moved_on)

lemma keeps_ra_Sign: "keeps (moved_on w) (ra_Sign R c sp der ttl)"
  unfolding ra_Sign_def Let_def by (intro inv_intros keeps_moved_on keeps_mintOTT)

lemma keeps_ra_IssueX509SVID: "keeps (moved_on w) (ra_IssueX509SVID R i sp der ttl)"
  unfolding ra_IssueX509SVID_def by (intro inv_intros keeps_ra_Sign)

lemma ra_Sign_Inr:
  assumes "fst (run_state (ra_Sign R c sp der ttl) w) = Inr (chain, na)"
  obtains resp where "signs R c sp der ttl w resp" "signed_chain R resp = Inr (chain, na)"
  using assms
  by (auto simp: ra_Sign_def signs_def run_simps run_mintOTT run_draw_index Let_def split: option.splits if_splits)

lemma pems_to_DER_length: "pems_to_DER L ps = Inr ders \<Longrightarrow> length ders = length ps"
  by (induction ps arbitrary: ders) (auto split: sum.splits)

text \<open>What a chain answered by Step CA is: never empty, and expiring with its leaf.\<close>

lemma signed_chain_Inr:
  "signed_chain R resp = Inr (chain, na) \<Longrightarrow>
    rp_Status resp \<in> {200, 201} \<and>
    (\<exists>der ders leaf. chain = der # ders \<and> ParseCertificate (ra_go R) der = Some leaf \<and> na = cert_NotAfter leaf)"
  by (auto simp: signed_chain_def split: if_splits option.splits sum.splits list.splits)

lemma ra_IssueX509SVID_eq:
  "\<exists>e. run_state (ra_IssueX509SVID R i sp der ttl) w =
    (if issuable (ra_go R) (ri_trustDomain i) sp der then run_state (ra_Sign R (ri_client i) sp der ttl) w else (Inl e, w))"
  by (auto simp: ra_IssueX509SVID_def issuable_def ra_supportedPublicKey_eq run_simps split: option.split sum.split)

lemma ra_IssueX509SVID_env: "moved_on w (snd (run_state (ra_IssueX509SVID R i sp der ttl) w))"
  using keeps_ra_IssueX509SVID moved_on_refl by (rule keepsD)

lemma moved_on_simps:
  "moved_on w w' \<Longrightarrow> tabs w' = tabs w" "moved_on w w' \<Longrightarrow> faults w' = faults w" "moved_on w w' \<Longrightarrow> clock w' = clock w"
  by (cases w; cases w'; auto simp: moved_on_def)+

lemma IssueX509SVID_refused:
  "\<not> issuable G (ii_trustDomain i) sp der \<Longrightarrow> \<exists>e. run_state (IssueX509SVID G i sp der ttl) w = (Inl e, w)"
  by (auto simp: IssueX509SVID_def issuable_def run_simps split: option.split sum.split)

lemma IssueX509SVID_Inr:
  "fst (run_state (IssueX509SVID G i sp der ttl) w) = Inr (chain, na) \<Longrightarrow>
    issuable G (ii_trustDomain i) sp der \<and> na \<le> cert_NotAfter (ii_intermediate i) \<and>
    na \<le> clock w (ticks w) + ttl \<and> (\<exists>leaf. chain = [leaf, cert_Raw (ii_intermediate i)])"
  by (auto simp: IssueX509SVID_def issuable_def run_simps run_Next run_draw_index Let_def
      split: option.splits sum.splits if_splits)

end
