(* ===== verification/MIS_Backend.thy ===== *)
theory MIS_Backend
  imports MIS_StepCA
begin

text \<open>
  The two issuer backends of \<^verbatim>\<open>cmd/mis\<close> and the service over either of them. Both are
  providers of the interface \<open>service_env\<close>: its interpretation at the end carries every lemma of
  the service over to the service that \<^verbatim>\<open>cmd/mis\<close> assembles, whichever backend its flag
  names.
\<close>

datatype issuer_backend = Intermediate IntermediateIssuer | StepCA_RA ralib ra_issuer

definition issuer_of :: "golib \<Rightarrow> issuer_backend \<Rightarrow> issuer" where
  "issuer_of G b = (case b of Intermediate i \<Rightarrow> IssueX509SVID G i | StepCA_RA R i \<Rightarrow> ra_IssueX509SVID R i)"

text \<open>The service as \<^verbatim>\<open>cmd/mis\<close> assembles it: this issuer, this store's tickets.\<close>

definition NewService :: "golib \<Rightarrow> issuer_backend \<Rightarrow> StaticPolicy \<Rightarrow> string \<Rightarrow> duration \<Rightarrow> Service" where
  "NewService G b policy trustDomain svidTTL =
     \<lparr>svc_issuer = issuer_of G b, svc_policy = policy,
      svc_replacement = ReplacementTickets_Validate G, svc_trustDomain = trustDomain,
      svc_svidTTL = svidTTL\<rparr>"

section \<open>Choosing the backend\<close>

text \<open>
  The flags of the command by name. A path that is not given is under one of the two
  directories.
\<close>

record cli_flags =
  cmd_String :: "string \<Rightarrow> string"
  cmd_StringSlice :: "string \<Rightarrow> string list"
  cmd_Bool :: "string \<Rightarrow> bool"
  cmd_Int :: "string \<Rightarrow> int"
  cmd_Duration :: "string \<Rightarrow> duration"

text \<open>
  The values of \<^verbatim>\<open>main\<close> for flags that are not given, by the name of the command; a flag
  that is not listed has the zero value of its type.
\<close>

definition flag_defaults :: "string \<Rightarrow> cli_flags" where
  "flag_defaults command =
     \<lparr>cmd_String = (\<lambda>f. case map_of
        [(''data-dir'', ''/var/lib/mis''), (''etc-dir'', ''/etc/mis''), (''trust-domain'', ''margo.example.com''),
         (''bind-address'', ''0.0.0.0:8443''), (''advertise-url'', ''https://localhost:8443''),
         (''issuer-backend'', ''intermediate''), (''stepca-url'', ''https://step-ca:9000''),
         (''stepca-provisioner-name'', ''margo-mis''), (''admin-bind-address'', ''127.0.0.1:8445''),
         (''admin-url'', ''http://127.0.0.1:8445'')] f of None \<Rightarrow> [] | Some v \<Rightarrow> v),
      cmd_StringSlice = (\<lambda>f. []),
      cmd_Bool = (\<lambda>f. f = ''allow-new-enrollment'' \<or> f = ''allow-key-rotation''),
      cmd_Int = (\<lambda>f. if f = ''renewal-rate-limit'' then 5 else 0),
      cmd_Duration = (\<lambda>f. case map_of
        [(''bootstrap-jwt-clock-skew'', 30 * Second), (''enrollment-token-retry-window'', 5 * Minute),
         (''svid-ttl'', 90 * 24 * Hour), (''renewal-rate-window'', 24 * Hour), (''jwtsvid-default-ttl'', 5 * Minute),
         (''jwtsvid-max-ttl'', Hour), (''jwtsvid-clock-skew'', 30 * Second), (''revocation-prune-interval'', Hour),
         (''enrollment-token-default-ttl'', Hour),
         (''ttl'', if command = ''generate-replacement-ticket'' then Hour else 0)] f of None \<Rightarrow> 0 | Some v \<Rightarrow> v)\<rparr>"

record resolvedPaths =
  rp_dbFile :: string
  rp_tlsCertFile :: string
  rp_tlsKeyFile :: string
  rp_caTrustAnchorFile :: string
  rp_caIntermediateCert :: string
  rp_caIntermediateKey :: string
  rp_jwtsvidKeyFile :: string
  rp_stepCAProvFile :: string
  rp_stepCAPassFile :: string
  rp_factoryCaFiles :: "string list"

definition pick_path :: "cli_flags \<Rightarrow> string \<Rightarrow> string \<Rightarrow> string \<Rightarrow> string" where
  "pick_path cmd flag rel base = (if cmd_String cmd flag \<noteq> [] then cmd_String cmd flag else filepath_Join base rel)"

definition resolvePaths :: "cli_flags \<Rightarrow> resolvedPaths" where
  "resolvePaths cmd =
     (let dataDir = cmd_String cmd ''data-dir''; etcDir = cmd_String cmd ''etc-dir'';
          files = cmd_StringSlice cmd ''factory-ca-file'' in
      \<lparr>rp_dbFile = pick_path cmd ''db-file'' ''mis.sqlite3'' dataDir,
       rp_tlsCertFile = pick_path cmd ''tls-cert-file'' ''tls/server.crt'' etcDir,
       rp_tlsKeyFile = pick_path cmd ''tls-key-file'' ''tls/server.key'' etcDir,
       rp_caTrustAnchorFile = pick_path cmd ''ca-trust-anchor-file'' ''ca/root.crt'' etcDir,
       rp_caIntermediateCert = pick_path cmd ''ca-intermediate-cert-file'' ''ca/mis-intermediate.crt'' etcDir,
       rp_caIntermediateKey = pick_path cmd ''ca-intermediate-key-file'' ''ca/mis-intermediate.key'' etcDir,
       rp_jwtsvidKeyFile = pick_path cmd ''jwtsvid-key-file'' ''jwtsvid/jwtsvid.key'' etcDir,
       rp_stepCAProvFile = pick_path cmd ''stepca-provisioner-file'' ''stepca/provisioner.json'' etcDir,
       rp_stepCAPassFile = pick_path cmd ''stepca-password-file'' ''stepca/password'' etcDir,
       rp_factoryCaFiles = (if files = [] then [filepath_Join etcDir ''factory/root.crt''] else files)\<rparr>)"

text \<open>
  \<open>pool_certs\<close> stands for \<^verbatim>\<open>AppendCertsFromPEM\<close>: the certificates it finds in a file,
  without a report when there is none.
\<close>

fun buildCombinedPool :: "oslib \<Rightarrow> (bytes \<Rightarrow> cert_pool) \<Rightarrow> string list \<Rightarrow> cert_pool result" where
  "buildCombinedPool L pool_certs [] = Inr []"
| "buildCombinedPool L pool_certs (f # fs) = (case os_ReadFile L f of
     None \<Rightarrow> Inl [Opaque ''read'']
   | Some b \<Rightarrow>
       if pool_certs b = [] then Inl [Opaque ''no PEM certificates'']
       else (case buildCombinedPool L pool_certs fs of
         Inl e \<Rightarrow> Inl e | Inr certs \<Rightarrow> Inr (pool_certs b @ certs)))"

definition choose_issuer ::
    "golib \<Rightarrow> ralib \<Rightarrow> (bytes \<Rightarrow> cert_pool) \<Rightarrow> cli_flags \<Rightarrow> resolvedPaths \<Rightarrow> issuer_backend result" where
  "choose_issuer G R pool_certs cmd paths =
     (let trustDomain = cmd_String cmd ''trust-domain''; backend = cmd_String cmd ''issuer-backend'' in
      if backend = ''intermediate'' then
        (case NewIntermediateIssuer G (ra_os R) \<lparr>CA_TrustDomain = trustDomain,
             CA_CertFile = rp_caIntermediateCert paths, CA_KeyFile = rp_caIntermediateKey paths\<rparr> of
           Inl e \<Rightarrow> Inl e | Inr i \<Rightarrow> Inr (Intermediate i))
      else if backend = ''stepca-ra'' then
        (case LoadCredential R \<lparr>cc_ProvisionerFile = rp_stepCAProvFile paths, cc_PasswordFile = rp_stepCAPassFile paths\<rparr> of
           Inl e \<Rightarrow> Inl e
         | Inr cred \<Rightarrow> (case buildCombinedPool (ra_os R) pool_certs [rp_caTrustAnchorFile paths] of
             Inl e \<Rightarrow> Inl e
           | Inr rootPool \<Rightarrow> (case ra_NewClient \<lparr>rc_BaseURL = cmd_String cmd ''stepca-url'', rc_RootPool = rootPool,
                 rc_Credential = Some cred, rc_HTTPTimeout = 0\<rparr> of
               Inl e \<Rightarrow> Inl e
             | Inr raClient \<Rightarrow> (case ra_NewIssuer trustDomain (Some raClient) of
                 Inl e \<Rightarrow> Inl e | Inr i \<Rightarrow> Inr (StepCA_RA R i)))))
      else Inl [Opaque ''unknown --issuer-backend''])"

section \<open>Properties\<close>

definition backend_trust_domain :: "issuer_backend \<Rightarrow> string" where
  "backend_trust_domain b = (case b of Intermediate i \<Rightarrow> ii_trustDomain i | StepCA_RA R i \<Rightarrow> ri_trustDomain i)"

definition backend_lib :: "golib \<Rightarrow> issuer_backend \<Rightarrow> golib" where
  "backend_lib G b = (case b of Intermediate i \<Rightarrow> G | StepCA_RA R i \<Rightarrow> ra_go R)"

lemma backend_refuses:
  assumes "\<not> issuable (backend_lib G b) (backend_trust_domain b) sp der"
  shows "\<exists>e. run_state (issuer_of G b sp der ttl) w = (Inl e, w)"
proof (cases b)
  case (Intermediate i)
  with assms show ?thesis
    by (simp add: issuer_of_def backend_lib_def backend_trust_domain_def IssueX509SVID_refused)
next
  case (StepCA_RA R i)
  obtain e where "run_state (ra_IssueX509SVID R i sp der ttl) w =
    (if issuable (ra_go R) (ri_trustDomain i) sp der then run_state (ra_Sign R (ri_client i) sp der ttl) w else (Inl e, w))"
    using ra_IssueX509SVID_eq by blast
  with assms StepCA_RA show ?thesis by (simp add: issuer_of_def backend_lib_def backend_trust_domain_def)
qed

lemma choose_issuer_trust_domain:
  "choose_issuer G R pool cmd paths = Inr b \<Longrightarrow> backend_trust_domain b = cmd_String cmd ''trust-domain'' \<and>
    cmd_String cmd ''trust-domain'' \<noteq> []"
  by (auto simp: choose_issuer_def Let_def backend_trust_domain_def NewIntermediateIssuer_def ra_NewIssuer_def
      split: if_splits sum.splits prod.splits)

lemma issuer_of_env:
  "tabs (snd (run_state (issuer_of G b sp der ttl) w)) = tabs w \<and>
   faults (snd (run_state (issuer_of G b sp der ttl) w)) = faults w \<and>
   clock (snd (run_state (issuer_of G b sp der ttl) w)) = clock w"
  by (cases b) (simp_all add: issuer_of_def IssueX509SVID_env moved_on_simps [OF ra_IssueX509SVID_env])

lemma keeps_ReplacementTickets_Validate:
  "(\<And>h at t. J t \<Longrightarrow> J (snd (consume_ticket h at t))) \<Longrightarrow>
    keeps (\<lambda>w. J (tabs w)) (ReplacementTickets_Validate G tk now)"
  unfolding ReplacementTickets_Validate_def
  by (intro keeps_sql_tx inv_intros keeps_sql; assumption)

interpretation mis: service_env "NewService G b policy td ttl" for G b policy td ttl
  by unfold_locales
    (simp_all add: NewService_def issuer_of_env keeps_ReplacementTickets_Validate)

interpretation mis_store: service_keeps "NewService G b policy td ttl" store_inv for G b policy td ttl ..
interpretation mis_esi_bound: service_keeps "NewService G b policy td ttl" "esi_bound esi u" for G b policy td ttl esi u ..
interpretation mis_esi_retired: service_keeps "NewService G b policy td ttl" "esi_retired esi" for G b policy td ttl esi ..
interpretation mis_spiffe_ended: service_keeps "NewService G b policy td ttl" "spiffe_ended sp" for G b policy td ttl sp ..
interpretation mis_revoked: service_keeps "NewService G b policy td ttl" "on_revocation_list ser" for G b policy td ttl ser ..

end
