(* ===== verification/MIS_Flows.thy ===== *)
theory MIS_Flows
  imports MIS_Backend
begin

text \<open>
  What the flows of the identity service do: a successful enrollment leaves the presented ESI
  actively bound to the answered, active LDI and the issued leaf in the audit; a retired ESI,
  a spurious replacement and an ended LDI are refused without a change; a successful revocation
  leaves no outstanding SVID. Statements that mention no schedule hold under every schedule of
  database failures.
\<close>

section \<open>Shared steps\<close>

definition sans_svids :: "tables \<Rightarrow> tables" where
  "sans_svids t = t\<lparr>issued_svids := [], revoked_svids := []\<rparr>"

lemma sans_svids_stmts [simp]:
  "sans_svids (snd (mark_revoked ser at t)) = sans_svids t"
  "sans_svids (snd (insert_revoked q t)) = sans_svids t"
  "sans_svids (snd (upsert_svid r t)) = sans_svids t"
  by (auto simp: sans_svids_def mark_revoked_def insert_revoked_def upsert_svid_def)

lemma sans_svids_tables:
  assumes "sans_svids t = sans_svids u"
  shows "ldis t = ldis u" "esi_bindings t = esi_bindings u" "replacement_tickets t = replacement_tickets u"
    "enrollment_tokens t = enrollment_tokens u" "issued_jwt_svids t = issued_jwt_svids u"
  using assms [THEN arg_cong, of ldis] assms [THEN arg_cong, of esi_bindings]
    assms [THEN arg_cong, of replacement_tickets] assms [THEN arg_cong, of enrollment_tokens]
    assms [THEN arg_cong, of issued_jwt_svids]
  by (simp_all add: sans_svids_def)

interpretation sans: revocation_invariant "\<lambda>t. sans_svids t = x" for x
  by unfold_locales simp_all

lemma revokeActivePriors_sans:
  "sans_svids (tabs (snd (run_state (revokeActivePriors sp reason) w))) = sans_svids (tabs w)"
  using sans.keeps_revokeActivePriors by (simp add: keeps_def)

definition issued_row :: "golib \<Rightarrow> LDI \<Rightarrow> bytes \<Rightarrow> certificate \<Rightarrow> string \<Rightarrow> gotime \<Rightarrow> gotime \<Rightarrow> svid_row" where
  "issued_row G ldi der leaf m issuedAt na =
     \<lparr>s_serial_hex = ToUpper (int_text16 (cert_SerialNumber leaf)),
      s_fingerprint_hex = hex_EncodeToString (sha256 G der), s_spiffe_id = LDI_SPIFFEID ldi,
      s_ldi_uuid = LDI_UUID ldi, s_method = m, s_issued_at = RFC3339Nano issuedAt,
      s_not_before = RFC3339Nano (cert_NotBefore leaf), s_not_after = RFC3339Nano na,
      s_revoked = False, s_revoked_at = None, s_leaf_der = der\<rparr>"

lemma recordIssuance_sans:
  "sans_svids (tabs (snd (run_state (recordIssuance G ldi chain m na) w))) = sans_svids (tabs w)"
  by (auto simp: recordIssuance_def IssuedSVIDs_Record_def run_simps split: list.split option.split)

lemma recordIssuance_Inr:
  assumes "run_state (recordIssuance G ldi chain m na) w = (Inr (), w')"
  obtains der rest leaf where "chain = der # rest" "ParseCertificate G der = Some leaf"
    "fst (upsert_svid (issued_row G ldi der leaf m (clock w (ticks w)) na) (tabs w)) = Inr ()"
    "tabs w' = snd (upsert_svid (issued_row G ldi der leaf m (clock w (ticks w)) na) (tabs w))"
  using assms
  by (auto simp: recordIssuance_def IssuedSVIDs_Record_def run_simps svid_row_of_def issued_row_def
      IsZero_def split: list.splits option.splits if_splits)

lemma upsert_svid_rows:
  assumes "fst (upsert_svid r t) = Inr ()"
  shows "r \<in> set (issued_svids (snd (upsert_svid r t)))"
    "set (issued_svids (snd (upsert_svid r t))) \<subseteq> insert r (set (issued_svids t))"
    "s_ldi_uuid r \<in> l_uuid ` set (ldis t)"
  using assms by (auto simp: upsert_svid_def set_update_where split: if_splits)

lemma upsert_svid_subset: "set (issued_svids (snd (upsert_svid r t))) \<subseteq> insert r (set (issued_svids t))"
  by (auto simp: upsert_svid_def set_update_where)

text \<open>The audit holds the leaf answered to the device, not revoked.\<close>

definition audited :: "EnrollmentResult \<Rightarrow> string \<Rightarrow> tables \<Rightarrow> bool" where
  "audited res m t \<longleftrightarrow> (\<exists>r\<in>set (issued_svids t). ER_CertChainDER res \<noteq> [] \<and>
     s_leaf_der r = hd (ER_CertChainDER res) \<and> s_spiffe_id r = LDI_SPIFFEID (ER_LDI res) \<and>
     s_ldi_uuid r = LDI_UUID (ER_LDI res) \<and> s_method r = m \<and> \<not> s_revoked r \<and>
     s_not_after r = RFC3339Nano (ER_ExpiresAt res))"

context service_env
begin

lemma issue_for_sans: "sans_svids (tabs (snd (run_state (issue_for G S code ldi p m) w))) = sans_svids (tabs w)"
proof -
  obtain r w1 where i: "run_state (svc_issuer S (LDI_SPIFFEID ldi) (CSR_DER p) (svc_svidTTL S)) w = (r, w1)"
    by force
  have t: "tabs w1 = tabs w" using issuer_tabs [of "LDI_SPIFFEID ldi" "CSR_DER p" "svc_svidTTL S" w] i by simp
  have "sans_svids (tabs (snd (run_state (recordIssuance G ldi c m na) w1))) = sans_svids (tabs w)" for c na
    using recordIssuance_sans [of G ldi c m na w1] t by simp
  then show ?thesis using i t
    by (auto simp: issue_for_def split: sum.splits prod.splits) (metis snd_conv)+
qed

lemma issue_for_Inr:
  assumes "run_state (issue_for G S code ldi p m) w = (Inr res, w')"
  shows "ER_StatusCode res = code" "ER_LDI res = ldi" "audited res m (tabs w')"
proof -
  obtain r w1 where i: "run_state (svc_issuer S (LDI_SPIFFEID ldi) (CSR_DER p) (svc_svidTTL S)) w = (r, w1)"
    by force
  obtain chain na w2 where r: "r = Inr (chain, na)" and a: "run_state (recordIssuance G ldi chain m na) w1 = (Inr (), w')"
    and res: "res = \<lparr>ER_StatusCode = code, ER_LDI = ldi, ER_CertChainDER = chain, ER_ExpiresAt = na\<rparr>"
    using assms i by (auto simp: issue_for_def split: sum.splits prod.splits)
  obtain der rest leaf where c: "chain = der # rest"
    and ok: "fst (upsert_svid (issued_row G ldi der leaf m (clock w1 (ticks w1)) na) (tabs w1)) = Inr ()"
    and t: "tabs w' = snd (upsert_svid (issued_row G ldi der leaf m (clock w1 (ticks w1)) na) (tabs w1))"
    by (rule recordIssuance_Inr [OF a]) blast
  show "ER_StatusCode res = code" "ER_LDI res = ldi" by (simp_all add: res)
  show "audited res m (tabs w')" unfolding audited_def t
    by (rule bexI [OF _ upsert_svid_rows(1) [OF ok]]) (simp add: res c issued_row_def)
qed

end

section \<open>Enrollment\<close>

definition enrolled :: "bytes \<Rightarrow> LDI \<Rightarrow> tables \<Rightarrow> bool" where
  "enrolled esi ldi t \<longleftrightarrow>
     (\<exists>b\<in>set (esi_bindings t). b_esi b = esi \<and> b_ldi_uuid b = LDI_UUID ldi \<and> b_status b = ''active'') \<and>
     (\<exists>l\<in>set (ldis t). l_uuid l = LDI_UUID ldi \<and> l_spiffe_id l = LDI_SPIFFEID ldi \<and> l_status l = ''active'')"

lemma enrolled_sans: "sans_svids t = sans_svids u \<Longrightarrow> enrolled esi ldi t = enrolled esi ldi u"
  by (simp add: enrolled_def sans_svids_tables [of t u])

lemma scan_ldi_simps [simp]:
  "LDI_UUID (scan_ldi l) = l_uuid l" "LDI_SPIFFEID (scan_ldi l) = l_spiffe_id l" "LDI_Status (scan_ldi l) = l_status l"
  by (simp_all add: scan_ldi_def)

lemma scan_binding_simps [simp]:
  "EB_Status (scan_binding b) = b_status b" "EB_LDIUUID (scan_binding b) = b_ldi_uuid b" "EB_ESI (scan_binding b) = b_esi b"
  by (simp_all add: scan_binding_def)

lemma esi_join_iff:
  "(b, l) \<in> set (esi_join esi t) \<longleftrightarrow>
    b \<in> set (esi_bindings t) \<and> b_esi b = esi \<and> l \<in> set (ldis t) \<and> l_uuid l = b_ldi_uuid b"
  by (auto simp: esi_join_def)

lemma LookupByESI_Inr:
  assumes "run_state (LookupByESI esi) w = (Inr (b, l), w')"
  obtains br lr where "b = scan_binding br" "l = scan_ldi lr" "br \<in> set (esi_bindings (tabs w))" "b_esi br = esi"
    "lr \<in> set (ldis (tabs w))" "l_uuid lr = b_ldi_uuid br" "tabs w' = tabs w"
proof -
  from assms obtain br lr where *: "first_row (esi_join esi (tabs w)) = Some (br, lr)" "b = scan_binding br" "l = scan_ldi lr"
    "tabs w' = tabs w"
    by (auto simp: run_LookupByESI split: if_splits option.splits)
  from first_row_Some_in [OF *(1)] * show ?thesis by (auto simp: esi_join_iff intro: that)
qed

lemma CreateLDIAndBind_enrolled:
  "run_state (CreateLDIAndBind esi m td) w = (Inr ldi, w') \<Longrightarrow> enrolled esi ldi (tabs w')"
  by (erule CreateLDIAndBind_Inr) (auto simp: enrolled_def new_binding_row_def new_ldi_row_def)

lemma GetLDI_Inr:
  assumes "run_state (GetLDI u) w = (Inr l, w')"
  obtains lr where "l = scan_ldi lr" "lr \<in> set (ldis (tabs w))" "l_uuid lr = u" "tabs w' = tabs w"
proof -
  from assms obtain lr where *: "first_row (filter (\<lambda>l. l_uuid l = u) (ldis (tabs w))) = Some lr" "l = scan_ldi lr" "tabs w' = tabs w"
    by (auto simp: run_GetLDI split: if_splits option.splits)
  from first_row_Some_in [OF *(1)] * show ?thesis by (auto intro: that)
qed

lemma GetLDIBySPIFFEID_Inr:
  assumes "run_state (GetLDIBySPIFFEID sp) w = (Inr l, w')"
  obtains lr where "l = scan_ldi lr" "lr \<in> set (ldis (tabs w))" "l_spiffe_id lr = sp" "tabs w' = tabs w"
proof -
  from assms obtain lr where *: "first_row (filter (\<lambda>l. l_spiffe_id l = sp) (ldis (tabs w))) = Some lr" "l = scan_ldi lr" "tabs w' = tabs w"
    by (auto simp: run_GetLDIBySPIFFEID split: if_splits option.splits)
  from first_row_Some_in [OF *(1)] * show ?thesis by (auto intro: that)
qed

lemma Rebind_enrolled:
  assumes run: "run_state (Rebind (l_uuid lr) esi m) w = (Inr b, w')"
    and l: "lr \<in> set (ldis (tabs w))" "l_status lr = ''active''"
  shows "enrolled esi (scan_ldi lr) (tabs w')"
  using run
proof (rule Rebind_Inr)
  fix now
  assume ld: "ldis (tabs w') = update_where (\<lambda>l. l_uuid l = l_uuid lr) (\<lambda>l. l\<lparr>l_updated_at := RFC3339Nano now\<rparr>) (ldis (tabs w))"
    and bd: "esi_bindings (tabs w') = update_where (\<lambda>b. b_ldi_uuid b = l_uuid lr \<and> b_status b = ''active'')
       (\<lambda>b. b\<lparr>b_status := ''retired'', b_retired_at := Some (RFC3339Nano now)\<rparr>) (esi_bindings (tabs w)) @
       [new_binding_row esi (l_uuid lr) m now]"
  have "\<exists>l\<in>set (ldis (tabs w')). l_uuid l = l_uuid lr \<and> l_spiffe_id l = l_spiffe_id lr \<and> l_status l = ''active''"
    unfolding ld bex_update_where using l by (intro bexI [of _ lr]) simp_all
  then show ?thesis by (simp add: enrolled_def bd new_binding_row_def)
qed

context service_env
begin

lemma handleInitial_sound:
  assumes "run_state (handleInitial G S vb p) w = (Inr res, w')"
  shows "ER_StatusCode res = 201 \<and> enrolled (VB_ESI vb) (ER_LDI res) (tabs w') \<and> audited res (VB_Method vb) (tabs w')"
proof -
  obtain c w1 where c: "run_state (CreateLDIAndBind (VB_ESI vb) (VB_Method vb) (svc_trustDomain S)) w = (c, w1)"
    by force
  then obtain ldi where ldi: "c = Inr ldi" and i: "run_state (issue_for G S 201 ldi p (VB_Method vb)) w1 = (Inr res, w')"
    using assms by (cases c) (auto simp: handleInitial_def split: if_splits)
  have "enrolled (VB_ESI vb) ldi (tabs w1)" by (rule CreateLDIAndBind_enrolled) (use c ldi in simp)
  moreover have "sans_svids (tabs w') = sans_svids (tabs w1)"
    using issue_for_sans [of G 201 ldi p "VB_Method vb" w1] i by simp
  ultimately have "enrolled (VB_ESI vb) ldi (tabs w')" using enrolled_sans by blast
  with issue_for_Inr [OF i] show ?thesis by simp
qed

lemma handleReEnrollment_Inr:
  assumes "run_state (handleReEnrollment G S ldi p m) w = (Inr res, w')"
  shows "LDI_Status ldi = ''active'' \<and> ER_StatusCode res = 200 \<and> ER_LDI res = ldi \<and> audited res m (tabs w') \<and>
    sans_svids (tabs w') = sans_svids (tabs w)"
proof -
  let ?w1 = "w\<lparr>ticks := Suc (ticks w)\<rparr>"
  obtain c w2 where c: "run_state (LeafByActiveSPIFFEID (LDI_SPIFFEID ldi) (clock w (ticks w))) ?w1 = (c, w2)" by force
  have t2: "tabs w2 = tabs w" using c by (auto simp: run_LeafByActiveSPIFFEID)
  obtain v w3 where v: "run_state (revokeActivePriors (LDI_SPIFFEID ldi) ''re-enrollment'') w2 = (v, w3)"
    by (metis surj_pair)
  have t3: "sans_svids (tabs w3) = sans_svids (tabs w)"
    using revokeActivePriors_sans [of "LDI_SPIFFEID ldi" "''re-enrollment''" w2] v t2 by simp
  have st: "LDI_Status ldi = ''active''" and i: "run_state (issue_for G S 200 ldi p m) w3 = (Inr res, w')"
    using assms c v
    by (auto simp: handleReEnrollment_def run_simps Let_def LDIStatusActive_def split: if_splits sum.splits)
  show ?thesis using issue_for_Inr [OF i] issue_for_sans [of G 200 ldi p m w3] i st t3 by simp
qed

lemma validate_frame:
  assumes "run_state (svc_replacement S tk now) w = (r, w')"
  shows "ldis (tabs w') = ldis (tabs w)" "esi_bindings (tabs w') = esi_bindings (tabs w)"
    "issued_svids (tabs w') = issued_svids (tabs w)" "revoked_svids (tabs w') = revoked_svids (tabs w)"
proof -
  have "keeps (\<lambda>v. (\<lambda>t. ldis t = ldis (tabs w) \<and> esi_bindings t = esi_bindings (tabs w) \<and>
      issued_svids t = issued_svids (tabs w) \<and> revoked_svids t = revoked_svids (tabs w)) (tabs v))
      (svc_replacement S tk now)"
    by (rule validate_keeps) (simp add: consume_ticket_def)
  from keepsD' [OF this assms] show "ldis (tabs w') = ldis (tabs w)" "esi_bindings (tabs w') = esi_bindings (tabs w)"
    "issued_svids (tabs w') = issued_svids (tabs w)" "revoked_svids (tabs w') = revoked_svids (tabs w)"
    by simp_all
qed

lemma handleReplacement_Inr:
  assumes "run_state (handleReplacement G S vb p ra) w = (Inr res, w')"
  obtains u w1 lr b w3 where "RA_Method ra = ReplacementAuthMethodOperatorTicket"
    "run_state (svc_replacement S (RA_Ticket ra) (clock w (ticks w))) (w\<lparr>ticks := Suc (ticks w)\<rparr>) = (Inr u, w1)"
    "lr \<in> set (ldis (tabs w))" "l_uuid lr = u" "l_status lr = ''active''"
    "enrolled (VB_ESI vb) (scan_ldi lr) (tabs w')" "ER_LDI res = scan_ldi lr"
    "ER_StatusCode res = 200" "audited res (VB_Method vb) (tabs w')"
    "run_state (Rebind u (VB_ESI vb) (VB_Method vb)) (w1\<lparr>stmts := Suc (stmts w1)\<rparr>) = (Inr b, w3)"
    "sans_svids (tabs w') = sans_svids (tabs w3)"
proof -
  obtain v w1 where v: "run_state (svc_replacement S (RA_Ticket ra) (clock w (ticks w))) (w\<lparr>ticks := Suc (ticks w)\<rparr>) = (v, w1)"
    by (metis surj_pair)
  have me: "RA_Method ra = ReplacementAuthMethodOperatorTicket" using assms by (auto simp: handleReplacement_def split: if_splits)
  obtain u where u: "v = Inr u" using assms me v by (cases v) (auto simp: handleReplacement_def run_simps)
  obtain g w2 where g: "run_state (GetLDI u) w1 = (g, w2)" by (metis surj_pair)
  obtain ldi where ldi: "g = Inr ldi"
    using assms me v u g by (cases g) (auto simp: handleReplacement_def run_simps split: if_splits)
  obtain lr where lr: "ldi = scan_ldi lr" "lr \<in> set (ldis (tabs w1))" "l_uuid lr = u" "tabs w2 = tabs w1"
    using g ldi GetLDI_Inr by metis
  have w2: "w2 = w1\<lparr>stmts := Suc (stmts w1)\<rparr>" using g by (simp add: run_GetLDI)
  have act: "l_status lr = ''active''"
    using assms me v u g ldi lr(1) by (auto simp: handleReplacement_def run_simps LDIStatusActive_def split: if_splits)
  obtain b w3 where b: "run_state (Rebind u (VB_ESI vb) (VB_Method vb)) w2 = (b, w3)" by (metis surj_pair)
  obtain b' where b': "b = Inr b'"
    using assms me v u g ldi lr(1,3) act b by (cases b) (auto simp: handleReplacement_def run_simps LDIStatusActive_def)
  obtain q w4 where q: "run_state (revokeActivePriors (l_spiffe_id lr) ''replacement'') w3 = (q, w4)" by (metis surj_pair)
  have i: "run_state (issue_for G S 200 ldi p (VB_Method vb)) w4 = (Inr res, w')"
    using assms me v u g ldi lr(1,3) act b b' q by (simp add: handleReplacement_def run_simps LDIStatusActive_def)
  have lr0: "lr \<in> set (ldis (tabs w))" using lr(2) validate_frame [OF v] by simp
  have "enrolled (VB_ESI vb) (scan_ldi lr) (tabs w3)"
    by (rule Rebind_enrolled [where w = w2 and m = "VB_Method vb" and b = b']) (use b b' lr act in simp_all)
  moreover have same: "sans_svids (tabs w') = sans_svids (tabs w3)"
    using issue_for_sans [of G 200 ldi p "VB_Method vb" w4] revokeActivePriors_sans [of "l_spiffe_id lr" "''replacement''" w3] i q
    by simp
  ultimately have "enrolled (VB_ESI vb) (scan_ldi lr) (tabs w')" using enrolled_sans by blast
  with issue_for_Inr [OF i] me v u lr0 lr(1,3) act b b' w2 same show ?thesis by (intro that) simp_all
qed

theorem Enroll_sound:
  assumes "run_state (Enroll G S vb p repl) w = (Inr res, w')"
  shows "enrolled (VB_ESI vb) (ER_LDI res) (tabs w') \<and> audited res (VB_Method vb) (tabs w') \<and>
    ER_StatusCode res = (if \<exists>b l. (b, l) \<in> set (esi_join (VB_ESI vb) (tabs w)) then 200
                         else if repl = None then 201 else 200)"
proof -
  obtain k w1 where k: "run_state (LookupByESI (VB_ESI vb)) w = (k, w1)" by (metis surj_pair)
  show ?thesis
  proof (cases k)
    case (Inl e)
    then have none: "esi_join (VB_ESI vb) (tabs w) = []"
      using k assms by (auto simp: Enroll_def run_LookupByESI split: if_splits option.splits)
    show ?thesis
    proof (cases repl)
      case None
      then have "run_state (handleInitial G S vb p) w1 = (Inr res, w')"
        using assms k Inl by (auto simp: Enroll_def split: if_splits)
      from handleInitial_sound [OF this] None none show ?thesis by simp
    next
      case (Some ra)
      have "run_state (handleReplacement G S vb p ra) w1 = (Inr res, w')"
        using assms k Inl Some by (auto simp: Enroll_def split: if_splits)
      then show ?thesis by (rule handleReplacement_Inr) (simp add: Some none)
    qed
  next
    case (Inr x)
    obtain br lr where x: "x = (scan_binding br, scan_ldi lr)" and br: "br \<in> set (esi_bindings (tabs w))" "b_esi br = VB_ESI vb"
      and lr: "lr \<in> set (ldis (tabs w))" "l_uuid lr = b_ldi_uuid br" and t: "tabs w1 = tabs w"
      using k Inr LookupByESI_Inr by (metis surj_pair)
    have some: "\<exists>b l. (b, l) \<in> set (esi_join (VB_ESI vb) (tabs w))" using br lr esi_join_iff by blast
    have st: "b_status br = ''active''" "repl = None"
      and h: "run_state (handleReEnrollment G S (scan_ldi lr) p (VB_Method vb)) w1 = (Inr res, w')"
      using assms k Inr x by (auto simp: Enroll_def ESIBindingActive_def split: if_splits option.splits)
    have "enrolled (VB_ESI vb) (scan_ldi lr) (tabs w)"
      using br lr st handleReEnrollment_Inr [OF h] by (auto simp: enrolled_def)
    then have "enrolled (VB_ESI vb) (scan_ldi lr) (tabs w')"
      using enrolled_sans handleReEnrollment_Inr [OF h] t by (metis (no_types))
    with handleReEnrollment_Inr [OF h] some show ?thesis by simp
  qed
qed

end

section \<open>Refusals\<close>

text \<open>The binding a lookup finds is the only one of its ESI.\<close>

lemma LookupByESI_unique:
  assumes inv: "store_inv (tabs w)" and run: "run_state (LookupByESI esi) w = (Inr (b, l), w')"
    and c: "c \<in> set (esi_bindings (tabs w))" "b_esi c = esi"
  shows "b = scan_binding c \<and> tabs w' = tabs w"
proof -
  obtain br where "b = scan_binding br" "br \<in> set (esi_bindings (tabs w))" "b_esi br = esi" "tabs w' = tabs w"
    by (rule LookupByESI_Inr [OF run]) blast
  moreover have "distinct (map b_esi (esi_bindings (tabs w)))"
    using inv by (simp add: store_inv_def identities_inv_def)
  ultimately show ?thesis using distinct_map_eq c by metis
qed

lemma LookupByESI_bound:
  assumes inv: "store_inv (tabs w)" and run: "run_state (LookupByESI esi) w = (k, w')"
    and c: "c \<in> set (esi_bindings (tabs w))" "b_esi c = esi"
  shows "tabs w' = tabs w \<and> (k = Inl [DB_Fault] \<or> (\<exists>l. k = Inr (scan_binding c, l)))"
proof -
  have "b_ldi_uuid c \<in> l_uuid ` set (ldis (tabs w))" using inv c by (auto simp: store_inv_def identities_inv_def)
  then obtain l where "(c, l) \<in> set (esi_join esi (tabs w))" using c by (auto simp: esi_join_iff)
  then have ne: "esi_join esi (tabs w) \<noteq> []" by auto
  have t: "tabs w' = tabs w" using run by (auto simp: run_LookupByESI)
  show ?thesis
  proof (cases k)
    case (Inl e)
    then show ?thesis using run ne t by (auto simp: run_LookupByESI split: if_splits option.splits)
  next
    case (Inr x)
    then show ?thesis using LookupByESI_unique [OF inv _ c] run t by (metis surj_pair)
  qed
qed

lemma Enroll_bound_refused:
  assumes inv: "store_inv (tabs w)" and c: "c \<in> set (esi_bindings (tabs w))" "b_esi c = VB_ESI vb"
    and why: "b_status c = ''retired'' \<or> (b_status c = ''active'' \<and> repl \<noteq> None)"
    and run: "run_state (Enroll G S vb p repl) w = (r, w')"
  shows "tabs w' = tabs w \<and> (r = Inl [DB_Fault] \<or>
    r = Inl [if b_status c = ''retired'' then ErrReplacementNotAuthorized else ErrSpuriousReplacementAuthorization])"
proof -
  obtain k w1 where k: "run_state (LookupByESI (VB_ESI vb)) w = (k, w1)" by (metis surj_pair)
  from LookupByESI_bound [OF inv k c] run k why show ?thesis
    by (auto simp: Enroll_def ESIBindingActive_def ESIBindingRetired_def split: option.splits)
qed

section \<open>Renewal\<close>

lemma LeafByActiveSPIFFEID_Inr:
  assumes "run_state (LeafByActiveSPIFFEID sp now) w = (Inr cur, w')"
  obtains r where "cur = scan_svid r" "r \<in> set (issued_svids (tabs w))" "svid_active sp (RFC3339Nano now) r"
    "\<And>q. q \<in> set (issued_svids (tabs w)) \<Longrightarrow> svid_active sp (RFC3339Nano now) q \<Longrightarrow> s_issued_at q \<le> s_issued_at r"
    "tabs w' = tabs w"
proof -
  let ?rows = "filter (svid_active sp (RFC3339Nano now)) (issued_svids (tabs w))"
  from assms obtain r where *: "first_row (order_by_desc s_issued_at ?rows) = Some r" "cur = scan_svid r" "tabs w' = tabs w"
    by (auto simp: run_LeafByActiveSPIFFEID split: if_splits option.splits)
  have "r \<in> set ?rows" using first_row_Some_in [OF *(1)] by simp
  moreover have "s_issued_at q \<le> s_issued_at r" if "q \<in> set ?rows" for q
    by (rule order_by_desc_first [OF *(1) that])
  ultimately show ?thesis using * by (intro that) auto
qed

lemma upsert_svid_revoked [simp]: "revoked_svids (snd (upsert_svid r t)) = revoked_svids t"
  by (simp add: upsert_svid_def)

lemma recordIssuance_revoked:
  "revoked_svids (tabs (snd (run_state (recordIssuance G ldi chain m na) w))) = revoked_svids (tabs w)"
  by (auto simp: recordIssuance_def IssuedSVIDs_Record_def run_simps split: list.split option.split)

context service_env
begin

lemma issue_for_revoked:
  "revoked_svids (tabs (snd (run_state (issue_for G S code ldi p m) w))) = revoked_svids (tabs w)"
proof -
  obtain r w1 where i: "run_state (svc_issuer S (LDI_SPIFFEID ldi) (CSR_DER p) (svc_svidTTL S)) w = (r, w1)"
    by (metis surj_pair)
  have t: "tabs w1 = tabs w" using issuer_tabs [of "LDI_SPIFFEID ldi" "CSR_DER p" "svc_svidTTL S" w] i by simp
  have "revoked_svids (tabs (snd (run_state (recordIssuance G ldi c m na) w1))) = revoked_svids (tabs w)" for c na
    using recordIssuance_revoked [of G ldi c m na w1] t by simp
  then show ?thesis using i t
    by (auto simp: issue_for_def split: sum.splits prod.splits) (metis snd_conv)+
qed

theorem Renew_Inr:
  assumes "run_state (Renew G S sp p) w = (Inr res, w')"
  obtains lr r ch where "lr \<in> set (ldis (tabs w))" "l_spiffe_id lr = sp" "l_status lr = ''active''"
    "ER_LDI res = scan_ldi lr" "ER_StatusCode res = 200" "audited res ''renewal'' (tabs w')"
    "r \<in> set (issued_svids (tabs w))" "svid_active sp (RFC3339Nano (clock w (ticks w))) r"
    "renewalKeyChanged G (s_leaf_der r) (CSR_Inner p) = Inr ch"
    "ch \<Longrightarrow> AllowKeyRotation (svc_policy S)" "\<not> ch \<Longrightarrow> revoked_svids (tabs w') = revoked_svids (tabs w)"
    "sans_svids (tabs w') = sans_svids (tabs w)"
proof -
  obtain g w1 where g: "run_state (GetLDIBySPIFFEID sp) w = (g, w1)" by (metis surj_pair)
  have w1: "w1 = w\<lparr>stmts := Suc (stmts w)\<rparr>" using g by (simp add: run_GetLDIBySPIFFEID)
  obtain ldi where ldi: "g = Inr ldi" using assms g by (cases g) (auto simp: Renew_def)
  obtain lr where lr: "ldi = scan_ldi lr" "lr \<in> set (ldis (tabs w))" "l_spiffe_id lr = sp"
    using g ldi GetLDIBySPIFFEID_Inr by metis
  have act: "l_status lr = ''active''"
    using assms g ldi lr(1) by (auto simp: Renew_def LDIStatusActive_def split: if_splits)
  let ?w2 = "w1\<lparr>ticks := Suc (ticks w1)\<rparr>"
  obtain c w3 where c: "run_state (LeafByActiveSPIFFEID sp (clock w (ticks w))) ?w2 = (c, w3)" by (metis surj_pair)
  obtain cur where cur: "c = Inr cur"
    using assms g ldi lr(1) act c w1 by (cases c) (auto simp: Renew_def LDIStatusActive_def run_simps)
  obtain r where r: "cur = scan_svid r" "r \<in> set (issued_svids (tabs w))" "svid_active sp (RFC3339Nano (clock w (ticks w))) r"
    and t3: "tabs w3 = tabs w"
    using LeafByActiveSPIFFEID_Inr [of sp "clock w (ticks w)" ?w2 cur w3] c cur w1 by auto
  have der: "IS_LeafDER cur = s_leaf_der r" by (simp add: r scan_svid_def)
  obtain ch where ch: "renewalKeyChanged G (s_leaf_der r) (CSR_Inner p) = Inr ch"
    using assms g ldi lr(1) act c w1 cur der
    by (cases "renewalKeyChanged G (s_leaf_der r) (CSR_Inner p)") (auto simp: Renew_def LDIStatusActive_def run_simps)
  have pol: "ch \<Longrightarrow> AllowKeyRotation (svc_policy S)"
    using assms g ldi lr(1) act c w1 cur der ch by (auto simp: Renew_def LDIStatusActive_def run_simps split: if_splits)
  obtain w4 where i: "run_state (issue_for G S 200 ldi p ''renewal'') w4 = (Inr res, w')"
    and s4: "sans_svids (tabs w4) = sans_svids (tabs w)" "\<not> ch \<Longrightarrow> tabs w4 = tabs w"
  proof (cases ch)
    case True
    obtain q w4 where q: "run_state (revokeActivePriors (l_spiffe_id lr) ''key-rotation'') w3 = (q, w4)" by (metis surj_pair)
    have "sans_svids (tabs w4) = sans_svids (tabs w)"
      using revokeActivePriors_sans [of "l_spiffe_id lr" "''key-rotation''" w3] q t3 by simp
    moreover have "run_state (issue_for G S 200 ldi p ''renewal'') w4 = (Inr res, w')"
      using assms g ldi lr(1) act c w1 cur der ch pol True q by (simp add: Renew_def LDIStatusActive_def run_simps)
    ultimately show ?thesis using that True by blast
  next
    case False
    then have "run_state (issue_for G S 200 ldi p ''renewal'') w3 = (Inr res, w')"
      using assms g ldi lr(1) act c w1 cur der ch by (simp add: Renew_def LDIStatusActive_def run_simps)
    then show ?thesis using that t3 by simp
  qed
  have "sans_svids (tabs w') = sans_svids (tabs w)"
    using issue_for_sans [of G 200 ldi p "''renewal''" w4] i s4(1) by simp
  moreover have "\<not> ch \<Longrightarrow> revoked_svids (tabs w') = revoked_svids (tabs w)"
    using issue_for_revoked [of G 200 ldi p "''renewal''" w4] i s4(2) by simp
  ultimately show ?thesis
    using that [of lr r ch] lr act r ch pol issue_for_Inr [OF i] by simp
qed

end

section \<open>Revocation\<close>

text \<open>Issued rows change only by becoming revoked; entries stay on the list.\<close>

definition svid_id :: "svid_row \<Rightarrow> string \<times> string \<times> string" where
  "svid_id r = (s_serial_hex r, s_spiffe_id r, s_not_after r)"

definition svid_step :: "svid_row \<Rightarrow> svid_row \<Rightarrow> bool" where
  "svid_step r q \<longleftrightarrow> svid_id q = svid_id r \<and> (s_revoked r \<longrightarrow> s_revoked q)"

definition revokes_only :: "tables \<Rightarrow> tables \<Rightarrow> bool" where
  "revokes_only t u \<longleftrightarrow> list_all2 svid_step (issued_svids t) (issued_svids u) \<and>
     set (revoked_svids t) \<subseteq> set (revoked_svids u) \<and> ldis u = ldis t"

lemma svid_step_refl: "svid_step r r"
  and svid_step_trans: "svid_step r q \<Longrightarrow> svid_step q p \<Longrightarrow> svid_step r p"
  by (auto simp: svid_step_def)

lemma revokes_only_refl: "revokes_only t t"
  by (simp add: revokes_only_def list_all2_refl svid_step_refl)

lemma revokes_only_trans:
  assumes "revokes_only t u" "revokes_only u v"
  shows "revokes_only t v"
proof -
  have "list_all2 svid_step (issued_svids t) (issued_svids v)"
    by (rule list_all2_trans [of svid_step svid_step svid_step "issued_svids t" "issued_svids u"])
      (use assms svid_step_trans in \<open>auto simp: revokes_only_def\<close>)
  with assms show ?thesis by (auto simp: revokes_only_def)
qed

lemma revokes_only_mark: "revokes_only t (snd (mark_revoked ser at t))"
  by (simp add: revokes_only_def mark_revoked_def update_where_def list_all2_map2 list.rel_refl_strong
      svid_step_def svid_id_def)

lemma revokes_only_insert: "revokes_only t (snd (insert_revoked q t))"
  by (auto simp: revokes_only_def insert_revoked_def list_all2_refl svid_step_refl)

lemma revokes_only_row:
  assumes "revokes_only t u" "q \<in> set (issued_svids u)"
  shows "\<exists>r\<in>set (issued_svids t). svid_step r q"
proof -
  obtain i where i: "i < length (issued_svids u)" "q = issued_svids u ! i" using assms(2) by (auto simp: in_set_conv_nth)
  have l: "list_all2 svid_step (issued_svids t) (issued_svids u)" using assms(1) by (simp add: revokes_only_def)
  then have "i < length (issued_svids t)" using i by (simp add: list_all2_lengthD)
  with list_all2_nthD [OF l] i show ?thesis by (metis nth_mem)
qed

text \<open>The serial \<open>ser\<close> is dealt with: every row of it is revoked, and it is on the list.\<close>

definition dealt :: "string \<Rightarrow> tables \<Rightarrow> bool" where
  "dealt ser t \<longleftrightarrow> (\<forall>r\<in>set (issued_svids t). s_serial_hex r = ser \<longrightarrow> s_revoked r) \<and> on_revocation_list ser t"

lemma dealt_revokes_only:
  assumes d: "dealt ser t" and u: "revokes_only t u"
  shows "dealt ser u"
proof -
  have "s_revoked q" if q: "q \<in> set (issued_svids u)" "s_serial_hex q = ser" for q
    using revokes_only_row [OF u q(1)] d q(2) by (auto simp: dealt_def svid_step_def svid_id_def)
  moreover have "on_revocation_list ser u"
    using d u by (auto simp: dealt_def on_revocation_list_def revokes_only_def)
  ultimately show ?thesis by (simp add: dealt_def)
qed

lemma mark_revoked_dealt:
  "on_revocation_list ser t \<Longrightarrow> dealt ser (snd (mark_revoked ser at t))"
  by (auto simp: dealt_def on_revocation_list_def mark_revoked_def ball_update_where)

lemma insert_revoked_listed: "on_revocation_list (r_serial_hex q) (snd (insert_revoked q t))"
  by (auto simp: on_revocation_list_def insert_revoked_def)

lemma revoke_all_loop_complete:
  assumes "run_state (revoke_all_loop reason ps new old) w = ((n, o', err), w')" "faults w = (\<lambda>_. False)"
  shows "err = None \<and> faults w' = faults w \<and> clock w' = clock w \<and> revokes_only (tabs w) (tabs w') \<and>
    (\<forall>p\<in>set ps. dealt (IS_SerialHex p) (tabs w'))"
  using assms
proof (induction ps arbitrary: new old w)
  case Nil
  then show ?case by (simp add: revokes_only_refl)
next
  case (Cons p ps)
  define q where "q = \<lparr>r_serial_hex = IS_SerialHex p, r_fingerprint_hex = IS_FingerprintHex p,
    r_revoked_at = RFC3339Nano (clock w (ticks w)), r_reason = reason, r_not_after = RFC3339Nano (IS_NotAfter p)\<rparr>"
  define t1 where "t1 = snd (insert_revoked q (tabs w))"
  define t2 where "t2 = snd (mark_revoked (IS_SerialHex p) (RFC3339Nano (clock w (Suc (ticks w)))) t1)"
  obtain new' old' w1 where step: "run_state (revoke_all_loop reason ps new' old') w1 = ((n, o', err), w')"
    and w1: "faults w1 = (\<lambda>_. False)" "clock w1 = clock w" "tabs w1 = t2"
  proof -
    from Cons.prems show ?thesis
      by (auto simp: run_simps run_Revoke run_MarkRevoked t1_def t2_def q_def split: if_splits intro!: that)
  qed
  note IH = Cons.IH [OF step w1(1)]
  have d: "dealt (IS_SerialHex p) t2" unfolding t2_def t1_def
    by (rule mark_revoked_dealt) (metis insert_revoked_listed q_def revoked_row.select_convs(1))
  have "revokes_only (tabs w) t2" unfolding t2_def t1_def
    using revokes_only_insert revokes_only_mark revokes_only_trans by blast
  then show ?case using IH d w1 Cons.prems(2) dealt_revokes_only revokes_only_trans by auto
qed

definition no_faults :: "mis \<Rightarrow> bool" where "no_faults w \<longleftrightarrow> faults w = (\<lambda>_. False)"

theorem RevokeSPIFFEID_complete:
  assumes inv: "store_inv (tabs w)" and nf: "no_faults w"
    and l: "l \<in> set (ldis (tabs w))" "l_spiffe_id l = sp"
    and run: "run_state (RevokeSPIFFEID sp reason) w = ((new, old, err), w')"
  shows "err = None \<and>
    (\<forall>r\<in>set (issued_svids (tabs w')). \<not> svid_active sp (RFC3339Nano (clock w (ticks w))) r) \<and>
    (\<forall>r\<in>set (issued_svids (tabs w)). svid_active sp (RFC3339Nano (clock w (ticks w))) r \<longrightarrow>
       on_revocation_list (s_serial_hex r) (tabs w')) \<and>
    spiffe_ended sp (tabs w')"
proof -
  let ?now = "RFC3339Nano (clock w (ticks w))"
  let ?act = "filter (svid_active sp ?now) (issued_svids (tabs w))"
  have ds: "distinct (map l_spiffe_id (ldis (tabs w)))" using inv by (simp add: store_inv_def identities_inv_def)
  have "filter (\<lambda>k. l_spiffe_id k = sp) (ldis (tabs w)) \<noteq> []" using l by (auto simp: filter_empty_conv)
  then obtain k where k: "first_row (filter (\<lambda>k. l_spiffe_id k = sp) (ldis (tabs w))) = Some k"
    by (cases "filter (\<lambda>k. l_spiffe_id k = sp) (ldis (tabs w))") auto
  have "k = l" using first_row_Some_in [OF k] l distinct_map_eq [OF ds, of k l] by simp
  define w2 where "w2 = w\<lparr>ticks := Suc (ticks w), stmts := Suc (Suc (stmts w))\<rparr>"
  obtain n o' er w3 where loop: "run_state (revoke_all_loop reason (map scan_svid (order_by s_issued_at ?act)) [] []) w2 = ((n, o', er), w3)"
    by (metis surj_pair)
  have w2: "faults w2 = (\<lambda>_. False)" "tabs w2 = tabs w" using nf by (simp_all add: w2_def no_faults_def)
  note fin = revoke_all_loop_complete [OF loop w2(1)]
  have "run_state (SetLDIStatus (l_uuid l) LDIStatusRevoked) w3 = (if err = None then Inr () else Inl [DB_Fault], w') \<and> err = None"
  proof -
    have "count_where (\<lambda>k. l_uuid k = l_uuid l) (ldis (tabs w3)) \<noteq> 0"
      using fin l w2 by (auto simp: count_where_0 revokes_only_def)
    with run k \<open>k = l\<close> nf loop fin w2 show ?thesis
      by (auto simp: RevokeSPIFFEID_def run_GetLDIBySPIFFEID run_ActiveBySPIFFEID run_simps no_faults_def
          SetLDIStatus_def w2_def update_ldi_status_def Let_def LDIStatusRevoked_def split: if_splits)
  qed
  then have st: "err = None" "tabs w' = snd (update_ldi_status (l_uuid l) ''revoked'' (RFC3339Nano (clock w3 (ticks w3))) (tabs w3))"
    using fin w2 by (auto simp: SetLDIStatus_def run_simps LDIStatusRevoked_def split: if_splits sum.splits)
  have tabs': "issued_svids (tabs w') = issued_svids (tabs w3)" "revoked_svids (tabs w') = revoked_svids (tabs w3)"
    by (simp_all add: st update_ldi_status_def Let_def)
  have act: "dealt (s_serial_hex r) (tabs w3)" if "r \<in> set ?act" for r
  proof -
    have "scan_svid r \<in> set (map scan_svid (order_by s_issued_at ?act))" using that by simp
    with fin have "dealt (IS_SerialHex (scan_svid r)) (tabs w3)" by blast
    then show ?thesis by (simp add: scan_svid_def)
  qed
  have "\<not> svid_active sp ?now q" if q: "q \<in> set (issued_svids (tabs w3))" for q
  proof
    assume a: "svid_active sp ?now q"
    obtain r where r: "r \<in> set (issued_svids (tabs w))" "svid_id q = svid_id r" "s_revoked r \<longrightarrow> s_revoked q"
      using revokes_only_row [of "tabs w" "tabs w3" q] fin w2 q by (auto simp: svid_step_def)
    with a have "r \<in> set ?act" by (auto simp: svid_active_def svid_id_def)
    from act [OF this] q r(2) a show False by (auto simp: dealt_def svid_active_def svid_id_def)
  qed
  moreover have "spiffe_ended sp (tabs w')"
    using fin l w2 unfolding st(2) spiffe_ended_def revokes_only_def
    by (auto simp: update_ldi_status_def Let_def bex_update_where)
  ultimately show ?thesis using st(1) act tabs' by (auto simp: dealt_def on_revocation_list_def)
qed

section \<open>Ended identities\<close>

definition svid_serials :: "string \<Rightarrow> tables \<Rightarrow> string set" where
  "svid_serials sp t = s_serial_hex ` {r \<in> set (issued_svids t). s_spiffe_id r = sp}"

text \<open>The LDI of \<open>sp\<close> has ended, and no SVID beyond the serials \<open>X\<close> was issued for it.\<close>

definition closed_to :: "string \<Rightarrow> string set \<Rightarrow> tables \<Rightarrow> bool" where
  "closed_to sp X t \<longleftrightarrow> store_inv t \<and> spiffe_ended sp t \<and> svid_serials sp t \<subseteq> X"

lemma svid_serials_stmts [simp]:
  "svid_serials sp (snd (insert_ldi l t)) = svid_serials sp t"
  "svid_serials sp (snd (insert_binding b t)) = svid_serials sp t"
  "svid_serials sp (snd (retire_active u at t)) = svid_serials sp t"
  "svid_serials sp (snd (touch_ldi u at t)) = svid_serials sp t"
  "svid_serials sp (snd (update_ldi_status u st at t)) = svid_serials sp t"
  "svid_serials sp (snd (insert_revoked q t)) = svid_serials sp t"
  "svid_serials sp (snd (insert_jwt_svid j t)) = svid_serials sp t"
  "svid_serials sp (snd (consume_ticket h at t)) = svid_serials sp t"
  by (auto simp: svid_serials_def stmt_defs Let_def)

lemma svid_serials_mark [simp]: "svid_serials sp (snd (mark_revoked ser at t)) = svid_serials sp t"
proof -
  have serials: "svid_serials sp u = s_serial_hex ` set (filter (\<lambda>r. s_spiffe_id r = sp) (issued_svids u))" for u
    by (auto simp: svid_serials_def)
  show ?thesis by (simp add: serials mark_revoked_def filter_update_where update_where_image)
qed

lemma svid_serials_upsert: "s_spiffe_id r \<noteq> sp \<Longrightarrow> svid_serials sp (snd (upsert_svid r t)) \<subseteq> svid_serials sp t"
  using upsert_svid_subset [of r t] by (auto simp: svid_serials_def)

interpretation closed_to: identity_invariant "closed_to sp X" for sp X
  by unfold_locales
    (auto simp: closed_to_def intro: store_stmt_inv spiffe_ended.insert_ldi_I spiffe_ended.insert_binding_I
      spiffe_ended.retire_active_I spiffe_ended.touch_ldi_I spiffe_ended.revoke_ldi_I spiffe_ended.mark_revoked_I
      spiffe_ended.insert_revoked_I spiffe_ended.insert_jwt_svid_I spiffe_ended.consume_ticket_I)

lemma upsert_svid_closed: "closed_to sp X t \<Longrightarrow> s_spiffe_id r \<noteq> sp \<Longrightarrow> closed_to sp X (snd (upsert_svid r t))"
  using svid_serials_upsert [of r sp t] spiffe_ended.upsert_svid_I [of sp t r]
  by (auto simp: closed_to_def upsert_svid_store)

lemma closed_to_active:
  assumes "closed_to sp X t" "l \<in> set (ldis t)" "l_status l = ''active''"
  shows "l_spiffe_id l \<noteq> sp"
proof -
  have "distinct (map l_spiffe_id (ldis t))" using assms(1) by (simp add: closed_to_def store_inv_def identities_inv_def)
  then show ?thesis using assms distinct_map_eq [of l_spiffe_id "ldis t" l]
    unfolding closed_to_def spiffe_ended_def by metis
qed

definition other_than :: "string \<Rightarrow> LDI \<Rightarrow> bool" where
  "other_than sp ldi \<longleftrightarrow> (LDI_Status ldi = LDIStatusActive \<longrightarrow> LDI_SPIFFEID ldi \<noteq> sp)"

lemma closed_LookupByESI:
  "closed_to sp X (tabs w) \<Longrightarrow> run_state (LookupByESI esi) w = (k, w') \<Longrightarrow>
    closed_to sp X (tabs w') \<and> (\<forall>b l. k = Inr (b, l) \<longrightarrow> other_than sp l)"
  using closed_to_active by (fastforce simp: other_than_def LDIStatusActive_def run_LookupByESI elim!: LookupByESI_Inr)

lemma closed_GetLDI:
  "closed_to sp X (tabs w) \<Longrightarrow> run_state (GetLDI u) w = (k, w') \<Longrightarrow>
    closed_to sp X (tabs w') \<and> (\<forall>l. k = Inr l \<longrightarrow> other_than sp l)"
  using closed_to_active by (fastforce simp: other_than_def LDIStatusActive_def run_GetLDI elim!: GetLDI_Inr)

lemma closed_GetLDIBySPIFFEID:
  "closed_to sp X (tabs w) \<Longrightarrow> run_state (GetLDIBySPIFFEID s) w = (k, w') \<Longrightarrow>
    closed_to sp X (tabs w') \<and> (\<forall>l. k = Inr l \<longrightarrow> other_than sp l)"
  using closed_to_active
  by (fastforce simp: other_than_def LDIStatusActive_def run_GetLDIBySPIFFEID elim!: GetLDIBySPIFFEID_Inr)

lemma closed_CreateLDIAndBind:
  assumes c: "closed_to sp X (tabs w)" and run: "run_state (CreateLDIAndBind esi m td) w = (k, w')"
  shows "closed_to sp X (tabs w') \<and> (\<forall>l. k = Inr l \<longrightarrow> LDI_SPIFFEID l \<noteq> sp)"
proof -
  have "closed_to sp X (tabs w')" using closed_to.keeps_CreateLDIAndBind c run by (metis (no_types, lifting) keepsD')
  moreover have "LDI_SPIFFEID l \<noteq> sp" if "k = Inr l" for l
    using run [unfolded that]
  proof (rule CreateLDIAndBind_Inr)
    fix i now
    assume "l = \<lparr>LDI_UUID = i, LDI_SPIFFEID = spiffe_id_of td i, LDI_Status = LDIStatusActive,
          LDI_CreatedAt = now, LDI_UpdatedAt = now\<rparr>"
      "spiffe_id_of td i \<notin> l_spiffe_id ` set (ldis (tabs w))"
    then show ?thesis using c by (auto simp: closed_to_def spiffe_ended_def)
  qed
  ultimately show ?thesis by blast
qed

lemma closed_recordIssuance:
  "LDI_SPIFFEID ldi \<noteq> sp \<Longrightarrow> keeps (\<lambda>w. closed_to sp X (tabs w)) (recordIssuance G ldi chain m na)"
  unfolding recordIssuance_def IssuedSVIDs_Record_def
  by (intro inv_intros keeps_sql upsert_svid_closed) (simp_all add: svid_row_of_def)

context service_env
begin

lemma closed_issue_for:
  "LDI_SPIFFEID ldi \<noteq> sp \<Longrightarrow> keeps (\<lambda>w. closed_to sp X (tabs w)) (issue_for G S code ldi p m)"
  unfolding issue_for_def
  by (intro inv_intros closed_recordIssuance) (simp_all add: keeps_def issuer_tabs)

lemma closed_handleReEnrollment:
  "other_than sp ldi \<Longrightarrow> keeps (\<lambda>w. closed_to sp X (tabs w)) (handleReEnrollment G S ldi p m)"
  unfolding handleReEnrollment_def Let_def other_than_def
  by (cases "LDI_Status ldi = LDIStatusActive")
    (auto intro!: inv_intros closed_to.keeps_reads closed_to.keeps_revokeActivePriors closed_issue_for)

lemma closed_handleInitial: "keeps (\<lambda>w. closed_to sp X (tabs w)) (handleInitial G S vb p)"
  unfolding handleInitial_def
proof (rule keeps_if [OF keeps_return], rule keeps_bind_post [OF closed_CreateLDIAndBind], assumption, assumption, goal_cases)
  case (1 k)
  then show ?case by (cases k) (auto intro: inv_intros closed_issue_for)
qed

lemma closed_handleReplacement: "keeps (\<lambda>w. closed_to sp X (tabs w)) (handleReplacement G S vb p ra)"
  unfolding handleReplacement_def
  apply (rule keeps_if, rule keeps_return)
  apply (rule keeps_bind, rule keeps_time_Now)
  apply (rule keeps_bind, rule validate_keeps, erule closed_to.consume_ticket_I)
  apply (rule keeps_sum, rule keeps_return)
  apply (rule keeps_bind_post [OF closed_GetLDI], assumption, assumption)
  subgoal for now v u k
    by (cases k) (auto simp: other_than_def intro!: inv_intros closed_to.keeps_Rebind
        closed_to.keeps_revokeActivePriors closed_issue_for)
  done

theorem closed_Enroll: "keeps (\<lambda>w. closed_to sp X (tabs w)) (Enroll G S vb p repl)"
  unfolding Enroll_def
proof (rule keeps_bind_post [OF closed_LookupByESI], assumption, assumption, goal_cases)
  case (1 k)
  then show ?case
    by (cases k) (auto intro!: inv_intros closed_handleReplacement closed_handleInitial closed_handleReEnrollment)
qed

theorem closed_Renew: "keeps (\<lambda>w. closed_to sp X (tabs w)) (Renew G S s p)"
  unfolding Renew_def
proof (rule keeps_bind_post [OF closed_GetLDIBySPIFFEID], assumption, assumption, goal_cases)
  case (1 k)
  then show ?case
    by (cases k) (auto simp: other_than_def intro!: inv_intros closed_to.keeps_reads
        closed_to.keeps_revokeActivePriors closed_issue_for)
qed

end

end
