(* ===== verification/MIS_RateLimit.thy ===== *)
theory MIS_RateLimit
  imports MIS_State
begin

text \<open>
  \<^verbatim>\<open>pkg/mis/store/renewal_events.go\<close>: the sliding-window limiter of successful renewals
  per SPIFFE ID, behind the interface \<^verbatim>\<open>identity.RenewalRateLimiter\<close>. The locale
  \<open>rate_limiter\<close> states what the renewal handler relies on and proves the budget of every
  window once; the table-backed limiter is its instance.
\<close>

section \<open>Operations\<close>

record RenewalEventsConfig =
  MaxInWindow :: int
  Window :: duration

text \<open>The adapter's constructor panics, \<open>None\<close>, on a configuration that is not positive.\<close>

definition NewRenewalEvents :: "RenewalEventsConfig \<Rightarrow> RenewalEventsConfig option" where
  "NewRenewalEvents cfg =
     (if MaxInWindow cfg \<le> 0 then None else if Window cfg \<le> 0 then None else Some cfg)"

definition in_window :: "string \<Rightarrow> string \<Rightarrow> tables \<Rightarrow> event_row list" where
  "in_window sp cutoff t = filter (\<lambda>e. e_spiffe_id e = sp \<and> cutoff < e_recorded_at e) (renewal_events t)"

text \<open>\<^verbatim>\<open>SELECT COUNT(*), MIN(recorded_at)\<close>: \<open>None\<close> is the null of an empty minimum.\<close>

definition count_min :: "string \<Rightarrow> string \<Rightarrow> tables \<Rightarrow> nat \<times> string option" where
  "count_min sp cutoff t =
     (length (in_window sp cutoff t), first_row (order_by id (map e_recorded_at (in_window sp cutoff t))))"

definition Allow :: "RenewalEventsConfig \<Rightarrow> string \<Rightarrow> gotime \<Rightarrow> (bool \<times> duration) result prog" where
  "Allow cfg spiffeID now = do {
     let cutoff = now - Window cfg;
     r \<leftarrow> sql_query (count_min spiffeID (RFC3339Nano cutoff));
     State_Monad.return (case r of
       Inl e \<Rightarrow> Inl e
     | Inr (count, earliest) \<Rightarrow>
         if int count < MaxInWindow cfg then Inr (True, 0)
         else (case earliest of
            None \<Rightarrow> Inr (False, Second)
          | Some s \<Rightarrow> (case parseRFC3339 s of
               None \<Rightarrow> Inr (False, Second)
             | Some earliestT \<Rightarrow>
                 let retry = time_sub (earliestT + Window cfg) now in
                 Inr (False, if retry \<le> 0 then Second else retry)))) }"

definition insert_event :: "event_row \<Rightarrow> tables \<Rightarrow> unit result \<times> tables" where
  "insert_event e t = (Inr (), t\<lparr>renewal_events := renewal_events t @ [e]\<rparr>)"

definition delete_events :: "string \<Rightarrow> tables \<Rightarrow> unit result \<times> tables" where
  "delete_events cutoff t =
     (Inr (), t\<lparr>renewal_events := filter (\<lambda>e. \<not> e_recorded_at e \<le> cutoff) (renewal_events t)\<rparr>)"

definition RenewalEvents_Record :: "RenewalEventsConfig \<Rightarrow> string \<Rightarrow> gotime \<Rightarrow> unit result prog" where
  "RenewalEvents_Record cfg spiffeID now = do {
     r \<leftarrow> sql (insert_event \<lparr>e_spiffe_id = spiffeID, e_recorded_at = RFC3339Nano now\<rparr>);
     case r of
       Inl e \<Rightarrow> State_Monad.return (Inl e)
     | Inr _ \<Rightarrow> do {
         _ \<leftarrow> sql (delete_events (RFC3339Nano (now - Window cfg)));
         State_Monad.return (Inr ()) } }"

section \<open>What the operations do\<close>

lemma run_Allow:
  "run_state (Allow cfg sp now) w =
    (if faults w (stmts w) then Inl [DB_Fault]
     else (let (count, earliest) = count_min sp (RFC3339Nano (now - Window cfg)) (tabs w) in
         if int count < MaxInWindow cfg then Inr (True, 0)
         else (case earliest of
            None \<Rightarrow> Inr (False, Second)
          | Some s \<Rightarrow> (case parseRFC3339 s of
               None \<Rightarrow> Inr (False, Second)
             | Some t \<Rightarrow> let retry = time_sub (t + Window cfg) now in
                 Inr (False, if retry \<le> 0 then Second else retry)))),
     w\<lparr>stmts := Suc (stmts w)\<rparr>)"
  by (simp add: Allow_def run_simps Let_def split: prod.split)

lemma Allow_retry_pos:
  "run_state (Allow cfg sp now) w = (Inr (False, d), w') \<Longrightarrow> 0 < d"
  by (auto simp: run_Allow Let_def Second_def split: if_splits prod.splits option.splits)

lemma Allow_iff:
  "\<not> faults w (stmts w) \<Longrightarrow>
    (\<exists>d. fst (run_state (Allow cfg sp now) w) = Inr (True, d)) \<longleftrightarrow>
    int (length (in_window sp (RFC3339Nano (now - Window cfg)) (tabs w))) < MaxInWindow cfg"
  by (auto simp: run_Allow count_min_def Let_def split: option.splits if_splits)

lemma run_RenewalEvents_Record:
  "run_state (RenewalEvents_Record cfg sp now) w =
    (if faults w (stmts w) then (Inl [DB_Fault], w\<lparr>stmts := Suc (stmts w)\<rparr>)
     else let w1 = w\<lparr>stmts := Suc (stmts w),
            tabs := snd (insert_event \<lparr>e_spiffe_id = sp, e_recorded_at = RFC3339Nano now\<rparr> (tabs w))\<rparr> in
       (Inr (), if faults w (stmts w1) then w1\<lparr>stmts := Suc (stmts w1)\<rparr>
         else w1\<lparr>stmts := Suc (stmts w1), tabs := snd (delete_events (RFC3339Nano (now - Window cfg)) (tabs w1))\<rparr>))"
  by (simp add: RenewalEvents_Record_def run_simps Let_def insert_event_def)

section \<open>The budget of a window\<close>

text \<open>
  An attempt as the renewal handler makes it: ask, and record when the renewal was allowed and
  succeeded. \<open>ok\<close> is the outcome of the renewal.
\<close>

fun attempt ::
    "('k \<Rightarrow> gotime \<Rightarrow> 's \<Rightarrow> (bool \<times> duration) result \<times> 's) \<Rightarrow> ('k \<Rightarrow> gotime \<Rightarrow> 's \<Rightarrow> unit result \<times> 's) \<Rightarrow>
     'k \<times> gotime \<times> bool \<Rightarrow> 's \<Rightarrow> 's" where
  "attempt allow recorded (sp, now, ok) s =
     (case allow sp now s of
        (Inr (True, _), s') \<Rightarrow> if ok then snd (recorded sp now s') else s'
      | (_, s') \<Rightarrow> s')"

definition attempts where
  "attempts allow recorded xs s = fold (attempt allow recorded) xs s"

locale rate_limiter =
  fixes allow :: "'k \<Rightarrow> gotime \<Rightarrow> 's \<Rightarrow> (bool \<times> duration) result \<times> 's"
    and recorded :: "'k \<Rightarrow> gotime \<Rightarrow> 's \<Rightarrow> unit result \<times> 's"
    and used :: "'s \<Rightarrow> 'k \<Rightarrow> gotime \<Rightarrow> nat"
    and budget :: nat
    and later :: "gotime \<Rightarrow> gotime \<Rightarrow> bool"
  assumes allow_used: "used (snd (allow k n s)) = used s"
    and allow_budget: "allow k n s = (Inr (True, d), s') \<Longrightarrow> used s k n < budget"
    and record_used: "used (snd (recorded k n s)) j m \<le> used s j m + (if j = k then 1 else 0)"
    and later_used: "later n m \<Longrightarrow> used s k m \<le> used s k n"
begin

definition within :: "gotime \<Rightarrow> 's \<Rightarrow> bool" where
  "within n s \<longleftrightarrow> (\<forall>k. used s k n \<le> budget)"

lemma attempt_within: "within n s \<Longrightarrow> within n (attempt allow recorded (k, n, ok) s)"
proof -
  assume w: "within n s"
  obtain r s' where run: "allow k n s = (r, s')" by force
  have u: "used s' = used s" using allow_used [of k n s] run by simp
  have "used (snd (recorded k n s')) j n \<le> budget" if "r = Inr (True, d)" for j d
    using record_used [of k n s' j n] allow_budget [of k n s d s'] w u run that
    by (auto simp: within_def split: if_splits intro: order_trans)
  then show ?thesis
    using w u run by (auto simp: within_def split: sum.split prod.split bool.split)
qed

lemma attempts_within:
  assumes "sorted_wrt later (n # map (\<lambda>(k, m, ok). m) xs)" "within n s"
  shows "within (last (n # map (\<lambda>(k, m, ok). m) xs)) (attempts allow recorded xs s)"
  using assms
proof (induction xs arbitrary: n s)
  case Nil
  then show ?case by (simp add: attempts_def)
next
  case (Cons x xs)
  obtain k m ok where x: "x = (k, m, ok)" by (cases x) auto
  have "within m s" using Cons.prems x later_used [of n m s] order_trans unfolding within_def by fastforce
  then have "within m (attempt allow recorded (k, m, ok) s)" by (rule attempt_within)
  with Cons.IH [of m] Cons.prems(1) x show ?case by (simp add: attempts_def)
qed

end

text \<open>
  For the table: the events in the window that ends at \<open>now\<close>. A later attempt is one at the
  same instant or in a later second, because the window is cut by comparing texts.
\<close>

definition events_used :: "RenewalEventsConfig \<Rightarrow> mis \<Rightarrow> string \<Rightarrow> gotime \<Rightarrow> nat" where
  "events_used cfg w sp now = length (in_window sp (RFC3339Nano (now - Window cfg)) (tabs w))"

definition later_cutoff :: "RenewalEventsConfig \<Rightarrow> gotime \<Rightarrow> gotime \<Rightarrow> bool" where
  "later_cutoff cfg n m \<longleftrightarrow> n = m \<or>
     (four_digit_year (n - Window cfg) \<and> four_digit_year (m - Window cfg) \<and>
      secs_of (n - Window cfg) < secs_of (m - Window cfg))"

lemma later_cutoff_text:
  "later_cutoff cfg n m \<Longrightarrow> RFC3339Nano (n - Window cfg) \<le> RFC3339Nano (m - Window cfg)"
  using RFC3339Nano_less by (auto simp: later_cutoff_def intro: less_imp_le)

lemma length_filter_mono: "(\<And>x. p x \<Longrightarrow> q x) \<Longrightarrow> length (filter p xs) \<le> length (filter q xs)"
  by (induction xs) (auto intro: le_SucI)

lemma in_window_mono: "c \<le> d \<Longrightarrow> length (in_window sp d t) \<le> length (in_window sp c t)"
  unfolding in_window_def by (rule length_filter_mono) (auto intro: le_less_trans)

lemma in_window_insert:
  "length (in_window sp c (snd (insert_event e t))) \<le> length (in_window sp c t) + (if sp = e_spiffe_id e then 1 else 0)"
  by (simp add: in_window_def insert_event_def)

lemma in_window_delete: "length (in_window sp c (snd (delete_events d t))) \<le> length (in_window sp c t)"
  by (auto simp: in_window_def delete_events_def filter_filter intro!: length_filter_mono)

lemma RenewalEvents_Record_used:
  "events_used cfg (snd (run_state (RenewalEvents_Record cfg k n) w)) j m \<le>
    events_used cfg w j m + (if j = k then 1 else 0)"
proof -
  let ?e = "\<lparr>e_spiffe_id = k, e_recorded_at = RFC3339Nano n\<rparr>"
  let ?c = "RFC3339Nano (m - Window cfg)"
  have "length (in_window j ?c (snd (insert_event ?e (tabs w)))) \<le>
      length (in_window j ?c (tabs w)) + (if j = k then 1 else 0)"
    using in_window_insert [of j ?c ?e "tabs w"] by simp
  moreover have "length (in_window j ?c (snd (delete_events d (snd (insert_event ?e (tabs w)))))) \<le>
      length (in_window j ?c (tabs w)) + (if j = k then 1 else 0)" for d
    using calculation in_window_delete order_trans by blast
  ultimately show ?thesis
    by (auto simp: events_used_def run_RenewalEvents_Record Let_def)
qed

interpretation renewal_events: rate_limiter
  "\<lambda>sp now. run_state (Allow cfg sp now)" "\<lambda>sp now. run_state (RenewalEvents_Record cfg sp now)"
  "events_used cfg" "nat (MaxInWindow cfg)" "later_cutoff cfg" for cfg
proof (unfold_locales, goal_cases)
  case 1 show ?case by (simp add: run_Allow events_used_def fun_eq_iff)
next
  case 2 then show ?case
    by (auto simp: run_Allow events_used_def count_min_def Let_def split: if_splits option.splits)
next
  case 3 show ?case by (rule RenewalEvents_Record_used)
next
  case 4 then show ?case unfolding events_used_def by (intro in_window_mono later_cutoff_text)
qed

end
