(* ===== verification/MIS_System.thy ===== *)
theory MIS_System
  imports MIS_Flows MIS_RateLimit
begin

text \<open>
  The identity service as a state machine: one step is one operation of the service or of a
  store, run to its end under whatever the database, the clock and the random source answer.
  \<open>reachable\<close> are the worlds the steps lead to from an empty database. A predicate on the tables
  that every statement keeps, the locale \<open>system_invariant\<close>, holds along every run.
\<close>

section \<open>Steps\<close>

record mis_config =
  cf_lib :: golib
  cf_issuer :: issuer_backend
  cf_policy :: StaticPolicy
  cf_trustDomain :: string
  cf_svidTTL :: duration
  cf_jwt :: JWTSVIDConfig
  cf_limits :: RenewalEventsConfig

definition service_of :: "mis_config \<Rightarrow> Service" where
  "service_of C = NewService (cf_lib C) (cf_issuer C) (cf_policy C) (cf_trustDomain C) (cf_svidTTL C)"

datatype operation =
    OpEnroll VerifiedBootstrap CSR "ReplacementAuthorizationDTO option"
  | OpRenew string CSR
  | OpRevoke string string
  | OpJWTSVID string "string list" duration
  | OpCreateToken duration gotime
  | OpConsumeToken bytes gotime
  | OpRecordOutcome Outcome
  | OpFindConsumed bytes gotime
  | OpCreateTicket string duration gotime
  | OpWitness string gotime
  | OpAllow string gotime
  | OpRecordRenewal string gotime
  | OpListRevoked gotime
  | OpPrune gotime

fun perform :: "mis_config \<Rightarrow> operation \<Rightarrow> mis \<Rightarrow> mis" where
  "perform C (OpEnroll vb p repl) w = snd (run_state (Enroll (cf_lib C) (service_of C) vb p repl) w)"
| "perform C (OpRenew sp p) w = snd (run_state (Renew (cf_lib C) (service_of C) sp p) w)"
| "perform C (OpRevoke sp reason) w = snd (run_state (RevokeSPIFFEID sp reason) w)"
| "perform C (OpJWTSVID sp aud ttl) w = snd (run_state (IssueJWTSVID (Some (jwt_Sign (cf_lib C)))
     (Some (IssuedJWTSVIDs_Record (cf_lib C))) (cf_jwt C) sp aud ttl) w)"
| "perform C (OpCreateToken ttl now) w = snd (run_state (EnrollmentTokens_Create (cf_lib C) ttl now) w)"
| "perform C (OpConsumeToken h now) w = snd (run_state (EnrollmentTokens_Consume h now) w)"
| "perform C (OpRecordOutcome out) w = snd (run_state (RecordOutcome (cf_lib C) out) w)"
| "perform C (OpFindConsumed h now) w = snd (run_state (FindConsumed (cf_lib C) h now) w)"
| "perform C (OpCreateTicket u ttl now) w = snd (run_state (ReplacementTickets_Create (cf_lib C) u ttl now) w)"
| "perform C (OpWitness jti e) w = snd (run_state (JWTReplay_Witness jti e) w)"
| "perform C (OpAllow sp now) w = snd (run_state (Allow (cf_limits C) sp now) w)"
| "perform C (OpRecordRenewal sp now) w = snd (run_state (RenewalEvents_Record (cf_limits C) sp now) w)"
| "perform C (OpListRevoked now) w = snd (run_state (RevokedSVIDs_List now) w)"
| "perform C (OpPrune now) w = snd (run_state (PruneExpired now) w)"

inductive mis_step :: "mis_config \<Rightarrow> mis \<Rightarrow> mis \<Rightarrow> bool" for C where
  op: "w' = perform C x w \<Longrightarrow> mis_step C w w'"

inductive reachable :: "mis_config \<Rightarrow> mis \<Rightarrow> bool" for C where
  fresh: "tabs w = empty_tables \<Longrightarrow> reachable C w"
| step: "reachable C w \<Longrightarrow> mis_step C w w' \<Longrightarrow> reachable C w'"

inductive_cases mis_stepE: "mis_step C w w'"
inductive_simps mis_step_iff: "mis_step C w w'"

section \<open>Invariants of the state machine\<close>

locale step_invariant =
  fixes I :: "tables \<Rightarrow> bool"
  assumes insert_token_I: "I t \<Longrightarrow> I (snd (insert_token r t))"
    and consume_token_I: "I t \<Longrightarrow> I (snd (consume_token i at t))"
    and insert_outcome_I: "I t \<Longrightarrow> I (snd (insert_outcome q t))"
    and insert_ticket_I: "I t \<Longrightarrow> I (snd (insert_ticket k t))"
    and upsert_replay_I: "I t \<Longrightarrow> I (snd (upsert_replay j t))"
    and insert_event_I: "I t \<Longrightarrow> I (snd (insert_event e t))"
    and delete_events_I: "I t \<Longrightarrow> I (snd (delete_events s t))"
    and prune_revoked_I: "I t \<Longrightarrow> I (snd (prune_revoked s t))"

locale store_invariant = identity_invariant I + step_invariant I for I
begin

lemma keeps_stores:
  "keepsI (EnrollmentTokens_Create G ttl now)" "keepsI (EnrollmentTokens_Consume h now)"
  "keepsI (RecordOutcome G out)" "keepsI (FindConsumed G h now)"
  "keepsI (ReplacementTickets_Create G u ttl now)" "keepsI (JWTReplay_Witness j e)"
  "keepsI (Allow cfg sp now)" "keepsI (RenewalEvents_Record cfg sp now)" "keepsI (PruneExpired now)"
  "keepsI (RevokedSVIDs_List now)"
  using keeps_token_programs [where I = I, OF insert_token_I insert_outcome_I consume_token_I]
    keeps_ticket_programs(1) [where I = I, OF insert_ticket_I consume_ticket_I]
  unfolding JWTReplay_Witness_def Allow_def Let_def RenewalEvents_Record_def PruneExpired_def RevokedSVIDs_List_def
  by (auto intro!: keeps_sql_tx inv_intros keeps_sql upsert_replay_I insert_event_I delete_events_I prune_revoked_I)

lemma perform_keeps_if:
  assumes "\<And>vb p repl. keepsI (Enroll (cf_lib C) (service_of C) vb p repl)"
    and "\<And>sp p. keepsI (Renew (cf_lib C) (service_of C) sp p)"
  shows "I (tabs w) \<Longrightarrow> I (tabs (perform C x w))"
  using assms keeps_stores keeps_RevokeSPIFFEID keeps_IssueJWTSVID_store
  by (cases x) (simp_all add: keeps_def)

end

locale system_invariant = store_invariant I + table_invariant I for I
begin

lemma service_keeps_of: "service_keeps (service_of C) I"
  unfolding service_of_def
  by (intro service_keeps.intro mis.service_env_axioms table_invariant_axioms)

lemma perform_keeps: "I (tabs w) \<Longrightarrow> I (tabs (perform C x w))"
  by (rule perform_keeps_if) (intro service_keeps.keeps_Enroll service_keeps.keeps_Renew service_keeps_of)+

lemma steps_keep: "(mis_step C)\<^sup>*\<^sup>* w w' \<Longrightarrow> I (tabs w) \<Longrightarrow> I (tabs w')"
  by (induction rule: rtranclp_induct) (auto simp: mis_step_iff perform_keeps)

lemma reachable_keeps: "reachable C w \<Longrightarrow> I empty_tables \<Longrightarrow> I (tabs w)"
  by (induction rule: reachable.induct) (auto simp: mis_step_iff perform_keeps)

end

lemmas step_stmt_defs =
  insert_token_def consume_token_def insert_outcome_def insert_ticket_def upsert_replay_def
  insert_event_def delete_events_def prune_revoked_def

lemma events_store:
  "store_inv t \<Longrightarrow> store_inv (snd (insert_event e t))" "store_inv t \<Longrightarrow> store_inv (snd (delete_events s t))"
  by (auto simp: store_inv_def identities_inv_def other_invs insert_event_def delete_events_def)

interpretation system_store: system_invariant store_inv
  by unfold_locales (rule store_stmt_inv events_store; assumption)+

interpretation system_esi_bound: system_invariant "esi_bound esi u" for esi u
  by unfold_locales (auto simp: esi_bound_def step_stmt_defs)

interpretation system_esi_retired: system_invariant "esi_retired esi" for esi
  by unfold_locales (auto simp: esi_retired_def step_stmt_defs)

interpretation system_spiffe_ended: system_invariant "spiffe_ended sp" for sp
  by unfold_locales (auto simp: spiffe_ended_def step_stmt_defs)

text \<open>An ended identity is closed to further issuance along every run.\<close>

lemma closed_to_steps:
  "closed_to sp X t \<Longrightarrow> closed_to sp X (snd (insert_token r t))"
  "closed_to sp X t \<Longrightarrow> closed_to sp X (snd (consume_token i at t))"
  "closed_to sp X t \<Longrightarrow> closed_to sp X (snd (insert_outcome q t))"
  "closed_to sp X t \<Longrightarrow> closed_to sp X (snd (insert_ticket k t))"
  "closed_to sp X t \<Longrightarrow> closed_to sp X (snd (upsert_replay j t))"
  "closed_to sp X t \<Longrightarrow> closed_to sp X (snd (insert_event e t))"
  "closed_to sp X t \<Longrightarrow> closed_to sp X (snd (delete_events s t))"
  "closed_to sp X t \<Longrightarrow> closed_to sp X (snd (prune_revoked s t))"
  unfolding closed_to_def
  by (auto simp: store_stmt_inv events_store) (auto simp: spiffe_ended_def svid_serials_def step_stmt_defs split: if_splits)

interpretation closed_to_store: store_invariant "closed_to sp X" for sp X
  by unfold_locales (rule closed_to_steps; assumption)+

lemma closed_to_perform: "closed_to sp X (tabs w) \<Longrightarrow> closed_to sp X (tabs (perform C x w))"
  by (rule closed_to_store.perform_keeps_if) (simp_all add: service_of_def mis.closed_Enroll mis.closed_Renew)

lemma closed_to_run: "(mis_step C)\<^sup>*\<^sup>* w w' \<Longrightarrow> closed_to sp X (tabs w) \<Longrightarrow> closed_to sp X (tabs w')"
  by (induction rule: rtranclp_induct) (auto simp: mis_step_iff closed_to_perform)

end
