(* ===== verification/MIS_Example.thy ===== *)
theory MIS_Example
  imports MIS_System
begin

text \<open>
  A concrete instance of the service: a library of primitives simple enough to compute with,
  an intermediate CA, a configuration and a fresh world. Witnesses evaluate the operations on it.
\<close>

text \<open>
  A certificate of the instance is the text of its serial number followed by the key's mark;
  its parser keeps the bytes as they are.
\<close>

definition ex_key :: pubkey where "ex_key = ECDSA_PublicKey P256 1 2"
definition ex_key2 :: pubkey where "ex_key2 = ECDSA_PublicKey P256 3 4"

definition key_mark :: "pubkey \<Rightarrow> char" where
  "key_mark k = (if k = ex_key then CHR ''a'' else if k = ex_key2 then CHR ''b'' else CHR ''c'')"

definition mark_key :: "char \<Rightarrow> pubkey" where
  "mark_key c = (if c = CHR ''a'' then ex_key else if c = CHR ''b'' then ex_key2 else OtherKey [])"

definition ex_url :: "string \<Rightarrow> url" where
  "ex_url s = \<lparr>url_Scheme = ''spiffe'', url_Host = ''td'', url_Path = ''/'', url_String = s\<rparr>"

definition ex_cert :: "bytes \<Rightarrow> certificate" where
  "ex_cert der = \<lparr>cert_Raw = der, cert_SerialNumber = int (length der), cert_NotBefore = 0,
     cert_NotAfter = unix_epoch + 1000 * Hour, cert_PublicKey = mark_key (last der), cert_URIs = [ex_url ''spiffe://td/margo/device/u''],
     cert_IsCA = True, cert_KeyUsageCertSign = True\<rparr>"

definition ex_req :: "bytes \<Rightarrow> certreq" where
  "ex_req der = \<lparr>req_Raw = der, req_PublicKey = mark_key (last der),
     req_SignatureAlgorithm = ECDSAWithSHA256, req_SignatureOK = True\<rparr>"

definition ex_claims :: jwt_claims where
  "ex_claims = \<lparr>jwt_Issuer = ''spiffe://td/margo/device/u'', jwt_Subject = ''spiffe://td/margo/device/u'',
     jwt_Audience = [''aud''], jwt_Expiry = Some (60 * Second), jwt_NotBefore = None,
     jwt_IssuedAt = Some 0, jwt_ID = ''j1'', jwt_raw_jti = Some ''j1''\<rparr>"

definition ex_lib :: golib where
  "ex_lib = \<lparr>sha256 = (\<lambda>b. b),
     ParseCertificate = (\<lambda>b. if b = [] then None else Some (ex_cert b)),
     MarshalPKIXPublicKey = (\<lambda>k. Some [key_mark k]),
     ParseCertificateRequest = (\<lambda>b. if b = [] then None else Some (ex_req b)),
     pem_certificate = (\<lambda>b. b),
     json_strings = (\<lambda>xs. concat xs), json_parse_strings = (\<lambda>s. Some [s]),
     url_Parse = (\<lambda>s. Some (ex_url s)),
     CreateCertificate = (\<lambda>k t parent key. Some (replicate (Suc k) (CHR ''x'') @ [key_mark key])),
     jwt_ParseSigned = (\<lambda>s algs. Inr \<lparr>jws_compact = s, jws_Headers = [\<lparr>hdr_Algorithm = ''ES256'', hdr_x5c = Some [''xa'']\<rparr>]\<rparr>),
     Header_Certificates = (\<lambda>h pool. Inr [[ex_cert ''xa'']]),
     jws_Claims = (\<lambda>j k. Some ex_claims),
     cert_Verify = (\<lambda>c roots inter. True),
     jwt_Sign = (\<lambda>c. Some ''jwt'')\<rparr>"

definition ex_issuer :: issuer_backend where
  "ex_issuer = Intermediate \<lparr>ii_trustDomain = ''td'', ii_intermediate = ex_cert ''ia'', ii_key = ex_key\<rparr>"

definition ex_config :: mis_config where
  "ex_config = \<lparr>cf_lib = ex_lib, cf_issuer = ex_issuer, cf_policy = DefaultPolicy, cf_trustDomain = ''td'',
     cf_svidTTL = Hour, cf_jwt = \<lparr>JC_Issuer = ''mis'', JC_DefaultTTL = Minute, JC_MaxTTL = Hour\<rparr>,
     cf_limits = \<lparr>MaxInWindow = 1, Window = Hour\<rparr>\<rparr>"

text \<open>The clock stands just after the Unix epoch, so that the first serial number is small.\<close>

definition ex_world :: mis where
  "ex_world = \<lparr>tabs = empty_tables, clock = (\<lambda>n. unix_epoch + int n), ticks = 0,
     uuids = (\<lambda>n. ''u'' @ replicate n (CHR ''0'')), entropy = (\<lambda>n. Some (replicate 16 (char_of n))), draws = 0,
     faults = (\<lambda>_. False), stmts = 0, serial_base = 0, serial_n = 0\<rparr>"

definition ex_csr :: CSR where
  "ex_csr = \<lparr>csr_der = ''ra'', csr_inner = ex_req ''ra'', csr_algorithm = ''ES256''\<rparr>"

definition ex_csr2 :: CSR where
  "ex_csr2 = \<lparr>csr_der = ''rb'', csr_inner = ex_req ''rb'', csr_algorithm = ''ES256''\<rparr>"

definition ex_vb :: VerifiedBootstrap where
  "ex_vb = \<lparr>VB_Method = ''m'', VB_ESI = ''e'', VB_Evidence = TokenEvidence ''t'' ''h''\<rparr>"

lemma reachable_perform: "reachable C w \<Longrightarrow> reachable C (perform C x w)"
  by (rule reachable.step) (auto simp: mis_step_iff)

lemma reachable_ex_world: "reachable ex_config ex_world"
  by (rule reachable.fresh) (simp add: ex_world_def)

lemma steps_perform: "(mis_step C)\<^sup>*\<^sup>* w (perform C x w)"
  by (rule r_into_rtranclp) (auto simp: mis_step_iff)

text \<open>An enrolled device, and a revoked one.\<close>

definition ex_enrolled :: mis where
  "ex_enrolled = perform ex_config (OpEnroll ex_vb ex_csr None) ex_world"

definition ex_revoked :: mis where
  "ex_revoked = perform ex_config (OpRevoke ''spiffe://td/margo/device/u'' ''lost'') ex_enrolled"

lemma reachable_ex_enrolled: "reachable ex_config ex_enrolled"
  unfolding ex_enrolled_def by (intro reachable_perform reachable_ex_world)

lemma reachable_ex_revoked: "reachable ex_config ex_revoked"
  unfolding ex_revoked_def by (intro reachable_perform reachable_ex_enrolled)

lemmas ex_defs =
  ex_key_def ex_key2_def key_mark_def mark_key_def ex_url_def ex_cert_def ex_req_def ex_lib_def ex_issuer_def
  ex_config_def ex_world_def ex_csr_def ex_csr2_def ex_vb_def empty_tables_def service_of_def NewService_def
  Second_def Minute_def Hour_def unix_epoch_def UnixNano_def int64_def

lemmas run_defs =
  Enroll_def handleInitial_def handleReEnrollment_def handleReplacement_def issue_for_def recordIssuance_def
  Renew_def IssuedSVIDs_Record_def CreateLDIAndBind_def Rebind_def run_sql_tx run_simps run_LookupByESI
  run_GetLDI run_GetLDIBySPIFFEID run_ActiveBySPIFFEID run_LeafByActiveSPIFFEID run_Revoke run_MarkRevoked
  insert_ldi_def insert_binding_def upsert_svid_def insert_revoked_def mark_revoked_def esi_join_def
  issuer_of_def issuer_backend.case IssueX509SVID_def supportedPublicKey_def run_Next run_draw_index Let_def AllowNewLDI_def AllowKeyRotation_def
  DefaultPolicy_def CSR_DER_def CSR_Inner_def svid_row_of_def IsZero_def zero_time_def spiffe_id_of_def

lemma ex_enroll_ok:
  "fst (run_state (Enroll ex_lib (service_of ex_config) ex_vb ex_csr None) ex_world) =
    Inr \<lparr>ER_StatusCode = 201,
         ER_LDI = \<lparr>LDI_UUID = ''u'', LDI_SPIFFEID = ''spiffe://td/margo/device/u'', LDI_Status = ''active'',
                   LDI_CreatedAt = unix_epoch, LDI_UpdatedAt = unix_epoch\<rparr>,
         ER_CertChainDER = [''xxa'', ''ia''], ER_ExpiresAt = unix_epoch + 1 + Hour\<rparr>"
  by (simp add: run_defs ex_defs LDIStatusActive_def)

definition ex_svid :: svid_row where
  "ex_svid = \<lparr>s_serial_hex = ToUpper (int_text16 3), s_fingerprint_hex = hex_EncodeToString ''xxa'',
     s_spiffe_id = ''spiffe://td/margo/device/u'', s_ldi_uuid = ''u'', s_method = ''m'',
     s_issued_at = RFC3339Nano 62135596800000000003, s_not_before = RFC3339Nano 0,
     s_not_after = RFC3339Nano 62135600400000000001, s_revoked = False, s_revoked_at = None,
     s_leaf_der = ''xxa''\<rparr>"

definition ex_ldi :: ldi_row where
  "ex_ldi = \<lparr>l_uuid = ''u'', l_spiffe_id = ''spiffe://td/margo/device/u'', l_status = ''active'',
     l_created_at = RFC3339Nano 62135596800000000000, l_updated_at = RFC3339Nano 62135596800000000000\<rparr>"

definition ex_binding :: binding_row where
  "ex_binding = \<lparr>b_esi = ''e'', b_ldi_uuid = ''u'', b_method = ''m'', b_status = ''active'',
     b_bound_at = RFC3339Nano 62135596800000000000, b_retired_at = None\<rparr>"

lemma ex_enrolled_eq:
  "ex_enrolled = \<lparr>tabs = empty_tables\<lparr>ldis := [ex_ldi], esi_bindings := [ex_binding], issued_svids := [ex_svid]\<rparr>,
     clock = clock ex_world, ticks = 4, uuids = uuids ex_world, entropy = entropy ex_world, draws = 2,
     faults = (\<lambda>_. False), stmts = 6, serial_base = 2, serial_n = 1\<rparr>"
  by (simp add: ex_enrolled_def run_defs ex_defs ex_svid_def ex_ldi_def ex_binding_def)

lemmas ex_enrolled_tables = ex_enrolled_eq empty_tables_def ex_world_def ex_ldi_def ex_binding_def ex_svid_def

text \<open>The SVID of the enrolled device has not expired at the next reading of the clock.\<close>

lemma ex_years: "four_digit_year (62135596800000000004)" "four_digit_year 62135600400000000001"
  by code_simp+

lemma ex_svid_active:
  "svid_active ''spiffe://td/margo/device/u'' (RFC3339Nano 62135596800000000004) ex_svid"
  unfolding svid_active_def ex_svid_def
  using RFC3339Nano_less [OF ex_years] by (simp add: secs_of_def Second_def)

end
