(* ===== verification/MIS_Properties.thy ===== *)
theory MIS_Properties
  imports MIS_Example
begin

text \<open>
  The properties of the identity service, each after the sentence it states, with a witness on
  the concrete instance of \<open>MIS_Example\<close> where it has hypotheses. Proofs rest on the facts of
  the interpretations: \<open>system_*\<close> for runs of the whole service, \<open>mis\<close> for the flows,
  \<open>enrollment_token\<close>, \<open>replacement_ticket\<close>, \<open>jwt_replay_table\<close>, \<open>memory_store\<close> and
  \<open>renewal_events\<close> for the stores.
\<close>

section \<open>The store and the flows\<close>

text \<open>
  C2: In every world reachable from an empty database by operations of the service and of its
  stores, under any failures, the tables satisfy what the schema promises: unique LDIs, SPIFFE
  IDs, ESIs, serials, token hashes, ticket hashes and identifiers, one active ESI per LDI, no
  dangling reference.
\<close>

theorem reachable_store_inv: "reachable C w \<Longrightarrow> store_inv (tabs w)"
  by (rule system_store.reachable_keeps [OF _ store_inv_empty])

theorem reachable_store_inv_witness:
  "store_inv (tabs ex_enrolled) \<and> length (issued_svids (tabs ex_enrolled)) = 1"
  using reachable_store_inv [OF reachable_ex_enrolled] by (simp add: ex_enrolled_tables)

text \<open>
  C1: A successful enrollment, on each of its three flows and under any failures, leaves the
  presented ESI actively bound to the answered LDI, that LDI active under the answered SPIFFE
  ID, and the answered leaf in the audit, not revoked; it answers 201 exactly when the ESI was
  unbound and no replacement was asked for.
\<close>

theorem enroll_sound:
  assumes "fst (run_state (Enroll G (NewService H i pol td ttl) vb p repl) w) = Inr res"
  shows "enrolled (VB_ESI vb) (ER_LDI res) (tabs (snd (run_state (Enroll G (NewService H i pol td ttl) vb p repl) w))) \<and>
    audited res (VB_Method vb) (tabs (snd (run_state (Enroll G (NewService H i pol td ttl) vb p repl) w))) \<and>
    ER_StatusCode res = (if esi_join (VB_ESI vb) (tabs w) \<noteq> [] \<or> repl \<noteq> None then 200 else 201)"
proof -
  let ?r = "run_state (Enroll G (NewService H i pol td ttl) vb p repl) w"
  have run: "?r = (Inr res, snd ?r)" using assms by (metis prod.collapse)
  have ne: "(\<exists>b l. (b, l) \<in> set (esi_join (VB_ESI vb) (tabs w))) \<longleftrightarrow> esi_join (VB_ESI vb) (tabs w) \<noteq> []"
    by (metis list.set_intros(1) neq_Nil_conv surj_pair empty_iff empty_set)
  from mis.Enroll_sound [OF run] show ?thesis unfolding ne by (auto split: if_splits)
qed

theorem enroll_sound_witness:
  "enrolled ''e'' \<lparr>LDI_UUID = ''u'', LDI_SPIFFEID = ''spiffe://td/margo/device/u'', LDI_Status = ''active'',
     LDI_CreatedAt = unix_epoch, LDI_UpdatedAt = unix_epoch\<rparr> (tabs ex_enrolled)"
  using enroll_sound [OF ex_enroll_ok [unfolded service_of_def]]
  by (simp add: ex_enrolled_def ex_vb_def service_of_def ex_config_def)

text \<open>
  C6: An enrollment that presents a retired ESI, or a replacement authorization together with
  an ESI that is already actively bound, changes no table (so no ticket is consumed) and fails,
  with the error for its case or with the failure of the database.
\<close>

theorem enroll_refusals:
  assumes "reachable C w" "c \<in> set (esi_bindings (tabs w))" "b_esi c = VB_ESI vb"
    "b_status c = ''retired'' \<or> (b_status c = ''active'' \<and> repl \<noteq> None)"
  shows "tabs (snd (run_state (Enroll G S vb p repl) w)) = tabs w \<and>
    fst (run_state (Enroll G S vb p repl) w) \<in> {Inl [DB_Fault],
      Inl [if b_status c = ''retired'' then ErrReplacementNotAuthorized else ErrSpuriousReplacementAuthorization]}"
proof -
  have inv: "store_inv (tabs w)" by (rule system_store.reachable_keeps [OF assms(1) store_inv_empty])
  obtain r w' where run: "run_state (Enroll G S vb p repl) w = (r, w')" by (metis surj_pair)
  from Enroll_bound_refused [OF inv assms(2-4) run] run show ?thesis by simp
qed

theorem enroll_refusals_witness:
  "tabs (snd (run_state (Enroll ex_lib (service_of ex_config) ex_vb ex_csr
     (Some \<lparr>RA_Method = ''x'', RA_Ticket = ''y''\<rparr>)) ex_enrolled)) = tabs ex_enrolled"
  using enroll_refusals [OF reachable_ex_enrolled, of ex_binding ex_vb "Some \<lparr>RA_Method = ''x'', RA_Ticket = ''y''\<rparr>"]
  by (simp add: ex_enrolled_tables ex_vb_def)

text \<open>
  C4: Once the LDI of a SPIFFE ID is revoked or retired it stays so along every run, and no
  X.509 SVID is ever issued for it again: the serials audited for that SPIFFE ID only shrink.
\<close>

theorem ended_identity_closed:
  assumes "reachable C w" "spiffe_ended sp (tabs w)" "(mis_step C)\<^sup>*\<^sup>* w w'"
  shows "spiffe_ended sp (tabs w') \<and> svid_serials sp (tabs w') \<subseteq> svid_serials sp (tabs w)"
proof -
  have "closed_to sp (svid_serials sp (tabs w)) (tabs w)"
    using assms(2) system_store.reachable_keeps [OF assms(1) store_inv_empty] by (simp add: closed_to_def)
  from closed_to_run [OF assms(3) this] show ?thesis by (simp add: closed_to_def)
qed

lemma ex_revoke_complete:
  "no_faults ex_enrolled" "ex_ldi \<in> set (ldis (tabs ex_enrolled))" "l_spiffe_id ex_ldi = ''spiffe://td/margo/device/u''"
  by (simp_all add: no_faults_def ex_enrolled_tables)

lemma ex_revoked_ended: "spiffe_ended ''spiffe://td/margo/device/u'' (tabs ex_revoked)"
proof -
  let ?r = "run_state (RevokeSPIFFEID ''spiffe://td/margo/device/u'' ''lost'') ex_enrolled"
  obtain new old err w' where r: "?r = ((new, old, err), w')" by (metis surj_pair)
  from RevokeSPIFFEID_complete [OF system_store.reachable_keeps [OF reachable_ex_enrolled store_inv_empty]
      ex_revoke_complete r] r
  show ?thesis by (simp add: ex_revoked_def)
qed

theorem ended_identity_closed_witness:
  "spiffe_ended ''spiffe://td/margo/device/u''
     (tabs (perform ex_config (OpRenew ''spiffe://td/margo/device/u'' ex_csr) ex_revoked))"
  using ended_identity_closed [OF reachable_ex_revoked ex_revoked_ended steps_perform] by blast

text \<open>
  C5: A revocation of a SPIFFE ID that has an LDI, with no database failure, succeeds, leaves no
  SVID of it outstanding at the time it was taken, puts every serial that was outstanding on the
  revocation list and ends the LDI.
\<close>

theorem revoke_complete:
  assumes "reachable C w" "no_faults w" "l \<in> set (ldis (tabs w))" "l_spiffe_id l = sp"
  shows "\<exists>new old w'. run_state (RevokeSPIFFEID sp reason) w = ((new, old, None), w') \<and>
    (\<forall>r\<in>set (issued_svids (tabs w')). \<not> svid_active sp (RFC3339Nano (clock w (ticks w))) r) \<and>
    (\<forall>r\<in>set (issued_svids (tabs w)). svid_active sp (RFC3339Nano (clock w (ticks w))) r \<longrightarrow>
       on_revocation_list (s_serial_hex r) (tabs w')) \<and>
    spiffe_ended sp (tabs w')"
proof -
  obtain new old err w' where r: "run_state (RevokeSPIFFEID sp reason) w = ((new, old, err), w')"
    by (metis surj_pair)
  from RevokeSPIFFEID_complete [OF system_store.reachable_keeps [OF assms(1) store_inv_empty] assms(2-4) r] r
  show ?thesis by auto
qed

theorem revoke_complete_witness:
  "\<exists>new old w'. run_state (RevokeSPIFFEID ''spiffe://td/margo/device/u'' ''lost'') ex_enrolled = ((new, old, None), w') \<and>
    on_revocation_list (s_serial_hex ex_svid) (tabs w')"
proof -
  have "ex_svid \<in> set (issued_svids (tabs ex_enrolled))" by (simp add: ex_enrolled_eq)
  moreover have "RFC3339Nano (clock ex_enrolled (ticks ex_enrolled)) = RFC3339Nano 62135596800000000004"
    by (simp add: ex_enrolled_eq ex_world_def unix_epoch_def Second_def)
  ultimately show ?thesis
    using revoke_complete [OF reachable_ex_enrolled ex_revoke_complete, of "''lost''"] ex_svid_active by metis
qed

text \<open>
  C7: The binding of an ESI is immutable along every run: a bound ESI stays bound to the same
  LDI, no other LDI is ever bound to it, and a retired binding stays retired.
\<close>

theorem esi_immutable:
  assumes "reachable C w" "(mis_step C)\<^sup>*\<^sup>* w w'" "esi_bound esi u (tabs w)"
  shows "(esi_bound esi v (tabs w') \<longleftrightarrow> v = u) \<and> (esi_retired esi (tabs w) \<longrightarrow> esi_retired esi (tabs w'))"
proof -
  have "store_inv (tabs w')"
    by (rule system_store.steps_keep [OF assms(2)]) (rule system_store.reachable_keeps [OF assms(1) store_inv_empty])
  then have "distinct (map b_esi (esi_bindings (tabs w')))" by (simp add: store_inv_def identities_inv_def)
  moreover have "esi_bound esi u (tabs w')" by (rule system_esi_bound.steps_keep [OF assms(2,3)])
  ultimately show ?thesis
    using distinct_map_eq system_esi_retired.steps_keep [OF assms(2)] by (metis esi_bound_def)
qed

theorem esi_immutable_witness:
  "esi_bound ''e'' ''u'' (tabs (perform ex_config (OpEnroll ex_vb ex_csr None) ex_enrolled)) \<and>
   \<not> esi_bound ''e'' ''v'' (tabs (perform ex_config (OpEnroll ex_vb ex_csr None) ex_enrolled))"
  using esi_immutable [OF reachable_ex_enrolled steps_perform, of "''e''" "''u''"]
  by (simp add: ex_enrolled_tables esi_bound_def del: perform.simps)

section \<open>Renewal and JWT SVIDs\<close>




text \<open>
  C9: With the rotation policy off, a renewal whose request carries another key than the newest
  outstanding leaf is refused with its own error or a database failure, and changes no table.
\<close>

theorem renew_key_pinned:
  assumes "\<not> AllowKeyRotation pol" "l_status l = ''active''"
    "first_row (filter (\<lambda>k. l_spiffe_id k = sp) (ldis (tabs w))) = Some l"
    "first_row (order_by_desc s_issued_at (filter (svid_active sp (RFC3339Nano (clock w (ticks w)))) (issued_svids (tabs w)))) = Some r"
    "renewalKeyChanged G (s_leaf_der r) (CSR_Inner p) = Inr True"
  shows "tabs (snd (run_state (Renew G (NewService H i pol td ttl) sp p) w)) = tabs w \<and>
    fst (run_state (Renew G (NewService H i pol td ttl) sp p) w) \<in> {Inl [DB_Fault], Inl [ErrKeyRotationNotPermitted]}"
  using assms
  by (simp add: Renew_def run_GetLDIBySPIFFEID run_LeafByActiveSPIFFEID run_simps NewService_def
      LDIStatusActive_def scan_svid_def)

theorem renew_key_pinned_witness:
  "fst (run_state (Renew ex_lib (NewService ex_lib ex_issuer \<lparr>NewLDI = True, KeyRotation = False\<rparr> ''td'' Hour)
     ''spiffe://td/margo/device/u'' ex_csr2) ex_enrolled) \<in> {Inl [DB_Fault], Inl [ErrKeyRotationNotPermitted]}"
proof -
  have "first_row (filter (\<lambda>k. l_spiffe_id k = ''spiffe://td/margo/device/u'') (ldis (tabs ex_enrolled))) = Some ex_ldi"
    by (simp add: ex_enrolled_eq ex_ldi_def)
  moreover have "first_row (order_by_desc s_issued_at (filter (svid_active ''spiffe://td/margo/device/u''
      (RFC3339Nano (clock ex_enrolled (ticks ex_enrolled)))) (issued_svids (tabs ex_enrolled)))) = Some ex_svid"
    using ex_svid_active by (simp add: ex_enrolled_eq ex_world_def unix_epoch_def Second_def order_by_desc_def)
  moreover have "renewalKeyChanged ex_lib (s_leaf_der ex_svid) (CSR_Inner ex_csr2) = Inr True"
    by (simp add: renewalKeyChanged_def ex_defs ex_svid_def CSR_Inner_def)
  ultimately show ?thesis
    using renew_key_pinned [of "\<lparr>NewLDI = True, KeyRotation = False\<rparr>" ex_ldi "''spiffe://td/margo/device/u''" ex_enrolled]
    by (simp add: AllowKeyRotation_def ex_ldi_def)
qed




end
