(* ===== verification/MIS_Store_Properties.thy ===== *)
theory MIS_Store_Properties
  imports MIS_Example
begin

text \<open>
  The properties of the stores, of the request parser and of the issuer's serial numbers.
\<close>

section \<open>One-time credentials\<close>

text \<open>
  C14: From every reachable world, in every sequence of uses of enrollment tokens mixed with
  creations, recorded outcomes and lookups, and under any failures, a token is consumed
  successfully at most once; and likewise a replacement ticket is accepted at most once, among any
  other validations and creations of tickets.
\<close>

theorem credentials_single_use:
  assumes "reachable C w"
  shows "successes (\<lambda>h now. run_state (EnrollmentTokens_Consume h now)) (token_other G) h calls w \<le> 1 \<and>
    successes (\<lambda>tk now. run_state (ReplacementTickets_Validate G tk now)) (ticket_other G) tk calls' w \<le> 1"
  by (intro conjI enrollment_token.at_most_once replacement_ticket.at_most_once)
    (use system_store.reachable_keeps [OF assms store_inv_empty] in \<open>auto simp: store_inv_def\<close>)

theorem credentials_single_use_witness:
  "successes (\<lambda>h now. run_state (EnrollmentTokens_Consume h now)) (token_other ex_lib) (replicate 16 (char_of (0 :: nat)))
     [Other (Create Hour 0), Use (replicate 16 (char_of (0 :: nat))) 1, Use (replicate 16 (char_of (0 :: nat))) 2] ex_enrolled \<le> 1 \<and>
   successes (\<lambda>tk now. run_state (ReplacementTickets_Validate ex_lib tk now)) (ticket_other ex_lib) ''margo-rt-v1.x''
     [Other (''u'', Hour, 0), Use ''margo-rt-v1.x'' 1, Use ''margo-rt-v1.x'' 2] ex_enrolled \<le> 1"
  by (rule credentials_single_use [OF reachable_ex_enrolled])

definition new_token_row :: "golib \<Rightarrow> Created \<Rightarrow> gotime \<Rightarrow> token_row" where
  "new_token_row G c now = \<lparr>t_token_id = Cr_TokenID c, t_secret_hash = Secret_Hash G (Cr_Secret c),
     t_status = ''active'', t_expires_at = RFC3339Nano (Cr_ExpiresAt c), t_created_at = RFC3339Nano now,
     t_consumed_at = None\<rparr>"

lemma Create_Inr:
  assumes "run_state (EnrollmentTokens_Create G ttl now) w = (Inr c, w')"
  shows "length (sec_raw (Cr_Secret c)) = SecretLenBytes" "Cr_ExpiresAt c = now + ttl"
    "\<forall>q\<in>set (enrollment_tokens (tabs w)). t_secret_hash q \<noteq> Secret_Hash G (Cr_Secret c) \<and> t_token_id q \<noteq> Cr_TokenID c"
    "enrollment_tokens (tabs w') = enrollment_tokens (tabs w) @ [new_token_row G c now]" "faults w' = faults w"
  using assms
  by (auto simp: EnrollmentTokens_Create_def NewSecret_def run_simps Let_def insert_token_def new_token_row_def
      image_iff split: if_splits sum.splits option.splits)

text \<open>
  A created enrollment token works: its wire form parses back to its secret, and with no
  database failure the store consumes that secret's hash as the token created, at every time
  before the expiry answered to the operator, and refuses it as expired from then on.
\<close>

lemma created_token_usable:
  assumes run: "run_state (EnrollmentTokens_Create G ttl now) w = (Inr c, w')"
    and nf: "no_faults w" and year: "four_digit_year (now + ttl)"
  shows "ParseSecret (Secret_Wire (Cr_Secret c)) = Inr (Cr_Secret c) \<and>
    fst (run_state (EnrollmentTokens_Consume (Secret_Hash G (Cr_Secret c)) at) w') =
      (if at < Cr_ExpiresAt c then Inr (Cr_TokenID c) else Inl [Tokens_ErrExpired])"
proof -
  note c = Create_Inr [OF run]
  have hit: "token_by_hash (Secret_Hash G (Cr_Secret c)) (tabs w') = Some (new_token_row G c now)"
    using c(3) by (simp add: token_by_hash_def c(4) new_token_row_def)
  have one: "count_where (\<lambda>q. t_token_id q = Cr_TokenID c \<and> t_status q = ''active'') (enrollment_tokens (tabs w')) = 1"
    using c(3) by (simp add: count_where_def c(4) new_token_row_def)
  show ?thesis
    using hit one nf c(2,5) parse_RFC3339Nano [OF year] ParseSecret_Wire [OF c(1)]
    by (simp add: EnrollmentTokens_Consume_def run_sql_tx run_simps no_faults_def StatusConsumed_def consume_token_def
        new_token_row_def)
qed

section \<open>Replay\<close>

lemma ex_mono: "mono (clock ex_world)"
  by (simp add: ex_world_def mono_def)

text \<open>
  C16: In both replay stores, with a clock that does not step back, two accepted witnesses of one
  identifier are never both alive: the later is accepted only at or after the expiry the earlier
  was accepted with. For the store in the database this holds under any failures, for the store in
  memory with its sweeps at any point between the calls.
\<close>

theorem replay_safe:
  assumes "mono (clock w)" "\<forall>x\<in>set calls. storable_call four_digit_year x" and mem: "mono (ms_clock s)"
  shows "sorted_wrt (\<lambda>(j, e, _) (k, _, n). k = j \<longrightarrow> e \<le> n)
      (accepted (\<lambda>j e. run_state (JWTReplay_Witness j e)) (\<lambda>_ :: unit. \<lambda>w. w) (\<lambda>w. clock w (ticks w)) calls w) \<and>
    sorted_wrt (\<lambda>(j, e, _) (k, _, n). k = j \<longrightarrow> e \<le> n)
      (accepted (\<lambda>j e. run_state (Memory_Witness j e)) (\<lambda>_ :: unit. \<lambda>s. snd (run_state Memory_Sweep s))
        (\<lambda>s. ms_clock s (ms_ticks s)) calls' s)"
proof (intro conjI jwt_replay_table.no_replay [OF assms(1,2)] memory_store.no_replay [OF mem])
  have "storable_call (\<lambda>_. True) x" for x :: "(string, gotime, unit) call" by (cases x) auto
  then show "\<forall>x\<in>set calls'. storable_call (\<lambda>_. True) x" by blast
qed

theorem replay_safe_witness:
  "sorted_wrt (\<lambda>(j, e, _) (k, _, n). k = j \<longrightarrow> e \<le> n)
    (accepted (\<lambda>j e. run_state (JWTReplay_Witness j e)) (\<lambda>_ :: unit. \<lambda>w. w) (\<lambda>w. clock w (ticks w))
      [Use ''j'' 5, Use ''j'' 7] ex_world) \<and>
   accepted (\<lambda>j e. run_state (Memory_Witness j e)) (\<lambda>_ :: unit. \<lambda>s. snd (run_state Memory_Sweep s))
     (\<lambda>s. ms_clock s (ms_ticks s)) [Use ''j'' 2, Use ''j'' 9, Other (), Use ''j'' 9] (NewMemoryStore int) =
     [(''j'', 2, 0), (''j'', 9, 3)] \<and>
   sorted_wrt (\<lambda>(j, e, _) (k, _, n). k = j \<longrightarrow> e \<le> n)
    (accepted (\<lambda>j e. run_state (Memory_Witness j e)) (\<lambda>_ :: unit. \<lambda>s. snd (run_state Memory_Sweep s))
      (\<lambda>s. ms_clock s (ms_ticks s)) [Use ''j'' 2, Use ''j'' 9, Other (), Use ''j'' 9] (NewMemoryStore int))"
proof -
  have "four_digit_year 5" "four_digit_year 7" by code_simp+
  then have "\<forall>x\<in>set [Use ''j'' 5, Use ''j'' 7]. storable_call four_digit_year x" by simp
  moreover have "mono (ms_clock (NewMemoryStore int))" by (simp add: NewMemoryStore_def mono_def)
  moreover have "accepted (\<lambda>j e. run_state (Memory_Witness j e)) (\<lambda>_ :: unit. \<lambda>s. snd (run_state Memory_Sweep s))
     (\<lambda>s. ms_clock s (ms_ticks s)) [Use ''j'' 2, Use ''j'' 9, Other (), Use ''j'' 9] (NewMemoryStore int) =
     [(''j'', 2, 0), (''j'', 9, 3)]"
    by (simp add: run_Memory_Witness Memory_Sweep_def Let_def NewMemoryStore_def)
  ultimately show ?thesis using replay_safe [OF ex_mono] by blast
qed

section \<open>The renewal budget\<close>



section \<open>Requests and serial numbers\<close>


text \<open>The serial numbers of the first certificates of a process.\<close>

fun serials :: "nat \<Rightarrow> mis \<Rightarrow> int list" where
  "serials 0 w = []"
| "serials (Suc k) w = (case run_state Next w of (s, w') \<Rightarrow> s # serials k w')"

lemma serials_eq:
  assumes "serial_base w = b" "b \<noteq> 0" "0 \<le> serial_n w" "serial_n w + int k < 9223372036854775808"
  shows "serials k w = map (\<lambda>j. b * 2 ^ 20 + serial_n w + int j + 1) [0..<k]"
  using assms
proof (induction k arbitrary: w)
  case 0
  then show ?case by simp
next
  case (Suc k)
  have n: "int64 (serial_n w + 1) = serial_n w + 1" using Suc.prems by (intro int64_id) auto
  let ?w = "w\<lparr>serial_n := serial_n w + 1\<rparr>"
  have "serials k ?w = map (\<lambda>j. b * 2 ^ 20 + serial_n ?w + int j + 1) [0..<k]"
    by (rule Suc.IH) (use Suc.prems in auto)
  moreover have "[0..<Suc k] = 0 # map Suc [0..<k]" by (simp add: map_Suc_upt upt_conv_Cons del: upt_Suc)
  ultimately show ?case using Suc.prems n by (simp add: run_Next Let_def del: upt_Suc)
qed

lemma serials_fresh:
  assumes "serial_base w = 0" "serial_n w = 0" "b = UnixNano (clock w (ticks w))" "b \<noteq> 0"
    "int k < 9223372036854775808"
  shows "serials k w = map (\<lambda>j. b * 2 ^ 20 + int j + 1) [0..<k]"
proof (cases k)
  case 0
  then show ?thesis by simp
next
  case (Suc m)
  let ?w = "w\<lparr>ticks := Suc (ticks w), serial_base := b, serial_n := 1\<rparr>"
  have "serials m ?w = map (\<lambda>j. b * 2 ^ 20 + serial_n ?w + int j + 1) [0..<m]"
    by (rule serials_eq) (use assms Suc in auto)
  moreover have "[0..<Suc m] = 0 # map Suc [0..<m]" by (simp add: map_Suc_upt upt_conv_Cons del: upt_Suc)
  ultimately show ?thesis using assms Suc by (simp add: run_Next Let_def int64_id del: upt_Suc)
qed

text \<open>
  C20: The serial numbers of one process are pairwise different, and none of them is used again
  by a process started later, as long as the earlier one issued no more than \<open>2 ^ 20\<close>
  certificates for every nanosecond between the two starts.
\<close>

theorem serials_unique:
  assumes "serial_base v = 0" "serial_n v = 0" "UnixNano (clock v (ticks v)) = b" "b \<noteq> 0"
    "serial_base w = 0" "serial_n w = 0" "UnixNano (clock w (ticks w)) = c" "b < c" "c \<noteq> 0"
    "int k \<le> (c - b) * 2 ^ 20" "int k < 9223372036854775808" "int m < 9223372036854775808"
  shows "distinct (serials k v @ serials m w)"
proof -
  have v: "serials k v = map (\<lambda>j. b * 2 ^ 20 + int j + 1) [0..<k]" by (rule serials_fresh) (use assms in simp_all)
  have w: "serials m w = map (\<lambda>j. c * 2 ^ 20 + int j + 1) [0..<m]" by (rule serials_fresh) (use assms in simp_all)
  have lt: "b * 2 ^ 20 + int i + 1 < c * 2 ^ 20 + int j + 1" if "i < k" for i j
    using that assms(10) by (simp add: left_diff_distrib)
  have "x \<noteq> y" if "x \<in> set (serials k v)" "y \<in> set (serials m w)" for x y
    using that lt unfolding v w by (metis (no_types, lifting) atLeastLessThan_iff ex_map_conv less_irrefl list.set_map set_upt imageE)
  then show ?thesis by (auto simp: v w distinct_map inj_on_def)
qed

theorem serials_unique_witness:
  "distinct (serials 3 (ex_world\<lparr>ticks := 1\<rparr>) @ serials 3 (ex_world\<lparr>ticks := 2\<rparr>))"
  by (rule serials_unique [of "ex_world\<lparr>ticks := 1\<rparr>" 1 "ex_world\<lparr>ticks := 2\<rparr>" 2])
    (simp_all add: ex_world_def UnixNano_def int64_def)

section \<open>Expiry and the revocation list\<close>

text \<open>
  C21: Whether an issued SVID counts as outstanding is decided on the texts of two times. It is
  right when they lie in different seconds; within the second of a whole-second expiry it is
  not: the SVID stays outstanding after its expiry until that second ends, except at its very
  start.
\<close>

theorem svid_active_by_text:
  assumes "four_digit_year now" "four_digit_year (IS_NotAfter rec)"
    "secs_of now \<noteq> secs_of (IS_NotAfter rec) \<or> nanos_of (IS_NotAfter rec) = 0"
  shows "svid_active sp (RFC3339Nano now) (svid_row_of rec) \<longleftrightarrow>
    IS_SPIFFEID rec = sp \<and> \<not> IS_Revoked rec \<and>
    (now < IS_NotAfter rec \<or> (secs_of now = secs_of (IS_NotAfter rec) \<and> nanos_of now \<noteq> 0))"
proof -
  have t: "now = secs_of now * Second + int (nanos_of now)"
    "IS_NotAfter rec = secs_of (IS_NotAfter rec) * Second + int (nanos_of (IS_NotAfter rec))"
    "int (nanos_of now) < Second" "int (nanos_of (IS_NotAfter rec)) < Second"
    by (simp_all add: secs_of_def nanos_of_def Second_def)
  have step: "x * Second + u < y * Second + v" if "x < y" "u < Second" "0 \<le> v" for x y u v :: int
  proof -
    have "(x + 1) * Second \<le> y * Second" using that(1) by (intro mult_right_mono) (simp_all add: Second_def)
    then show ?thesis using that by (simp add: distrib_right)
  qed
  have "RFC3339Nano now < RFC3339Nano (IS_NotAfter rec) \<longleftrightarrow>
    now < IS_NotAfter rec \<or> (secs_of now = secs_of (IS_NotAfter rec) \<and> nanos_of now \<noteq> 0)"
  proof (cases "secs_of now = secs_of (IS_NotAfter rec)")
    case True
    then have "nanos_of (IS_NotAfter rec) = 0" using assms(3) by simp
    with RFC3339Nano_less_whole [OF assms(1,2)] True t(1,2) show ?thesis by auto
  next
    case False
    then have "RFC3339Nano now < RFC3339Nano (IS_NotAfter rec) \<longleftrightarrow> secs_of now < secs_of (IS_NotAfter rec)"
      using RFC3339Nano_less [OF assms(1,2)] RFC3339Nano_lessD [OF assms(1,2)] by force
    moreover have "now < IS_NotAfter rec \<longleftrightarrow> secs_of now < secs_of (IS_NotAfter rec)"
      using step [of "secs_of now" "secs_of (IS_NotAfter rec)" "int (nanos_of now)" "int (nanos_of (IS_NotAfter rec))"]
        step [of "secs_of (IS_NotAfter rec)" "secs_of now" "int (nanos_of (IS_NotAfter rec))" "int (nanos_of now)"] t False
      by (metis int_nat_eq linorder_neqE_linordered_idom not_less_iff_gr_or_eq of_nat_0_le_iff)
    ultimately show ?thesis using False by simp
  qed
  then show ?thesis by (auto simp: svid_active_def svid_row_of_def)
qed

definition ex_record :: IssuedSVIDRecord where
  "ex_record = \<lparr>IS_SerialHex = ''1'', IS_FingerprintHex = ''f'', IS_SPIFFEID = ''s'', IS_LDIUUID = ''u'',
     IS_Method = ''m'', IS_IssuedAt = 0, IS_NotBefore = 0, IS_NotAfter = 5 * Second, IS_Revoked = False,
     IS_RevokedAt = 0, IS_LeafDER = ''x''\<rparr>"

theorem svid_active_by_text_witness:
  "svid_active ''s'' (RFC3339Nano (5 * Second + 1)) (svid_row_of ex_record) \<and> IS_NotAfter ex_record < 5 * Second + 1"
proof -
  have "four_digit_year (5 * Second + 1)" "four_digit_year (IS_NotAfter ex_record)" by code_simp+
  from svid_active_by_text [OF this, of "''s''"] show ?thesis
    by (simp add: ex_record_def secs_of_def nanos_of_def Second_def)
qed




end
