(* ===== verification/MIS_Bootstrap.thy ===== *)
theory MIS_Bootstrap
  imports MIS_System Go_HTTP
begin

text \<open>
  \<^verbatim>\<open>pkg/mis/bootstrap\<close>: the interface of bootstrap methods, its registry and the three
  validators \<^verbatim>\<open>factorycertmtls\<close>, \<^verbatim>\<open>factorycertjwt\<close> and \<^verbatim>\<open>enrollmenttoken\<close>,
  with the wire types of \<^verbatim>\<open>pkg/common/enrollment.go\<close> they exchange.

  A validator is a program from the request and the credential to an outcome: the cached
  response of an earlier enrollment, or a verified bootstrap with an optional hook to call once
  the enrollment has succeeded. Go's texts of errors are not modelled, only the sentinels
  \<^verbatim>\<open>errors.Is\<close> finds. The clocks of the validators are \<^verbatim>\<open>time.Now\<close>, their default.
\<close>

section \<open>Wire types\<close>

record SVIDRequestX509DTO =
  SR_CSR :: string

record BootstrapProof =
  BP_Assertion :: string
  BP_Token :: string

record BootstrapCredentialDTO =
  BC_Method :: string
  BC_Proof :: "BootstrapProof option"

record EnrollmentRequestDTO =
  EQ_SVIDProfileURI :: string
  EQ_SVIDRequest :: SVIDRequestX509DTO
  EQ_BootstrapCredential :: BootstrapCredentialDTO
  EQ_ReplacementAuthorization :: "ReplacementAuthorizationDTO option"

record X509SVIDDTO =
  XS_CertificateChainPEM :: "string list"

record EnrollmentResponseDTO =
  EP_SVIDProfileURI :: string
  EP_SVID :: X509SVIDDTO

definition SVIDProfileURIX509V1 :: string where
  "SVIDProfileURIX509V1 = ''https://margo.org/profiles/spiffe/x509-svid/v1''"

definition SVIDProfileURIJWTV1 :: string where
  "SVIDProfileURIJWTV1 = ''https://margo.org/profiles/spiffe/jwt-svid/v1''"

definition BootstrapMethodFactoryCertMTLS :: string where
  "BootstrapMethodFactoryCertMTLS = ''urn:margo:bootstrap:factory-cert-mtls:v1''"

definition BootstrapMethodFactoryCertJWT :: string where
  "BootstrapMethodFactoryCertJWT = ''urn:margo:bootstrap:factory-cert-jwt:v1''"

definition BootstrapMethodEnrollmentToken :: string where
  "BootstrapMethodEnrollmentToken = ''urn:margo:bootstrap:enrollment-token:v1''"

section \<open>Outcomes and the registry\<close>

record CachedResponse =
  CR_Response :: EnrollmentResponseDTO
  CR_StatusCode :: int

type_synonym commit = "EnrollmentResponseDTO option \<Rightarrow> int \<Rightarrow> string \<Rightarrow> unit result prog"

record PendingEnrollment =
  PE_VB :: VerifiedBootstrap
  PE_Commit :: "commit option"

text \<open>Of the two pointers of \<^verbatim>\<open>ValidationOutcome\<close> exactly one is not nil.\<close>

datatype ValidationOutcome = Replay CachedResponse | Pending PendingEnrollment

type_synonym Validator =
  "http_request \<Rightarrow> BootstrapCredentialDTO \<Rightarrow> string \<Rightarrow> string \<Rightarrow> ValidationOutcome result prog"

text \<open>A Go map from method URNs to validators, as an association list without duplicates.\<close>

type_synonym Registry = "(string \<times> Validator) list"

definition NewRegistry :: Registry where
  "NewRegistry = []"

definition Register :: "string \<Rightarrow> Validator \<Rightarrow> Registry \<Rightarrow> Registry" where
  "Register meth v r = (meth, v) # filter (\<lambda>p. fst p \<noteq> meth) r"

definition Lookup :: "Registry \<Rightarrow> string \<Rightarrow> Validator result" where
  "Lookup r meth = (case map_of r meth of None \<Rightarrow> Inl [ErrUnsupportedMethod] | Some v \<Rightarrow> Inr v)"

definition Methods :: "Registry \<Rightarrow> string list" where
  "Methods r = sort (map fst r)"

section \<open>factory-cert-mtls\<close>

definition Mtls_Validate :: "golib \<Rightarrow> cert_pool \<Rightarrow> Validator" where
  "Mtls_Validate G roots r cred csrB64 svidProfileURI = State_Monad.return
     (if (case BC_Proof cred of None \<Rightarrow> False | Some p \<Rightarrow> BP_Assertion p \<noteq> [] \<or> BP_Token p \<noteq> [])
      then Inl [Mtls_ErrUnexpectedProof]
      else case rq_PeerCertificates r of
        None \<Rightarrow> Inl [Mtls_ErrMissingMTLS]
      | Some [] \<Rightarrow> Inl [Mtls_ErrMissingMTLS]
      | Some (leaf # intermediates) \<Rightarrow>
          if \<not> cert_Verify G leaf roots intermediates then Inl [Mtls_ErrUntrustedChain]
          else Inr (Pending \<lparr>PE_VB = \<lparr>VB_Method = BC_Method cred, VB_ESI = sha256 G (cert_Raw leaf),
                                     VB_Evidence = LeafEvidence leaf\<rparr>, PE_Commit = None\<rparr>))"

section \<open>factory-cert-jwt\<close>

record JwtConfig =
  jc_Roots :: cert_pool
  jc_Audience :: string
  jc_Replay :: "string \<Rightarrow> gotime \<Rightarrow> unit result prog"
  jc_ClockSkew :: duration
  jc_MaxAssertionLifetime :: duration

definition permittedAlgs :: "string list" where
  "permittedAlgs = [''ES256'', ''PS256'']"

text \<open>\<^verbatim>\<open>factorycertjwt.New\<close>; \<open>None\<close> is its panic.\<close>

definition Jwt_New :: "JwtConfig \<Rightarrow> JwtConfig option" where
  "Jwt_New cfg =
     (if jc_Audience cfg = [] then None
      else Some (let c1 = (if jc_ClockSkew cfg = 0 then cfg\<lparr>jc_ClockSkew := 30 * Second\<rparr> else cfg) in
        if jc_MaxAssertionLifetime c1 = 0 then c1\<lparr>jc_MaxAssertionLifetime := 5 * Minute\<rparr> else c1))"

text \<open>
  The helpers that \<^verbatim>\<open>factorycertjwt\<close> and \<^verbatim>\<open>jwtexchange\<close> both have, with their
  different errors for a missing \<^verbatim>\<open>x5c\<close> header and a rejected chain as arguments.
\<close>

definition extractAndVerifyChain ::
    "golib \<Rightarrow> sentinel \<Rightarrow> sentinel \<Rightarrow> jose_header \<Rightarrow> cert_pool \<Rightarrow> certificate result" where
  "extractAndVerifyChain G malformed untrusted h roots = (case Header_Certificates G h roots of
     Inl ErrMissingX5cHeader \<Rightarrow> Inl [malformed]
   | Inl ChainRejected \<Rightarrow> Inl [untrusted]
   | Inr [] \<Rightarrow> Inl [malformed]
   | Inr ([] # _) \<Rightarrow> Inl [malformed]
   | Inr ((leaf # _) # _) \<Rightarrow> Inr leaf)"

definition algMatchesLeafKey :: "string \<Rightarrow> certificate \<Rightarrow> unit result" where
  "algMatchesLeafKey alg leaf = (case cert_PublicKey leaf of
     ECDSA_PublicKey _ _ _ \<Rightarrow> if alg \<noteq> ''ES256'' then Inl [Opaque ''leaf key is ECDSA''] else Inr ()
   | RSA_PublicKey _ _ \<Rightarrow> if alg \<noteq> ''PS256'' then Inl [Opaque ''leaf key is RSA''] else Inr ()
   | OtherKey _ \<Rightarrow> Inl [Opaque ''unsupported leaf key type''])"

definition hexFingerprint :: "golib \<Rightarrow> bytes \<Rightarrow> string" where
  "hexFingerprint G raw = hex_EncodeToString (sha256 G raw)"

text \<open>
  The checks of \<^verbatim>\<open>Validate\<close> up to the reading of the clock, and from there to the
  witnessing of the identifier. The first part changes nothing.
\<close>

definition jwt_verified :: "golib \<Rightarrow> JwtConfig \<Rightarrow> string \<Rightarrow> (certificate \<times> jwt_claims \<times> gotime) result" where
  "jwt_verified G cfg assertion = (case jwt_ParseSigned G assertion permittedAlgs of
     Inl UnexpectedSignatureAlgorithm \<Rightarrow> Inl [Jwt_ErrUnsupportedAlg]
   | Inl ParseFailed \<Rightarrow> Inl [Jwt_ErrMalformedAssertion]
   | Inr parsed \<Rightarrow> (case jws_Headers parsed of
       [hdr] \<Rightarrow>
         (case extractAndVerifyChain G Jwt_ErrMalformedAssertion Jwt_ErrUntrustedChain hdr (jc_Roots cfg) of
            Inl e \<Rightarrow> Inl e
          | Inr leaf \<Rightarrow> (case algMatchesLeafKey (hdr_Algorithm hdr) leaf of
              Inl e \<Rightarrow> Inl [Jwt_ErrUnsupportedAlg]
            | Inr _ \<Rightarrow> (case jws_Claims G parsed (cert_PublicKey leaf) of
                None \<Rightarrow> Inl [Jwt_ErrBadSignature]
              | Some std \<Rightarrow>
                  if jwt_Issuer std \<noteq> ''urn:margo:device:sha256:'' @ hexFingerprint G (cert_Raw leaf)
                  then Inl [Jwt_ErrClaimInvalid]
                  else if jwt_Subject std \<noteq> jwt_Issuer std then Inl [Jwt_ErrClaimInvalid]
                  else if jwt_Audience std \<noteq> [jc_Audience cfg] then Inl [Jwt_ErrClaimInvalid]
                  else case (jwt_Expiry std, jwt_IssuedAt std) of
                    (Some exp, Some iat) \<Rightarrow>
                      if jc_MaxAssertionLifetime cfg < time_sub exp iat then Inl [Jwt_ErrClaimInvalid]
                      else Inr (leaf, std, exp)
                  | _ \<Rightarrow> Inl [Jwt_ErrClaimMissing])))
     | _ \<Rightarrow> Inl [Jwt_ErrMalformedAssertion]))"

definition Jwt_Validate :: "golib \<Rightarrow> JwtConfig \<Rightarrow> Validator" where
  "Jwt_Validate G cfg r cred csrB64 svidProfileURI = (case BC_Proof cred of
     None \<Rightarrow> State_Monad.return (Inl [Jwt_ErrMissingAssertion])
   | Some proof \<Rightarrow>
       if TrimSpace (BP_Assertion proof) = [] then State_Monad.return (Inl [Jwt_ErrMissingAssertion])
       else case jwt_verified G cfg (BP_Assertion proof) of
         Inl e \<Rightarrow> State_Monad.return (Inl e)
       | Inr (leaf, std, exp) \<Rightarrow> do {
           now \<leftarrow> time_Now;
           if exp + jc_ClockSkew cfg < now then State_Monad.return (Inl [Jwt_ErrClaimInvalid])
           else if (case jwt_NotBefore std of None \<Rightarrow> False | Some nbf \<Rightarrow> now + jc_ClockSkew cfg < nbf)
           then State_Monad.return (Inl [Jwt_ErrClaimInvalid])
           else do {
             let jti = (case jwt_raw_jti std of None \<Rightarrow> [] | Some j \<Rightarrow> j);
             if TrimSpace jti = [] then State_Monad.return (Inl [Jwt_ErrClaimMissing])
             else do {
               w \<leftarrow> jc_Replay cfg jti (exp + jc_ClockSkew cfg);
               State_Monad.return (case w of
                 Inl e \<Rightarrow> if errors_Is e Replay_ErrReplay then Inl [Jwt_ErrReplay] else Inl e
               | Inr _ \<Rightarrow> Inr (Pending \<lparr>PE_VB = \<lparr>VB_Method = BC_Method cred,
                   VB_ESI = sha256 G (cert_Raw leaf), VB_Evidence = LeafEvidence leaf\<rparr>,
                   PE_Commit = None\<rparr>)) } } })"

section \<open>enrollment-token\<close>

definition MaxRetryWindow :: duration where "MaxRetryWindow = 15 * Minute"

definition DefaultRetryWindow :: duration where "DefaultRetryWindow = 5 * Minute"

text \<open>\<^verbatim>\<open>enrollmenttoken.New\<close>: the window it settles on, which \<^verbatim>\<open>RetryWindow\<close> returns.\<close>

definition RetryWindow :: "duration \<Rightarrow> duration" where
  "RetryWindow configured =
     (let w = (if configured \<le> 0 then DefaultRetryWindow else configured) in
      if MaxRetryWindow < w then MaxRetryWindow else w)"

definition csrPubKeyFingerprint :: "golib \<Rightarrow> string \<Rightarrow> bytes result" where
  "csrPubKeyFingerprint G csrB64 = (case Std_DecodeString csrB64 of
     None \<Rightarrow> Inl [Opaque ''csr base64 decode'']
   | Some der \<Rightarrow> (case ParseCertificateRequest G der of
       None \<Rightarrow> Inl [Opaque ''parse CSR'']
     | Some req \<Rightarrow> (case MarshalPKIXPublicKey G (req_PublicKey req) of
         None \<Rightarrow> Inl [Opaque ''marshal CSR public key'']
       | Some spki \<Rightarrow> Inr (sha256 G spki))))"

text \<open>\<^verbatim>\<open>Proof.Token\<close> when a proof is there and the token is not blank.\<close>

definition proof_token :: "BootstrapCredentialDTO \<Rightarrow> string option" where
  "proof_token cred = (case BC_Proof cred of
     None \<Rightarrow> None | Some p \<Rightarrow> if TrimSpace (BP_Token p) = [] then None else Some (BP_Token p))"

definition Token_validate :: "golib \<Rightarrow> BootstrapCredentialDTO \<Rightarrow> VerifiedBootstrap result prog" where
  "Token_validate G cred = (case proof_token cred of
     None \<Rightarrow> State_Monad.return (Inl [ErrMissingToken])
   | Some token \<Rightarrow> (case ParseSecret token of
       Inl e \<Rightarrow> State_Monad.return (Inl (ErrInvalidToken # e))
     | Inr secret \<Rightarrow> do {
         now \<leftarrow> time_Now;
         c \<leftarrow> EnrollmentTokens_Consume (Secret_Hash G secret) now;
         State_Monad.return (case c of
           Inl e \<Rightarrow>
             if errors_Is e Tokens_ErrNotFound \<or> errors_Is e Tokens_ErrExpired \<or> errors_Is e Tokens_ErrAlreadyUsed
             then Inl (ErrInvalidToken # e) else Inl e
         | Inr tokenID \<Rightarrow> Inr \<lparr>VB_Method = BC_Method cred, VB_ESI = sha256 G tokenID,
             VB_Evidence = TokenEvidence tokenID (Secret_Hash G secret)\<rparr>) }))"

definition Token_commit ::
    "golib \<Rightarrow> duration \<Rightarrow> VerifiedBootstrap \<Rightarrow> string \<Rightarrow> commit" where
  "Token_commit G window vb csrB64 response statusCode ldiUUID = (case VB_Evidence vb of
     LeafEvidence _ \<Rightarrow> State_Monad.return (Inl [Opaque ''unexpected Evidence type''])
   | TokenEvidence tokenID _ \<Rightarrow> (case response of
       None \<Rightarrow> State_Monad.return (Inl [Opaque ''Commit response is nil''])
     | Some resp \<Rightarrow> (case csrPubKeyFingerprint G csrB64 of
         Inl e \<Rightarrow> State_Monad.return (Inl e)
       | Inr fp \<Rightarrow> do {
           now \<leftarrow> time_Now;
           RecordOutcome G \<lparr>Out_TokenID = tokenID, Out_StatusCode = statusCode,
             Out_CertificateChainPEM = XS_CertificateChainPEM (EP_SVID resp),
             Out_SVIDProfileURI = EP_SVIDProfileURI resp, Out_CSRPubKeySHA256 = fp,
             Out_LDIUUID = ldiUUID, Out_CompletedAt = now, Out_RetryWindowEnds = now + window\<rparr> })))"

definition checkReplay ::
    "golib \<Rightarrow> BootstrapCredentialDTO \<Rightarrow> string \<Rightarrow> string \<Rightarrow> CachedResponse option result prog" where
  "checkReplay G cred csrB64 svidProfileURI = (case proof_token cred of
     None \<Rightarrow> State_Monad.return (Inr None)
   | Some token \<Rightarrow> (case ParseSecret token of
       Inl _ \<Rightarrow> State_Monad.return (Inr None)
     | Inr secret \<Rightarrow> do {
         now \<leftarrow> time_Now;
         f \<leftarrow> FindConsumed G (Secret_Hash G secret) now;
         State_Monad.return (case f of
           Inl e \<Rightarrow>
             if errors_Is e Tokens_ErrRetryWindowExpired then Inl [ErrInvalidToken]
             else if errors_Is e Tokens_ErrNotFound then Inr None
             else Inl e
         | Inr (_, outcome) \<Rightarrow>
             if Out_SVIDProfileURI outcome \<noteq> svidProfileURI then Inl [ErrInvalidToken]
             else case csrPubKeyFingerprint G csrB64 of
               Inl e \<Rightarrow> Inl [ErrInvalidToken]
             | Inr fp \<Rightarrow>
                 if Out_CSRPubKeySHA256 outcome \<noteq> fp then Inl [ErrInvalidToken]
                 else Inr (Some \<lparr>CR_Response = \<lparr>EP_SVIDProfileURI = Out_SVIDProfileURI outcome,
                     EP_SVID = \<lparr>XS_CertificateChainPEM = Out_CertificateChainPEM outcome\<rparr>\<rparr>,
                     CR_StatusCode = Out_StatusCode outcome\<rparr>)) }))"

definition Token_Validate :: "golib \<Rightarrow> duration \<Rightarrow> Validator" where
  "Token_Validate G window r cred csrB64 svidProfileURI = do {
     c \<leftarrow> checkReplay G cred csrB64 svidProfileURI;
     case c of
       Inl e \<Rightarrow> State_Monad.return (Inl e)
     | Inr (Some cached) \<Rightarrow> State_Monad.return (Inr (Replay cached))
     | Inr None \<Rightarrow> do {
         v \<leftarrow> Token_validate G cred;
         State_Monad.return (case v of
           Inl e \<Rightarrow> Inl e
         | Inr vb \<Rightarrow> Inr (Pending \<lparr>PE_VB = vb, PE_Commit = Some (Token_commit G window vb csrB64)\<rparr>)) } }"

section \<open>What the enrollment handler relies on\<close>

text \<open>
  A validator and the hook it hands out change the tables only by the statements of the stores,
  and the outcome names the method of the credential. The handler of enrollments is proved
  against this interface; the three validators provide it.
\<close>

locale bootstrap_validator =
  fixes v :: Validator
  assumes validate_keeps: "store_invariant I \<Longrightarrow> keeps (\<lambda>w. I (tabs w)) (v r cred csr prof)"
    and commit_keeps: "run_state (v r cred csr prof) w = (Inr (Pending pe), w') \<Longrightarrow> PE_Commit pe = Some cm \<Longrightarrow>
      store_invariant I \<Longrightarrow> keeps (\<lambda>w. I (tabs w)) (cm resp st u)"
    and names_method: "run_state (v r cred csr prof) w = (Inr (Pending pe), w') \<Longrightarrow>
      VB_Method (PE_VB pe) = BC_Method cred"

context store_invariant
begin

lemma keeps_checkReplay: "keepsI (checkReplay G cred csr prof)"
  unfolding checkReplay_def by (intro inv_intros keeps_stores)

lemma keeps_Token_validate: "keepsI (Token_validate G cred)"
  unfolding Token_validate_def by (intro inv_intros keeps_stores)

lemma keeps_Token_Validate: "keepsI (Token_Validate G window r cred csr prof)"
  unfolding Token_Validate_def by (intro inv_intros keeps_checkReplay keeps_Token_validate)

lemma keeps_Token_commit: "keepsI (Token_commit G window vb csr resp st u)"
  unfolding Token_commit_def by (cases "VB_Evidence vb") (auto intro!: inv_intros keeps_stores)

lemma keeps_Jwt_Validate:
  "(\<And>j e. keepsI (jc_Replay cfg j e)) \<Longrightarrow> keepsI (Jwt_Validate G cfg r cred csr prof)"
  unfolding Jwt_Validate_def Let_def by (intro inv_intros)

end

lemma Token_validate_method:
  "run_state (Token_validate G cred) w = (Inr vb, w') \<Longrightarrow> VB_Method vb = BC_Method cred"
  by (auto simp: Token_validate_def split: option.splits sum.splits prod.splits if_splits)

lemma Token_Validate_Pending:
  assumes "run_state (Token_Validate G window r cred csr prof) w = (Inr (Pending pe), w')"
  obtains w1 where "run_state (checkReplay G cred csr prof) w = (Inr None, w1)"
    "run_state (Token_validate G cred) w1 = (Inr (PE_VB pe), w')"
    "PE_Commit pe = Some (Token_commit G window (PE_VB pe) csr)"
  using assms by (auto simp: Token_Validate_def split: sum.splits prod.splits option.splits)

lemma Pending_commits:
  "run_state (Token_Validate G window r cred csr prof) w = (Inr (Pending pe), w') \<Longrightarrow>
    PE_Commit pe = Some (Token_commit G window (PE_VB pe) csr)"
  "run_state (Mtls_Validate G roots r cred csr prof) w = (Inr (Pending pe), w') \<Longrightarrow> PE_Commit pe = None"
  "run_state (Jwt_Validate G cfg r cred csr prof) w = (Inr (Pending pe), w') \<Longrightarrow> PE_Commit pe = None"
  by (auto elim!: Token_Validate_Pending)
    (auto simp: Mtls_Validate_def Jwt_Validate_def Let_def split: if_splits option.splits list.splits sum.splits prod.splits)

interpretation token_validator: bootstrap_validator "Token_Validate G window" for G window
proof
  show "keeps (\<lambda>w. I (tabs w)) (Token_Validate G window r cred csr prof)" if "store_invariant I" for I r cred csr prof
    using that by (rule store_invariant.keeps_Token_Validate)
  show "keeps (\<lambda>w. I (tabs w)) (cm resp st u)"
    if "run_state (Token_Validate G window r cred csr prof) w = (Inr (Pending pe), w')" "PE_Commit pe = Some cm"
      "store_invariant I" for r cred csr prof w pe w' cm I resp st u
    by (rule Token_Validate_Pending [OF that(1)]) (use that(2,3) in \<open>simp add: store_invariant.keeps_Token_commit\<close>)
  show "VB_Method (PE_VB pe) = BC_Method cred"
    if "run_state (Token_Validate G window r cred csr prof) w = (Inr (Pending pe), w')" for r cred csr prof w pe w'
    by (rule Token_Validate_Pending [OF that]) (rule Token_validate_method)
qed

interpretation mtls_validator: bootstrap_validator "Mtls_Validate G roots" for G roots
  by unfold_locales
    (auto simp: Mtls_Validate_def keeps_return split: if_splits option.splits list.splits)

text \<open>The configuration \<^verbatim>\<open>cmd/mis\<close> uses: the replay table behind the JWT method.\<close>

interpretation jwt_validator: bootstrap_validator "Jwt_Validate G (cfg\<lparr>jc_Replay := JWTReplay_Witness\<rparr>)" for G cfg
proof
  show "keeps (\<lambda>w. I (tabs w)) (Jwt_Validate G (cfg\<lparr>jc_Replay := JWTReplay_Witness\<rparr>) r cred csr prof)"
    if "store_invariant I" for I r cred csr prof
    using that by (intro store_invariant.keeps_Jwt_Validate) (simp_all add: store_invariant.keeps_stores)
qed (auto simp: Jwt_Validate_def Let_def split: if_splits option.splits sum.splits prod.splits)

section \<open>The registry\<close>

lemma Lookup_Register [simp]:
  "Lookup (Register m v r) m' = (if m' = m then Inr v else Lookup r m')"
proof -
  have "map_of (filter (\<lambda>p. fst p \<noteq> m) r) m' = map_of r m'" if "m' \<noteq> m"
    using that by (induction r) auto
  then show ?thesis by (simp add: Lookup_def Register_def)
qed

lemma Lookup_New [simp]: "Lookup NewRegistry m = Inl [ErrUnsupportedMethod]"
  by (simp add: Lookup_def NewRegistry_def)

definition registry_inv :: "Registry \<Rightarrow> bool" where
  "registry_inv r = distinct (map fst r)"

lemma registry_inv_New [simp]: "registry_inv NewRegistry"
  by (simp add: registry_inv_def NewRegistry_def)

lemma registry_inv_Register [simp]: "registry_inv r \<Longrightarrow> registry_inv (Register m v r)"
  by (auto simp: registry_inv_def Register_def distinct_map inj_on_def)

lemma Methods_Lookup: "m \<in> set (Methods r) \<longleftrightarrow> (\<exists>v. Lookup r m = Inr v)"
proof -
  have "m \<in> set (Methods r) \<longleftrightarrow> map_of r m \<noteq> None" by (simp add: Methods_def map_of_eq_None_iff)
  then show ?thesis by (auto simp: Lookup_def split: option.splits)
qed

lemma Methods_sorted: "registry_inv r \<Longrightarrow> sorted (Methods r) \<and> distinct (Methods r)"
  by (simp add: Methods_def registry_inv_def)

section \<open>Recorded outcomes\<close>

text \<open>
  A token is known under its hash, and its enrollment has a recorded outcome: both stay so
  along every run.
\<close>

definition token_known :: "bytes \<Rightarrow> string \<Rightarrow> tables \<Rightarrow> bool" where
  "token_known h i t \<longleftrightarrow> (h, i) \<in> (\<lambda>r. (t_secret_hash r, t_token_id r)) ` set (enrollment_tokens t)"

definition recorded_outcome :: "bytes \<Rightarrow> outcome_row \<Rightarrow> tables \<Rightarrow> bool" where
  "recorded_outcome h q t \<longleftrightarrow> q \<in> set (enrollment_token_outcomes t) \<and> token_known h (o_token_id q) t"

interpretation token_known: system_invariant "token_known h i" for h i
  by unfold_locales (auto simp: token_known_def stmt_defs step_stmt_defs update_where_image image_Un)

interpretation recorded_outcome: system_invariant "recorded_outcome h q" for h q
  by unfold_locales
    (auto simp: recorded_outcome_def token_known_def stmt_defs step_stmt_defs update_where_image image_Un)

lemma first_row_unique:
  assumes "\<And>x. x \<in> set l \<Longrightarrow> x = q" "q \<in> set l"
  shows "first_row l = Some q"
proof (cases l)
  case (Cons y ys)
  have "y = q" by (rule assms(1)) (simp add: Cons)
  with Cons show ?thesis by simp
qed (use assms(2) in simp)

lemma outcome_by_hash_recorded:
  assumes inv: "tokens_inv t" and rec: "recorded_outcome h q t"
  shows "outcome_by_hash h t = Some q"
  unfolding outcome_by_hash_def
proof (rule first_row_unique)
  have d: "distinct (map t_secret_hash (enrollment_tokens t))" "distinct (map o_token_id (enrollment_token_outcomes t))"
    using inv by (simp_all add: tokens_inv_def)
  obtain r where r: "r \<in> set (enrollment_tokens t)" "t_secret_hash r = h" "t_token_id r = o_token_id q"
    and q: "q \<in> set (enrollment_token_outcomes t)"
    using rec by (auto simp: recorded_outcome_def token_known_def)
  fix x
  assume x: "x \<in> set [q. r \<leftarrow> enrollment_tokens t, t_secret_hash r = h,
         q \<leftarrow> enrollment_token_outcomes t, o_token_id q = t_token_id r]"
  obtain r' where r': "r' \<in> set (enrollment_tokens t)" "t_secret_hash r' = h"
    "x \<in> set (enrollment_token_outcomes t)" "o_token_id x = t_token_id r'" using x by (auto split: if_splits)
  have "r' = r" by (rule distinct_map_eq [OF d(1) r'(1) r(1)]) (simp add: r' r)
  then have id: "o_token_id x = o_token_id q" by (simp only: r'(4) r(3))
  show "x = q" by (rule distinct_map_eq [OF d(2) r'(3) q id])
next
  obtain r where "r \<in> set (enrollment_tokens t)" "t_secret_hash r = h" "t_token_id r = o_token_id q"
    and "q \<in> set (enrollment_token_outcomes t)"
    using rec by (auto simp: recorded_outcome_def token_known_def)
  then show "q \<in> set [q. r \<leftarrow> enrollment_tokens t, t_secret_hash r = h,
         q \<leftarrow> enrollment_token_outcomes t, o_token_id q = t_token_id r]"
    by (auto intro!: bexI [of _ r] bexI [of _ q])
qed

lemma recorded_known: "recorded_outcome h q t \<Longrightarrow> token_known h (o_token_id q) t"
  by (simp add: recorded_outcome_def)

text \<open>
  What a retry finds of the outcome of an enrollment: the response when the window is open and
  neither key nor profile has changed, and otherwise a refusal. Nothing is written.
\<close>

definition answer_retry :: "golib \<Rightarrow> outcome_row \<Rightarrow> string list \<Rightarrow> gotime \<Rightarrow> gotime \<Rightarrow> string \<Rightarrow> string \<Rightarrow> ValidationOutcome result" where
  "answer_retry G q chain ends now csr prof =
     (if now \<le> ends \<and> o_svid_profile_uri q = prof \<and> csrPubKeyFingerprint G csr = Inr (o_csr_pub_key_sha256 q)
      then Inr (Replay \<lparr>CR_Response = \<lparr>EP_SVIDProfileURI = prof, EP_SVID = \<lparr>XS_CertificateChainPEM = chain\<rparr>\<rparr>,
                        CR_StatusCode = o_status_code q\<rparr>)
      else Inl [ErrInvalidToken])"

lemma Token_Validate_retry:
  assumes "tokens_inv (tabs w)" "recorded_outcome (Secret_Hash G s) q (tabs w)"
    and "proof_token cred = Some tok" "ParseSecret tok = Inr s"
    and "\<not> faults w (stmts w)"
    and "parseRFC3339 (o_retry_window_ends q) = Some ends" "parseRFC3339 (o_completed_at q) = Some at"
    and "json_parse_strings G (o_certificate_chain_pem q) = Some chain"
  shows "run_state (Token_Validate G window r cred csr prof) w =
    (answer_retry G q chain ends (clock w (ticks w)) csr prof, w\<lparr>ticks := Suc (ticks w), stmts := Suc (stmts w)\<rparr>)"
  using assms(3-) outcome_by_hash_recorded [OF assms(1,2)]
  by (cases "csrPubKeyFingerprint G csr")
    (auto simp: Token_Validate_def checkReplay_def FindConsumed_def run_simps decodeChain_def answer_retry_def
      split: sum.splits)

text \<open>A successful validation has consumed the token; a successful commit has recorded the outcome.\<close>

lemma Token_validate_Inr:
  assumes "run_state (Token_validate G cred) w = (Inr vb, w')"
  obtains tok s i where "proof_token cred = Some tok" "ParseSecret tok = Inr s"
    "VB_Evidence vb = TokenEvidence i (Secret_Hash G s)" "VB_ESI vb = sha256 G i"
    "run_state (EnrollmentTokens_Consume (Secret_Hash G s) (clock w (ticks w))) (w\<lparr>ticks := Suc (ticks w)\<rparr>) = (Inr i, w')"
  using assms by (auto simp: Token_validate_def run_simps split: option.splits sum.splits prod.splits if_splits)

lemma Consume_known:
  assumes "run_state (EnrollmentTokens_Consume h now) w = (Inr i, w')"
  shows "token_known h i (tabs w')"
proof -
  obtain row where "token_by_hash h (tabs w) = Some row" "t_token_id row = i"
    and tabs: "tabs w' = snd (consume_token i (RFC3339Nano now) (tabs w))"
    by (rule EnrollmentTokens_Consume_Inr [OF assms]) blast
  then have "token_known h i (tabs w)" by (auto simp: token_known_def dest: token_by_hash_Some)
  then show ?thesis unfolding tabs by (rule token_known.consume_token_I)
qed

definition outcome_row_of :: "golib \<Rightarrow> string \<Rightarrow> int \<Rightarrow> EnrollmentResponseDTO \<Rightarrow> bytes \<Rightarrow> string \<Rightarrow> gotime \<Rightarrow> duration \<Rightarrow> outcome_row" where
  "outcome_row_of G i st resp fp u now window =
     \<lparr>o_token_id = i, o_status_code = st,
      o_certificate_chain_pem = encodeChain G (XS_CertificateChainPEM (EP_SVID resp)),
      o_svid_profile_uri = EP_SVIDProfileURI resp, o_csr_pub_key_sha256 = fp, o_ldi_uuid = u,
      o_completed_at = RFC3339Nano now, o_retry_window_ends = RFC3339Nano (now + window)\<rparr>"

lemma Token_commit_Inr:
  assumes "run_state (Token_commit G window vb csr (Some resp) st u) w = (Inr (), w')"
    and "VB_Evidence vb = TokenEvidence i h" "token_known h i (tabs w)"
  obtains fp where "csrPubKeyFingerprint G csr = Inr fp"
    "recorded_outcome h (outcome_row_of G i st resp fp u (clock w (ticks w)) window) (tabs w')"
  using assms
  by (auto simp: Token_commit_def RecordOutcome_def run_simps insert_outcome_def outcome_row_of_def
      recorded_outcome_def token_known_def split: sum.splits if_splits)

lemma RetryWindow_bounds: "0 < RetryWindow c" "RetryWindow c \<le> 15 * Minute"
  by (simp_all add: RetryWindow_def MaxRetryWindow_def DefaultRetryWindow_def Let_def Minute_def Second_def)

end
