(* ===== verification/MIS_JWTExchange.thy ===== *)
theory MIS_JWTExchange
  imports MIS_Bootstrap
begin

text \<open>
  \<^verbatim>\<open>pkg/mis/jwtexchange\<close>: the audiences a JWT SVID may be requested for and the
  verification of client assertions. The theory ends with what an accepted assertion, of this
  package or of the bootstrap method \<^verbatim>\<open>factory-cert-jwt\<close>, guarantees.
\<close>

section \<open>Audiences\<close>

fun validate_each :: "golib \<Rightarrow> string list \<Rightarrow> unit result" where
  "validate_each G [] = Inr ()"
| "validate_each G (a # as) =
     (if TrimSpace a = [] then Inl [ErrInvalidAudience]
      else case url_Parse G a of None \<Rightarrow> Inl [ErrInvalidAudience] | Some _ \<Rightarrow> validate_each G as)"

definition ValidateAudience :: "golib \<Rightarrow> string list \<Rightarrow> unit result" where
  "ValidateAudience G aud = (if length aud = 0 then Inl [ErrInvalidAudience] else validate_each G aud)"

lemma ValidateAudience_ok:
  "ValidateAudience G aud = Inr () \<longleftrightarrow>
    aud \<noteq> [] \<and> (\<forall>a\<in>set aud. TrimSpace a \<noteq> [] \<and> url_Parse G a \<noteq> None)"
proof -
  have "validate_each G as = Inr () \<longleftrightarrow> (\<forall>a\<in>set as. TrimSpace a \<noteq> [] \<and> url_Parse G a \<noteq> None)" for as
    by (induction as) (auto split: option.splits)
  then show ?thesis by (simp add: ValidateAudience_def)
qed

section \<open>Client assertions\<close>

text \<open>A nil pool or store is \<open>None\<close>. The clock is \<^verbatim>\<open>time.Now\<close>.\<close>

record VerifyConfig =
  vc_Roots :: "cert_pool option"
  vc_Replay :: "(string \<Rightarrow> gotime \<Rightarrow> unit result prog) option"
  vc_ExpectedAud :: string
  vc_MaxLifetime :: duration
  vc_ClockSkew :: duration

record VerifiedClientAssertion =
  VA_SPIFFEID :: string
  VA_JTI :: string
  VA_IssuedAt :: gotime
  VA_Expiry :: gotime

text \<open>The checks up to the reading of the clock, as for \<open>jwt_verified\<close>.\<close>

definition assertion_verified ::
    "golib \<Rightarrow> cert_pool \<Rightarrow> string \<Rightarrow> duration \<Rightarrow> string \<Rightarrow> string \<Rightarrow> (jwt_claims \<times> gotime \<times> gotime) result" where
  "assertion_verified G roots expectedAud maxLifetime pathSPIFFEID compact = (case jwt_ParseSigned G compact permittedAlgs of
     Inl UnexpectedSignatureAlgorithm \<Rightarrow> Inl [Xchg_ErrUnsupportedAlg]
   | Inl ParseFailed \<Rightarrow> Inl [Xchg_ErrAssertionInvalid]
   | Inr parsed \<Rightarrow> (case jws_Headers parsed of
       [hdr] \<Rightarrow>
         (case extractAndVerifyChain G Xchg_ErrAssertionInvalid Xchg_ErrUntrustedChain hdr roots of
            Inl e \<Rightarrow> Inl e
          | Inr leaf \<Rightarrow>
              if (case cert_URIs leaf of [] \<Rightarrow> True | u # _ \<Rightarrow> url_String u \<noteq> pathSPIFFEID)
              then Inl [Xchg_ErrUnknownSPIFFEID]
              else (case algMatchesLeafKey (hdr_Algorithm hdr) leaf of
                Inl e \<Rightarrow> Inl [Xchg_ErrUnsupportedAlg]
              | Inr _ \<Rightarrow> (case jws_Claims G parsed (cert_PublicKey leaf) of
                  None \<Rightarrow> Inl [Xchg_ErrAssertionInvalid]
                | Some std \<Rightarrow>
                    if jwt_Issuer std \<noteq> pathSPIFFEID \<or> jwt_Subject std \<noteq> pathSPIFFEID
                    then Inl [Xchg_ErrAssertionInvalid]
                    else if jwt_Audience std \<noteq> [expectedAud] then Inl [Xchg_ErrAssertionInvalid]
                    else case (jwt_IssuedAt std, jwt_Expiry std) of
                      (Some iat, Some exp) \<Rightarrow>
                        if maxLifetime < time_sub exp iat then Inl [Xchg_ErrAssertionInvalid]
                        else Inr (std, iat, exp)
                    | _ \<Rightarrow> Inl [Xchg_ErrAssertionInvalid])))
     | _ \<Rightarrow> Inl [Xchg_ErrAssertionInvalid]))"

definition VerifyClientAssertion ::
    "golib \<Rightarrow> VerifyConfig \<Rightarrow> string \<Rightarrow> string \<Rightarrow> VerifiedClientAssertion result prog" where
  "VerifyClientAssertion G cfg pathSPIFFEID compact = (case vc_Roots cfg of
     None \<Rightarrow> State_Monad.return (Inl [Opaque ''VerifyConfig.Roots is required''])
   | Some roots \<Rightarrow> (case vc_Replay cfg of
       None \<Rightarrow> State_Monad.return (Inl [Opaque ''VerifyConfig.Replay is required''])
     | Some witness \<Rightarrow>
         if vc_ExpectedAud cfg = [] then State_Monad.return (Inl [Opaque ''VerifyConfig.ExpectedAud is required''])
         else if TrimSpace compact = [] then State_Monad.return (Inl [Xchg_ErrAssertionMissing])
         else case assertion_verified G roots (vc_ExpectedAud cfg)
             (if vc_MaxLifetime cfg = 0 then 5 * Minute else vc_MaxLifetime cfg) pathSPIFFEID compact of
           Inl e \<Rightarrow> State_Monad.return (Inl e)
         | Inr (std, iat, exp) \<Rightarrow> do {
             now \<leftarrow> time_Now;
             if exp + vc_ClockSkew cfg < now then State_Monad.return (Inl [Xchg_ErrAssertionInvalid])
             else if (case jwt_NotBefore std of None \<Rightarrow> False | Some nbf \<Rightarrow> now + vc_ClockSkew cfg < nbf)
             then State_Monad.return (Inl [Xchg_ErrAssertionInvalid])
             else if jwt_ID std = [] then State_Monad.return (Inl [Xchg_ErrAssertionInvalid])
             else do {
               w \<leftarrow> witness (jwt_ID std) (exp + vc_ClockSkew cfg);
               State_Monad.return (case w of
                 Inl e \<Rightarrow> if errors_Is e Replay_ErrReplay then Inl [Xchg_ErrReplay] else Inl e
               | Inr _ \<Rightarrow> Inr \<lparr>VA_SPIFFEID = pathSPIFFEID, VA_JTI = jwt_ID std, VA_IssuedAt = iat,
                   VA_Expiry = exp\<rparr>) } }))"

section \<open>What an accepted assertion guarantees\<close>

text \<open>
  \<open>signed_by G roots c leaf std\<close>: the compact text is a JWS of a permitted algorithm with one
  header whose certificate chain verifies against the roots and starts with \<open>leaf\<close>, the
  algorithm is the one of the leaf's key, and \<open>std\<close> are the claims the leaf's key verifies.
\<close>

definition signed_by :: "golib \<Rightarrow> cert_pool \<Rightarrow> string \<Rightarrow> certificate \<Rightarrow> jwt_claims \<Rightarrow> bool" where
  "signed_by G roots c leaf std \<longleftrightarrow> (\<exists>parsed hdr rest chains.
     jwt_ParseSigned G c [''ES256'', ''PS256''] = Inr parsed \<and> jws_Headers parsed = [hdr] \<and>
     Header_Certificates G hdr roots = Inr ((leaf # rest) # chains) \<and>
     ((\<exists>k x y. cert_PublicKey leaf = ECDSA_PublicKey k x y \<and> hdr_Algorithm hdr = ''ES256'') \<or>
      (\<exists>n e. cert_PublicKey leaf = RSA_PublicKey n e \<and> hdr_Algorithm hdr = ''PS256'')) \<and>
     jws_Claims G parsed (cert_PublicKey leaf) = Some std)"

text \<open>\<open>timely std exp life skew now\<close>: short-lived, not expired and already valid, up to the skew.\<close>

definition timely :: "jwt_claims \<Rightarrow> gotime \<Rightarrow> duration \<Rightarrow> duration \<Rightarrow> gotime \<Rightarrow> bool" where
  "timely std exp life skew now \<longleftrightarrow> jwt_Expiry std = Some exp \<and>
     (\<exists>iat. jwt_IssuedAt std = Some iat \<and> time_sub exp iat \<le> life) \<and> now \<le> exp + skew \<and>
     (\<forall>nbf. jwt_NotBefore std = Some nbf \<longrightarrow> nbf \<le> now + skew)"

lemma extractAndVerifyChain_Inr:
  "extractAndVerifyChain G m u h roots = Inr leaf \<Longrightarrow>
    \<exists>rest chains. Header_Certificates G h roots = Inr ((leaf # rest) # chains)"
  by (auto simp: extractAndVerifyChain_def split: sum.splits chain_error.splits list.splits)

lemma algMatchesLeafKey_Inr:
  "algMatchesLeafKey alg leaf = Inr u \<longleftrightarrow>
    (\<exists>k x y. cert_PublicKey leaf = ECDSA_PublicKey k x y \<and> alg = ''ES256'') \<or>
    (\<exists>n e. cert_PublicKey leaf = RSA_PublicKey n e \<and> alg = ''PS256'')"
  by (auto simp: algMatchesLeafKey_def split: pubkey.splits)

lemma jwt_verified_Inr:
  assumes "jwt_verified G cfg c = Inr (leaf, std, exp)"
  shows "signed_by G (jc_Roots cfg) c leaf std \<and>
    jwt_Issuer std = ''urn:margo:device:sha256:'' @ hex_EncodeToString (sha256 G (cert_Raw leaf)) \<and>
    jwt_Subject std = jwt_Issuer std \<and> jwt_Audience std = [jc_Audience cfg] \<and> jwt_Expiry std = Some exp \<and>
    (\<exists>iat. jwt_IssuedAt std = Some iat \<and> time_sub exp iat \<le> jc_MaxAssertionLifetime cfg)"
  using assms unfolding jwt_verified_def signed_by_def permittedAlgs_def hexFingerprint_def
  by (auto simp: algMatchesLeafKey_Inr not_less
      split: sum.splits parse_error.splits list.splits option.splits if_splits
      dest!: extractAndVerifyChain_Inr)

lemma assertion_verified_Inr:
  assumes "assertion_verified G roots aud life sp c = Inr (std, iat, exp)"
  shows "\<exists>leaf u us. signed_by G roots c leaf std \<and> cert_URIs leaf = u # us \<and> url_String u = sp \<and>
    jwt_Issuer std = sp \<and> jwt_Subject std = sp \<and> jwt_Audience std = [aud] \<and>
    jwt_Expiry std = Some exp \<and> jwt_IssuedAt std = Some iat \<and> time_sub exp iat \<le> life"
  using assms unfolding assertion_verified_def signed_by_def permittedAlgs_def
  by (auto simp: algMatchesLeafKey_Inr not_less
      split: sum.splits parse_error.splits list.splits option.splits if_splits
      dest!: extractAndVerifyChain_Inr)

text \<open>The witness of the identifier, in the table of witnessed identifiers.\<close>

lemma witnessed:
  assumes "run_state (JWTReplay_Witness j e) w = (Inr (), w')" "four_digit_year e"
  shows "(\<forall>p. replay_expiry w j = Some p \<longrightarrow> p \<le> clock w (ticks w)) \<and> replay_expiry w' j = Some e"
  using JWTReplay_Witness_Inr [OF assms(1)] assms(2)
  by (simp add: replay_expiry_def replay_by_jti_upsert parse_RFC3339Nano)

end
