(* ===== verification/MIS_Wire.thy ===== *)
theory MIS_Wire
  imports MIS_JWTExchange MIS_CA
begin

text \<open>
  What the handlers of the identity service share: problem details
  (\<^verbatim>\<open>pkg/mis/errors\<close>), the encoded SPIFFE IDs of paths
  (\<^verbatim>\<open>transport/http/spiffeid.go\<close>, \<^verbatim>\<open>pkg/common/spiffeidpath.go\<close>), entity tags and
  HTTP times (\<^verbatim>\<open>conditional.go\<close>), the wire types of \<^verbatim>\<open>pkg/common\<close> and the SPIFFE bundle
  map (\<^verbatim>\<open>pkg/mis/bundlemap\<close>).

  The texts of details are not modelled, so a problem has no detail. Encoding a message of
  texts and numbers as JSON cannot fail, so the encoders are total and the handlers' branches
  for their failure are left out.
\<close>

section \<open>Problem details\<close>

record ProblemDetails =
  PD_Type :: string
  PD_Title :: string
  PD_Status :: int
  PD_Instance :: string

definition ProblemContentType :: string where
  "ProblemContentType = ''application/problem+json''"

definition errpkg_New :: "int \<Rightarrow> string \<Rightarrow> ProblemDetails" where
  "errpkg_New status title = \<lparr>PD_Type = ''about:blank'', PD_Title = title, PD_Status = status, PD_Instance = []\<rparr>"

record Spec =
  Spec_Status :: int
  Spec_TypeURI :: string
  Spec_Title :: string

definition Spec_Problem :: "Spec \<Rightarrow> ProblemDetails" where
  "Spec_Problem s = \<lparr>PD_Type = Spec_TypeURI s, PD_Title = Spec_Title s, PD_Status = Spec_Status s, PD_Instance = []\<rparr>"

definition margo_error :: "int \<Rightarrow> string \<Rightarrow> string \<Rightarrow> Spec" where
  "margo_error status name title =
     \<lparr>Spec_Status = status, Spec_TypeURI = ''https://margo.org/docs/errors/'' @ name, Spec_Title = title\<rparr>"

definition InvalidSVIDRequest :: Spec where
  "InvalidSVIDRequest = margo_error 400 ''invalid-svid-request'' ''Invalid SVID Request''"
definition InvalidBootstrapProof :: Spec where
  "InvalidBootstrapProof = margo_error 401 ''invalid-bootstrap-proof'' ''Invalid Bootstrap Proof''"
definition InvalidAudience :: Spec where
  "InvalidAudience = margo_error 400 ''invalid-audience'' ''Invalid Audience''"
definition UnsupportedBootstrapMethod :: Spec where
  "UnsupportedBootstrapMethod = margo_error 422 ''unsupported-method'' ''Unsupported Bootstrap Method''"
definition UnsupportedReplacementAuthorizationMethod :: Spec where
  "UnsupportedReplacementAuthorizationMethod =
     margo_error 422 ''unsupported-replacement-authorization-method'' ''Unsupported Replacement Authorization Method''"
definition UnsupportedSVIDProfile :: Spec where
  "UnsupportedSVIDProfile = margo_error 422 ''unsupported-svid-profile'' ''Unsupported SVID Profile''"
definition SpuriousReplacementAuthorization :: Spec where
  "SpuriousReplacementAuthorization =
     margo_error 400 ''spurious-replacement-authorization'' ''Spurious Replacement Authorization''"
definition ReplacementNotAuthorized :: Spec where
  "ReplacementNotAuthorized = margo_error 403 ''replacement-not-authorized'' ''Replacement Not Authorized''"
definition KeyRotationNotPermitted :: Spec where
  "KeyRotationNotPermitted = margo_error 409 ''key-rotation-not-permitted'' ''Key Rotation Not Permitted''"
definition TooManyRequests :: Spec where
  "TooManyRequests = margo_error 429 ''too-many-requests'' ''Too Many Requests''"
definition InvalidEnrollmentToken :: Spec where
  "InvalidEnrollmentToken = margo_error 401 ''invalid-enrollment-token'' ''Invalid Enrollment Token''"
definition RevocationFormat :: Spec where
  "RevocationFormat = margo_error 500 ''revocation-format'' ''Revocation List Parsing Error''"

section \<open>SPIFFE IDs in paths\<close>

definition EncodeSPIFFEID :: "string \<Rightarrow> string" where
  "EncodeSPIFFEID spiffeID = RawURL_EncodeToString spiffeID"

definition DecodeSPIFFEIDEncoded :: "string \<Rightarrow> string result" where
  "DecodeSPIFFEIDEncoded encoded =
     (if encoded = [] then Inl [ErrSPIFFEIDEncoding]
      else case RawURL_DecodeString encoded of
        None \<Rightarrow> Inl [ErrSPIFFEIDEncoding]
      | Some s \<Rightarrow> if \<not> HasPrefix s ''spiffe://'' then Inl [ErrSPIFFEIDEncoding] else Inr s)"

section \<open>Conditional requests\<close>

definition weakETag :: "golib \<Rightarrow> bytes \<Rightarrow> string" where
  "weakETag G body = ''W/'' @ [CHR 0x22] @ hex_EncodeToString (take 8 (sha256 G body)) @ [CHR 0x22]"

definition matchesETag :: "string \<Rightarrow> string \<Rightarrow> bool" where
  "matchesETag header etag =
     (let h = TrimSpace header in
      h = ''*'' \<or> list_ex (\<lambda>part. TrimSpace part = etag) (split_on (CHR '','') h))"

text \<open>
  \<^verbatim>\<open>http.TimeFormat\<close>, \<^verbatim>\<open>Mon, 02 Jan 2006 15:04:05 GMT\<close>; day 0 of Go's calendar is a
  Monday.
\<close>

definition weekday_names :: "string list" where
  "weekday_names = [''Mon'', ''Tue'', ''Wed'', ''Thu'', ''Fri'', ''Sat'', ''Sun'']"

definition month_names :: "string list" where
  "month_names = [''Jan'', ''Feb'', ''Mar'', ''Apr'', ''May'', ''Jun'', ''Jul'', ''Aug'', ''Sep'', ''Oct'', ''Nov'', ''Dec'']"

definition http_TimeFormat :: "gotime \<Rightarrow> string" where
  "http_TimeFormat t =
     (let s = secs_of t; (y, m, d) = civil (s div 86400); r = s mod 86400 in
      weekday_names ! nat (s div 86400 mod 7) @ '', '' @ appendInt d 2 @ '' '' @ month_names ! nat (m - 1) @ '' '' @
      appendInt y 4 @ '' '' @ appendInt (r div 3600) 2 @ '':'' @ appendInt (r div 60 mod 60) 2 @ '':'' @
      appendInt (r mod 60) 2 @ '' GMT'')"

definition Itoa :: "int \<Rightarrow> string" where "Itoa x = appendInt x 0"

section \<open>Messages\<close>

record JWTSVIDExchangeRequestDTO =
  JQ_Audience :: "string list"
  JQ_TTLSeconds :: int
  JQ_ClientAssertion :: string

record JWTSVIDExchangeResponseDTO =
  JP_JWT :: string
  JP_ExpiresAt :: string

record RevokedSVIDEntry =
  RV_CertFingerprintSHA256 :: string
  RV_SerialNumber :: string
  RV_RevokedAt :: string

record RevocationListDTO =
  RL_LastUpdated :: string
  RL_RevokedSVIDs :: "RevokedSVIDEntry list"

record DiscoveryResponseDTO =
  DR_TrustDomain :: string
  DR_TrustBundleURI :: string
  DR_MargoIdentityServiceBaseURI :: string
  DR_SupportedBootstrapMethods :: "string list"
  DR_SVIDProfilesSupported :: "string list"

record CreateEnrollmentTokenRequest =
  CT_TTL :: string

record CreateEnrollmentTokenResponse =
  CTR_TokenID :: string
  CTR_Secret :: string
  CTR_ExpiresAt :: string

record CreateReplacementTicketRequest =
  CK_SPIFFEID :: string
  CK_TTL :: string

record CreateReplacementTicketResponse =
  CKR_Ticket :: string
  CKR_SPIFFEID :: string
  CKR_ExpiresAt :: string

record RevokeSPIFFEIDRequest =
  RQ_SPIFFEID :: string
  RQ_Reason :: string

record RevokeSPIFFEIDResponse =
  RP_SPIFFEID :: string
  RP_RevokedSerials :: "string list"
  RP_AlreadyRevoked :: "string list"

text \<open>JSON values, for the documents the sources build from maps.\<close>

datatype json = JString string | JInt int | JArray "json list" | JObject "(string \<times> json) list"

text \<open>
  Encoding and decoding of JSON, \<^verbatim>\<open>http.ParseTime\<close>, \<^verbatim>\<open>time.ParseDuration\<close> and what the
  renewal handler uses of \<^verbatim>\<open>go-spiffe\<close>.
\<close>

record wirelib =
  json_EnrollmentRequest :: "bytes \<Rightarrow> EnrollmentRequestDTO option"
  json_EnrollmentResponse :: "EnrollmentResponseDTO \<Rightarrow> bytes"
  json_JWTSVIDRequest :: "bytes \<Rightarrow> JWTSVIDExchangeRequestDTO option"
  json_JWTSVIDResponse :: "JWTSVIDExchangeResponseDTO \<Rightarrow> bytes"
  json_RevocationList :: "RevocationListDTO \<Rightarrow> bytes"
  json_Discovery :: "DiscoveryResponseDTO \<Rightarrow> bytes"
  json_Problem :: "ProblemDetails \<Rightarrow> bytes"
  json_Marshal :: "json \<Rightarrow> bytes"
  json_CreateToken :: "bytes \<Rightarrow> CreateEnrollmentTokenRequest option"
  json_TokenCreated :: "CreateEnrollmentTokenResponse \<Rightarrow> bytes"
  json_CreateTicket :: "bytes \<Rightarrow> CreateReplacementTicketRequest option"
  json_TicketCreated :: "CreateReplacementTicketResponse \<Rightarrow> bytes"
  json_Revoke :: "bytes \<Rightarrow> RevokeSPIFFEIDRequest option"
  json_Revoked :: "RevokeSPIFFEIDResponse \<Rightarrow> bytes"
  http_ParseTime :: "string \<Rightarrow> gotime option"
  time_ParseDuration :: "string \<Rightarrow> duration option"
  TrustDomainFromString :: "string \<Rightarrow> string option"
  AddJWTAuthority :: "jwt_authority \<Rightarrow> bool"
  ParseAndValidate :: "string \<Rightarrow> string \<Rightarrow> jwt_authority list \<Rightarrow> string list \<Rightarrow> string option"

section \<open>The bundle map\<close>

text \<open>\<^verbatim>\<open>big.Int.Bytes\<close>: the absolute value, most significant byte first.\<close>

fun nat_bytes :: "nat \<Rightarrow> bytes" where
  "nat_bytes n = (if n = 0 then [] else nat_bytes (n div 256) @ [char_of (n mod 256)])"

declare nat_bytes.simps [simp del]

definition big_Bytes :: "int \<Rightarrow> bytes" where "big_Bytes x = nat_bytes (nat \<bar>x\<bar>)"

definition ecCurveName :: "curve \<Rightarrow> string result" where
  "ecCurveName c = (case c of
     P256 \<Rightarrow> Inr ''P-256'' | P384 \<Rightarrow> Inr ''P-384'' | P521 \<Rightarrow> Inr ''P-521''
   | OtherCurve _ \<Rightarrow> Inl [Opaque ''unsupported EC curve''])"

text \<open>\<^verbatim>\<open>(BitSize + 7) / 8\<close> of the supported curves.\<close>

definition curve_size :: "curve \<Rightarrow> nat" where
  "curve_size c = (case c of P256 \<Rightarrow> 32 | P384 \<Rightarrow> 48 | P521 \<Rightarrow> 66 | OtherCurve _ \<Rightarrow> 0)"

definition b64url :: "bytes \<Rightarrow> string" where "b64url b = RawURL_EncodeToString b"

definition b64urlFixed :: "int \<Rightarrow> nat \<Rightarrow> string" where
  "b64urlFixed n sz =
     (let b = big_Bytes n in b64url (if length b < sz then replicate (sz - length b) (CHR 0x00) @ b else b))"

definition publicKeyParams :: "pubkey \<Rightarrow> (string \<times> json) list result" where
  "publicKeyParams pub = (case pub of
     ECDSA_PublicKey c x y \<Rightarrow> (case ecCurveName c of
         Inl e \<Rightarrow> Inl e
       | Inr crv \<Rightarrow> Inr [(''kty'', JString ''EC''), (''crv'', JString crv),
           (''x'', JString (b64urlFixed x (curve_size c))), (''y'', JString (b64urlFixed y (curve_size c)))])
   | RSA_PublicKey n e \<Rightarrow> Inr [(''kty'', JString ''RSA''), (''n'', JString (b64url (big_Bytes n))),
       (''e'', JString (b64url (big_Bytes e)))]
   | OtherKey _ \<Rightarrow> Inl [Opaque ''unsupported public key type''])"

fun x509_keys :: "certificate list \<Rightarrow> json list result" where
  "x509_keys [] = Inr []"
| "x509_keys (cert # cs) = (case publicKeyParams (cert_PublicKey cert) of
     Inl e \<Rightarrow> Inl e
   | Inr jwk \<Rightarrow> (case x509_keys cs of
       Inl e \<Rightarrow> Inl e
     | Inr ks \<Rightarrow> Inr (JObject (jwk @ [(''use'', JString ''x509-svid''),
         (''x5c'', JArray [JString (Std_EncodeToString (cert_Raw cert))])]) # ks)))"

fun jwt_keys :: "jwt_authority list \<Rightarrow> json list result" where
  "jwt_keys [] = Inr []"
| "jwt_keys (a # as) = (case publicKeyParams (JA_PublicKey a) of
     Inl e \<Rightarrow> Inl e
   | Inr jwk \<Rightarrow> (case jwt_keys as of
       Inl e \<Rightarrow> Inl e
     | Inr ks \<Rightarrow> Inr (JObject (jwk @ [(''use'', JString ''jwt-svid'')] @
         (if JA_KeyID a \<noteq> [] then [(''kid'', JString (JA_KeyID a))] else [])) # ks)))"

definition buildEntry :: "TrustAnchorSet \<Rightarrow> json result" where
  "buildEntry anchors = (case x509_keys (TS_X509Authorities anchors) of
     Inl e \<Rightarrow> Inl e
   | Inr xs \<Rightarrow> (case jwt_keys (TS_JWTAuthorities anchors) of
       Inl e \<Rightarrow> Inl e
     | Inr js \<Rightarrow> Inr (JObject ([(''keys'', JArray (xs @ js))] @
         (if 0 < TS_SequenceNumber anchors then [(''spiffe_sequence'', JInt (int (TS_SequenceNumber anchors)))] else [])))))"

definition Build :: "wirelib \<Rightarrow> TrustAnchorSet \<Rightarrow> bytes result" where
  "Build J anchors =
     (if TS_TrustDomain anchors = [] then Inl [Opaque ''missing trust_domain'']
      else case buildEntry anchors of
        Inl e \<Rightarrow> Inl e
      | Inr entry \<Rightarrow> Inr (json_Marshal J (JObject [(''trust_domains'', JObject [(TS_TrustDomain anchors, entry)])])))"

section \<open>Laws\<close>

lemma RawURL_Encode_Nil [simp]: "RawURL_EncodeToString bs = [] \<longleftrightarrow> bs = []"
  by (cases bs rule: RawURL_EncodeToString.cases) auto

lemma Decode_Encode_SPIFFEID:
  "DecodeSPIFFEIDEncoded (EncodeSPIFFEID s) = (if HasPrefix s ''spiffe://'' then Inr s else Inl [ErrSPIFFEIDEncoding])"
  by (auto simp: DecodeSPIFFEIDEncoded_def EncodeSPIFFEID_def HasPrefix_def)

lemma DecodeSPIFFEIDEncoded_Inr: "DecodeSPIFFEIDEncoded e = Inr s \<Longrightarrow> HasPrefix s ''spiffe://''"
  by (auto simp: DecodeSPIFFEIDEncoded_def split: if_splits option.splits)

text \<open>Reading the published bytes of a number back.\<close>

definition bytes_nat :: "bytes \<Rightarrow> nat" where
  "bytes_nat bs = foldl (\<lambda>n b. n * 256 + of_char b) 0 bs"

lemma bytes_nat_append [simp]: "bytes_nat (bs @ [b]) = bytes_nat bs * 256 + of_char b"
  by (simp add: bytes_nat_def)

lemma bytes_nat_nat_bytes [simp]: "bytes_nat (nat_bytes n) = n"
proof (induction n rule: nat_bytes.induct)
  case (1 n)
  then show ?case by (cases "n = 0") (subst nat_bytes.simps, simp add: bytes_nat_def)+
qed

lemma foldl_zeros: "foldl (\<lambda>n b. n * 256 + of_char b) (0 :: nat) (replicate k (CHR 0x00) @ bs) = bytes_nat bs"
  by (induction k) (simp_all add: bytes_nat_def)

lemma bytes_nat_pad [simp]: "bytes_nat (replicate k (CHR 0x00) @ bs) = bytes_nat bs"
  using foldl_zeros [of k bs] by (simp add: bytes_nat_def)

lemma length_nat_bytes: "length (nat_bytes n) \<le> k \<longleftrightarrow> n < 256 ^ k"
proof (induction n arbitrary: k rule: nat_bytes.induct)
  case (1 n)
  show ?case
  proof (cases "n = 0")
    case True
    then show ?thesis by (simp add: nat_bytes.simps)
  next
    case False
    then have step: "length (nat_bytes n) = Suc (length (nat_bytes (n div 256)))" by (subst nat_bytes.simps) simp
    show ?thesis
    proof (cases k)
      case 0
      with False step show ?thesis by simp
    next
      case (Suc j)
      have "n div 256 < 256 ^ j \<longleftrightarrow> n < 256 ^ j * 256" by (rule div_less_iff_less_mult) simp
      with Suc step 1 [OF False, of j] show ?thesis by (simp add: mult.commute)
    qed
  qed
qed

text \<open>Reading a text field of an object, and the keys whose numbers are not negative.\<close>

definition text_of :: "(string \<times> json) list \<Rightarrow> string \<Rightarrow> string option" where
  "text_of obj k = (case map_of obj k of Some (JString s) \<Rightarrow> Some s | _ \<Rightarrow> None)"

definition key_in_range :: "pubkey \<Rightarrow> bool" where
  "key_in_range k = (case k of
     ECDSA_PublicKey c x y \<Rightarrow> 0 \<le> x \<and> 0 \<le> y | RSA_PublicKey n e \<Rightarrow> 0 \<le> n \<and> 0 \<le> e | OtherKey _ \<Rightarrow> True)"

end
