(* ===== verification/MIS_Handlers.thy ===== *)
theory MIS_Handlers
  imports MIS_Wire
begin

text \<open>
  The handlers of the public interface of the identity service, \<^verbatim>\<open>pkg/mis/transport/http\<close>,
  and the signer of JWT SVIDs, \<^verbatim>\<open>pkg/mis/jwtsigner\<close>. A handler is a program from the
  identifier of the request (which the middleware puts on its context), the values of the path
  and the request to the response it writes. The clocks of the handlers are \<^verbatim>\<open>time.Now\<close>.
\<close>

section \<open>Responses\<close>

text \<open>
  \<^verbatim>\<open>WriteProblem\<close>. Headers that the handler has set before, such as
  \<^verbatim>\<open>Retry-After\<close>, are its first argument.
\<close>

definition WriteProblem :: "wirelib \<Rightarrow> http_header \<Rightarrow> string \<Rightarrow> ProblemDetails \<Rightarrow> http_response" where
  "WriteProblem J hs rid pd =
     (let out = (if rid \<noteq> [] \<and> PD_Instance pd = [] then pd\<lparr>PD_Instance := ''urn:uuid:'' @ rid\<rparr> else pd) in
      \<lparr>rs_Status = PD_Status out, rs_Header = hs @ [(''Content-Type'', ProblemContentType)],
       rs_Body = json_Problem J out\<rparr>)"

definition write_json :: "int \<Rightarrow> bytes \<Rightarrow> http_response" where
  "write_json status body = \<lparr>rs_Status = status,
     rs_Header = [(''Content-Type'', ''application/json''), (''Content-Length'', Itoa (int (length body)))],
     rs_Body = body\<rparr>"

text \<open>\<^verbatim>\<open>io.ReadAll(http.MaxBytesReader(w, r.Body, 64<<10))\<close>.\<close>

definition read_limited :: "http_request \<Rightarrow> bytes option" where
  "read_limited r = (case rq_Body r of None \<Rightarrow> None | Some b \<Rightarrow> if length b \<le> 65536 then Some b else None)"

definition bad_request :: ProblemDetails where "bad_request = errpkg_New 400 ''Bad Request''"
definition unauthorized :: ProblemDetails where "unauthorized = errpkg_New 401 ''Unauthorized''"
definition not_found :: ProblemDetails where "not_found = errpkg_New 404 ''Not Found''"
definition internal_error :: ProblemDetails where "internal_error = errpkg_New 500 ''Internal Server Error''"

text \<open>The first certificate of the peer, when it presented one.\<close>

definition peer_certificate :: "http_request \<Rightarrow> certificate option" where
  "peer_certificate r = (case rq_PeerCertificates r of None \<Rightarrow> None | Some [] \<Rightarrow> None | Some (c # _) \<Rightarrow> Some c)"

text \<open>Whether the certificate's first URI is the SPIFFE ID.\<close>

definition names_spiffe :: "certificate \<Rightarrow> string \<Rightarrow> bool" where
  "names_spiffe cert sp = (case cert_URIs cert of [] \<Rightarrow> False | u # _ \<Rightarrow> url_String u = sp)"

section \<open>Enrollment\<close>

definition bootstrap_problem :: "goerr \<Rightarrow> ProblemDetails" where
  "bootstrap_problem e =
     (if errors_Is e Mtls_ErrMissingMTLS \<or> errors_Is e Mtls_ErrUntrustedChain \<or> errors_Is e Mtls_ErrUnexpectedProof
      then Spec_Problem InvalidBootstrapProof
      else if errors_Is e Jwt_ErrMissingAssertion \<or> errors_Is e Jwt_ErrMalformedAssertion \<or>
        errors_Is e Jwt_ErrUnsupportedAlg \<or> errors_Is e Jwt_ErrBadSignature \<or> errors_Is e Jwt_ErrUntrustedChain \<or>
        errors_Is e Jwt_ErrClaimMissing \<or> errors_Is e Jwt_ErrClaimInvalid \<or> errors_Is e Jwt_ErrReplay
      then Spec_Problem InvalidBootstrapProof
      else if errors_Is e ErrMissingToken \<or> errors_Is e ErrInvalidToken
      then Spec_Problem InvalidEnrollmentToken
      else Spec_Problem InvalidBootstrapProof)"

definition csr_problem :: "goerr \<Rightarrow> ProblemDetails" where
  "csr_problem e =
     (if errors_Is e Csr_ErrPEMArmor \<or> errors_Is e Csr_ErrMalformed \<or> errors_Is e Csr_ErrBadSignature
      then Spec_Problem InvalidSVIDRequest
      else if errors_Is e Csr_ErrUnsupportedKey \<or> errors_Is e Csr_ErrUnsupportedAlg
      then Spec_Problem UnsupportedSVIDProfile
      else Spec_Problem InvalidSVIDRequest)"

definition identity_problem :: "goerr \<Rightarrow> ProblemDetails" where
  "identity_problem e =
     (if errors_Is e ErrUnsupportedReplacementMethod then Spec_Problem UnsupportedReplacementAuthorizationMethod
      else if errors_Is e ErrSpuriousReplacementAuthorization then Spec_Problem SpuriousReplacementAuthorization
      else if errors_Is e ErrReplacementNotAuthorized then Spec_Problem ReplacementNotAuthorized
      else if errors_Is e ErrKeyRotationNotPermitted then Spec_Problem KeyRotationNotPermitted
      else if errors_Is e ErrNewLDIForbidden then errpkg_New 403 ''Forbidden''
      else internal_error)"

definition derChainToPEM :: "golib \<Rightarrow> bytes list \<Rightarrow> string list" where
  "derChainToPEM G chain = map (pem_certificate G) chain"

definition enrollment_response :: "golib \<Rightarrow> EnrollmentResult \<Rightarrow> EnrollmentResponseDTO" where
  "enrollment_response G result = \<lparr>EP_SVIDProfileURI = SVIDProfileURIX509V1,
     EP_SVID = \<lparr>XS_CertificateChainPEM = derChainToPEM G (ER_CertChainDER result)\<rparr>\<rparr>"

definition writeEnrollmentResponse :: "wirelib \<Rightarrow> EnrollmentResponseDTO \<Rightarrow> int \<Rightarrow> http_response" where
  "writeEnrollmentResponse J resp status = write_json status (json_EnrollmentResponse J resp)"

definition run_commit :: "commit option \<Rightarrow> EnrollmentResponseDTO \<Rightarrow> int \<Rightarrow> string \<Rightarrow> unit prog" where
  "run_commit c resp status ldiUUID = (case c of
     None \<Rightarrow> State_Monad.return ()
   | Some cm \<Rightarrow> do { _ \<leftarrow> cm (Some resp) status ldiUUID; State_Monad.return () })"

definition enroll_pending ::
    "golib \<Rightarrow> wirelib \<Rightarrow> Service \<Rightarrow> string \<Rightarrow> EnrollmentRequestDTO \<Rightarrow> PendingEnrollment \<Rightarrow> http_response prog" where
  "enroll_pending G J S rid req pe = (case Parse G (SR_CSR (EQ_SVIDRequest req)) of
     Inl e \<Rightarrow> State_Monad.return (WriteProblem J [] rid (csr_problem e))
   | Inr parsed \<Rightarrow> do {
       e \<leftarrow> Enroll G S (PE_VB pe) parsed (EQ_ReplacementAuthorization req);
       case e of
         Inl err \<Rightarrow> State_Monad.return (WriteProblem J [] rid (identity_problem err))
       | Inr result \<Rightarrow> do {
           _ \<leftarrow> run_commit (PE_Commit pe) (enrollment_response G result) (ER_StatusCode result) (LDI_UUID (ER_LDI result));
           State_Monad.return (writeEnrollmentResponse J (enrollment_response G result) (ER_StatusCode result)) } })"

definition handleEnrollment ::
    "golib \<Rightarrow> wirelib \<Rightarrow> Registry \<Rightarrow> Service \<Rightarrow> string \<Rightarrow> http_request \<Rightarrow> http_response prog" where
  "handleEnrollment G J registry S rid r = (case read_limited r of
     None \<Rightarrow> State_Monad.return (WriteProblem J [] rid bad_request)
   | Some body \<Rightarrow> (case json_EnrollmentRequest J body of
       None \<Rightarrow> State_Monad.return (WriteProblem J [] rid bad_request)
     | Some req \<Rightarrow>
         if EQ_SVIDProfileURI req \<noteq> SVIDProfileURIX509V1
         then State_Monad.return (WriteProblem J [] rid (Spec_Problem UnsupportedSVIDProfile))
         else (case Lookup registry (BC_Method (EQ_BootstrapCredential req)) of
           Inl _ \<Rightarrow> State_Monad.return (WriteProblem J [] rid (Spec_Problem UnsupportedBootstrapMethod))
         | Inr validator \<Rightarrow> do {
             out \<leftarrow> validator r (EQ_BootstrapCredential req) (SR_CSR (EQ_SVIDRequest req)) (EQ_SVIDProfileURI req);
             case out of
               Inl e \<Rightarrow> State_Monad.return (WriteProblem J [] rid (bootstrap_problem e))
             | Inr (Replay c) \<Rightarrow> State_Monad.return (writeEnrollmentResponse J (CR_Response c) (CR_StatusCode c))
             | Inr (Pending pe) \<Rightarrow> enroll_pending G J S rid req pe })))"

section \<open>Renewal\<close>

text \<open>
  \<^verbatim>\<open>localRenewalBearerVerifier.Verify\<close>: the token against the JWT authorities of the trust
  anchors.
\<close>

type_synonym bearer_verifier = "string \<Rightarrow> string \<Rightarrow> string result"

definition Bearer_Verify :: "wirelib \<Rightarrow> TrustAnchorSet \<Rightarrow> bearer_verifier" where
  "Bearer_Verify J anchors token audience = (case TrustDomainFromString J (TS_TrustDomain anchors) of
     None \<Rightarrow> Inl [Opaque ''parse trust domain'']
   | Some trustDomain \<Rightarrow>
       if \<not> list_all (AddJWTAuthority J) (TS_JWTAuthorities anchors) then Inl [Opaque ''add jwt authority'']
       else if TS_JWTAuthorities anchors = [] then Inl [Opaque ''no JWT authorities available'']
       else case ParseAndValidate J token trustDomain (TS_JWTAuthorities anchors) [audience] of
         None \<Rightarrow> Inl [Opaque ''jwtsvid'']
       | Some spiffeID \<Rightarrow> Inr spiffeID)"

record RenewalConfig =
  RC_Service :: Service
  RC_RateLimiter :: RenewalEventsConfig
  RC_BearerVerifier :: "bearer_verifier option"
  RC_EndpointBaseURL :: string

text \<open>\<^verbatim>\<open>NewRenewalHandler\<close>; \<open>None\<close> is its panic. The service and the limiter are there.\<close>

definition NewRenewalHandler :: "RenewalConfig \<Rightarrow> RenewalConfig option" where
  "NewRenewalHandler cfg =
     (if RC_BearerVerifier cfg \<noteq> None \<and> RC_EndpointBaseURL cfg = [] then None else Some cfg)"

text \<open>
  The authentication of a renewal: by the presented certificate if there is one, else by a
  bearer token for the audience of this endpoint.
\<close>

definition renewal_authenticated :: "RenewalConfig \<Rightarrow> string \<Rightarrow> string \<Rightarrow> http_request \<Rightarrow> bool" where
  "renewal_authenticated cfg encoded spiffeID r = (case peer_certificate r of
     Some peer \<Rightarrow> names_spiffe peer spiffeID
   | None \<Rightarrow>
       let auth = TrimSpace (Header_Get (rq_Header r) ''Authorization'') in
       if \<not> HasPrefix auth ''Bearer '' then False
       else case RC_BearerVerifier cfg of
         None \<Rightarrow> False
       | Some verify \<Rightarrow>
           (case verify (TrimSpace (TrimPrefix auth ''Bearer ''))
                   (TrimRight (RC_EndpointBaseURL cfg) ''/'' @ ''/api/v1/identities/'' @ encoded @ ''/renewal'') of
              Inl _ \<Rightarrow> False
            | Inr authenticatedSPIFFEID \<Rightarrow> authenticatedSPIFFEID = spiffeID))"

text \<open>
  \<^verbatim>\<open>int(math.Ceil(d.Seconds()))\<close>, exactly; the floating-point quotient is exact for waits
  below 48 days.
\<close>

definition ceil_seconds :: "duration \<Rightarrow> int" where
  "ceil_seconds d = - ((- d) div Second)"

definition too_many :: "wirelib \<Rightarrow> string \<Rightarrow> duration \<Rightarrow> http_response" where
  "too_many J rid retryAfter =
     WriteProblem J [(''Retry-After'', Itoa (ceil_seconds retryAfter))] rid (Spec_Problem TooManyRequests)"

definition renewal_problem :: "goerr \<Rightarrow> ProblemDetails" where
  "renewal_problem e =
     (if errors_Is e ErrKeyRotationNotPermitted then Spec_Problem KeyRotationNotPermitted
      else if errors_Is e Identity_ErrNotFound then not_found
      else internal_error)"

text \<open>The part of \<^verbatim>\<open>handleRenewal\<close> behind the rate limit, and the whole.\<close>

definition renew_limited ::
    "golib \<Rightarrow> wirelib \<Rightarrow> RenewalConfig \<Rightarrow> string \<Rightarrow> string \<Rightarrow> CSR \<Rightarrow> http_response prog" where
  "renew_limited G J cfg rid spiffeID parsed = do {
     now \<leftarrow> time_Now;
     a \<leftarrow> Allow (RC_RateLimiter cfg) spiffeID now;
     case a of
       Inl _ \<Rightarrow> State_Monad.return (WriteProblem J [] rid internal_error)
     | Inr (allowed, retryAfter) \<Rightarrow>
         if \<not> allowed then State_Monad.return (too_many J rid retryAfter)
         else do {
           res \<leftarrow> Renew G (RC_Service cfg) spiffeID parsed;
           case res of
             Inl e \<Rightarrow> State_Monad.return (WriteProblem J [] rid (renewal_problem e))
           | Inr result \<Rightarrow> do {
               _ \<leftarrow> RenewalEvents_Record (RC_RateLimiter cfg) spiffeID now;
               State_Monad.return (write_json (ER_StatusCode result)
                 (json_EnrollmentResponse J (enrollment_response G result))) } } }"

definition handleRenewal ::
    "golib \<Rightarrow> wirelib \<Rightarrow> RenewalConfig \<Rightarrow> string \<Rightarrow> string \<Rightarrow> http_request \<Rightarrow> http_response prog" where
  "handleRenewal G J cfg rid encoded r = (case DecodeSPIFFEIDEncoded encoded of
     Inl _ \<Rightarrow> State_Monad.return (WriteProblem J [] rid (Spec_Problem InvalidSVIDRequest))
   | Inr spiffeID \<Rightarrow>
       if \<not> renewal_authenticated cfg encoded spiffeID r
       then State_Monad.return (WriteProblem J [] rid unauthorized)
       else (case read_limited r of
         None \<Rightarrow> State_Monad.return (WriteProblem J [] rid bad_request)
       | Some body \<Rightarrow> (case json_EnrollmentRequest J body of
           None \<Rightarrow> State_Monad.return (WriteProblem J [] rid bad_request)
         | Some req \<Rightarrow>
             if EQ_SVIDProfileURI req \<noteq> SVIDProfileURIX509V1
             then State_Monad.return (WriteProblem J [] rid (Spec_Problem UnsupportedSVIDProfile))
             else (case Parse G (SR_CSR (EQ_SVIDRequest req)) of
               Inl e \<Rightarrow> State_Monad.return (WriteProblem J [] rid (csr_problem e))
             | Inr parsed \<Rightarrow> renew_limited G J cfg rid spiffeID parsed))))"

section \<open>The signer of JWT SVIDs\<close>

record Signer =
  sg_alg :: string
  sg_pub :: pubkey
  sg_kid :: string

definition algorithmFor :: "pubkey \<Rightarrow> string result" where
  "algorithmFor priv = (case priv of
     ECDSA_PublicKey c x y \<Rightarrow> if c \<noteq> P256 then Inl [Opaque ''ecdsa curve is not P-256''] else Inr ''ES256''
   | RSA_PublicKey n e \<Rightarrow> if BitLen n < 3072 then Inl [Opaque ''rsa key too small''] else Inr ''PS256''
   | OtherKey _ \<Rightarrow> Inl [Opaque ''unsupported key type''])"

definition kidFromPublic :: "golib \<Rightarrow> pubkey \<Rightarrow> string result" where
  "kidFromPublic G pub = (case MarshalPKIXPublicKey G pub of
     None \<Rightarrow> Inl [Opaque ''marshal''] | Some der \<Rightarrow> Inr (hex_EncodeToString (sha256 G der)))"

text \<open>Its \<^verbatim>\<open>loadKey\<close> is the text of the intermediate's, \<open>loadKey\<close>.\<close>

definition Signer_New :: "golib \<Rightarrow> oslib \<Rightarrow> string \<Rightarrow> Signer result" where
  "Signer_New G L keyFile =
     (if keyFile = [] then Inl [Opaque ''KeyFile is required'']
      else case loadKey L keyFile of
        Inl e \<Rightarrow> Inl e
      | Inr priv \<Rightarrow> (case algorithmFor priv of
          Inl e \<Rightarrow> Inl e
        | Inr alg \<Rightarrow> (case kidFromPublic G priv of
            Inl e \<Rightarrow> Inl e
          | Inr kid \<Rightarrow> Inr \<lparr>sg_alg = alg, sg_pub = priv, sg_kid = kid\<rparr>)))"

definition JWTAuthority :: "Signer \<Rightarrow> jwt_authority" where
  "JWTAuthority s = \<lparr>JA_KeyID = sg_kid s, JA_PublicKey = sg_pub s\<rparr>"

text \<open>
  \<^verbatim>\<open>Sign\<close>, over what it uses of \<^verbatim>\<open>go-jose\<close>: whether a signer for an algorithm can be made
  from a key, and the compact form of claims signed with it under the header \<^verbatim>\<open>kid\<close>.
\<close>

record joselib =
  jws_NewSigner :: "string \<Rightarrow> pubkey \<Rightarrow> bool"
  jws_Serialize :: "string \<Rightarrow> pubkey \<Rightarrow> string \<Rightarrow> jwt_claims \<Rightarrow> string option"

definition Signer_Sign :: "joselib \<Rightarrow> Signer \<Rightarrow> jwt_claims \<Rightarrow> string option" where
  "Signer_Sign Z s claims =
     (if \<not> jws_NewSigner Z (sg_alg s) (sg_pub s) then None
      else jws_Serialize Z (sg_alg s) (sg_pub s) (sg_kid s) claims)"

section \<open>JWT SVID exchange\<close>

record JWTSVIDHandlerConfig =
  JH_Signer :: "jwt_claims \<Rightarrow> string option"
  JH_BundleSource :: TrustAnchorSet
  JH_ReplayStore :: "(string \<Rightarrow> gotime \<Rightarrow> unit result prog) option"
  JH_RateLimiter :: RenewalEventsConfig
  JH_IssuerURL :: string
  JH_EndpointBase :: string
  JH_MaxTTL :: duration
  JH_DefaultTTL :: duration
  JH_ClockSkew :: duration

definition NewJWTSVIDHandler :: "JWTSVIDHandlerConfig \<Rightarrow> JWTSVIDHandlerConfig option" where
  "NewJWTSVIDHandler cfg =
     (if JH_IssuerURL cfg = [] \<or> JH_EndpointBase cfg = [] \<or> JH_MaxTTL cfg \<le> 0 then None
      else Some (if JH_DefaultTTL cfg \<le> 0 then cfg\<lparr>JH_DefaultTTL := JH_MaxTTL cfg\<rparr> else cfg))"

text \<open>
  \<^verbatim>\<open>buildX509RootPool\<close>: the X.509 authorities of the anchors. A nil pool does not occur.
\<close>

definition buildX509RootPool :: "TrustAnchorSet \<Rightarrow> cert_pool" where
  "buildX509RootPool anchors = TS_X509Authorities anchors"

definition exchange_config :: "JWTSVIDHandlerConfig \<Rightarrow> string \<Rightarrow> VerifyConfig" where
  "exchange_config cfg encoded = \<lparr>vc_Roots = Some (buildX509RootPool (JH_BundleSource cfg)),
     vc_Replay = JH_ReplayStore cfg,
     vc_ExpectedAud = TrimRight (JH_EndpointBase cfg) ''/'' @ ''/api/v1/identities/'' @ encoded @ ''/jwt-svid'',
     vc_MaxLifetime = 5 * Minute, vc_ClockSkew = JH_ClockSkew cfg\<rparr>"

text \<open>The authentication: a certificate that names the SPIFFE ID, or a client assertion.\<close>

definition exchange_authenticated ::
    "golib \<Rightarrow> JWTSVIDHandlerConfig \<Rightarrow> string \<Rightarrow> string \<Rightarrow> string \<Rightarrow> http_request \<Rightarrow> bool prog" where
  "exchange_authenticated G cfg encoded spiffeID assertion r = (case peer_certificate r of
     Some peer \<Rightarrow> State_Monad.return (names_spiffe peer spiffeID)
   | None \<Rightarrow>
       if TrimSpace assertion = [] then State_Monad.return False
       else do {
         v \<leftarrow> VerifyClientAssertion G (exchange_config cfg encoded) spiffeID assertion;
         State_Monad.return (case v of Inl _ \<Rightarrow> False | Inr _ \<Rightarrow> True) })"

definition exchange_limited ::
    "golib \<Rightarrow> wirelib \<Rightarrow> JWTSVIDHandlerConfig \<Rightarrow> string \<Rightarrow> string \<Rightarrow> JWTSVIDExchangeRequestDTO \<Rightarrow> http_response prog" where
  "exchange_limited G J cfg rid spiffeID req = do {
     now \<leftarrow> time_Now;
     a \<leftarrow> Allow (JH_RateLimiter cfg) spiffeID now;
     case a of
       Inl _ \<Rightarrow> State_Monad.return (WriteProblem J [] rid internal_error)
     | Inr (allowed, retryAfter) \<Rightarrow>
         if \<not> allowed then State_Monad.return (too_many J rid retryAfter)
         else do {
           res \<leftarrow> IssueJWTSVID (Some (JH_Signer cfg)) (Some (IssuedJWTSVIDs_Record G))
             \<lparr>JC_Issuer = JH_IssuerURL cfg, JC_DefaultTTL = JH_DefaultTTL cfg, JC_MaxTTL = JH_MaxTTL cfg\<rparr>
             spiffeID (JQ_Audience req) (int64 (JQ_TTLSeconds req * Second));
           case res of
             Inl e \<Rightarrow> State_Monad.return (WriteProblem J [] rid
               (if errors_Is e Identity_ErrNotFound then not_found else internal_error))
           | Inr result \<Rightarrow> do {
               _ \<leftarrow> RenewalEvents_Record (JH_RateLimiter cfg) spiffeID now;
               State_Monad.return (write_json 201 (json_JWTSVIDResponse J
                 \<lparr>JP_JWT = JR_JWT result, JP_ExpiresAt = RFC3339 (JR_ExpiresAt result)\<rparr>)) } } }"

definition handleJWTSVID ::
    "golib \<Rightarrow> wirelib \<Rightarrow> JWTSVIDHandlerConfig \<Rightarrow> string \<Rightarrow> string \<Rightarrow> http_request \<Rightarrow> http_response prog" where
  "handleJWTSVID G J cfg rid encoded r = (case DecodeSPIFFEIDEncoded encoded of
     Inl _ \<Rightarrow> State_Monad.return (WriteProblem J [] rid (Spec_Problem InvalidSVIDRequest))
   | Inr spiffeID \<Rightarrow>
       if HasPrefix (Header_Get (rq_Header r) ''Authorization'') ''Bearer ''
       then State_Monad.return (WriteProblem J [] rid unauthorized)
       else (case read_limited r of
         None \<Rightarrow> State_Monad.return (WriteProblem J [] rid bad_request)
       | Some body \<Rightarrow> (case json_JWTSVIDRequest J body of
           None \<Rightarrow> State_Monad.return (WriteProblem J [] rid (Spec_Problem InvalidSVIDRequest))
         | Some req \<Rightarrow> (case ValidateAudience G (JQ_Audience req) of
             Inl _ \<Rightarrow> State_Monad.return (WriteProblem J [] rid (Spec_Problem InvalidAudience))
           | Inr _ \<Rightarrow>
               if JQ_TTLSeconds req < 0
               then State_Monad.return (WriteProblem J [] rid (Spec_Problem InvalidSVIDRequest))
               else do {
                 authenticated \<leftarrow> exchange_authenticated G cfg encoded spiffeID (JQ_ClientAssertion req) r;
                 if \<not> authenticated then State_Monad.return (WriteProblem J [] rid unauthorized)
                 else exchange_limited G J cfg rid spiffeID req }))))"

section \<open>Conditional documents\<close>

text \<open>
  The tail that the bundle map and the revocation list share: \<^verbatim>\<open>If-None-Match\<close> decides
  alone when it is there, otherwise \<^verbatim>\<open>If-Modified-Since\<close> does. The headers of the full
  answer are the third argument.
\<close>

definition last_modified :: "gotime \<Rightarrow> http_header" where
  "last_modified t = (if IsZero t then [] else [(''Last-Modified'', http_TimeFormat t)])"

definition not_modified :: "string \<Rightarrow> gotime \<Rightarrow> http_response" where
  "not_modified etag t = \<lparr>rs_Status = 304, rs_Header = (''ETag'', etag) # last_modified t, rs_Body = []\<rparr>"

definition unchanged_since :: "wirelib \<Rightarrow> http_request \<Rightarrow> string \<Rightarrow> gotime \<Rightarrow> bool" where
  "unchanged_since J r etag t =
     (let inm = Header_Get (rq_Header r) ''If-None-Match''; ims = Header_Get (rq_Header r) ''If-Modified-Since'' in
      if inm \<noteq> [] then matchesETag inm etag
      else ims \<noteq> [] \<and> (case http_ParseTime J ims of None \<Rightarrow> False | Some s \<Rightarrow> \<not> s < t))"

definition handleRevocations :: "golib \<Rightarrow> wirelib \<Rightarrow> string \<Rightarrow> http_request \<Rightarrow> http_response prog" where
  "handleRevocations G J rid r = do {
     now \<leftarrow> time_Now;
     l \<leftarrow> RevokedSVIDs_List now;
     State_Monad.return (case l of
       Inl _ \<Rightarrow> WriteProblem J [] rid (Spec_Problem RevocationFormat)
     | Inr (entries, lastUpdated) \<Rightarrow>
         let dto = \<lparr>RL_LastUpdated = (if IsZero lastUpdated then [] else RFC3339 lastUpdated),
                    RL_RevokedSVIDs = map (\<lambda>e. \<lparr>RV_CertFingerprintSHA256 = RE_FingerprintHex e,
                      RV_SerialNumber = RE_SerialHex e, RV_RevokedAt = RFC3339 (RE_RevokedAt e)\<rparr>) entries\<rparr>;
             body = json_RevocationList J dto;
             etag = weakETag G body in
         if unchanged_since J r etag lastUpdated \<and>
            (Header_Get (rq_Header r) ''If-None-Match'' \<noteq> [] \<or> \<not> IsZero lastUpdated)
         then not_modified etag lastUpdated
         else \<lparr>rs_Status = 200,
           rs_Header = [(''Content-Type'', ''application/json''), (''ETag'', etag)] @ last_modified lastUpdated @
             [(''Content-Length'', Itoa (int (length body)))],
           rs_Body = body\<rparr>) }"

definition BundleMapHandler ::
    "golib \<Rightarrow> wirelib \<Rightarrow> TrustAnchorSet \<times> gotime \<Rightarrow> duration \<Rightarrow> string \<Rightarrow> http_request \<Rightarrow> http_response" where
  "BundleMapHandler G J src maxAge rid r = (case src of (anchors, refreshed) \<Rightarrow>
     (case Build J anchors of
        Inl _ \<Rightarrow> WriteProblem J [] rid (errpkg_New 500 ''Bundle Map Error'')
      | Inr body \<Rightarrow>
          let etag = weakETag G body; secs = maxAge div Second in
          if unchanged_since J r etag refreshed then not_modified etag refreshed
          else \<lparr>rs_Status = 200,
            rs_Header = (''Content-Type'', ''application/json'') # last_modified refreshed @ [(''ETag'', etag)] @
              (if 0 < secs then [(''Cache-Control'', ''max-age='' @ Itoa secs)] else []),
            rs_Body = body\<rparr>))"

definition DiscoveryHandler :: "wirelib \<Rightarrow> DiscoveryResponseDTO \<Rightarrow> http_response" where
  "DiscoveryHandler J doc = \<lparr>rs_Status = 200, rs_Header = [(''Content-Type'', ''application/json'')],
     rs_Body = json_Discovery J doc\<rparr>"

section \<open>What the handlers keep\<close>

text \<open>Any predicate on the world that the parts of a handler keep.\<close>

lemma keeps_run_commit:
  "(\<And>cm resp st u. c = Some cm \<Longrightarrow> keeps P (cm resp st u)) \<Longrightarrow> keeps P (run_commit c resp st u)"
  by (cases c) (auto simp: run_commit_def intro!: inv_intros)

lemma keeps_enroll_pending:
  assumes "\<And>vb p repl. keeps P (Enroll G S vb p repl)"
    and "\<And>cm resp st u. PE_Commit pe = Some cm \<Longrightarrow> keeps P (cm resp st u)"
  shows "keeps P (enroll_pending G J S rid req pe)"
  unfolding enroll_pending_def by (intro inv_intros keeps_run_commit assms)

lemma keeps_handleEnrollment:
  assumes enroll: "\<And>vb p repl. keeps P (Enroll G S vb p repl)"
    and validate: "\<And>m v r cred csr prof. Lookup registry m = Inr v \<Longrightarrow> keeps P (v r cred csr prof)"
    and commit: "\<And>m v r cred csr prof w pe w' cm resp st u. Lookup registry m = Inr v \<Longrightarrow>
      run_state (v r cred csr prof) w = (Inr (Pending pe), w') \<Longrightarrow> PE_Commit pe = Some cm \<Longrightarrow> keeps P (cm resp st u)"
  shows "keeps P (handleEnrollment G J registry S rid r)"
proof -
  have "keeps P (do {
          out \<leftarrow> v r cred csr prof;
          case out of
            Inl e \<Rightarrow> State_Monad.return (WriteProblem J [] rid (bootstrap_problem e))
          | Inr (Replay c) \<Rightarrow> State_Monad.return (writeEnrollmentResponse J (CR_Response c) (CR_StatusCode c))
          | Inr (Pending pe) \<Rightarrow> enroll_pending G J S rid req pe })"
    if v: "Lookup registry m = Inr v" for m v cred csr prof req
  proof (rule keeps_bind_post [where Q = "\<lambda>out :: ValidationOutcome result. \<forall>pe cm resp st u.
      out = Inr (Pending pe) \<longrightarrow> PE_Commit pe = Some cm \<longrightarrow> keeps P (cm resp st u)"])
    fix w out w' assume "P w" and run: "run_state (v r cred csr prof) w = (out, w')"
    then show "P w' \<and> (\<forall>pe cm resp st u. out = Inr (Pending pe) \<longrightarrow> PE_Commit pe = Some cm \<longrightarrow> keeps P (cm resp st u))"
      using keepsD' [OF validate [OF v] run] commit [OF v] by blast
  next
    fix out :: "ValidationOutcome result"
    assume "\<forall>pe cm resp st u. out = Inr (Pending pe) \<longrightarrow> PE_Commit pe = Some cm \<longrightarrow> keeps P (cm resp st u)"
    then show "keeps P (case out of
            Inl e \<Rightarrow> State_Monad.return (WriteProblem J [] rid (bootstrap_problem e))
          | Inr (Replay c) \<Rightarrow> State_Monad.return (writeEnrollmentResponse J (CR_Response c) (CR_StatusCode c))
          | Inr (Pending pe) \<Rightarrow> enroll_pending G J S rid req pe)"
      by (auto split: sum.splits ValidationOutcome.splits intro: keeps_return keeps_enroll_pending [OF enroll])
  qed
  then show ?thesis
    unfolding handleEnrollment_def by (auto intro!: keeps_return split: option.splits sum.splits)
qed

lemma keeps_handleRenewal:
  assumes "keeps P time_Now" "\<And>sp now. keeps P (Allow (RC_RateLimiter cfg) sp now)"
    "\<And>sp p. keeps P (Renew G (RC_Service cfg) sp p)"
    "\<And>sp now. keeps P (RenewalEvents_Record (RC_RateLimiter cfg) sp now)"
  shows "keeps P (handleRenewal G J cfg rid enc r)"
  unfolding handleRenewal_def renew_limited_def by (intro inv_intros assms)

lemma keeps_handleJWTSVID:
  assumes "keeps P time_Now" "\<And>sp now. keeps P (Allow (JH_RateLimiter cfg) sp now)"
    "\<And>jc sp aud ttl. keeps P (IssueJWTSVID (Some (JH_Signer cfg)) (Some (IssuedJWTSVIDs_Record G)) jc sp aud ttl)"
    "\<And>sp now. keeps P (RenewalEvents_Record (JH_RateLimiter cfg) sp now)"
    "\<And>enc sp c. keeps P (VerifyClientAssertion G (exchange_config cfg enc) sp c)"
  shows "keeps P (handleJWTSVID G J cfg rid enc r)"
  unfolding handleJWTSVID_def exchange_authenticated_def exchange_limited_def by (intro inv_intros assms)

lemma keeps_handleRevocations:
  "keeps P time_Now \<Longrightarrow> (\<And>now. keeps P (RevokedSVIDs_List now)) \<Longrightarrow> keeps P (handleRevocations G J rid r)"
  unfolding handleRevocations_def by (intro inv_intros)

lemma keeps_VerifyClientAssertion:
  "keeps P time_Now \<Longrightarrow> (\<And>wit j e. vc_Replay cfg = Some wit \<Longrightarrow> keeps P (wit j e)) \<Longrightarrow>
    keeps P (VerifyClientAssertion G cfg sp c)"
  unfolding VerifyClientAssertion_def
  by (cases "vc_Roots cfg"; cases "vc_Replay cfg") (auto intro!: inv_intros)

end
