(* ===== verification/MIS_Server.thy ===== *)
theory MIS_Server
  imports MIS_Handlers
begin

text \<open>
  The servers of \<^verbatim>\<open>cmd/mis\<close>: routes and middleware of the public interface
  (\<^verbatim>\<open>transport/http/server.go\<close>, \<^verbatim>\<open>middleware.go\<close>), the operator interface
  (\<^verbatim>\<open>transport/admin\<close>) and their assembly from the flags (\<^verbatim>\<open>cmd_serve.go\<close>). The last
  part is the running program as a state machine: one step is one request to one of the two
  servers, or one round of the loop that prunes the revocation list.
\<close>

section \<open>The public interface\<close>

type_synonym handler = "string \<Rightarrow> http_request \<Rightarrow> http_response prog"

record HTTPConfig =
  hc_Discovery :: handler
  hc_BundleMap :: handler
  hc_Enrollment :: handler
  hc_Renewal :: "string \<Rightarrow> handler"
  hc_JWTSVID :: "string \<Rightarrow> handler"
  hc_Revocations :: handler

definition routed :: "bool \<Rightarrow> http_response prog \<Rightarrow> http_response prog" where
  "routed ok h = (if ok then h else State_Monad.return method_not_allowed)"

definition mis_mux :: "HTTPConfig \<Rightarrow> handler" where
  "mis_mux cfg rid r =
     (let p = rq_Path r; get = is_get (rq_Method r); post = (rq_Method r = ''POST'') in
      if p = [''.well-known'', ''margo''] then routed get (hc_Discovery cfg rid r)
      else if p = [''.well-known'', ''spiffe'', ''bundle.json''] then routed get (hc_BundleMap cfg rid r)
      else if p = [''api'', ''v1'', ''identities''] then routed post (hc_Enrollment cfg rid r)
      else if p = [''api'', ''v1'', ''revocations''] then routed get (hc_Revocations cfg rid r)
      else case p of
        [api, v1, ids, enc, act] \<Rightarrow>
          if [api, v1, ids, act] = [''api'', ''v1'', ''identities'', ''renewal'']
          then routed post (hc_Renewal cfg enc rid r)
          else if [api, v1, ids, act] = [''api'', ''v1'', ''identities'', ''jwt-svid'']
          then routed post (hc_JWTSVID cfg enc rid r)
          else State_Monad.return page_not_found
      | _ \<Rightarrow> State_Monad.return page_not_found)"

text \<open>Of \<^verbatim>\<open>AccessLog\<close> only the readings of the clock remain.\<close>

definition AccessLog :: "handler \<Rightarrow> handler" where
  "AccessLog next rid r = do { _ \<leftarrow> time_Now; resp \<leftarrow> next rid r; _ \<leftarrow> time_Now; State_Monad.return resp }"

definition WithRequestID :: "handler \<Rightarrow> http_request \<Rightarrow> http_response prog" where
  "WithRequestID next r = do {
     rid \<leftarrow> uuid_New;
     resp \<leftarrow> next rid r;
     State_Monad.return (resp\<lparr>rs_Header := (''X-Request-ID'', rid) # rs_Header resp\<rparr>) }"

definition NewHTTPServer :: "HTTPConfig \<Rightarrow> http_request \<Rightarrow> http_response prog" where
  "NewHTTPServer cfg = WithRequestID (AccessLog (mis_mux cfg))"

section \<open>The operator interface\<close>

record AdminConfig =
  ac_lib :: golib
  ac_wire :: wirelib
  ac_DefaultTokenTTL :: duration

definition writeJSON :: "int \<Rightarrow> bytes \<Rightarrow> http_response" where
  "writeJSON status body = \<lparr>rs_Status = status, rs_Header = [(''Content-Type'', ''application/json'')], rs_Body = body\<rparr>"

text \<open>The messages of \<^verbatim>\<open>writeError\<close> are not modelled.\<close>

definition writeError :: "wirelib \<Rightarrow> int \<Rightarrow> http_response" where
  "writeError J status = writeJSON status (json_Marshal J (JObject [(''error'', JString [])]))"

text \<open>A TTL of the request, or the default of the server; \<open>None\<close> when it is refused.\<close>

definition token_ttl :: "AdminConfig \<Rightarrow> CreateEnrollmentTokenRequest \<Rightarrow> duration option" where
  "token_ttl cfg req =
     (let ttl = (if CT_TTL req \<noteq> [] then time_ParseDuration (ac_wire cfg) (CT_TTL req)
                 else if 0 < ac_DefaultTokenTTL cfg then Some (ac_DefaultTokenTTL cfg) else None) in
      case ttl of None \<Rightarrow> None | Some d \<Rightarrow> if d \<le> 0 then None else Some d)"

definition createEnrollmentToken :: "AdminConfig \<Rightarrow> http_request \<Rightarrow> http_response prog" where
  "createEnrollmentToken cfg r = (case Option.bind (rq_Body r) (json_CreateToken (ac_wire cfg)) of
     None \<Rightarrow> State_Monad.return (writeError (ac_wire cfg) 400)
   | Some req \<Rightarrow> (case token_ttl cfg req of
       None \<Rightarrow> State_Monad.return (writeError (ac_wire cfg) 400)
     | Some ttl \<Rightarrow> do {
         now \<leftarrow> time_Now;
         c \<leftarrow> EnrollmentTokens_Create (ac_lib cfg) ttl now;
         State_Monad.return (case c of
           Inl _ \<Rightarrow> writeError (ac_wire cfg) 500
         | Inr created \<Rightarrow> writeJSON 201 (json_TokenCreated (ac_wire cfg)
             \<lparr>CTR_TokenID = Cr_TokenID created, CTR_Secret = Secret_Wire (Cr_Secret created),
              CTR_ExpiresAt = RFC3339Nano (Cr_ExpiresAt created)\<rparr>)) }))"

text \<open>\<^verbatim>\<open>path.Base\<close>: the last element of a slash-separated path.\<close>

definition path_Base :: "string \<Rightarrow> string" where
  "path_Base p =
     (if p = [] then ''.'' else
      let q = TrimRight p ''/''; b = rev (takeWhile (\<lambda>c. c \<noteq> CHR ''/'') (rev q)) in
      if b = [] then ''/'' else b)"

definition createReplacementTicket :: "AdminConfig \<Rightarrow> http_request \<Rightarrow> http_response prog" where
  "createReplacementTicket cfg r = (case Option.bind (rq_Body r) (json_CreateTicket (ac_wire cfg)) of
     None \<Rightarrow> State_Monad.return (writeError (ac_wire cfg) 400)
   | Some req \<Rightarrow>
       if CK_SPIFFEID req = [] \<or> CK_TTL req = [] then State_Monad.return (writeError (ac_wire cfg) 400)
       else (case time_ParseDuration (ac_wire cfg) (CK_TTL req) of
         None \<Rightarrow> State_Monad.return (writeError (ac_wire cfg) 400)
       | Some ttl \<Rightarrow>
           if ttl \<le> 0 then State_Monad.return (writeError (ac_wire cfg) 400)
           else do {
             now \<leftarrow> time_Now;
             c \<leftarrow> ReplacementTickets_Create (ac_lib cfg) (path_Base (CK_SPIFFEID req)) ttl now;
             State_Monad.return (case c of
               Inl e \<Rightarrow> writeError (ac_wire cfg) (if errors_Is e (Opaque ''no such ldi'') then 400 else 500)
             | Inr created \<Rightarrow> writeJSON 201 (json_TicketCreated (ac_wire cfg)
                 \<lparr>CKR_Ticket = RT_Ticket created, CKR_SPIFFEID = CK_SPIFFEID req,
                  CKR_ExpiresAt = RFC3339Nano (RT_ExpiresAt created)\<rparr>)) }))"

definition createRevocation :: "AdminConfig \<Rightarrow> http_request \<Rightarrow> http_response prog" where
  "createRevocation cfg r = (case Option.bind (rq_Body r) (json_Revoke (ac_wire cfg)) of
     None \<Rightarrow> State_Monad.return (writeError (ac_wire cfg) 400)
   | Some req \<Rightarrow>
       if RQ_SPIFFEID req = [] then State_Monad.return (writeError (ac_wire cfg) 400)
       else do {
         res \<leftarrow> RevokeSPIFFEID (RQ_SPIFFEID req) (RQ_Reason req);
         State_Monad.return (case res of (newly, already, err) \<Rightarrow> (case err of
           Some e \<Rightarrow> writeError (ac_wire cfg) (if errors_Is e Identity_ErrNotFound then 404 else 500)
         | None \<Rightarrow> writeJSON 200 (json_Revoked (ac_wire cfg)
             \<lparr>RP_SPIFFEID = RQ_SPIFFEID req, RP_RevokedSerials = map RE_SerialHex newly,
              RP_AlreadyRevoked = already\<rparr>))) })"

definition NewAdminServer :: "AdminConfig \<Rightarrow> http_request \<Rightarrow> http_response prog" where
  "NewAdminServer cfg r =
     (let post = (rq_Method r = ''POST'') in
      if rq_Path r = [''admin'', ''v1'', ''enrollment-tokens''] then routed post (createEnrollmentToken cfg r)
      else if rq_Path r = [''admin'', ''v1'', ''replacement-tickets''] then routed post (createReplacementTicket cfg r)
      else if rq_Path r = [''admin'', ''v1'', ''revocations''] then routed post (createRevocation cfg r)
      else State_Monad.return page_not_found)"

section \<open>Assembly\<close>

text \<open>The flags of the command, and what it has loaded from files before it wires the parts.\<close>

record serve_flags =
  fl_trust_domain :: string
  fl_advertise_url :: string
  fl_allow_new_enrollment :: bool
  fl_allow_key_rotation :: bool
  fl_svid_ttl :: duration
  fl_renewal_rate_limit :: int
  fl_renewal_rate_window :: duration
  fl_bootstrap_jwt_clock_skew :: duration
  fl_enrollment_token_retry_window :: duration
  fl_jwtsvid_max_ttl :: duration
  fl_jwtsvid_default_ttl :: duration
  fl_jwtsvid_clock_skew :: duration
  fl_enrollment_token_default_ttl :: duration

record serve_files =
  sf_lib :: golib
  sf_wire :: wirelib
  sf_issuer :: issuer_backend
  sf_anchors :: "TrustAnchorSet \<times> gotime"
  sf_factoryPool :: cert_pool

definition serve_service :: "serve_flags \<Rightarrow> serve_files \<Rightarrow> Service" where
  "serve_service F E = NewService (sf_lib E) (sf_issuer E)
     \<lparr>NewLDI = fl_allow_new_enrollment F, KeyRotation = fl_allow_key_rotation F\<rparr> (fl_trust_domain F) (fl_svid_ttl F)"

definition serve_registry :: "serve_flags \<Rightarrow> serve_files \<Rightarrow> Registry option" where
  "serve_registry F E =
     map_option (\<lambda>jwt.
       Register BootstrapMethodEnrollmentToken (Token_Validate (sf_lib E) (RetryWindow (fl_enrollment_token_retry_window F)))
      (Register BootstrapMethodFactoryCertJWT (Jwt_Validate (sf_lib E) jwt)
      (Register BootstrapMethodFactoryCertMTLS (Mtls_Validate (sf_lib E) (sf_factoryPool E)) NewRegistry)))
     (Jwt_New \<lparr>jc_Roots = sf_factoryPool E, jc_Audience = TrimRight (fl_advertise_url F) ''/'' @ ''/api/v1/identities'',
        jc_Replay = JWTReplay_Witness, jc_ClockSkew = fl_bootstrap_jwt_clock_skew F, jc_MaxAssertionLifetime = 0\<rparr>)"

definition serve_discovery :: "serve_flags \<Rightarrow> Registry \<Rightarrow> DiscoveryResponseDTO" where
  "serve_discovery F registry = \<lparr>DR_TrustDomain = fl_trust_domain F,
     DR_TrustBundleURI = fl_advertise_url F @ ''/.well-known/spiffe/bundle.json'',
     DR_MargoIdentityServiceBaseURI = fl_advertise_url F, DR_SupportedBootstrapMethods = Methods registry,
     DR_SVIDProfilesSupported = [SVIDProfileURIX509V1, SVIDProfileURIJWTV1]\<rparr>"

definition serve_renewal :: "serve_flags \<Rightarrow> serve_files \<Rightarrow> RenewalEventsConfig \<Rightarrow> RenewalConfig option" where
  "serve_renewal F E limiter = NewRenewalHandler \<lparr>RC_Service = serve_service F E, RC_RateLimiter = limiter,
     RC_BearerVerifier = Some (Bearer_Verify (sf_wire E) (fst (sf_anchors E))),
     RC_EndpointBaseURL = fl_advertise_url F\<rparr>"

definition serve_jwtsvid :: "serve_flags \<Rightarrow> serve_files \<Rightarrow> RenewalEventsConfig \<Rightarrow> JWTSVIDHandlerConfig option" where
  "serve_jwtsvid F E limiter = NewJWTSVIDHandler \<lparr>JH_Signer = jwt_Sign (sf_lib E), JH_BundleSource = fst (sf_anchors E),
     JH_ReplayStore = Some JWTReplay_Witness, JH_RateLimiter = limiter,
     JH_IssuerURL = TrimRight (fl_advertise_url F) ''/'' @ ''/'', JH_EndpointBase = fl_advertise_url F,
     JH_MaxTTL = fl_jwtsvid_max_ttl F, JH_DefaultTTL = fl_jwtsvid_default_ttl F,
     JH_ClockSkew = fl_jwtsvid_clock_skew F\<rparr>"

record mis_server =
  ms_public :: "http_request \<Rightarrow> http_response prog"
  ms_admin :: "http_request \<Rightarrow> http_response prog"

text \<open>\<open>None\<close> is the panic of a constructor.\<close>

definition assemble :: "serve_flags \<Rightarrow> serve_files \<Rightarrow> mis_server option" where
  "assemble F E = (case NewRenewalEvents \<lparr>MaxInWindow = fl_renewal_rate_limit F, Window = fl_renewal_rate_window F\<rparr> of
     None \<Rightarrow> None
   | Some limiter \<Rightarrow> (case serve_renewal F E limiter of
       None \<Rightarrow> None
     | Some renewal \<Rightarrow> (case serve_registry F E of
         None \<Rightarrow> None
       | Some registry \<Rightarrow> (case serve_jwtsvid F E limiter of
           None \<Rightarrow> None
         | Some jwtsvid \<Rightarrow> Some
             \<lparr>ms_public = NewHTTPServer
                \<lparr>hc_Discovery = (\<lambda>rid r. State_Monad.return (DiscoveryHandler (sf_wire E) (serve_discovery F registry))),
                 hc_BundleMap = (\<lambda>rid r. State_Monad.return
                   (BundleMapHandler (sf_lib E) (sf_wire E) (sf_anchors E) (10 * Minute) rid r)),
                 hc_Enrollment = handleEnrollment (sf_lib E) (sf_wire E) registry (serve_service F E),
                 hc_Renewal = (\<lambda>enc rid r. handleRenewal (sf_lib E) (sf_wire E) renewal rid enc r),
                 hc_JWTSVID = (\<lambda>enc rid r. handleJWTSVID (sf_lib E) (sf_wire E) jwtsvid rid enc r),
                 hc_Revocations = handleRevocations (sf_lib E) (sf_wire E)\<rparr>,
              ms_admin = NewAdminServer
                \<lparr>ac_lib = sf_lib E, ac_wire = sf_wire E,
                 ac_DefaultTokenTTL = fl_enrollment_token_default_ttl F\<rparr>\<rparr>))))"

section \<open>Starting\<close>

text \<open>
  \<^verbatim>\<open>run\<close> up to its servers. \<open>store_Open\<close> says whether the database file opens; the loaded
  signer of JWT SVIDs becomes \<open>jwt_Sign\<close> of the library. The outcome \<open>Inr None\<close> is a
  panic.
\<close>

record startup =
  st_lib :: golib
  st_wire :: wirelib
  st_ra :: ralib
  st_jose :: joselib
  st_pool_certs :: "bytes \<Rightarrow> cert_pool"
  st_store_Open :: "string \<Rightarrow> bool"

definition flags_of :: "cli_flags \<Rightarrow> serve_flags" where
  "flags_of cmd =
     \<lparr>fl_trust_domain = cmd_String cmd ''trust-domain'', fl_advertise_url = cmd_String cmd ''advertise-url'',
      fl_allow_new_enrollment = cmd_Bool cmd ''allow-new-enrollment'',
      fl_allow_key_rotation = cmd_Bool cmd ''allow-key-rotation'', fl_svid_ttl = cmd_Duration cmd ''svid-ttl'',
      fl_renewal_rate_limit = cmd_Int cmd ''renewal-rate-limit'',
      fl_renewal_rate_window = cmd_Duration cmd ''renewal-rate-window'',
      fl_bootstrap_jwt_clock_skew = cmd_Duration cmd ''bootstrap-jwt-clock-skew'',
      fl_enrollment_token_retry_window = cmd_Duration cmd ''enrollment-token-retry-window'',
      fl_jwtsvid_max_ttl = cmd_Duration cmd ''jwtsvid-max-ttl'',
      fl_jwtsvid_default_ttl = cmd_Duration cmd ''jwtsvid-default-ttl'',
      fl_jwtsvid_clock_skew = cmd_Duration cmd ''jwtsvid-clock-skew'',
      fl_enrollment_token_default_ttl = cmd_Duration cmd ''enrollment-token-default-ttl''\<rparr>"

definition load_files :: "startup \<Rightarrow> cli_flags \<Rightarrow> serve_files result prog" where
  "load_files X cmd =
     (let paths = resolvePaths cmd; L = ra_os (st_ra X) in
      case choose_issuer (st_lib X) (st_ra X) (st_pool_certs X) cmd paths of
        Inl e \<Rightarrow> State_Monad.return (Inl e)
      | Inr issuer \<Rightarrow> (case Signer_New (st_lib X) L (rp_jwtsvidKeyFile paths) of
          Inl e \<Rightarrow> State_Monad.return (Inl e)
        | Inr signer \<Rightarrow> do {
            ta \<leftarrow> NewTrustAnchors (st_lib X) L \<lparr>TA_TrustDomain = cmd_String cmd ''trust-domain'',
              TA_RootFile = rp_caTrustAnchorFile paths, TA_JWTAuthorities = [JWTAuthority signer]\<rparr>;
            State_Monad.return (case ta of
              Inl e \<Rightarrow> Inl e
            | Inr anchors \<Rightarrow>
                if \<not> st_store_Open X (rp_dbFile paths) then Inl [Opaque ''open mis state'']
                else Inr \<lparr>sf_lib = (st_lib X)\<lparr>jwt_Sign := Signer_Sign (st_jose X) signer\<rparr>, sf_wire = st_wire X, sf_issuer = issuer, sf_anchors = anchors,
                  sf_factoryPool = []\<rparr>) }))"

definition start_server :: "startup \<Rightarrow> cli_flags \<Rightarrow> mis_server option result prog" where
  "start_server X cmd = do {
     files \<leftarrow> load_files X cmd;
     let F = flags_of cmd;
     let paths = resolvePaths cmd;
     let pool = buildCombinedPool (ra_os (st_ra X)) (st_pool_certs X);
     State_Monad.return (case files of
       Inl e \<Rightarrow> Inl e
     | Inr E \<Rightarrow> (case NewRenewalEvents \<lparr>MaxInWindow = fl_renewal_rate_limit F, Window = fl_renewal_rate_window F\<rparr> of
         None \<Rightarrow> Inr None
       | Some limiter \<Rightarrow> (case serve_renewal F E limiter of
           None \<Rightarrow> Inr None
         | Some _ \<Rightarrow> (case pool (rp_factoryCaFiles paths) of
             Inl e \<Rightarrow> Inl e
           | Inr factoryPool \<Rightarrow> (case pool (rp_factoryCaFiles paths @ [rp_caTrustAnchorFile paths]) of
               Inl e \<Rightarrow> Inl e
             | Inr clientCAPool \<Rightarrow> Inr (assemble F (E\<lparr>sf_factoryPool := factoryPool\<rparr>))))))) }"

text \<open>
  A server that starts is an assembled one over the trust domain of its flag. The JWT SVIDs it
  hands out are signed with the key, and name the identifier, of the one JWT authority its bundle
  map publishes. Starting touches no table.
\<close>

lemma NewTrustAnchors_authorities:
  "fst (run_state (NewTrustAnchors G L cfg) w) = Inr p \<Longrightarrow> TS_JWTAuthorities (fst p) = TA_JWTAuthorities cfg"
  by (auto simp: NewTrustAnchors_def run_simps simp del: root_certs.simps split: if_splits option.splits sum.splits)

lemma start_server_assembled:
  assumes "run_state (start_server X cmd) w = (Inr (Some sv), w')"
  obtains E signer where "assemble (flags_of cmd) E = Some sv"
    "sf_lib E = (st_lib X)\<lparr>jwt_Sign := Signer_Sign (st_jose X) signer\<rparr>"
    "TS_JWTAuthorities (fst (sf_anchors E)) = [\<lparr>JA_KeyID = sg_kid signer, JA_PublicKey = sg_pub signer\<rparr>]"
    "backend_trust_domain (sf_issuer E) = fl_trust_domain (flags_of cmd)" "tabs w' = tabs w"
proof -
  have w: "tabs (snd (run_state (load_files X cmd) w)) = tabs w"
    by (simp add: load_files_def NewTrustAnchors_def run_simps Let_def split: sum.split option.split)
  obtain E pool where files: "fst (run_state (load_files X cmd) w) = Inr E"
    and sv: "assemble (flags_of cmd) (E\<lparr>sf_factoryPool := pool\<rparr>) = Some sv" and w': "w' = snd (run_state (load_files X cmd) w)"
    using assms by (auto simp: start_server_def run_simps Let_def split: prod.splits sum.splits option.splits)
  let ?choice = "choose_issuer (st_lib X) (st_ra X) (st_pool_certs X) cmd (resolvePaths cmd)"
  let ?signer = "Signer_New (st_lib X) (ra_os (st_ra X)) (rp_jwtsvidKeyFile (resolvePaths cmd))"
  obtain i where i: "?choice = Inr i" using files by (cases ?choice) (simp_all add: load_files_def Let_def run_simps)
  obtain signer where g: "?signer = Inr signer" using files i by (cases ?signer) (simp_all add: load_files_def Let_def run_simps)
  let ?anchors = "fst (run_state (NewTrustAnchors (st_lib X) (ra_os (st_ra X)) \<lparr>TA_TrustDomain = cmd_String cmd ''trust-domain'',
      TA_RootFile = rp_caTrustAnchorFile (resolvePaths cmd), TA_JWTAuthorities = [JWTAuthority signer]\<rparr>) w)"
  obtain p where p: "?anchors = Inr p" using files i g by (cases ?anchors) (simp_all add: load_files_def Let_def run_simps split: prod.splits)
  then have signer: "sf_lib E = (st_lib X)\<lparr>jwt_Sign := Signer_Sign (st_jose X) signer\<rparr>" and anchors: "?anchors = Inr (sf_anchors E)"
    and issuer: "?choice = Inr (sf_issuer E)"
    using files i g by (auto simp: load_files_def Let_def run_simps split: prod.splits if_splits)
  have "TS_JWTAuthorities (fst (sf_anchors E)) = [JWTAuthority signer]"
    using NewTrustAnchors_authorities [OF anchors] by simp
  with signer issuer sv w w' show thesis
    by (intro that [of "E\<lparr>sf_factoryPool := pool\<rparr>" signer])
      (auto simp: flags_of_def JWTAuthority_def dest: choose_issuer_trust_domain)
qed

text \<open>With the default flags no constructor panics, whatever the files hold.\<close>

lemma defaults_assemble: "assemble (flags_of (flag_defaults command)) E \<noteq> None"
  by (simp add: assemble_def serve_renewal_def serve_registry_def serve_jwtsvid_def NewRenewalHandler_def
      NewJWTSVIDHandler_def Jwt_New_def NewRenewalEvents_def flags_of_def flag_defaults_def Let_def Hour_def Minute_def Second_def)

section \<open>The running program\<close>

datatype event = Public http_request | Admin http_request | PruneTick

definition prune_round :: "unit prog" where
  "prune_round = do { now \<leftarrow> time_Now; _ \<leftarrow> PruneExpired now; State_Monad.return () }"

fun serve :: "mis_server \<Rightarrow> event \<Rightarrow> mis \<Rightarrow> mis" where
  "serve sv (Public r) w = snd (run_state (ms_public sv r) w)"
| "serve sv (Admin r) w = snd (run_state (ms_admin sv r) w)"
| "serve sv PruneTick w = snd (run_state prune_round w)"

inductive server_run :: "mis_server \<Rightarrow> mis \<Rightarrow> mis \<Rightarrow> bool" for sv where
  start: "server_run sv w w"
| event: "server_run sv w w' \<Longrightarrow> server_run sv w (serve sv x w')"

inductive_cases server_runE: "server_run sv w w'"

lemma server_run_trans: "server_run sv w' w'' \<Longrightarrow> server_run sv w w' \<Longrightarrow> server_run sv w w''"
  by (induction rule: server_run.induct) (auto intro: server_run.intros)

section \<open>Invariants of the running program\<close>

lemma keeps_routed [inv_intros]: "keeps P h \<Longrightarrow> keeps P (routed b h)"
  by (simp add: routed_def keeps_return)

lemma keeps_mis_mux:
  assumes "\<And>rid r. keeps P (hc_Discovery cfg rid r)" "\<And>rid r. keeps P (hc_BundleMap cfg rid r)"
    "\<And>rid r. keeps P (hc_Enrollment cfg rid r)" "\<And>e rid r. keeps P (hc_Renewal cfg e rid r)"
    "\<And>e rid r. keeps P (hc_JWTSVID cfg e rid r)" "\<And>rid r. keeps P (hc_Revocations cfg rid r)"
  shows "keeps P (mis_mux cfg rid r)"
  unfolding mis_mux_def Let_def by (intro inv_intros assms)

lemma keeps_NewHTTPServer:
  "keeps P time_Now \<Longrightarrow> keeps P uuid_New \<Longrightarrow> (\<And>rid r. keeps P (mis_mux cfg rid r)) \<Longrightarrow> keeps P (NewHTTPServer cfg r)"
  unfolding NewHTTPServer_def WithRequestID_def AccessLog_def by (intro inv_intros)

text \<open>The parts of the assembled server.\<close>

lemma assemble_parts:
  assumes "assemble F E = Some sv"
  obtains limiter renewal registry jwtsvid where
    "NewRenewalEvents \<lparr>MaxInWindow = fl_renewal_rate_limit F, Window = fl_renewal_rate_window F\<rparr> = Some limiter"
    "serve_registry F E = Some registry"
    "RC_Service renewal = serve_service F E" "RC_RateLimiter renewal = limiter"
    "RC_BearerVerifier renewal = Some (Bearer_Verify (sf_wire E) (fst (sf_anchors E)))"
    "RC_EndpointBaseURL renewal = fl_advertise_url F"
    "serve_jwtsvid F E limiter = Some jwtsvid" "JH_ReplayStore jwtsvid = Some JWTReplay_Witness"
    "0 < MaxInWindow limiter" "0 < Window limiter"
    "sv = \<lparr>ms_public = NewHTTPServer
                \<lparr>hc_Discovery = (\<lambda>rid r. State_Monad.return (DiscoveryHandler (sf_wire E) (serve_discovery F registry))),
                 hc_BundleMap = (\<lambda>rid r. State_Monad.return
                   (BundleMapHandler (sf_lib E) (sf_wire E) (sf_anchors E) (10 * Minute) rid r)),
                 hc_Enrollment = handleEnrollment (sf_lib E) (sf_wire E) registry (serve_service F E),
                 hc_Renewal = (\<lambda>enc rid r. handleRenewal (sf_lib E) (sf_wire E) renewal rid enc r),
                 hc_JWTSVID = (\<lambda>enc rid r. handleJWTSVID (sf_lib E) (sf_wire E) jwtsvid rid enc r),
                 hc_Revocations = handleRevocations (sf_lib E) (sf_wire E)\<rparr>,
              ms_admin = NewAdminServer
                \<lparr>ac_lib = sf_lib E, ac_wire = sf_wire E, ac_DefaultTokenTTL = fl_enrollment_token_default_ttl F\<rparr>\<rparr>"
proof -
  from assms obtain limiter renewal registry jwtsvid where
    l: "NewRenewalEvents \<lparr>MaxInWindow = fl_renewal_rate_limit F, Window = fl_renewal_rate_window F\<rparr> = Some limiter"
    and n: "serve_renewal F E limiter = Some renewal" and g: "serve_registry F E = Some registry"
    and j: "serve_jwtsvid F E limiter = Some jwtsvid"
    unfolding assemble_def by (auto split: option.splits)
  show thesis
  proof (rule that [of limiter registry renewal jwtsvid])
    show "RC_Service renewal = serve_service F E" "RC_RateLimiter renewal = limiter"
      "RC_BearerVerifier renewal = Some (Bearer_Verify (sf_wire E) (fst (sf_anchors E)))"
      "RC_EndpointBaseURL renewal = fl_advertise_url F"
      using n by (auto simp: serve_renewal_def NewRenewalHandler_def split: if_splits)
    show "JH_ReplayStore jwtsvid = Some JWTReplay_Witness"
      using j by (auto simp: serve_jwtsvid_def NewJWTSVIDHandler_def split: if_splits)
    show "0 < MaxInWindow limiter" "0 < Window limiter"
      using l by (auto simp: NewRenewalEvents_def split: if_splits)
  qed (use assms l n g j in \<open>simp_all add: assemble_def\<close>)
qed

text \<open>The validators of the assembled registry.\<close>

lemma serve_registry_cases:
  assumes "serve_registry F E = Some registry"
  obtains jwt where "registry = Register BootstrapMethodEnrollmentToken
        (Token_Validate (sf_lib E) (RetryWindow (fl_enrollment_token_retry_window F)))
      (Register BootstrapMethodFactoryCertJWT (Jwt_Validate (sf_lib E) (jwt\<lparr>jc_Replay := JWTReplay_Witness\<rparr>))
      (Register BootstrapMethodFactoryCertMTLS (Mtls_Validate (sf_lib E) (sf_factoryPool E)) NewRegistry))"
proof -
  obtain jwt where jwt: "Jwt_New \<lparr>jc_Roots = sf_factoryPool E, jc_Audience = TrimRight (fl_advertise_url F) ''/'' @ ''/api/v1/identities'',
        jc_Replay = JWTReplay_Witness, jc_ClockSkew = fl_bootstrap_jwt_clock_skew F, jc_MaxAssertionLifetime = 0\<rparr> = Some jwt"
    and reg: "registry = Register BootstrapMethodEnrollmentToken (Token_Validate (sf_lib E) (RetryWindow (fl_enrollment_token_retry_window F)))
      (Register BootstrapMethodFactoryCertJWT (Jwt_Validate (sf_lib E) jwt)
      (Register BootstrapMethodFactoryCertMTLS (Mtls_Validate (sf_lib E) (sf_factoryPool E)) NewRegistry))"
    using assms by (auto simp: serve_registry_def)
  have "jwt\<lparr>jc_Replay := JWTReplay_Witness\<rparr> = jwt" using jwt by (auto simp: Jwt_New_def Let_def split: if_splits)
  with reg that [of jwt] show thesis by simp
qed

lemma serve_registry_validators:
  assumes "serve_registry F E = Some registry" "Lookup registry m = Inr v"
  shows "bootstrap_validator v"
  using assms(2)
  by (rule_tac serve_registry_cases [OF assms(1)])
    (auto simp: token_validator.bootstrap_validator_axioms mtls_validator.bootstrap_validator_axioms
      jwt_validator.bootstrap_validator_axioms split: if_splits)

text \<open>
  What every handler of the server keeps: a predicate on the world that the parts keep.
\<close>

lemma keeps_public:
  assumes sv: "assemble F E = Some sv" and base: "keeps P time_Now" "keeps P uuid_New"
    and enroll: "\<And>vb p repl. keeps P (Enroll (sf_lib E) (serve_service F E) vb p repl)"
    and renew: "\<And>sp p. keeps P (Renew (sf_lib E) (serve_service F E) sp p)"
    and validators: "\<And>registry m v r cred csr prof. serve_registry F E = Some registry \<Longrightarrow> Lookup registry m = Inr v \<Longrightarrow>
      keeps P (v r cred csr prof)"
    and commits: "\<And>registry m v r cred csr prof w pe w' cm resp st u. serve_registry F E = Some registry \<Longrightarrow>
      Lookup registry m = Inr v \<Longrightarrow> run_state (v r cred csr prof) w = (Inr (Pending pe), w') \<Longrightarrow>
      PE_Commit pe = Some cm \<Longrightarrow> keeps P (cm resp st u)"
    and stores: "\<And>cfg sp now. keeps P (Allow cfg sp now)" "\<And>cfg sp now. keeps P (RenewalEvents_Record cfg sp now)"
      "\<And>j e. keeps P (JWTReplay_Witness j e)" "\<And>now. keeps P (RevokedSVIDs_List now)"
      "\<And>sg jc sp aud ttl. keeps P (IssueJWTSVID sg (Some (IssuedJWTSVIDs_Record (sf_lib E))) jc sp aud ttl)"
  shows "keeps P (ms_public sv r)"
proof -
  obtain limiter renewal registry jwtsvid where reg: "serve_registry F E = Some registry"
    and svc: "RC_Service renewal = serve_service F E" and wit: "JH_ReplayStore jwtsvid = Some JWTReplay_Witness"
    and pub: "ms_public sv = NewHTTPServer
                \<lparr>hc_Discovery = (\<lambda>rid r. State_Monad.return (DiscoveryHandler (sf_wire E) (serve_discovery F registry))),
                 hc_BundleMap = (\<lambda>rid r. State_Monad.return
                   (BundleMapHandler (sf_lib E) (sf_wire E) (sf_anchors E) (10 * Minute) rid r)),
                 hc_Enrollment = handleEnrollment (sf_lib E) (sf_wire E) registry (serve_service F E),
                 hc_Renewal = (\<lambda>enc rid r. handleRenewal (sf_lib E) (sf_wire E) renewal rid enc r),
                 hc_JWTSVID = (\<lambda>enc rid r. handleJWTSVID (sf_lib E) (sf_wire E) jwtsvid rid enc r),
                 hc_Revocations = handleRevocations (sf_lib E) (sf_wire E)\<rparr>"
    by (rule assemble_parts [OF sv]) simp
  have enr: "keeps P (handleEnrollment (sf_lib E) (sf_wire E) registry (serve_service F E) rid r)" for rid r
    using enroll validators [OF reg] commits [OF reg] by (rule keeps_handleEnrollment)
  have ren: "keeps P (handleRenewal (sf_lib E) (sf_wire E) renewal rid enc r)" for rid enc r
    by (rule keeps_handleRenewal) (simp_all add: base stores svc renew)
  have ver: "keeps P (VerifyClientAssertion (sf_lib E) (exchange_config jwtsvid enc) sp c)" for enc sp c
    by (rule keeps_VerifyClientAssertion [OF base(1)]) (auto simp: exchange_config_def wit stores)
  have jwt: "keeps P (handleJWTSVID (sf_lib E) (sf_wire E) jwtsvid rid enc r)" for rid enc r
    by (rule keeps_handleJWTSVID) (simp_all add: base stores ver)
  have rev: "keeps P (handleRevocations (sf_lib E) (sf_wire E) rid r)" for rid r
    using base(1) stores(4) by (rule keeps_handleRevocations)
  show ?thesis unfolding pub
    by (intro keeps_NewHTTPServer keeps_mis_mux base) (simp_all add: keeps_return enr ren jwt rev)
qed

lemma keeps_NewAdminServer:
  assumes "keeps P time_Now" "\<And>ttl now. keeps P (EnrollmentTokens_Create (ac_lib cfg) ttl now)"
    "\<And>u ttl now. keeps P (ReplacementTickets_Create (ac_lib cfg) u ttl now)" "\<And>sp reason. keeps P (RevokeSPIFFEID sp reason)"
  shows "keeps P (NewAdminServer cfg r)"
  unfolding NewAdminServer_def createEnrollmentToken_def createReplacementTicket_def createRevocation_def Let_def
  by (intro inv_intros assms)

lemma serve_keeps:
  assumes sv: "assemble F E = Some sv" and P: "P w" and "\<And>r. keeps P (ms_public sv r)" "keeps P prune_round"
    "\<And>cfg r. keeps P (NewAdminServer cfg r)"
  shows "P (serve sv x w)"
proof -
  have "\<exists>cfg. ms_admin sv = NewAdminServer cfg" by (rule assemble_parts [OF sv]) auto
  then show ?thesis using keepsD [OF assms(3) P] keepsD [OF assms(4) P] keepsD [OF assms(5) P] by (cases x) auto
qed

context store_invariant
begin

lemma serve_keeps_if:
  assumes sv: "assemble F E = Some sv"
    and enroll: "\<And>vb p repl. keepsI (Enroll (sf_lib E) (serve_service F E) vb p repl)"
    and renew: "\<And>sp p. keepsI (Renew (sf_lib E) (serve_service F E) sp p)"
    and "I (tabs w)"
  shows "I (tabs (serve sv x w))"
proof (rule serve_keeps [OF sv, where P = "\<lambda>w. I (tabs w)"])
  show "keepsI (ms_public sv r)" for r
    by (rule keeps_public [OF sv])
      (simp_all add: keeps_time_Now keeps_uuid_New enroll renew keeps_stores keeps_IssueJWTSVID_store
        bootstrap_validator.validate_keeps [OF serve_registry_validators store_invariant_axioms]
        bootstrap_validator.commit_keeps [OF serve_registry_validators _ _ store_invariant_axioms])
  show "keepsI prune_round" unfolding prune_round_def by (intro inv_intros keeps_stores)
  show "keepsI (NewAdminServer cfg r)" for cfg r
    by (rule keeps_NewAdminServer) (simp_all add: keeps_time_Now keeps_stores keeps_RevokeSPIFFEID)
qed (rule assms)

lemma run_keeps_if:
  assumes "server_run sv w w'" "assemble F E = Some sv"
    and "\<And>vb p repl. keepsI (Enroll (sf_lib E) (serve_service F E) vb p repl)"
    and "\<And>sp p. keepsI (Renew (sf_lib E) (serve_service F E) sp p)"
    and "I (tabs w)"
  shows "I (tabs w')"
  using assms(1,5)
  by (induction rule: server_run.induct) (auto intro: serve_keeps_if [OF assms(2-4)])

end

context system_invariant
begin

lemma serve_service_keeps: "service_keeps (serve_service F E) I"
  unfolding serve_service_def
  by (intro service_keeps.intro mis.service_env_axioms table_invariant_axioms)

lemma run_keeps: "server_run sv w w' \<Longrightarrow> assemble F E = Some sv \<Longrightarrow> I (tabs w) \<Longrightarrow> I (tabs w')"
  by (rule run_keeps_if) (auto intro: service_keeps.keeps_Enroll service_keeps.keeps_Renew serve_service_keeps)

end

lemma closed_to_server_run:
  "server_run sv w w' \<Longrightarrow> assemble F E = Some sv \<Longrightarrow> closed_to sp X (tabs w) \<Longrightarrow> closed_to sp X (tabs w')"
  by (rule closed_to_store.run_keeps_if) (simp_all add: serve_service_def mis.closed_Enroll mis.closed_Renew)

end
