(* ===== verification/MIS_HTTP_Laws.thy ===== *)
theory MIS_HTTP_Laws
  imports MIS_Server
begin

text \<open>
  Laws of the running identity service that its theorems rest on: what a request leaves alone of
  the environment, the outcome that an enrollment with a token records, and the shape of every
  answer.
\<close>

section \<open>The environment of a run\<close>

text \<open>
  No program touches the schedule of failures or the clock, and readings of the clock only ever
  go forward.
\<close>

definition env :: "(nat \<Rightarrow> bool) \<Rightarrow> (nat \<Rightarrow> gotime) \<Rightarrow> nat \<Rightarrow> mis \<Rightarrow> bool" where
  "env f c n w \<longleftrightarrow> faults w = f \<and> clock w = c \<and> n \<le> ticks w"

named_theorems env_intros "programs that keep the environment"

lemma env_time_Now [env_intros]: "keeps (env f c n) time_Now"
  and env_uuid_New [env_intros]: "keeps (env f c n) uuid_New"
  and env_rand_Read [env_intros]: "keeps (env f c n) (rand_Read k)"
  and env_sql [env_intros]: "keeps (env f c n) (sql g)"
  and env_sql_query [env_intros]: "keeps (env f c n) (sql_query q)"
  by (simp_all add: keeps_def env_def run_simps)

lemma env_sql_tx [env_intros]: "keeps (env f c n) m \<Longrightarrow> keeps (env f c n) (sql_tx m)"
proof (rule keepsI)
  fix w assume m: "keeps (env f c n) m" and "env f c n w"
  then have "env f c n (w\<lparr>stmts := Suc (stmts w)\<rparr>)" by (simp add: env_def)
  from keepsD [OF m this] \<open>env f c n w\<close> show "env f c n (snd (run_state (sql_tx m) w))"
    by (auto simp: run_sql_tx env_def split: prod.splits sum.splits)
qed

lemma env_issuer [env_intros]: "keeps (env f c n) (issuer_of G b sp der ttl)"
proof (cases b)
  case (Intermediate i)
  then show ?thesis
    by (intro keepsI) (auto simp: issuer_of_def IssueX509SVID_def env_def run_simps run_Next run_draw_index Let_def
        split: option.splits sum.splits)
next
  case (StepCA_RA R i)
  have "env f c n w \<Longrightarrow> moved_on w w' \<Longrightarrow> env f c n w'" for w w'
    by (simp add: env_def moved_on_simps) (simp add: moved_on_def)
  with StepCA_RA show ?thesis by (intro keepsI) (simp add: issuer_of_def ra_IssueX509SVID_env)
qed

lemma env_identities [env_intros]:
  "keeps (env f c n) (LookupByESI esi)" "keeps (env f c n) (GetLDI u)" "keeps (env f c n) (GetLDIBySPIFFEID sp)"
  "keeps (env f c n) (CreateLDIAndBind esi m td)" "keeps (env f c n) (Rebind u esi m)"
  "keeps (env f c n) (SetLDIStatus u s)"
  unfolding LookupByESI_def GetLDI_def GetLDIBySPIFFEID_def CreateLDIAndBind_def Rebind_def SetLDIStatus_def Let_def
  by (intro env_intros inv_intros)+

lemma env_svids [env_intros]:
  "keeps (env f c n) (ActiveBySPIFFEID sp now)" "keeps (env f c n) (LeafByActiveSPIFFEID sp now)"
  "keeps (env f c n) (Revoke ser fp reason na now)" "keeps (env f c n) (MarkRevoked ser now)"
  "keeps (env f c n) (IssuedSVIDs_Record rec)" "keeps (env f c n) (IssuedJWTSVIDs_Record G jrec)"
  "keeps (env f c n) (RevokedSVIDs_List now)" "keeps (env f c n) (PruneExpired now)"
  unfolding ActiveBySPIFFEID_def LeafByActiveSPIFFEID_def Revoke_def MarkRevoked_def IssuedSVIDs_Record_def
    IssuedJWTSVIDs_Record_def RevokedSVIDs_List_def PruneExpired_def
  by (intro env_intros inv_intros)+

lemma env_credentials [env_intros]:
  "keeps (env f c n) (EnrollmentTokens_Create G ttl now)" "keeps (env f c n) (EnrollmentTokens_Consume h now)"
  "keeps (env f c n) (RecordOutcome G out)" "keeps (env f c n) (FindConsumed G h now)"
  "keeps (env f c n) (ReplacementTickets_Create G u ttl now)" "keeps (env f c n) (ReplacementTickets_Validate G tk now)"
  "keeps (env f c n) (JWTReplay_Witness j e)" "keeps (env f c n) (Allow cfg sp now)"
  "keeps (env f c n) (RenewalEvents_Record cfg sp now)"
  unfolding EnrollmentTokens_Create_def NewSecret_def EnrollmentTokens_Consume_def RecordOutcome_def FindConsumed_def
    ReplacementTickets_Create_def ReplacementTickets_Validate_def JWTReplay_Witness_def Allow_def
    RenewalEvents_Record_def Let_def
  by (intro env_intros inv_intros)+

lemma env_loops [env_intros]:
  "keeps (env f c n) (revoke_priors_loop reason ps out)" "keeps (env f c n) (revoke_all_loop reason ps new old)"
  by (induction ps arbitrary: out new old) (auto intro!: env_intros inv_intros)

lemma env_service [env_intros]:
  "keeps (env f c n) (Enroll G (NewService G' i pol td ttl) vb p repl)"
  "keeps (env f c n) (Renew G (NewService G' i pol td ttl) sp p)"
  "keeps (env f c n) (RevokeSPIFFEID sp reason)"
  unfolding Enroll_def handleReplacement_def handleInitial_def handleReEnrollment_def Renew_def issue_for_def
    recordIssuance_def revokeActivePriors_def RevokeSPIFFEID_def NewService_def Let_def Service.simps
  by (intro env_intros inv_intros)+

lemma env_validators [env_intros]:
  "keeps (env f c n) (checkReplay G cred csr prof)" "keeps (env f c n) (Token_validate G cred)"
  "keeps (env f c n) (Mtls_Validate G roots r cred csr prof)"
  unfolding checkReplay_def Token_validate_def Mtls_Validate_def by (intro env_intros inv_intros)+

lemma env_Token_Validate [env_intros]: "keeps (env f c n) (Token_Validate G win r cred csr prof)"
  unfolding Token_Validate_def by (intro env_intros inv_intros)

lemma env_Token_commit [env_intros]: "keeps (env f c n) (Token_commit G win vb csr resp st u)"
  unfolding Token_commit_def by (cases "VB_Evidence vb") (auto intro!: env_intros inv_intros)

lemma env_assertions [env_intros]:
  "keeps (env f c n) (Jwt_Validate G (cfg\<lparr>jc_Replay := JWTReplay_Witness\<rparr>) r cred csr prof)"
  unfolding Jwt_Validate_def Let_def by (intro env_intros inv_intros) (simp add: env_intros)

lemma env_IssueJWTSVID [env_intros]:
  "keeps (env f c n) (IssueJWTSVID sg (Some (IssuedJWTSVIDs_Record G)) jc sp aud ttl)"
  unfolding IssueJWTSVID_def Let_def by (cases sg) (auto intro!: env_intros inv_intros)

lemma env_registry:
  assumes "serve_registry F E = Some registry" "Lookup registry m = Inr v"
  shows "keeps (env f c n) (v r cred csr prof)"
    and "run_state (v r cred csr prof) w = (Inr (Pending pe), w') \<Longrightarrow> PE_Commit pe = Some cm \<Longrightarrow>
      keeps (env f c n) (cm resp st u)"
proof -
  obtain jwt where reg: "registry = Register BootstrapMethodEnrollmentToken
        (Token_Validate (sf_lib E) (RetryWindow (fl_enrollment_token_retry_window F)))
      (Register BootstrapMethodFactoryCertJWT (Jwt_Validate (sf_lib E) (jwt\<lparr>jc_Replay := JWTReplay_Witness\<rparr>))
      (Register BootstrapMethodFactoryCertMTLS (Mtls_Validate (sf_lib E) (sf_factoryPool E)) NewRegistry))"
    by (rule serve_registry_cases [OF assms(1)])
  then show "keeps (env f c n) (v r cred csr prof)"
    using assms(2) by (auto simp: env_intros split: if_splits)
  assume run: "run_state (v r cred csr prof) w = (Inr (Pending pe), w')" and cm: "PE_Commit pe = Some cm"
  show "keeps (env f c n) (cm resp st u)"
    using reg assms(2) run cm by (auto simp: env_intros split: if_splits dest!: Pending_commits)
qed

lemma env_serve: "assemble F E = Some sv \<Longrightarrow> env f c n w \<Longrightarrow> env f c n (serve sv x w)"
proof (rule serve_keeps [where P = "env f c n"])
  assume sv: "assemble F E = Some sv"
  show "keeps (env f c n) (ms_public sv r)" for r
    by (rule keeps_public [OF sv])
      (auto simp: env_intros serve_service_def intro: env_registry)
  show "keeps (env f c n) prune_round" unfolding prune_round_def by (intro env_intros inv_intros)
  show "keeps (env f c n) (NewAdminServer cfg r)" for cfg r by (rule keeps_NewAdminServer) (simp_all add: env_intros)
qed

lemma env_server_run: "server_run sv w w' \<Longrightarrow> assemble F E = Some sv \<Longrightarrow> env f c n w \<Longrightarrow> env f c n w'"
  by (induction rule: server_run.induct) (auto intro: env_serve)

section \<open>The outcome of an enrollment with a token\<close>

interpretation outcomes_frame: table_invariant "\<lambda>t. enrollment_token_outcomes t = X" for X
  by unfold_locales (auto simp: stmt_defs)

lemma checkReplay_tabs: "tabs (snd (run_state (checkReplay G cred csr prof) w)) = tabs w"
  by (auto simp: checkReplay_def FindConsumed_def run_simps split: option.splits sum.splits)

lemma checkReplay_unrecorded:
  assumes "proof_token cred = Some tok" "ParseSecret tok = Inr s" "outcome_by_hash (Secret_Hash G s) (tabs w) = None"
    and "\<not> faults w (stmts w)"
  shows "fst (run_state (checkReplay G cred csr prof) w) = Inr None"
  using assms by (simp add: checkReplay_def FindConsumed_def run_simps)

lemma no_outcome:
  assumes "outcome_by_hash h t = None" "token_known h i t"
  shows "i \<notin> o_token_id ` set (enrollment_token_outcomes t)"
proof
  assume "i \<in> o_token_id ` set (enrollment_token_outcomes t)"
  then obtain q where q: "q \<in> set (enrollment_token_outcomes t)" "o_token_id q = i" by blast
  obtain r where r: "r \<in> set (enrollment_tokens t)" "t_secret_hash r = h" "t_token_id r = i"
    using assms(2) by (auto simp: token_known_def)
  have "q \<in> set [q. r \<leftarrow> enrollment_tokens t, t_secret_hash r = h,
         q \<leftarrow> enrollment_token_outcomes t, o_token_id q = t_token_id r]"
    using q r by (auto intro!: bexI [of _ r] bexI [of _ q])
  then show False using assms(1) unfolding outcome_by_hash_def first_row_None by (metis empty_iff list.set(1))
qed

text \<open>A validation that leads to an enrollment has consumed the token of the credential.\<close>

lemma Token_Validate_consumed:
  assumes run: "run_state (Token_Validate G window r cred csr prof) w = (Inr (Pending pe), w')"
    and cred: "proof_token cred = Some tok" "ParseSecret tok = Inr s"
  obtains i where "VB_Evidence (PE_VB pe) = TokenEvidence i (Secret_Hash G s)"
    "token_known (Secret_Hash G s) i (tabs w)" "token_known (Secret_Hash G s) i (tabs w')"
    "enrollment_token_outcomes (tabs w') = enrollment_token_outcomes (tabs w)"
proof -
  obtain w1 where c: "run_state (checkReplay G cred csr prof) w = (Inr None, w1)"
    and v: "run_state (Token_validate G cred) w1 = (Inr (PE_VB pe), w')"
    by (rule Token_Validate_Pending [OF run])
  have t1: "tabs w1 = tabs w" using checkReplay_tabs [of G cred csr prof w] c by simp
  obtain i where i: "VB_Evidence (PE_VB pe) = TokenEvidence i (Secret_Hash G s)"
    and con: "run_state (EnrollmentTokens_Consume (Secret_Hash G s) (clock w1 (ticks w1))) (w1\<lparr>ticks := Suc (ticks w1)\<rparr>) = (Inr i, w')"
    by (rule Token_validate_Inr [OF v]) (use cred in auto)
  obtain row where row: "token_by_hash (Secret_Hash G s) (tabs w1) = Some row" "t_token_id row = i"
    and tabs: "tabs w' = snd (consume_token i (RFC3339Nano (clock w1 (ticks w1))) (tabs w1))"
    by (rule EnrollmentTokens_Consume_Inr [OF con]) auto
  show thesis
  proof (rule that [OF i])
    show "token_known (Secret_Hash G s) i (tabs w)"
      using token_by_hash_Some [OF row(1)] row(2) t1 by (force simp: token_known_def image_iff)
    show "token_known (Secret_Hash G s) i (tabs w')" by (rule Consume_known [OF con])
    show "enrollment_token_outcomes (tabs w') = enrollment_token_outcomes (tabs w)"
      by (simp add: tabs consume_token_def t1)
  qed
qed

lemma Token_commit_records:
  assumes "VB_Evidence vb = TokenEvidence i h" "i \<noteq> []" "EP_SVIDProfileURI resp \<noteq> []"
    "csrPubKeyFingerprint G csr = Inr fp" "fp \<noteq> []" "\<not> faults w (stmts w)"
    "token_known h i (tabs w)" "i \<notin> o_token_id ` set (enrollment_token_outcomes (tabs w))"
  shows "recorded_outcome h (outcome_row_of G i st resp fp u (clock w (ticks w)) window)
    (tabs (snd (run_state (Token_commit G window vb csr (Some resp) st u) w)))"
  using assms
  by (auto simp: Token_commit_def RecordOutcome_def run_simps insert_outcome_def outcome_row_of_def
      recorded_outcome_def token_known_def)

lemma problem_statuses:
  "PD_Status (bootstrap_problem e) = 401"
  "PD_Status (csr_problem e) \<in> {400, 422}"
  "PD_Status (identity_problem e) \<in> {400, 403, 409, 422, 500}"
  "PD_Status (renewal_problem e) \<in> {404, 409, 500}"
  by (auto simp: bootstrap_problem_def csr_problem_def identity_problem_def renewal_problem_def Spec_Problem_def errpkg_New_def
      not_found_def internal_error_def margo_error_def InvalidBootstrapProof_def InvalidEnrollmentToken_def
      InvalidSVIDRequest_def UnsupportedSVIDProfile_def UnsupportedReplacementAuthorizationMethod_def
      SpuriousReplacementAuthorization_def ReplacementNotAuthorized_def KeyRotationNotPermitted_def)

lemma rs_Status_WriteProblem [simp]: "rs_Status (WriteProblem J hs rid pd) = PD_Status pd"
  by (simp add: WriteProblem_def Let_def)

lemma rs_Status_writeEnrollmentResponse [simp]: "rs_Status (writeEnrollmentResponse J resp st) = st"
  by (simp add: writeEnrollmentResponse_def write_json_def)

text \<open>
  The first successful enrollment with a token leaves its answer recorded, under a time between
  the arrival of the request and its completion.
\<close>

lemma enroll_pending_success:
  assumes run: "run_state (enroll_pending G J S rid req pe) w = (resp, w')" and ok: "rs_Status resp \<in> {200, 201}"
  obtains parsed result w1 where "Parse G (SR_CSR (EQ_SVIDRequest req)) = Inr parsed"
    "run_state (Enroll G S (PE_VB pe) parsed (EQ_ReplacementAuthorization req)) w = (Inr result, w1)"
    "resp = writeEnrollmentResponse J (enrollment_response G result) (ER_StatusCode result)"
    "w' = snd (run_state (run_commit (PE_Commit pe) (enrollment_response G result) (ER_StatusCode result) (LDI_UUID (ER_LDI result))) w1)"
proof (cases "Parse G (SR_CSR (EQ_SVIDRequest req))")
  case (Inl e)
  then have "resp = WriteProblem J [] rid (csr_problem e)" using run by (simp add: enroll_pending_def)
  with ok problem_statuses(2) [of e] show thesis by auto
next
  case (Inr parsed)
  obtain x w1 where e: "run_state (Enroll G S (PE_VB pe) parsed (EQ_ReplacementAuthorization req)) w = (x, w1)"
    by (metis surj_pair)
  show thesis
  proof (cases x)
    case (Inl err)
    then have "resp = WriteProblem J [] rid (identity_problem err)" using run \<open>Parse G _ = _\<close> e by (simp add: enroll_pending_def)
    with ok problem_statuses(3) [of err] show thesis by auto
  next
    case (Inr result)
    with run \<open>Parse G _ = _\<close> e show thesis
      by (intro that [of parsed result w1]) (auto simp: enroll_pending_def split: prod.splits)
  qed
qed

lemma Enroll_frame:
  assumes run: "run_state (Enroll G (serve_service F E) vb p repl) w = (x, w')"
  shows "token_known h i (tabs w) \<Longrightarrow> token_known h i (tabs w')"
    and "enrollment_token_outcomes (tabs w') = enrollment_token_outcomes (tabs w)"
    and "env f c n w \<Longrightarrow> env f c n w'"
proof -
  have "keeps (\<lambda>w. token_known h i (tabs w)) (Enroll G (serve_service F E) vb p repl)"
    by (rule service_keeps.keeps_Enroll [OF token_known.serve_service_keeps])
  from keepsD' [OF this run] show "token_known h i (tabs w) \<Longrightarrow> token_known h i (tabs w')" .
  have "service_keeps (serve_service F E) (\<lambda>t. enrollment_token_outcomes t = enrollment_token_outcomes (tabs w))"
    unfolding serve_service_def by (intro service_keeps.intro mis.service_env_axioms outcomes_frame.table_invariant_axioms)
  from keepsD' [OF service_keeps.keeps_Enroll [OF this] run]
  show "enrollment_token_outcomes (tabs w') = enrollment_token_outcomes (tabs w)" by simp
  have "keeps (env f c n) (Enroll G (serve_service F E) vb p repl)" unfolding serve_service_def by (rule env_service)
  from keepsD' [OF this run] show "env f c n w \<Longrightarrow> env f c n w'" .
qed

text \<open>A successful enrollment with an unrecorded token has validated it and gone on to enroll.\<close>

lemma token_enrollment_pending:
  assumes look: "Lookup registry BootstrapMethodEnrollmentToken = Inr (Token_Validate G window)"
    and run: "run_state (handleEnrollment G J registry S rid r) w = (resp, w')" and ok: "rs_Status resp \<in> {200, 201}"
    and req: "read_limited r = Some b" "json_EnrollmentRequest J b = Some req"
      "BC_Method (EQ_BootstrapCredential req) = BootstrapMethodEnrollmentToken"
    and cred: "proof_token (EQ_BootstrapCredential req) = Some tok" "ParseSecret tok = Inr s"
    and new: "outcome_by_hash (Secret_Hash G s) (tabs w) = None" and quiet: "\<not> faults w (stmts w)"
  obtains pe w1 where "EQ_SVIDProfileURI req = SVIDProfileURIX509V1"
    "run_state (Token_Validate G window r (EQ_BootstrapCredential req) (SR_CSR (EQ_SVIDRequest req))
      (EQ_SVIDProfileURI req)) w = (Inr (Pending pe), w1)"
    "run_state (enroll_pending G J S rid req pe) w1 = (resp, w')"
proof -
  let ?cred = "EQ_BootstrapCredential req" and ?csr = "SR_CSR (EQ_SVIDRequest req)"
  let ?v = "Token_Validate G window r ?cred ?csr (EQ_SVIDProfileURI req)"
  have prof: "EQ_SVIDProfileURI req = SVIDProfileURIX509V1"
  proof (rule ccontr)
    assume "EQ_SVIDProfileURI req \<noteq> SVIDProfileURIX509V1"
    then have "resp = WriteProblem J [] rid (Spec_Problem UnsupportedSVIDProfile)" using run req by (simp add: handleEnrollment_def)
    with ok show False by (simp add: Spec_Problem_def UnsupportedSVIDProfile_def margo_error_def)
  qed
  have unrecorded: "fst (run_state (checkReplay G ?cred ?csr (EQ_SVIDProfileURI req)) w) = Inr None"
    using cred new quiet by (rule checkReplay_unrecorded)
  obtain out w1 where v: "run_state ?v w = (out, w1)" by (metis surj_pair)
  show thesis
  proof (cases out)
    case (Inl e)
    then have "resp = WriteProblem J [] rid (bootstrap_problem e)"
      using run req prof look v by (simp add: handleEnrollment_def)
    with ok problem_statuses(1) [of e] show thesis by auto
  next
    case (Inr o')
    then obtain pe where "out = Inr (Pending pe)" using v unrecorded
      by (cases o') (auto simp: Token_Validate_def split: prod.splits sum.splits)
    with v run req prof look show thesis by (intro that [OF prof]) (auto simp: handleEnrollment_def)
  qed
qed

lemma enrollment_recorded:
  assumes reg: "serve_registry F E = Some registry" and G: "G = sf_lib E"
    and run: "run_state (handleEnrollment G J registry (serve_service F E) rid r) w = (resp, w')"
    and ok: "rs_Status resp \<in> {200, 201}"
    and req: "read_limited r = Some b" "json_EnrollmentRequest J b = Some req"
      "BC_Method (EQ_BootstrapCredential req) = BootstrapMethodEnrollmentToken"
    and cred: "proof_token (EQ_BootstrapCredential req) = Some tok" "ParseSecret tok = Inr s"
    and new: "outcome_by_hash (Secret_Hash G s) (tabs w) = None"
    and key: "csrPubKeyFingerprint G (SR_CSR (EQ_SVIDRequest req)) = Inr fp" "fp \<noteq> []"
    and ids: "[] \<notin> t_token_id ` set (enrollment_tokens (tabs w))"
    and quiet: "faults w = (\<lambda>_. False)"
  obtains i er st u k where "EP_SVIDProfileURI er = SVIDProfileURIX509V1" "EQ_SVIDProfileURI req = SVIDProfileURIX509V1"
    "resp = writeEnrollmentResponse J er st" "ticks w \<le> k" "k < ticks w'"
    "recorded_outcome (Secret_Hash G s)
      (outcome_row_of G i st er fp u (clock w k) (RetryWindow (fl_enrollment_token_retry_window F))) (tabs w')"
proof -
  let ?csr = "SR_CSR (EQ_SVIDRequest req)" and ?h = "Secret_Hash G s"
  let ?window = "RetryWindow (fl_enrollment_token_retry_window F)"
  have look: "Lookup registry BootstrapMethodEnrollmentToken = Inr (Token_Validate G ?window)"
    by (rule serve_registry_cases [OF reg]) (simp add: G)
  obtain pe w1 where prof: "EQ_SVIDProfileURI req = SVIDProfileURIX509V1"
    and v: "run_state (Token_Validate G ?window r (EQ_BootstrapCredential req) ?csr (EQ_SVIDProfileURI req)) w = (Inr (Pending pe), w1)"
    and e: "run_state (enroll_pending G J (serve_service F E) rid req pe) w1 = (resp, w')"
    by (rule token_enrollment_pending [OF look run ok req cred new]) (use quiet in auto)
  obtain i where i: "VB_Evidence (PE_VB pe) = TokenEvidence i ?h" and known: "token_known ?h i (tabs w)"
    and known1: "token_known ?h i (tabs w1)"
    and same1: "enrollment_token_outcomes (tabs w1) = enrollment_token_outcomes (tabs w)"
    by (rule Token_Validate_consumed [OF v cred])
  obtain parsed result w2 where p: "Parse G ?csr = Inr parsed"
    and enr: "run_state (Enroll G (serve_service F E) (PE_VB pe) parsed (EQ_ReplacementAuthorization req)) w1 = (Inr result, w2)"
    and resp: "resp = writeEnrollmentResponse J (enrollment_response G result) (ER_StatusCode result)"
    and com: "w' = snd (run_state (run_commit (PE_Commit pe) (enrollment_response G result) (ER_StatusCode result) (LDI_UUID (ER_LDI result))) w2)"
    by (rule enroll_pending_success [OF e ok])
  have w': "w' = snd (run_state (Token_commit G ?window (PE_VB pe) ?csr (Some (enrollment_response G result))
      (ER_StatusCode result) (LDI_UUID (ER_LDI result))) w2)"
    using com Pending_commits(1) [OF v] by (simp add: run_commit_def split: prod.splits)
  have "env (\<lambda>_. False) (clock w) (ticks w) w" using quiet by (simp add: env_def)
  from Enroll_frame(3) [OF enr keepsD' [OF env_Token_Validate v this]]
  have env2: "faults w2 = (\<lambda>_. False)" "clock w2 = clock w" "ticks w \<le> ticks w2" by (simp_all add: env_def)
  have "i \<notin> o_token_id ` set (enrollment_token_outcomes (tabs w2))"
    using no_outcome [OF new known] by (simp add: Enroll_frame(2) [OF enr] same1)
  moreover have "i \<noteq> []" using ids known by (force simp: token_known_def image_iff)
  ultimately have "recorded_outcome ?h (outcome_row_of G i (ER_StatusCode result) (enrollment_response G result) fp
      (LDI_UUID (ER_LDI result)) (clock w2 (ticks w2)) ?window) (tabs w')"
    unfolding w' using key i env2 Enroll_frame(1) [OF enr known1]
    by (intro Token_commit_records) (auto simp: enrollment_response_def SVIDProfileURIX509V1_def)
  moreover have "ticks w2 < ticks w'"
    using i key by (auto simp: w' Token_commit_def RecordOutcome_def run_simps split: sum.splits)
  ultimately show thesis using env2
    by (intro that [OF _ prof resp]) (auto simp: enrollment_response_def)
qed

text \<open>A later enrollment with the same token is answered from the recorded outcome alone.\<close>

lemma enrollment_retried:
  assumes look: "Lookup registry BootstrapMethodEnrollmentToken = Inr (Token_Validate G window)"
    and req: "read_limited r = Some b" "json_EnrollmentRequest J b = Some req"
      "BC_Method (EQ_BootstrapCredential req) = BootstrapMethodEnrollmentToken"
      "EQ_SVIDProfileURI req = SVIDProfileURIX509V1"
    and cred: "proof_token (EQ_BootstrapCredential req) = Some tok" "ParseSecret tok = Inr s"
    and inv: "tokens_inv (tabs w)" and quiet: "\<not> faults w (stmts w)"
    and rec: "recorded_outcome (Secret_Hash G s) (outcome_row_of G i st er fp u at window) (tabs w)"
    and er: "EP_SVIDProfileURI er = SVIDProfileURIX509V1"
    and years: "four_digit_year at" "four_digit_year (at + window)"
    and json: "json_parse_strings G (json_strings G (XS_CertificateChainPEM (EP_SVID er))) =
      Some (XS_CertificateChainPEM (EP_SVID er))"
  shows "run_state (handleEnrollment G J registry S rid r) w =
    (if clock w (ticks w) \<le> at + window \<and> csrPubKeyFingerprint G (SR_CSR (EQ_SVIDRequest req)) = Inr fp
     then writeEnrollmentResponse J er st
     else WriteProblem J [] rid (Spec_Problem InvalidEnrollmentToken),
     w\<lparr>ticks := Suc (ticks w), stmts := Suc (stmts w)\<rparr>)"
proof -
  let ?q = "outcome_row_of G i st er fp u at window"
  have "run_state (Token_Validate G window r (EQ_BootstrapCredential req) (SR_CSR (EQ_SVIDRequest req)) (EQ_SVIDProfileURI req)) w =
    (answer_retry G ?q (XS_CertificateChainPEM (EP_SVID er)) (at + window) (clock w (ticks w))
      (SR_CSR (EQ_SVIDRequest req)) (EQ_SVIDProfileURI req), w\<lparr>ticks := Suc (ticks w), stmts := Suc (stmts w)\<rparr>)"
    by (rule Token_Validate_retry [OF inv rec cred quiet])
      (simp_all add: outcome_row_of_def encodeChain_def json parse_RFC3339Nano years)
  moreover obtain chain where "er = \<lparr>EP_SVIDProfileURI = SVIDProfileURIX509V1, EP_SVID = \<lparr>XS_CertificateChainPEM = chain\<rparr>\<rparr>"
    using er by (cases er) (metis EnrollmentResponseDTO.select_convs(1) X509SVIDDTO.cases)
  ultimately show ?thesis using req look
    by (auto simp: handleEnrollment_def answer_retry_def outcome_row_of_def bootstrap_problem_def errors_Is_def)
qed

text \<open>Times between two times of four-digit years.\<close>

lemma civil_year_mono:
  assumes "d \<le> d'"
  shows "fst (civil d) \<le> fst (civil d')"
proof (cases "d = d'")
  case False
  then have "d < d'" using assms by simp
  obtain y m dd y' m' dd' where c: "civil d = (y, m, dd)" "civil d' = (y', m', dd')" by (metis surj_pair)
  from civil_less [OF \<open>d < d'\<close> this] show ?thesis by (auto simp: c)
qed simp

lemma four_digit_year_between:
  assumes "four_digit_year a" "four_digit_year b" "a \<le> t" "t \<le> b"
  shows "four_digit_year t"
proof -
  have "secs_of a div 86400 \<le> secs_of t div 86400" "secs_of t div 86400 \<le> secs_of b div 86400"
    using assms(3,4) by (auto simp: secs_of_def Second_def intro!: zdiv_mono1)
  from civil_year_mono [OF this(1)] civil_year_mono [OF this(2)] assms(1,2)
  show ?thesis unfolding four_digit_year_def in_year_range_def by linarith
qed

section \<open>Requests to the public server\<close>

text \<open>The middleware draws the identifier of the request and reads the clock before and after the handler.\<close>

definition entered :: "mis \<Rightarrow> mis" where
  "entered w = w\<lparr>draws := Suc (draws w), ticks := Suc (ticks w)\<rparr>"

lemma entered_simps [simp]:
  "tabs (entered w) = tabs w" "clock (entered w) = clock w" "faults (entered w) = faults w"
  "ticks (entered w) = Suc (ticks w)" "stmts (entered w) = stmts w"
  by (simp_all add: entered_def)

lemma run_NewHTTPServer:
  assumes "run_state (mis_mux cfg (uuids w (draws w)) r) (entered w) = (resp, w1)"
  shows "run_state (NewHTTPServer cfg r) w =
    (resp\<lparr>rs_Header := (''X-Request-ID'', uuids w (draws w)) # rs_Header resp\<rparr>, w1\<lparr>ticks := Suc (ticks w1)\<rparr>)"
  using assms by (simp add: NewHTTPServer_def WithRequestID_def AccessLog_def run_simps entered_def)

text \<open>The handlers behind the routes of the assembled server.\<close>

lemma assemble_public:
  assumes "assemble F E = Some sv"
  obtains cfg registry renewal jwtsvid limiter where "ms_public sv = NewHTTPServer cfg"
    "serve_registry F E = Some registry" "RC_Service renewal = serve_service F E"
    "NewRenewalEvents \<lparr>MaxInWindow = fl_renewal_rate_limit F, Window = fl_renewal_rate_window F\<rparr> = Some limiter"
    "serve_jwtsvid F E limiter = Some jwtsvid" "JH_ReplayStore jwtsvid = Some JWTReplay_Witness"
    "\<And>rid r. hc_Discovery cfg rid r = State_Monad.return (DiscoveryHandler (sf_wire E) (serve_discovery F registry))"
    "\<And>rid r. hc_BundleMap cfg rid r = State_Monad.return
      (BundleMapHandler (sf_lib E) (sf_wire E) (sf_anchors E) (10 * Minute) rid r)"
    "hc_Enrollment cfg = handleEnrollment (sf_lib E) (sf_wire E) registry (serve_service F E)"
    "\<And>enc rid r. hc_Renewal cfg enc rid r = handleRenewal (sf_lib E) (sf_wire E) renewal rid enc r"
    "\<And>enc rid r. hc_JWTSVID cfg enc rid r = handleJWTSVID (sf_lib E) (sf_wire E) jwtsvid rid enc r"
    "hc_Revocations cfg = handleRevocations (sf_lib E) (sf_wire E)"
  by (rule assemble_parts [OF assms]) (erule that [rotated], simp_all)

lemma mux_routes:
  "rq_Path r = [''.well-known'', ''margo''] \<Longrightarrow> rq_Method r = ''GET'' \<Longrightarrow> mis_mux cfg rid r = hc_Discovery cfg rid r"
  "rq_Path r = [''api'', ''v1'', ''identities''] \<Longrightarrow> rq_Method r = ''POST'' \<Longrightarrow> mis_mux cfg rid r = hc_Enrollment cfg rid r"
  "rq_Path r = [''api'', ''v1'', ''identities'', enc, ''jwt-svid''] \<Longrightarrow> rq_Method r = ''POST'' \<Longrightarrow>
    mis_mux cfg rid r = hc_JWTSVID cfg enc rid r"
  by (simp_all add: mis_mux_def routed_def is_get_def)

text \<open>An enrollment request, from its arrival to the answer on the wire.\<close>

definition answered :: "string \<Rightarrow> http_response \<times> mis \<Rightarrow> http_response \<times> mis" where
  "answered rid a = (case a of (resp, w) \<Rightarrow>
     (resp\<lparr>rs_Header := (''X-Request-ID'', rid) # rs_Header resp\<rparr>, w\<lparr>ticks := Suc (ticks w)\<rparr>))"

lemma answered_simps [simp]:
  "rs_Status (fst (answered rid a)) = rs_Status (fst a)" "rs_Body (fst (answered rid a)) = rs_Body (fst a)"
  "tabs (snd (answered rid a)) = tabs (snd a)"
  by (simp_all add: answered_def split: prod.splits)

lemma run_public_enrollment:
  assumes sv: "assemble F E = Some sv" and reg: "serve_registry F E = Some registry"
    and "rq_Path r = [''api'', ''v1'', ''identities'']" "rq_Method r = ''POST''"
  shows "run_state (ms_public sv r) w = answered (uuids w (draws w))
    (run_state (handleEnrollment (sf_lib E) (sf_wire E) registry (serve_service F E) (uuids w (draws w)) r) (entered w))"
proof (rule assemble_public [OF sv])
  fix cfg registry'
  assume pub: "ms_public sv = NewHTTPServer cfg" and reg': "serve_registry F E = Some registry'"
    and h: "hc_Enrollment cfg = handleEnrollment (sf_lib E) (sf_wire E) registry' (serve_service F E)"
  obtain resp w1 where m: "run_state (mis_mux cfg (uuids w (draws w)) r) (entered w) = (resp, w1)" by (metis surj_pair)
  then show ?thesis unfolding pub run_NewHTTPServer [OF m]
    using reg reg' assms(3,4) by (simp add: mux_routes h answered_def)
qed

lemma assemble_admin: "assemble F E = Some sv \<Longrightarrow>
    ms_admin sv = NewAdminServer \<lparr>ac_lib = sf_lib E, ac_wire = sf_wire E, ac_DefaultTokenTTL = fl_enrollment_token_default_ttl F\<rparr>"
  by (rule assemble_parts) auto

lemma assemble_registry: "assemble F E = Some sv \<Longrightarrow> \<exists>registry. serve_registry F E = Some registry"
  by (rule assemble_parts) auto

text \<open>
  \<open>token_request E r csr s\<close>: the request asks for an enrollment with the token of secret \<open>s\<close>
  and the certificate request \<open>csr\<close>.
\<close>

definition token_request :: "serve_files \<Rightarrow> http_request \<Rightarrow> string \<Rightarrow> Secret \<Rightarrow> bool" where
  "token_request E r csr s \<longleftrightarrow> rq_Path r = [''api'', ''v1'', ''identities''] \<and> rq_Method r = ''POST'' \<and>
     (\<exists>b req tok. read_limited r = Some b \<and> json_EnrollmentRequest (sf_wire E) b = Some req \<and>
        BC_Method (EQ_BootstrapCredential req) = BootstrapMethodEnrollmentToken \<and>
        EQ_SVIDProfileURI req = SVIDProfileURIX509V1 \<and> SR_CSR (EQ_SVIDRequest req) = csr \<and>
        proof_token (EQ_BootstrapCredential req) = Some tok \<and> ParseSecret tok = Inr s)"

text \<open>The first successful enrollment with a token, and a retry, as requests to the server.\<close>

lemma public_enrollment_recorded:
  assumes sv: "assemble F E = Some sv" and tok: "token_request E r csr s"
    and run: "run_state (ms_public sv r) w = (resp, w1)" and ok: "rs_Status resp \<in> {200, 201}"
    and new: "outcome_by_hash (Secret_Hash (sf_lib E) s) (tabs w) = None"
      "[] \<notin> t_token_id ` set (enrollment_tokens (tabs w))"
    and key: "csrPubKeyFingerprint (sf_lib E) csr = Inr fp" "fp \<noteq> []"
    and quiet: "faults w = (\<lambda>_. False)"
  obtains i er st u k where "EP_SVIDProfileURI er = SVIDProfileURIX509V1" "ticks w \<le> k" "k < ticks w1"
    "rs_Status resp = st" "rs_Body resp = json_EnrollmentResponse (sf_wire E) er"
    "recorded_outcome (Secret_Hash (sf_lib E) s) (outcome_row_of (sf_lib E) i st er fp u (clock w k)
      (RetryWindow (fl_enrollment_token_retry_window F))) (tabs w1)"
proof -
  obtain registry where reg: "serve_registry F E = Some registry" using assemble_registry [OF sv] by blast
  obtain b req t where rq: "read_limited r = Some b" "json_EnrollmentRequest (sf_wire E) b = Some req"
      "BC_Method (EQ_BootstrapCredential req) = BootstrapMethodEnrollmentToken"
    and cred: "proof_token (EQ_BootstrapCredential req) = Some t" "ParseSecret t = Inr s"
    and csr: "SR_CSR (EQ_SVIDRequest req) = csr"
    and route: "rq_Path r = [''api'', ''v1'', ''identities'']" "rq_Method r = ''POST''"
    using tok by (auto simp: token_request_def)
  obtain resp0 w0 where h: "run_state (handleEnrollment (sf_lib E) (sf_wire E) registry (serve_service F E)
      (uuids w (draws w)) r) (entered w) = (resp0, w0)" by (metis surj_pair)
  have w1: "resp = resp0\<lparr>rs_Header := (''X-Request-ID'', uuids w (draws w)) # rs_Header resp0\<rparr>"
      "w1 = w0\<lparr>ticks := Suc (ticks w0)\<rparr>"
    using run by (auto simp: run_public_enrollment [OF sv reg route] h answered_def)
  have ok0: "rs_Status resp0 \<in> {200, 201}" using ok by (simp add: w1)
  obtain i er st u k where "EP_SVIDProfileURI er = SVIDProfileURIX509V1"
    "resp0 = writeEnrollmentResponse (sf_wire E) er st" "Suc (ticks w) \<le> k" "k < ticks w0"
    "recorded_outcome (Secret_Hash (sf_lib E) s) (outcome_row_of (sf_lib E) i st er fp u (clock w k)
      (RetryWindow (fl_enrollment_token_retry_window F))) (tabs w0)"
    by (rule enrollment_recorded [OF reg refl h ok0 rq cred _ _ key(2)]) (use quiet new key(1) csr in auto)
  then show thesis by (intro that [of er k st i u]) (auto simp: w1 writeEnrollmentResponse_def write_json_def)
qed

lemma public_enrollment_retried:
  assumes sv: "assemble F E = Some sv" and tok: "token_request E r csr s"
    and inv: "tokens_inv (tabs w)" and quiet: "faults w = (\<lambda>_. False)"
    and rec: "recorded_outcome (Secret_Hash (sf_lib E) s) (outcome_row_of (sf_lib E) i st er fp u at
      (RetryWindow (fl_enrollment_token_retry_window F))) (tabs w)"
    and er: "EP_SVIDProfileURI er = SVIDProfileURIX509V1"
    and years: "four_digit_year at" "four_digit_year (at + RetryWindow (fl_enrollment_token_retry_window F))"
    and json: "json_parse_strings (sf_lib E) (json_strings (sf_lib E) (XS_CertificateChainPEM (EP_SVID er))) =
      Some (XS_CertificateChainPEM (EP_SVID er))"
    and run: "run_state (ms_public sv r) w = (resp, w')"
  shows "tabs w' = tabs w"
    and "\<lbrakk>clock w (Suc (ticks w)) \<le> at + RetryWindow (fl_enrollment_token_retry_window F);
      csrPubKeyFingerprint (sf_lib E) csr = Inr fp\<rbrakk> \<Longrightarrow>
      rs_Status resp = st \<and> rs_Body resp = json_EnrollmentResponse (sf_wire E) er"
    and "\<not> (clock w (Suc (ticks w)) \<le> at + RetryWindow (fl_enrollment_token_retry_window F) \<and>
      csrPubKeyFingerprint (sf_lib E) csr = Inr fp) \<Longrightarrow>
      resp = (WriteProblem (sf_wire E) [] (uuids w (draws w)) (Spec_Problem InvalidEnrollmentToken))
        \<lparr>rs_Header := [(''X-Request-ID'', uuids w (draws w)), (''Content-Type'', ProblemContentType)]\<rparr>"
proof -
  let ?win = "RetryWindow (fl_enrollment_token_retry_window F)"
  obtain registry where reg: "serve_registry F E = Some registry" using assemble_registry [OF sv] by blast
  have look: "Lookup registry BootstrapMethodEnrollmentToken = Inr (Token_Validate (sf_lib E) ?win)"
    by (rule serve_registry_cases [OF reg]) simp
  obtain b req t where rq: "read_limited r = Some b" "json_EnrollmentRequest (sf_wire E) b = Some req"
      "BC_Method (EQ_BootstrapCredential req) = BootstrapMethodEnrollmentToken" "EQ_SVIDProfileURI req = SVIDProfileURIX509V1"
    and cred: "proof_token (EQ_BootstrapCredential req) = Some t" "ParseSecret t = Inr s"
    and csr: "SR_CSR (EQ_SVIDRequest req) = csr"
    and route: "rq_Path r = [''api'', ''v1'', ''identities'']" "rq_Method r = ''POST''"
    using tok by (auto simp: token_request_def)
  have h: "run_state (handleEnrollment (sf_lib E) (sf_wire E) registry (serve_service F E) (uuids w (draws w)) r) (entered w) =
    (if clock w (Suc (ticks w)) \<le> at + ?win \<and> csrPubKeyFingerprint (sf_lib E) csr = Inr fp
     then writeEnrollmentResponse (sf_wire E) er st
     else WriteProblem (sf_wire E) [] (uuids w (draws w)) (Spec_Problem InvalidEnrollmentToken),
     (entered w)\<lparr>ticks := Suc (Suc (ticks w)), stmts := Suc (stmts w)\<rparr>)"
    using enrollment_retried [OF look rq cred, of "entered w" i st er fp u at] inv quiet rec er years json csr by simp
  note a = run [unfolded run_public_enrollment [OF sv reg route] h answered_def]
  show "tabs w' = tabs w" using a by auto
  show "rs_Status resp = st \<and> rs_Body resp = json_EnrollmentResponse (sf_wire E) er"
    if "clock w (Suc (ticks w)) \<le> at + ?win" "csrPubKeyFingerprint (sf_lib E) csr = Inr fp"
    using a that by (auto simp: writeEnrollmentResponse_def write_json_def)
  show "resp = (WriteProblem (sf_wire E) [] (uuids w (draws w)) (Spec_Problem InvalidEnrollmentToken))
        \<lparr>rs_Header := [(''X-Request-ID'', uuids w (draws w)), (''Content-Type'', ProblemContentType)]\<rparr>"
    if "\<not> (clock w (Suc (ticks w)) \<le> at + ?win \<and> csrPubKeyFingerprint (sf_lib E) csr = Inr fp)"
    using a that by (auto simp: WriteProblem_def Let_def)
qed

end
