(* ===== verification/MIS_Answers.thy ===== *)
theory MIS_Answers
  imports MIS_HTTP_Laws
begin

text \<open>
  The shape of every answer of the public server, handler by handler: a problem with the status
  of its body and the identifier of the request as its instance, a JSON document, an empty
  answer to a conditional request, or the router's refusal.
\<close>

section \<open>What a program can return\<close>

definition yields :: "('a \<Rightarrow> bool) \<Rightarrow> ('s, 'a) state \<Rightarrow> bool" where
  "yields P m \<longleftrightarrow> (\<forall>w. P (fst (run_state m w)))"

named_theorems yields_intros "what programs return"

lemma yieldsD: "yields P m \<Longrightarrow> P (fst (run_state m w))"
  by (simp add: yields_def)

lemma yieldsI: "(\<And>w x w'. run_state m w = (x, w') \<Longrightarrow> P x) \<Longrightarrow> yields P m"
  by (metis yields_def prod.collapse)

lemma yields_return [yields_intros]: "P x \<Longrightarrow> yields P (State_Monad.return x)"
  by (simp add: yields_def)

lemma yields_bind [yields_intros]: "(\<And>x. yields P (f x)) \<Longrightarrow> yields P (State_Monad.bind m f)"
  by (auto simp: yields_def split: prod.splits)

lemma yields_bind_post: "yields Q m \<Longrightarrow> (\<And>x. Q x \<Longrightarrow> yields P (f x)) \<Longrightarrow> yields P (State_Monad.bind m f)"
  unfolding yields_def by (simp split: prod.splits) (metis fst_conv)

lemma yields_if [yields_intros]: "(b \<Longrightarrow> yields P m) \<Longrightarrow> (\<not> b \<Longrightarrow> yields P n) \<Longrightarrow> yields P (if b then m else n)"
  by simp

lemma yields_sum [yields_intros]:
  "(\<And>e. r = Inl e \<Longrightarrow> yields P (f e)) \<Longrightarrow> (\<And>x. r = Inr x \<Longrightarrow> yields P (g x)) \<Longrightarrow>
    yields P (case r of Inl e \<Rightarrow> f e | Inr x \<Rightarrow> g x)"
  by (cases r) auto

lemma yields_option [yields_intros]:
  "(r = None \<Longrightarrow> yields P f) \<Longrightarrow> (\<And>x. r = Some x \<Longrightarrow> yields P (g x)) \<Longrightarrow>
    yields P (case r of None \<Rightarrow> f | Some x \<Rightarrow> g x)"
  by (cases r) auto

lemma yields_prod [yields_intros]: "(\<And>a b. yields P (f a b)) \<Longrightarrow> yields P (case p of (a, b) \<Rightarrow> f a b)"
  by (cases p) auto

lemma yields_list [yields_intros]:
  "yields P f \<Longrightarrow> (\<And>x xs. yields P (g x xs)) \<Longrightarrow> yields P (case l of [] \<Rightarrow> f | x # xs \<Rightarrow> g x xs)"
  by (cases l) auto

section \<open>Shapes\<close>

text \<open>A problem of the client or the server, written for the request \<open>rid\<close>.\<close>

definition problem_answer :: "wirelib \<Rightarrow> string \<Rightarrow> http_response \<Rightarrow> bool" where
  "problem_answer J rid a \<longleftrightarrow> (\<exists>pd hs. 400 \<le> PD_Status pd \<and> PD_Status pd < 600 \<and> rs_Status a = PD_Status pd \<and>
     PD_Instance pd = (if rid = [] then [] else ''urn:uuid:'' @ rid) \<and> rs_Body a = json_Problem J pd \<and>
     rs_Header a = hs @ [(''Content-Type'', ProblemContentType)] \<and> fst ` set hs \<subseteq> {''Retry-After''} \<and>
     (hs \<noteq> [] \<longleftrightarrow> PD_Status pd = 429))"

definition document_answer :: "int set \<Rightarrow> http_response \<Rightarrow> bool" where
  "document_answer sts a \<longleftrightarrow> rs_Status a \<in> sts \<and> (\<exists>hs. rs_Header a = (''Content-Type'', ''application/json'') # hs)"

definition unchanged_answer :: "http_response \<Rightarrow> bool" where
  "unchanged_answer a \<longleftrightarrow> rs_Status a = 304 \<and> rs_Body a = [] \<and> (\<exists>t hs. rs_Header a = (''ETag'', t) # hs)"

definition conforming :: "wirelib \<Rightarrow> string \<Rightarrow> int set \<Rightarrow> http_response \<Rightarrow> bool" where
  "conforming J rid sts a \<longleftrightarrow> problem_answer J rid a \<or> document_answer sts a \<or> unchanged_answer a \<or>
     a \<in> {method_not_allowed, page_not_found}"

lemma problem_answer_Write:
  assumes "400 \<le> PD_Status pd" "PD_Status pd < 600" "PD_Instance pd = []" "fst ` set hs \<subseteq> {''Retry-After''}"
    "hs \<noteq> [] \<longleftrightarrow> PD_Status pd = 429"
  shows "problem_answer J rid (WriteProblem J hs rid pd)"
proof -
  have [simp]: "pd\<lparr>PD_Instance := []\<rparr> = pd" using assms(3) by (cases pd) simp
  show ?thesis unfolding problem_answer_def using assms
    by (intro exI [of _ "pd\<lparr>PD_Instance := (if rid = [] then [] else ''urn:uuid:'' @ rid)\<rparr>"] exI [of _ hs])
      (auto simp: WriteProblem_def Let_def)
qed

lemma conforming_problem [intro]:
  "400 \<le> PD_Status pd \<Longrightarrow> PD_Status pd < 600 \<Longrightarrow> PD_Status pd \<noteq> 429 \<Longrightarrow> PD_Instance pd = [] \<Longrightarrow>
    conforming J rid sts (WriteProblem J [] rid pd)"
  by (auto simp: conforming_def intro: problem_answer_Write)

lemma conforming_too_many [intro]: "conforming J rid sts (too_many J rid d)"
  unfolding conforming_def too_many_def
  by (intro disjI1 problem_answer_Write) (simp_all add: Spec_Problem_def TooManyRequests_def margo_error_def)

lemma conforming_json [intro]: "st \<in> sts \<Longrightarrow> conforming J rid sts (write_json st b)"
  by (auto simp: conforming_def document_answer_def write_json_def)

lemma conforming_document [intro]:
  "st \<in> sts \<Longrightarrow> conforming J rid sts \<lparr>rs_Status = st, rs_Header = (''Content-Type'', ''application/json'') # hs, rs_Body = b\<rparr>"
  by (auto simp: conforming_def document_answer_def)

lemma conforming_unchanged [intro]: "conforming J rid sts (not_modified t m)"
  by (auto simp: conforming_def unchanged_answer_def not_modified_def)

lemma conforming_mux [intro]: "conforming J rid sts method_not_allowed" "conforming J rid sts page_not_found"
  by (simp_all add: conforming_def)

section \<open>The handlers\<close>

lemmas registry_defs = Spec_Problem_def errpkg_New_def not_found_def internal_error_def bad_request_def
  unauthorized_def margo_error_def InvalidSVIDRequest_def InvalidBootstrapProof_def InvalidAudience_def
  UnsupportedBootstrapMethod_def UnsupportedReplacementAuthorizationMethod_def UnsupportedSVIDProfile_def
  SpuriousReplacementAuthorization_def ReplacementNotAuthorized_def KeyRotationNotPermitted_def
  InvalidEnrollmentToken_def RevocationFormat_def

lemma problem_instances [simp]:
  "PD_Instance (bootstrap_problem e) = []" "PD_Instance (csr_problem e) = []" "PD_Instance (identity_problem e) = []"
  "PD_Instance (renewal_problem e) = []" "PD_Instance (Spec_Problem s) = []"
  by (auto simp: bootstrap_problem_def csr_problem_def identity_problem_def renewal_problem_def Spec_Problem_def
      errpkg_New_def not_found_def internal_error_def)

lemma conforming_mapped [intro]:
  "conforming J rid sts (WriteProblem J [] rid (bootstrap_problem e))"
  "conforming J rid sts (WriteProblem J [] rid (csr_problem e))"
  "conforming J rid sts (WriteProblem J [] rid (identity_problem e))"
  "conforming J rid sts (WriteProblem J [] rid (renewal_problem e))"
  using problem_statuses [of e] by (auto intro!: conforming_problem)

lemma conforming_registry [intro]:
  "conforming J rid sts (WriteProblem J [] rid bad_request)" "conforming J rid sts (WriteProblem J [] rid unauthorized)"
  "conforming J rid sts (WriteProblem J [] rid not_found)" "conforming J rid sts (WriteProblem J [] rid internal_error)"
  "conforming J rid sts (WriteProblem J [] rid (errpkg_New 500 t))"
  "s \<in> {InvalidSVIDRequest, InvalidAudience, UnsupportedBootstrapMethod, UnsupportedSVIDProfile, RevocationFormat} \<Longrightarrow>
    conforming J rid sts (WriteProblem J [] rid (Spec_Problem s))"
  by (auto intro!: conforming_problem simp: registry_defs)

lemma yields_Renew: "yields (\<lambda>x. \<forall>res. x = Inr res \<longrightarrow> ER_StatusCode res = 200) (Renew G (NewService H i pol td ttl) sp p)"
  by (rule yieldsI) (auto elim: mis.Renew_Inr)

lemma yields_Enroll:
  "yields (\<lambda>x. \<forall>res. x = Inr res \<longrightarrow> ER_StatusCode res \<in> {200, 201}) (Enroll G (NewService H i pol td ttl) vb p repl)"
proof (rule yieldsI, intro allI impI)
  fix w x w' res
  assume "run_state (Enroll G (NewService H i pol td ttl) vb p repl) w = (x, w')" "x = Inr res"
  with mis.Enroll_sound have "ER_StatusCode res = (if \<exists>b l. (b, l) \<in> set (esi_join (VB_ESI vb) (tabs w)) then 200
      else if repl = None then 201 else 200)" by blast
  then show "ER_StatusCode res \<in> {200, 201}" by (simp split: if_splits)
qed

lemma handleRenewal_conforming:
  assumes "RC_Service cfg = NewService H i pol td ttl" "200 \<in> sts"
  shows "yields (conforming J rid sts) (handleRenewal G J cfg rid enc r)"
proof -
  have "yields (conforming J rid sts) (renew_limited G J cfg rid sp parsed)" for sp parsed
    unfolding renew_limited_def assms(1)
    by (intro yields_intros yields_bind_post [OF yields_Renew] conforming_mapped conforming_registry conforming_too_many)
      (auto simp: assms(2))
  then show ?thesis
    unfolding handleRenewal_def by (intro yields_intros) (auto intro: conforming_registry)
qed

lemma handleJWTSVID_conforming:
  assumes "201 \<in> sts"
  shows "yields (conforming J rid sts) (handleJWTSVID G J cfg rid enc r)"
  unfolding handleJWTSVID_def exchange_limited_def using assms
  by (intro yields_intros) (auto intro: conforming_registry)

lemma handleRevocations_conforming: "200 \<in> sts \<Longrightarrow> yields (conforming J rid sts) (handleRevocations G J rid r)"
  unfolding handleRevocations_def
  by (intro yields_intros) (auto simp: Let_def split: sum.splits intro: conforming_registry)

lemma BundleMap_conforming: "200 \<in> sts \<Longrightarrow> conforming J rid sts (BundleMapHandler G J src age rid r)"
  by (auto simp: BundleMapHandler_def Let_def intro: conforming_registry split: prod.splits sum.splits)

lemma enroll_pending_conforming:
  assumes "{200, 201} \<subseteq> sts"
  shows "yields (conforming J rid sts) (enroll_pending G J (NewService H i pol td ttl) rid req pe)"
  unfolding enroll_pending_def writeEnrollmentResponse_def
  by (intro yields_intros yields_bind_post [OF yields_Enroll]) (use assms in auto)

text \<open>A replayed status is one that an outcome in the tables has.\<close>

definition answer_statuses :: "tables \<Rightarrow> int set" where
  "answer_statuses t = {200, 201} \<union> o_status_code ` set (enrollment_token_outcomes t)"

lemma outcome_by_hash_in: "outcome_by_hash h t = Some q \<Longrightarrow> q \<in> set (enrollment_token_outcomes t)"
  unfolding outcome_by_hash_def by (drule first_row_Some_in) (auto split: if_splits)

lemma checkReplay_status:
  assumes "run_state (checkReplay G cred csr prof) w = (Inr (Some c), w')"
  shows "CR_StatusCode c \<in> o_status_code ` set (enrollment_token_outcomes (tabs w))"
  using assms outcome_by_hash_in
  by (fastforce simp: checkReplay_def FindConsumed_def run_simps split: option.splits sum.splits if_splits prod.splits)

lemma registry_replay:
  assumes reg: "serve_registry F E = Some registry" and look: "Lookup registry m = Inr v"
    and run: "run_state (v r cred csr prof) w = (Inr (Replay c), w')"
  shows "CR_StatusCode c \<in> answer_statuses (tabs w)"
proof -
  have no: "\<And>roots. run_state (Mtls_Validate (sf_lib E) roots r cred csr prof) w \<noteq> (Inr (Replay c), w')"
    "\<And>cfg. run_state (Jwt_Validate (sf_lib E) cfg r cred csr prof) w \<noteq> (Inr (Replay c), w')"
    by (auto simp: Mtls_Validate_def Jwt_Validate_def Let_def split: if_splits option.splits list.splits sum.splits prod.splits)
  have tok: "CR_StatusCode c \<in> answer_statuses (tabs w)"
    if t: "run_state (Token_Validate (sf_lib E) win r cred csr prof) w = (Inr (Replay c), w')" for win
  proof -
    have "run_state (checkReplay (sf_lib E) cred csr prof) w = (Inr (Some c), w')"
      using t by (auto simp: Token_Validate_def split: prod.splits sum.splits option.splits)
    from checkReplay_status [OF this] show ?thesis by (simp add: answer_statuses_def)
  qed
  show ?thesis
    by (rule serve_registry_cases [OF reg]) (use look run no tok in \<open>auto split: if_splits\<close>)
qed

lemma handleEnrollment_conforming:
  assumes reg: "serve_registry F E = Some registry"
    and run: "run_state (handleEnrollment (sf_lib E) J registry (serve_service F E) rid r) w = (a, w')"
  shows "conforming J rid (answer_statuses (tabs w)) a"
proof -
  have pend: "yields (conforming J rid (answer_statuses (tabs w))) (enroll_pending (sf_lib E) J (serve_service F E) rid req pe)" for req pe
    unfolding serve_service_def by (rule enroll_pending_conforming) (simp add: answer_statuses_def)
  show ?thesis
    using run unfolding handleEnrollment_def
    by (auto split: option.splits sum.splits if_splits prod.splits ValidationOutcome.splits
        simp: writeEnrollmentResponse_def intro: registry_replay [OF reg] conforming_registry)
      (metis pend yieldsD fst_conv)+
qed

section \<open>The server\<close>

lemma public_conforming:
  assumes sv: "assemble F E = Some sv" and run: "run_state (ms_public sv r) w = (a, w')"
  shows "\<exists>b. a = b\<lparr>rs_Header := (''X-Request-ID'', uuids w (draws w)) # rs_Header b\<rparr> \<and>
    conforming (sf_wire E) (uuids w (draws w)) (answer_statuses (tabs w)) b"
proof (rule assemble_public [OF sv])
  fix cfg registry renewal jwtsvid
  let ?rid = "uuids w (draws w)" and ?ok = "conforming (sf_wire E) (uuids w (draws w)) (answer_statuses (tabs w))"
  assume pub: "ms_public sv = NewHTTPServer cfg" and reg: "serve_registry F E = Some registry"
    and svc: "RC_Service renewal = serve_service F E"
    and routes: "\<And>rid r. hc_Discovery cfg rid r = State_Monad.return (DiscoveryHandler (sf_wire E) (serve_discovery F registry))"
    "\<And>rid r. hc_BundleMap cfg rid r = State_Monad.return
      (BundleMapHandler (sf_lib E) (sf_wire E) (sf_anchors E) (10 * Minute) rid r)"
    "hc_Enrollment cfg = handleEnrollment (sf_lib E) (sf_wire E) registry (serve_service F E)"
    "\<And>enc rid r. hc_Renewal cfg enc rid r = handleRenewal (sf_lib E) (sf_wire E) renewal rid enc r"
    "\<And>enc rid r. hc_JWTSVID cfg enc rid r = handleJWTSVID (sf_lib E) (sf_wire E) jwtsvid rid enc r"
    "hc_Revocations cfg = handleRevocations (sf_lib E) (sf_wire E)"
  obtain b w1 where m: "run_state (mis_mux cfg ?rid r) (entered w) = (b, w1)" by (metis surj_pair)
  have sts: "200 \<in> answer_statuses (tabs w)" "201 \<in> answer_statuses (tabs w)" by (simp_all add: answer_statuses_def)
  have "?ok (DiscoveryHandler (sf_wire E) (serve_discovery F registry))"
    using sts by (auto simp: DiscoveryHandler_def)
  moreover have "?ok (fst (run_state (handleEnrollment (sf_lib E) (sf_wire E) registry (serve_service F E) ?rid r) (entered w)))"
    using handleEnrollment_conforming [OF reg, of "sf_wire E" ?rid r "entered w"] by (simp add: prod_eq_iff)
  moreover have "yields ?ok (handleRenewal (sf_lib E) (sf_wire E) renewal ?rid enc r)" for enc
    using sts(1) by (rule handleRenewal_conforming [OF svc [unfolded serve_service_def]])
  ultimately have "?ok (fst (run_state (mis_mux cfg ?rid r) (entered w)))"
    using sts BundleMap_conforming handleJWTSVID_conforming handleRevocations_conforming
    by (auto simp: mis_mux_def routed_def Let_def yields_def routes conforming_mux split: list.splits)
  then have "?ok b" by (simp add: m)
  moreover have "a = b\<lparr>rs_Header := (''X-Request-ID'', ?rid) # rs_Header b\<rparr>"
    using run unfolding pub run_NewHTTPServer [OF m] by simp
  ultimately show ?thesis by blast
qed

section \<open>What the two kinds of assertion prove\<close>

lemma Jwt_Validate_Inr:
  assumes run: "run_state (Jwt_Validate G (cfg\<lparr>jc_Replay := JWTReplay_Witness\<rparr>) r cred csr prof) w = (Inr x, w')"
  obtains c leaf std exp jti where "BC_Proof cred \<noteq> None" "c = BP_Assertion (the (BC_Proof cred))"
    "signed_by G (jc_Roots cfg) c leaf std"
    "jwt_Issuer std = ''urn:margo:device:sha256:'' @ hex_EncodeToString (sha256 G (cert_Raw leaf))"
    "jwt_Subject std = jwt_Issuer std" "jwt_Audience std = [jc_Audience cfg]"
    "timely std exp (jc_MaxAssertionLifetime cfg) (jc_ClockSkew cfg) (clock w (ticks w))"
    "jwt_raw_jti std = Some jti"
    "run_state (JWTReplay_Witness jti (exp + jc_ClockSkew cfg)) (w\<lparr>ticks := Suc (ticks w)\<rparr>) = (Inr (), w')"
    "x = Pending \<lparr>PE_VB = \<lparr>VB_Method = BC_Method cred, VB_ESI = sha256 G (cert_Raw leaf), VB_Evidence = LeafEvidence leaf\<rparr>,
      PE_Commit = None\<rparr>"
proof -
  have [simp]: "TrimSpace [] = []" by (simp add: TrimSpace_def)
  obtain pf leaf std exp where p: "BC_Proof cred = Some pf"
    and v: "jwt_verified G (cfg\<lparr>jc_Replay := JWTReplay_Witness\<rparr>) (BP_Assertion pf) = Inr (leaf, std, exp)"
    using run by (auto simp: Jwt_Validate_def split: option.splits if_splits sum.splits prod.splits)
  have rest: "clock w (ticks w) \<le> exp + jc_ClockSkew cfg \<and>
      (\<forall>nbf. jwt_NotBefore std = Some nbf \<longrightarrow> nbf \<le> clock w (ticks w) + jc_ClockSkew cfg) \<and>
      (\<exists>jti. jwt_raw_jti std = Some jti \<and>
        run_state (JWTReplay_Witness jti (exp + jc_ClockSkew cfg)) (w\<lparr>ticks := Suc (ticks w)\<rparr>) = (Inr (), w')) \<and>
      x = Pending \<lparr>PE_VB = \<lparr>VB_Method = BC_Method cred, VB_ESI = sha256 G (cert_Raw leaf), VB_Evidence = LeafEvidence leaf\<rparr>,
        PE_Commit = None\<rparr>"
    using run p v
    by (auto simp: Jwt_Validate_def Let_def run_simps split: option.splits if_splits sum.splits prod.splits)
  then obtain jti where "jwt_raw_jti std = Some jti"
    "run_state (JWTReplay_Witness jti (exp + jc_ClockSkew cfg)) (w\<lparr>ticks := Suc (ticks w)\<rparr>) = (Inr (), w')" by blast
  then show thesis using p rest jwt_verified_Inr [OF v]
    by (intro that [of "BP_Assertion pf" leaf std exp jti]) (auto simp: timely_def)
qed

lemma VerifyClientAssertion_Inr:
  assumes run: "run_state (VerifyClientAssertion G cfg sp c) w = (Inr va, w')"
    and cfg: "vc_Roots cfg = Some roots" "vc_Replay cfg = Some JWTReplay_Witness" "vc_MaxLifetime cfg \<noteq> 0"
  obtains leaf u us std exp where "signed_by G roots c leaf std" "cert_URIs leaf = u # us" "url_String u = sp"
    "jwt_Issuer std = sp" "jwt_Subject std = sp" "jwt_Audience std = [vc_ExpectedAud cfg]"
    "timely std exp (vc_MaxLifetime cfg) (vc_ClockSkew cfg) (clock w (ticks w))"
    "run_state (JWTReplay_Witness (jwt_ID std) (exp + vc_ClockSkew cfg)) (w\<lparr>ticks := Suc (ticks w)\<rparr>) = (Inr (), w')"
proof -
  obtain std iat exp where v: "assertion_verified G roots (vc_ExpectedAud cfg) (vc_MaxLifetime cfg) sp c = Inr (std, iat, exp)"
    using run cfg by (auto simp: VerifyClientAssertion_def split: if_splits sum.splits prod.splits)
  have "clock w (ticks w) \<le> exp + vc_ClockSkew cfg \<and>
      (\<forall>nbf. jwt_NotBefore std = Some nbf \<longrightarrow> nbf \<le> clock w (ticks w) + vc_ClockSkew cfg) \<and>
      run_state (JWTReplay_Witness (jwt_ID std) (exp + vc_ClockSkew cfg)) (w\<lparr>ticks := Suc (ticks w)\<rparr>) = (Inr (), w')"
    using run cfg v
    by (auto simp: VerifyClientAssertion_def run_simps split: if_splits sum.splits prod.splits option.splits)
  with assertion_verified_Inr [OF v] show thesis
    by (elim exE conjE) (rule that, auto simp: timely_def)
qed

lemma ldis_Witness: "ldis (tabs (snd (run_state (JWTReplay_Witness j e) w))) = ldis (tabs w)"
  by (auto simp: JWTReplay_Witness_def run_sql_tx run_simps upsert_replay_def split: option.splits sum.splits if_splits prod.splits)

lemma ldis_Allow: "ldis (tabs (snd (run_state (Allow cfg sp now) w))) = ldis (tabs w)"
  by (auto simp: Allow_def run_simps Let_def split: option.splits sum.splits if_splits prod.splits)

lemma IssueJWTSVID_active:
  assumes "run_state (IssueJWTSVID (Some sign) (Some audit) cfg sp aud req) w = (Inr res, w')"
  shows "\<exists>l\<in>set (ldis (tabs w)). l_spiffe_id l = sp \<and> l_status l = ''active''"
proof -
  obtain l where "first_row (filter (\<lambda>l. l_spiffe_id l = sp) (ldis (tabs w))) = Some l" "l_status l = ''active''"
    using assms by (auto simp: IssueJWTSVID_def run_GetLDIBySPIFFEID run_simps Let_def LDIStatusActive_def
        split: if_splits option.splits prod.splits)
  from first_row_Some_in [OF this(1)] this(2) show ?thesis by auto
qed

text \<open>What stands behind a JWT SVID that the exchange hands out.\<close>

lemma exchange_limited_201:
  assumes run: "run_state (exchange_limited G J cfg rid sp req) w = (a, w')" and ok: "rs_Status a = 201"
  shows "\<exists>l\<in>set (ldis (tabs w)). l_spiffe_id l = sp \<and> l_status l = ''active''"
proof -
  obtain res w1 w2 where
    "run_state (IssueJWTSVID (Some (JH_Signer cfg)) (Some (IssuedJWTSVIDs_Record G))
      \<lparr>JC_Issuer = JH_IssuerURL cfg, JC_DefaultTTL = JH_DefaultTTL cfg, JC_MaxTTL = JH_MaxTTL cfg\<rparr>
      sp (JQ_Audience req) (int64 (JQ_TTLSeconds req * Second))) w1 = (Inr res, w2)" "ldis (tabs w1) = ldis (tabs w)"
    using run ok ldis_Allow [of "JH_RateLimiter cfg" sp "clock w (ticks w)" "w\<lparr>ticks := Suc (ticks w)\<rparr>"]
    by (auto simp: exchange_limited_def run_simps too_many_def registry_defs TooManyRequests_def
        split: prod.splits sum.splits if_splits)
  with IssueJWTSVID_active show ?thesis by metis
qed

lemma exchange_authenticated_True:
  assumes run: "run_state (exchange_authenticated G cfg enc sp c r) w = (True, w')"
    and cfg: "JH_ReplayStore cfg = Some JWTReplay_Witness"
  shows "(\<exists>peer. peer_certificate r = Some peer \<and> names_spiffe peer sp) \<or>
    (\<exists>va. peer_certificate r = None \<and> run_state (VerifyClientAssertion G (exchange_config cfg enc) sp c) w = (Inr va, w'))"
    and "ldis (tabs w') = ldis (tabs w)"
proof -
  show d: "(\<exists>peer. peer_certificate r = Some peer \<and> names_spiffe peer sp) \<or>
    (\<exists>va. peer_certificate r = None \<and> run_state (VerifyClientAssertion G (exchange_config cfg enc) sp c) w = (Inr va, w'))"
    using run by (auto simp: exchange_authenticated_def split: option.splits if_splits sum.splits prod.splits)
  show "ldis (tabs w') = ldis (tabs w)"
  proof (cases "peer_certificate r")
    case (Some peer)
    with run show ?thesis by (simp add: exchange_authenticated_def)
  next
    case None
    with d obtain va where "run_state (VerifyClientAssertion G (exchange_config cfg enc) sp c) w = (Inr va, w')" by auto
    then obtain j e where "run_state (JWTReplay_Witness j e) (w\<lparr>ticks := Suc (ticks w)\<rparr>) = (Inr (), w')"
      by (rule VerifyClientAssertion_Inr) (simp_all add: exchange_config_def cfg Minute_def Second_def)
    with ldis_Witness [of j e "w\<lparr>ticks := Suc (ticks w)\<rparr>"] show ?thesis by simp
  qed
qed

lemma handleJWTSVID_201:
  assumes run: "run_state (handleJWTSVID G J cfg rid enc r) w = (a, w')" and ok: "rs_Status a = 201"
    and cfg: "JH_ReplayStore cfg = Some JWTReplay_Witness"
  obtains sp b req w1 where "DecodeSPIFFEIDEncoded enc = Inr sp"
    "\<not> HasPrefix (Header_Get (rq_Header r) ''Authorization'') ''Bearer ''"
    "read_limited r = Some b" "json_JWTSVIDRequest J b = Some req" "ValidateAudience G (JQ_Audience req) = Inr ()"
    "run_state (exchange_authenticated G cfg enc sp (JQ_ClientAssertion req) r) w = (True, w1)"
    "\<exists>l\<in>set (ldis (tabs w)). l_spiffe_id l = sp \<and> l_status l = ''active''"
proof -
  obtain sp b req w1 where p: "DecodeSPIFFEIDEncoded enc = Inr sp"
    "\<not> HasPrefix (Header_Get (rq_Header r) ''Authorization'') ''Bearer ''"
    "read_limited r = Some b" "json_JWTSVIDRequest J b = Some req" "ValidateAudience G (JQ_Audience req) = Inr ()"
    and auth: "run_state (exchange_authenticated G cfg enc sp (JQ_ClientAssertion req) r) w = (True, w1)"
    and lim: "run_state (exchange_limited G J cfg rid sp req) w1 = (a, w')"
    using run ok by (auto simp: handleJWTSVID_def registry_defs split: sum.splits option.splits if_splits prod.splits)
  from exchange_limited_201 [OF lim ok] exchange_authenticated_True(2) [OF auth cfg] that [OF p auth]
  show thesis by simp
qed

text \<open>The JWT bootstrap method as the command configures it.\<close>

definition served_skew :: "serve_flags \<Rightarrow> duration" where
  "served_skew F = (if fl_bootstrap_jwt_clock_skew F = 0 then 30 * Second else fl_bootstrap_jwt_clock_skew F)"

lemma serve_registry_jwt:
  assumes "serve_registry F E = Some registry" "Lookup registry BootstrapMethodFactoryCertJWT = Inr v"
  shows "v = Jwt_Validate (sf_lib E) \<lparr>jc_Roots = sf_factoryPool E,
    jc_Audience = TrimRight (fl_advertise_url F) ''/'' @ ''/api/v1/identities'', jc_Replay = JWTReplay_Witness,
    jc_ClockSkew = served_skew F, jc_MaxAssertionLifetime = 5 * Minute\<rparr>"
  using assms
  by (auto simp: serve_registry_def Jwt_New_def Let_def served_skew_def BootstrapMethodFactoryCertJWT_def
      BootstrapMethodEnrollmentToken_def)

section \<open>The bundle map\<close>

lemma publicKeyParams_fields:
  assumes "publicKeyParams k = Inr ps" "f \<in> {''use'', ''x5c'', ''kid''}"
  shows "map_of ps f = None"
  using assms by (cases k) (auto simp: publicKeyParams_def split: sum.splits)

section \<open>The exchange and the discovery as requests to the server\<close>

lemma run_public_exchange:
  assumes sv: "assemble F E = Some sv"
    and route: "rq_Path r = [''api'', ''v1'', ''identities'', enc, ''jwt-svid'']" "rq_Method r = ''POST''"
  obtains cfg where
    "serve_jwtsvid F E \<lparr>MaxInWindow = fl_renewal_rate_limit F, Window = fl_renewal_rate_window F\<rparr> = Some cfg"
    "run_state (ms_public sv r) w = answered (uuids w (draws w))
      (run_state (handleJWTSVID (sf_lib E) (sf_wire E) cfg (uuids w (draws w)) enc r) (entered w))"
proof (rule assemble_public [OF sv])
  fix cfg jwtsvid limiter
  assume pub: "ms_public sv = NewHTTPServer cfg"
    and l: "NewRenewalEvents \<lparr>MaxInWindow = fl_renewal_rate_limit F, Window = fl_renewal_rate_window F\<rparr> = Some limiter"
    and j: "serve_jwtsvid F E limiter = Some jwtsvid"
    and h: "\<And>enc rid r. hc_JWTSVID cfg enc rid r = handleJWTSVID (sf_lib E) (sf_wire E) jwtsvid rid enc r"
  obtain a w1 where m: "run_state (mis_mux cfg (uuids w (draws w)) r) (entered w) = (a, w1)" by (metis surj_pair)
  have "run_state (ms_public sv r) w = answered (uuids w (draws w))
      (run_state (handleJWTSVID (sf_lib E) (sf_wire E) jwtsvid (uuids w (draws w)) enc r) (entered w))"
    unfolding pub run_NewHTTPServer [OF m] using m by (simp add: mux_routes(3) [OF route] h answered_def)
  moreover have "serve_jwtsvid F E \<lparr>MaxInWindow = fl_renewal_rate_limit F, Window = fl_renewal_rate_window F\<rparr> = Some jwtsvid"
    using l j by (auto simp: NewRenewalEvents_def split: if_splits)
  ultimately show thesis using that by blast
qed

lemma serve_jwtsvid_parts:
  assumes "serve_jwtsvid F E limiter = Some cfg"
  shows "JH_ReplayStore cfg = Some JWTReplay_Witness" "exchange_config cfg enc =
    \<lparr>vc_Roots = Some (TS_X509Authorities (fst (sf_anchors E))), vc_Replay = Some JWTReplay_Witness,
     vc_ExpectedAud = TrimRight (fl_advertise_url F) ''/'' @ ''/api/v1/identities/'' @ enc @ ''/jwt-svid'',
     vc_MaxLifetime = 5 * Minute, vc_ClockSkew = fl_jwtsvid_clock_skew F\<rparr>"
  using assms by (auto simp: serve_jwtsvid_def NewJWTSVIDHandler_def exchange_config_def buildX509RootPool_def split: if_splits)

text \<open>An accepted client assertion, at the endpoint of the assembled server.\<close>

definition served_assertion :: "serve_flags \<Rightarrow> serve_files \<Rightarrow> string \<Rightarrow> string \<Rightarrow> string \<Rightarrow> gotime \<Rightarrow> bool" where
  "served_assertion F E enc sp c now \<longleftrightarrow> (\<exists>leaf std exp.
     signed_by (sf_lib E) (TS_X509Authorities (fst (sf_anchors E))) c leaf std \<and>
     names_spiffe leaf sp \<and> jwt_Issuer std = sp \<and> jwt_Subject std = sp \<and>
     jwt_Audience std = [TrimRight (fl_advertise_url F) ''/'' @ ''/api/v1/identities/'' @ enc @ ''/jwt-svid''] \<and>
     timely std exp (5 * Minute) (fl_jwtsvid_clock_skew F) now)"

lemma served_assertion:
  assumes c: "serve_jwtsvid F E limiter = Some cfg"
    and v: "run_state (VerifyClientAssertion (sf_lib E) (exchange_config cfg enc) sp c) w = (Inr va, w')"
  shows "served_assertion F E enc sp c (clock w (ticks w))"
proof -
  have life: "5 * Minute \<noteq> 0" by (simp add: Minute_def Second_def)
  note parts = serve_jwtsvid_parts(2) [OF c]
  obtain leaf u us std exp where "signed_by (sf_lib E) (TS_X509Authorities (fst (sf_anchors E))) c leaf std"
    "cert_URIs leaf = u # us" "url_String u = sp" "jwt_Issuer std = sp" "jwt_Subject std = sp"
    "jwt_Audience std = [TrimRight (fl_advertise_url F) ''/'' @ ''/api/v1/identities/'' @ enc @ ''/jwt-svid'']"
    "timely std exp (5 * Minute) (fl_jwtsvid_clock_skew F) (clock w (ticks w))"
    by (rule VerifyClientAssertion_Inr [OF v, unfolded parts VerifyConfig.select_convs, OF refl refl life])
  then show ?thesis unfolding served_assertion_def
    by (intro exI [of _ leaf] exI [of _ std] exI [of _ exp]) (simp add: names_spiffe_def)
qed

lemma run_public_discovery:
  assumes sv: "assemble F E = Some sv" and reg: "serve_registry F E = Some registry"
    and "rq_Path r = [''.well-known'', ''margo'']" "rq_Method r = ''GET''"
  shows "run_state (ms_public sv r) w = answered (uuids w (draws w))
    (DiscoveryHandler (sf_wire E) (serve_discovery F registry), entered w)"
proof (rule assemble_public [OF sv])
  fix cfg registry'
  assume pub: "ms_public sv = NewHTTPServer cfg" and reg': "serve_registry F E = Some registry'"
    and h: "\<And>rid r. hc_Discovery cfg rid r = State_Monad.return (DiscoveryHandler (sf_wire E) (serve_discovery F registry'))"
  have "run_state (mis_mux cfg (uuids w (draws w)) r) (entered w) =
      (DiscoveryHandler (sf_wire E) (serve_discovery F registry), entered w)"
    using reg reg' assms(3,4) by (simp add: mux_routes h)
  from run_NewHTTPServer [OF this] show ?thesis by (simp add: pub answered_def)
qed

lemma serve_registry_Methods:
  assumes "serve_registry F E = Some registry"
  shows "Methods registry = [BootstrapMethodEnrollmentToken, BootstrapMethodFactoryCertJWT, BootstrapMethodFactoryCertMTLS]"
proof (rule serve_registry_cases [OF assms])
  fix jwt
  assume r: "registry = Register BootstrapMethodEnrollmentToken
        (Token_Validate (sf_lib E) (RetryWindow (fl_enrollment_token_retry_window F)))
      (Register BootstrapMethodFactoryCertJWT (Jwt_Validate (sf_lib E) (jwt\<lparr>jc_Replay := JWTReplay_Witness\<rparr>))
      (Register BootstrapMethodFactoryCertMTLS (Mtls_Validate (sf_lib E) (sf_factoryPool E)) NewRegistry))"
  show ?thesis
    by (simp add: r Methods_def Register_def NewRegistry_def BootstrapMethodEnrollmentToken_def
        BootstrapMethodFactoryCertJWT_def BootstrapMethodFactoryCertMTLS_def)
qed

end
