(* ===== verification/MIS_Server_Example.thy ===== *)
theory MIS_Server_Example
  imports MIS_Answers MIS_Example
begin

text \<open>
  A concrete assembly of the identity service, for the witnesses of the properties of its HTTP
  interface: the library of \<open>MIS_Example\<close> with a JSON codec for lists of texts that can be
  read back, messages in a code simple enough to compute with, and the flags of the command.
\<close>

text \<open>A list of texts: each with its length in unary before it.\<close>

definition ex_put :: "string list \<Rightarrow> string" where
  "ex_put xs = concat (map (\<lambda>x. replicate (length x) (CHR ''1'') @ CHR ''0'' # x) xs)"

fun ex_take :: "nat \<Rightarrow> string \<Rightarrow> string list" where
  "ex_take 0 s = []"
| "ex_take (Suc fuel) s = (if s = [] then [] else
     let n = length (takeWhile (\<lambda>c. c = CHR ''1'') s); rest = drop (Suc n) s in
     take n rest # ex_take fuel (drop n rest))"

lemma unary_prefix:
  "takeWhile (\<lambda>c. c = CHR ''1'') (replicate n (CHR ''1'') @ CHR ''0'' # s) = replicate n (CHR ''1'')"
  by (induction n) auto

lemma ex_take_put: "length xs \<le> fuel \<Longrightarrow> ex_take fuel (ex_put xs) = xs"
proof (induction xs arbitrary: fuel)
  case Nil
  then show ?case by (cases fuel) (simp_all add: ex_put_def)
next
  case (Cons x xs)
  then obtain k where k: "fuel = Suc k" "length xs \<le> k" by (cases fuel) auto
  let ?s = "replicate (length x) (CHR ''1'') @ CHR ''0'' # x @ ex_put xs"
  have put: "ex_put (x # xs) = ?s" by (simp add: ex_put_def)
  show ?case unfolding put k(1) using Cons.IH [OF k(2)] by (simp add: unary_prefix Let_def)
qed

lemma length_ex_put: "length xs \<le> length (ex_put xs)"
  by (induction xs) (auto simp: ex_put_def)

definition ex_slib :: golib where
  "ex_slib = ex_lib\<lparr>json_strings := ex_put, json_parse_strings := (\<lambda>s. Some (ex_take (length s) s))\<rparr>"

lemma ex_slib_json: "json_parse_strings ex_slib (json_strings ex_slib xs) = Some xs"
  by (simp add: ex_slib_def ex_take_put length_ex_put)

text \<open>Messages: a request to enroll is the text of its token and key, the rest is a mark.\<close>

definition ex_sec :: Secret where "ex_sec = \<lparr>sec_raw = replicate 16 (CHR 0x00)\<rparr>"

definition ex_enrollment :: "string \<Rightarrow> string \<Rightarrow> BootstrapProof \<Rightarrow> EnrollmentRequestDTO" where
  "ex_enrollment meth csr pf = \<lparr>EQ_SVIDProfileURI = SVIDProfileURIX509V1, EQ_SVIDRequest = \<lparr>SR_CSR = csr\<rparr>,
     EQ_BootstrapCredential = \<lparr>BC_Method = meth, BC_Proof = Some pf\<rparr>, EQ_ReplacementAuthorization = None\<rparr>"

definition ex_token_proof :: BootstrapProof where
  "ex_token_proof = \<lparr>BP_Assertion = [], BP_Token = Secret_Wire ex_sec\<rparr>"

definition ex_wire :: wirelib where
  "ex_wire = \<lparr>
     json_EnrollmentRequest = (\<lambda>b.
       if b = ''ta'' then Some (ex_enrollment BootstrapMethodEnrollmentToken (Std_EncodeToString ''ra'') ex_token_proof)
       else if b = ''tb'' then Some (ex_enrollment BootstrapMethodEnrollmentToken (Std_EncodeToString ''rb'') ex_token_proof)
       else if b = ''ja'' then Some (ex_enrollment BootstrapMethodFactoryCertJWT (Std_EncodeToString ''ra'') \<lparr>BP_Assertion = ''assertion'', BP_Token = []\<rparr>)
       else None),
     json_EnrollmentResponse = (\<lambda>d. ex_put (EP_SVIDProfileURI d # XS_CertificateChainPEM (EP_SVID d))),
     json_JWTSVIDRequest = (\<lambda>b. if b = ''x'' then Some \<lparr>JQ_Audience = [''https://aud''], JQ_TTLSeconds = 60, JQ_ClientAssertion = ''assertion''\<rparr> else None),
     json_JWTSVIDResponse = (\<lambda>d. ex_put [JP_JWT d, JP_ExpiresAt d]),
     json_RevocationList = (\<lambda>d. ex_put (RL_LastUpdated d # map RV_SerialNumber (RL_RevokedSVIDs d))),
     json_Discovery = (\<lambda>d. ex_put (DR_TrustDomain d # DR_SupportedBootstrapMethods d)),
     json_Problem = (\<lambda>p. ex_put [PD_Type p, PD_Title p, PD_Instance p]),
     json_Marshal = (\<lambda>j. ''json''),
     json_CreateToken = (\<lambda>b. if b = ''t'' then Some \<lparr>CT_TTL = ''1h''\<rparr> else None),
     json_TokenCreated = (\<lambda>d. ex_put [CTR_TokenID d, CTR_Secret d, CTR_ExpiresAt d]),
     json_CreateTicket = (\<lambda>b. None), json_TicketCreated = (\<lambda>d. []),
     json_Revoke = (\<lambda>b. if b = ''r'' then Some \<lparr>RQ_SPIFFEID = ''spiffe://td/margo/device/u000'', RQ_Reason = ''lost''\<rparr> else None),
     json_Revoked = (\<lambda>d. ex_put (RP_RevokedSerials d)),
     http_ParseTime = (\<lambda>s. None), time_ParseDuration = (\<lambda>s. if s = ''1h'' then Some Hour else None),
     TrustDomainFromString = Some, AddJWTAuthority = (\<lambda>_. True), ParseAndValidate = (\<lambda>t d as aud. None)\<rparr>"

definition ex_flags :: serve_flags where
  "ex_flags = \<lparr>fl_trust_domain = ''td'', fl_advertise_url = ''https://mis'', fl_allow_new_enrollment = True,
     fl_allow_key_rotation = True, fl_svid_ttl = Hour, fl_renewal_rate_limit = 1, fl_renewal_rate_window = Hour,
     fl_bootstrap_jwt_clock_skew = 0, fl_enrollment_token_retry_window = 0, fl_jwtsvid_max_ttl = Hour,
     fl_jwtsvid_default_ttl = Minute, fl_jwtsvid_clock_skew = 0, fl_enrollment_token_default_ttl = 0\<rparr>"

definition ex_files :: serve_files where
  "ex_files = \<lparr>sf_lib = ex_slib, sf_wire = ex_wire, sf_issuer = ex_issuer,
     sf_anchors = (\<lparr>TS_TrustDomain = ''td'', TS_X509Authorities = [ex_cert ''ia''], TS_JWTAuthorities = [], TS_SequenceNumber = 1\<rparr>,
       unix_epoch),
     sf_factoryPool = [ex_cert ''fa'']\<rparr>"

definition ex_server :: mis_server where
  "ex_server = the (assemble ex_flags ex_files)"

lemma ex_server: "assemble ex_flags ex_files = Some ex_server"
  unfolding ex_server_def
  by (simp add: assemble_def serve_renewal_def serve_registry_def serve_jwtsvid_def NewRenewalHandler_def
      NewJWTSVIDHandler_def Jwt_New_def NewRenewalEvents_def ex_flags_def Hour_def Minute_def Second_def)

definition ex_post :: "string list \<Rightarrow> bytes \<Rightarrow> http_request" where
  "ex_post path body = \<lparr>rq_Method = ''POST'', rq_Path = path, rq_Header = [], rq_Body = Some body, rq_PeerCertificates = None\<rparr>"

text \<open>A token is created, a device enrolls with it.\<close>

definition ex_tokened :: mis where
  "ex_tokened = serve ex_server (Admin (ex_post [''admin'', ''v1'', ''enrollment-tokens''] ''t'')) ex_world"

definition ex_token_post :: http_request where
  "ex_token_post = ex_post [''api'', ''v1'', ''identities''] ''ta''"

lemmas server_defs =
  NewAdminServer_def createEnrollmentToken_def token_ttl_def routed_def ex_post_def ex_wire_def ex_files_def
  ex_flags_def ex_slib_def EnrollmentTokens_Create_def NewSecret_def insert_token_def SecretLenBytes_def

lemma ex_tokened_eq:
  "ex_tokened = ex_world\<lparr>tabs := empty_tables\<lparr>enrollment_tokens := [
     \<lparr>t_token_id = ''u0'', t_secret_hash = replicate 16 (CHR 0x00), t_status = ''active'',
      t_expires_at = RFC3339Nano (unix_epoch + Hour), t_created_at = RFC3339Nano unix_epoch, t_consumed_at = None\<rparr>]\<rparr>, ticks := 1, draws := 2, stmts := 1\<rparr>"
  unfolding ex_tokened_def serve.simps assemble_admin [OF ex_server]
  by (simp add: server_defs run_defs ex_defs Secret_Hash_def char_of_def)

lemma ex_key_fingerprint:
  "csrPubKeyFingerprint ex_slib (Std_EncodeToString ''ra'') = Inr ''a''"
  "csrPubKeyFingerprint ex_slib (Std_EncodeToString ''rb'') = Inr ''b''"
  by (simp_all add: csrPubKeyFingerprint_def ex_slib_def ex_defs)

lemma ex_token_proof: "TrimSpace (Secret_Wire ex_sec) \<noteq> []" "ParseSecret (Secret_Wire ex_sec) = Inr ex_sec"
proof -
  show "TrimSpace (Secret_Wire ex_sec) \<noteq> []" by code_simp
  show "ParseSecret (Secret_Wire ex_sec) = Inr ex_sec" by (rule ParseSecret_Wire) (simp add: ex_sec_def SecretLenBytes_def)
qed

lemma ex_token_request: "token_request ex_files ex_token_post (Std_EncodeToString ''ra'') ex_sec"
  by (simp add: token_request_def ex_token_post_def ex_post_def read_limited_def ex_files_def ex_wire_def
      ex_enrollment_def proof_token_def ex_token_proof_def ex_token_proof)

text \<open>The device enrolls with the token: validation, enrollment and the recorded outcome.\<close>

definition ex_token_vb :: VerifiedBootstrap where
  "ex_token_vb = \<lparr>VB_Method = BootstrapMethodEnrollmentToken, VB_ESI = ''u0'',
     VB_Evidence = TokenEvidence ''u0'' (replicate 16 (CHR 0x00))\<rparr>"

definition ex_consumed :: mis where
  "ex_consumed = (entered ex_tokened)\<lparr>tabs := empty_tables\<lparr>enrollment_tokens := [
     \<lparr>t_token_id = ''u0'', t_secret_hash = replicate 16 (CHR 0x00), t_status = ''consumed'',
      t_expires_at = RFC3339Nano (unix_epoch + Hour), t_created_at = RFC3339Nano unix_epoch,
      t_consumed_at = Some (RFC3339Nano (unix_epoch + 3))\<rparr>]\<rparr>, ticks := 4, stmts := 6\<rparr>"

lemma ex_expiry: "parseRFC3339 (RFC3339Nano (unix_epoch + Hour)) = Some (unix_epoch + Hour)"
proof (rule parse_RFC3339Nano)
  show "four_digit_year (unix_epoch + Hour)" by code_simp
qed

lemma ex_hour: "3 < Hour"
  by (simp add: Hour_def Minute_def Second_def)

lemma ex_slib_simps [simp]: "sha256 ex_slib b = b" "sec_raw ex_sec = replicate 16 (CHR 0x00)"
  by (simp_all add: ex_slib_def ex_lib_def ex_sec_def)

lemma ex_validated:
  "run_state (Token_Validate ex_slib win r \<lparr>BC_Method = BootstrapMethodEnrollmentToken, BC_Proof = Some ex_token_proof\<rparr>
     (Std_EncodeToString ''ra'') SVIDProfileURIX509V1) (entered ex_tokened) =
   (Inr (Pending \<lparr>PE_VB = ex_token_vb, PE_Commit = Some (Token_commit ex_slib win ex_token_vb (Std_EncodeToString ''ra''))\<rparr>),
    ex_consumed)"
  by (simp add: ex_consumed_def Token_Validate_def checkReplay_def FindConsumed_def proof_token_def ex_token_proof_def
      ex_token_proof run_simps ex_tokened_eq entered_def ex_world_def empty_tables_def outcome_by_hash_def
      Token_validate_def EnrollmentTokens_Consume_def token_by_hash_def Secret_Hash_def run_sql_tx ex_expiry
      consume_token_def StatusConsumed_def ex_token_vb_def ex_hour update_where_def count_where_def)

lemma ex_unarmoured: "\<not> hasPEMArmor ''ra''" "\<not> hasPEMArmor (Std_EncodeToString ''ra'')" "Std_EncodeToString ''ra'' \<noteq> []"
  by code_simp+

lemma ex_parsed: "Parse ex_slib (Std_EncodeToString ''ra'') = Inr ex_csr"
  by (simp add: Parse_def ex_unarmoured ex_slib_def enforceMIAFCrypto_def ex_defs)

lemma ex_enrolls:
  "\<exists>res w'. run_state (Enroll ex_slib (serve_service ex_flags ex_files) ex_token_vb ex_csr None) ex_consumed = (Inr res, w') \<and>
    ER_StatusCode res = 201 \<and> ticks w' = 8"
  by (simp add: ex_consumed_def ex_tokened_eq entered_def serve_service_def ex_files_def ex_flags_def ex_slib_def ex_token_vb_def
    run_defs ex_defs LDIStatusActive_def)

lemma ex_commit_ticks:
  "run_state (Token_commit ex_slib win ex_token_vb (Std_EncodeToString ''ra'') (Some resp) st u) w = (x, w') \<Longrightarrow>
    ticks w' = Suc (ticks w)"
  by (auto simp: Token_commit_def ex_token_vb_def ex_key_fingerprint RecordOutcome_def run_simps split: sum.splits if_splits)

lemma ex_first:
  obtains resp w1 where "run_state (ms_public ex_server ex_token_post) ex_tokened = (resp, w1)" "rs_Status resp = 201" "ticks w1 = 10"
proof -
  obtain registry where reg: "serve_registry ex_flags ex_files = Some registry" using assemble_registry [OF ex_server] by blast
  obtain res w' where e: "run_state (Enroll ex_slib (serve_service ex_flags ex_files) ex_token_vb ex_csr None) ex_consumed = (Inr res, w')"
    and res: "ER_StatusCode res = 201" "ticks w' = 8" using ex_enrolls by blast
  have look: "Lookup registry BootstrapMethodEnrollmentToken = Inr (Token_Validate (sf_lib ex_files) (RetryWindow 0))"
    by (rule serve_registry_cases [OF reg]) (simp add: ex_flags_def)
  obtain x w0 where h: "run_state (handleEnrollment ex_slib ex_wire registry (serve_service ex_flags ex_files) (uuids ex_tokened (draws ex_tokened))
      ex_token_post) (entered ex_tokened) = (x, w0)" by (metis surj_pair)
  have f: "sf_lib ex_files = ex_slib" "sf_wire ex_files = ex_wire" by (simp_all add: ex_files_def)
  have "json_EnrollmentRequest ex_wire ''ta'' =
      Some (ex_enrollment BootstrapMethodEnrollmentToken (Std_EncodeToString ''ra'') ex_token_proof)"
    by (simp add: ex_wire_def)
  with h have x: "rs_Status x = 201" "ticks w0 = 9"
    using res look e ex_validated ex_parsed
    by (auto simp: handleEnrollment_def ex_token_post_def ex_post_def read_limited_def ex_enrollment_def f enroll_pending_def
        run_commit_def split: prod.splits dest: ex_commit_ticks)
  have "run_state (ms_public ex_server ex_token_post) ex_tokened = answered (uuids ex_tokened (draws ex_tokened)) (x, w0)"
    using run_public_enrollment [OF ex_server reg, of ex_token_post ex_tokened] h
    by (simp add: f) (simp add: ex_token_post_def ex_post_def)
  then show thesis using that x by (simp add: answered_def)
qed

text \<open>The enrolled device of \<open>MIS_Example\<close> asks for a JWT SVID with its certificate.\<close>

definition ex_exchange_post :: http_request where
  "ex_exchange_post = \<lparr>rq_Method = ''POST'',
     rq_Path = [''api'', ''v1'', ''identities'', EncodeSPIFFEID ''spiffe://td/margo/device/u'', ''jwt-svid''],
     rq_Header = [], rq_Body = Some ''x'', rq_PeerCertificates = Some [ex_cert ''xa'']\<rparr>"

lemma ex_exchange_decoded:
  "DecodeSPIFFEIDEncoded (EncodeSPIFFEID ''spiffe://td/margo/device/u'') = Inr ''spiffe://td/margo/device/u''"
  by (simp add: Decode_Encode_SPIFFEID HasPrefix_def)

lemma ex_audience: "ValidateAudience ex_slib [''https://aud''] = Inr ()"
proof -
  have "TrimSpace ''https://aud'' \<noteq> []" by code_simp
  then show ?thesis by (simp add: ValidateAudience_ok ex_slib_def ex_lib_def)
qed

lemma ex_exchange_ok: "rs_Status (fst (run_state (ms_public ex_server ex_exchange_post) ex_enrolled)) = 201"
proof -
  have f: "sf_lib ex_files = ex_slib" "sf_wire ex_files = ex_wire" by (simp_all add: ex_files_def)
  have j: "json_JWTSVIDRequest ex_wire ''x'' =
      Some \<lparr>JQ_Audience = [''https://aud''], JQ_TTLSeconds = 60, JQ_ClientAssertion = ''assertion''\<rparr>" by (simp add: ex_wire_def)
  obtain cfg where c: "serve_jwtsvid ex_flags ex_files
      \<lparr>MaxInWindow = fl_renewal_rate_limit ex_flags, Window = fl_renewal_rate_window ex_flags\<rparr> = Some cfg"
    and run: "run_state (ms_public ex_server ex_exchange_post) ex_enrolled = answered (uuids ex_enrolled (draws ex_enrolled))
      (run_state (handleJWTSVID ex_slib ex_wire cfg (uuids ex_enrolled (draws ex_enrolled))
        (EncodeSPIFFEID ''spiffe://td/margo/device/u'') ex_exchange_post) (entered ex_enrolled))"
    by (rule run_public_exchange [OF ex_server, of ex_exchange_post "EncodeSPIFFEID ''spiffe://td/margo/device/u''" ex_enrolled])
      (simp_all add: ex_exchange_post_def f)
  have cfg: "JH_Signer cfg = jwt_Sign ex_slib" "JH_RateLimiter cfg = \<lparr>MaxInWindow = 1, Window = Hour\<rparr>"
    "JH_DefaultTTL cfg = Minute" "JH_MaxTTL cfg = Hour" "JH_IssuerURL cfg \<noteq> []"
    using c by (auto simp: serve_jwtsvid_def NewJWTSVIDHandler_def ex_flags_def f Minute_def Second_def Hour_def)
  have lim: "rs_Status (fst (run_state (exchange_limited ex_slib ex_wire cfg rid ''spiffe://td/margo/device/u''
      \<lparr>JQ_Audience = [''https://aud''], JQ_TTLSeconds = 60, JQ_ClientAssertion = ''assertion''\<rparr>) (entered ex_enrolled))) = 201" for rid
    by (simp add: exchange_limited_def cfg Allow_def count_min_def in_window_def IssueJWTSVID_def IssuedJWTSVIDs_Record_def run_GetLDIBySPIFFEID
        run_simps Let_def ex_enrolled_tables entered_def effective_ttl_def LDIStatusActive_def scan_ldi_def ex_slib_def ex_lib_def
        insert_event_def insert_jwt_svid_def RenewalEvents_Record_def write_json_def int64_def Second_def Minute_def Hour_def split: sum.splits prod.splits)
  have "names_spiffe (ex_cert ''xa'') ''spiffe://td/margo/device/u''" by (simp add: names_spiffe_def ex_cert_def ex_url_def)
  with lim show ?thesis
    unfolding run
    by (simp add: handleJWTSVID_def ex_exchange_decoded ex_exchange_post_def read_limited_def j ex_audience Header_Get_def Header_Values_def HasPrefix_def
      exchange_authenticated_def peer_certificate_def)
qed

text \<open>An assertion of a factory certificate, for the JWT bootstrap method.\<close>

definition ex_jclaims :: jwt_claims where
  "ex_jclaims = \<lparr>jwt_Issuer = ''urn:margo:device:sha256:'' @ hex_EncodeToString ''xa'',
     jwt_Subject = ''urn:margo:device:sha256:'' @ hex_EncodeToString ''xa'',
     jwt_Audience = [TrimRight ''https://mis'' ''/'' @ ''/api/v1/identities''], jwt_Expiry = Some (unix_epoch + 60 * Second),
     jwt_NotBefore = None, jwt_IssuedAt = Some unix_epoch, jwt_ID = ''j1'', jwt_raw_jti = Some ''j1''\<rparr>"

definition ex_jlib :: golib where
  "ex_jlib = ex_slib\<lparr>jws_Claims := (\<lambda>j k. Some ex_jclaims)\<rparr>"

definition ex_jfiles :: serve_files where
  "ex_jfiles = ex_files\<lparr>sf_lib := ex_jlib\<rparr>"

definition ex_jwt_cred :: BootstrapCredentialDTO where
  "ex_jwt_cred = \<lparr>BC_Method = BootstrapMethodFactoryCertJWT,
     BC_Proof = Some \<lparr>BP_Assertion = ''assertion'', BP_Token = []\<rparr>\<rparr>"

lemma ex_jwt_accepted:
  obtains registry v x w' where "serve_registry ex_flags ex_jfiles = Some registry"
    "Lookup registry BootstrapMethodFactoryCertJWT = Inr v"
    "run_state (v ex_token_post ex_jwt_cred [] []) ex_world = (Inr x, w')"
proof -
  obtain registry where r: "serve_registry ex_flags ex_jfiles = Some registry"
    by (auto simp: serve_registry_def Jwt_New_def)
  then obtain v where v: "Lookup registry BootstrapMethodFactoryCertJWT = Inr v"
    by (rule serve_registry_cases) (simp add: BootstrapMethodFactoryCertJWT_def BootstrapMethodEnrollmentToken_def)
  have s: "TrimSpace ''assertion'' \<noteq> []" "TrimSpace ''j1'' \<noteq> []" by code_simp+
  have c: "jwt_verified ex_jlib (cfg\<lparr>jc_Audience := TrimRight ''https://mis'' ''/'' @ ''/api/v1/identities'', jc_MaxAssertionLifetime := 5 * Minute\<rparr>)
      ''assertion'' = Inr (ex_cert ''xa'', ex_jclaims, unix_epoch + 60 * Second)" for cfg
    by (simp add: jwt_verified_def ex_jlib_def ex_slib_def ex_lib_def extractAndVerifyChain_def algMatchesLeafKey_def
        hexFingerprint_def ex_cert_def ex_jclaims_def mark_key_def ex_key_def time_sub_def maxDuration_def minDuration_def Minute_def Second_def)
  have "\<exists>x w'. run_state (v ex_token_post ex_jwt_cred [] []) ex_world = (Inr x, w')"
    unfolding serve_registry_jwt [OF r v]
    using c [of "\<lparr>jc_Roots = sf_factoryPool ex_jfiles, jc_Audience = [], jc_Replay = JWTReplay_Witness,
      jc_ClockSkew = served_skew ex_flags, jc_MaxAssertionLifetime = 0\<rparr>"] s
    by (simp add: Jwt_Validate_def ex_jwt_cred_def ex_jfiles_def ex_flags_def served_skew_def ex_jclaims_def run_simps Let_def
      JWTReplay_Witness_def run_sql_tx replay_by_jti_def upsert_replay_def ex_world_def empty_tables_def Second_def)
  then show thesis using that [OF r v] by blast
qed

end
