(* ===== verification/MIS_HTTP_Properties.thy ===== *)
theory MIS_HTTP_Properties
  imports MIS_Server_Example
begin

text \<open>
  The properties of the running identity service: its two HTTP servers over the flows and
  stores, in any sequence of requests. Witnesses run the assembly of \<open>MIS_Server_Example\<close>.
\<close>

section \<open>Enrollment with a token\<close>



section \<open>Runs of the service\<close>

text \<open>
  C3: From an empty database, whatever sequence of public requests, operator requests and
  rounds of the pruning loop the service handles, under any failures, the tables keep what the
  schema promises; an ESI once bound stays bound to its LDI, a retired ESI stays retired, an
  ended identity stays ended and no SVID is issued for it again.
\<close>

theorem server_invariant:
  assumes "assemble F E = Some sv" "tabs w0 = empty_tables" "server_run sv w0 w1" "server_run sv w1 w2"
  shows "store_inv (tabs w2) \<and>
    (esi_bound esi u (tabs w1) \<longrightarrow> esi_bound esi u (tabs w2)) \<and>
    (esi_retired esi (tabs w1) \<longrightarrow> esi_retired esi (tabs w2)) \<and>
    (spiffe_ended sp (tabs w1) \<longrightarrow> spiffe_ended sp (tabs w2) \<and> svid_serials sp (tabs w2) \<subseteq> svid_serials sp (tabs w1))"
proof -
  have inv: "store_inv (tabs w1)"
    by (rule system_store.run_keeps [OF assms(3,1)]) (simp add: assms(2) store_inv_empty)
  have "spiffe_ended sp (tabs w1) \<Longrightarrow> closed_to sp (svid_serials sp (tabs w1)) (tabs w2)"
    using inv by (intro closed_to_server_run [OF assms(4,1)]) (simp add: closed_to_def)
  with system_store.run_keeps [OF assms(4,1) inv] show ?thesis
    using system_esi_bound.run_keeps [OF assms(4,1)] system_esi_retired.run_keeps [OF assms(4,1)]
    by (auto simp: closed_to_def)
qed

theorem server_invariant_witness:
  "store_inv (tabs (serve ex_server (Public ex_token_post) ex_tokened))"
proof -
  have a: "server_run ex_server ex_world ex_tokened" unfolding ex_tokened_def by (intro server_run.event server_run.start)
  have b: "server_run ex_server ex_tokened (serve ex_server (Public ex_token_post) ex_tokened)"
    by (intro server_run.event server_run.start)
  have "tabs ex_world = empty_tables" by (simp add: ex_world_def)
  from server_invariant [OF ex_server this a b] show ?thesis by blast
qed



section \<open>Assertions\<close>

text \<open>
  C13: The JWT bootstrap method leads to an enrollment only for an assertion of a permitted
  algorithm whose certificate chain verifies against the factory roots and whose signature
  verifies under the leaf's key, issued by and about the leaf's fingerprint, for this
  service's enrollment endpoint alone, of at most five minutes, neither expired nor early up to
  the skew; the ESI is the leaf's fingerprint. The assertion's identifier was not alive
  before, and is alive from then on until the assertion's expiry.
\<close>

theorem jwt_bootstrap_sound:
  assumes "serve_registry F E = Some registry" "Lookup registry BootstrapMethodFactoryCertJWT = Inr v"
    "run_state (v r cred csr prof) w = (Inr x, w')"
  shows "\<exists>pf leaf std exp jti. BC_Proof cred = Some pf \<and>
    signed_by (sf_lib E) (sf_factoryPool E) (BP_Assertion pf) leaf std \<and>
    jwt_Issuer std = ''urn:margo:device:sha256:'' @ hex_EncodeToString (sha256 (sf_lib E) (cert_Raw leaf)) \<and>
    jwt_Subject std = jwt_Issuer std \<and>
    jwt_Audience std = [TrimRight (fl_advertise_url F) ''/'' @ ''/api/v1/identities''] \<and>
    timely std exp (5 * Minute) (served_skew F) (clock w (ticks w)) \<and>
    x = Pending \<lparr>PE_VB = \<lparr>VB_Method = BC_Method cred, VB_ESI = sha256 (sf_lib E) (cert_Raw leaf),
      VB_Evidence = LeafEvidence leaf\<rparr>, PE_Commit = None\<rparr> \<and>
    jwt_raw_jti std = Some jti \<and>
    (four_digit_year (exp + served_skew F) \<longrightarrow>
      (\<forall>p. replay_expiry w jti = Some p \<longrightarrow> p \<le> clock w (Suc (ticks w))) \<and>
      replay_expiry w' jti = Some (exp + served_skew F))"
proof -
  let ?cfg = "\<lparr>jc_Roots = sf_factoryPool E, jc_Audience = TrimRight (fl_advertise_url F) ''/'' @ ''/api/v1/identities'',
    jc_Replay = JWTReplay_Witness, jc_ClockSkew = served_skew F, jc_MaxAssertionLifetime = 5 * Minute\<rparr>"
  have run: "run_state (Jwt_Validate (sf_lib E) (?cfg\<lparr>jc_Replay := JWTReplay_Witness\<rparr>) r cred csr prof) w = (Inr x, w')"
    using assms(3) serve_registry_jwt [OF assms(1,2)] by simp
  show ?thesis
  proof (rule Jwt_Validate_Inr [OF run], goal_cases)
    case (1 c leaf std exp jti)
    then show ?case using witnessed [OF 1(9)]
      by (intro exI [of _ "the (BC_Proof cred)"] exI [of _ leaf] exI [of _ std] exI [of _ exp] exI [of _ jti])
        (auto simp: replay_expiry_def)
  qed
qed

theorem jwt_bootstrap_sound_witness:
  "\<exists>registry v x w'. serve_registry ex_flags ex_jfiles = Some registry \<and>
     Lookup registry BootstrapMethodFactoryCertJWT = Inr v \<and>
     run_state (v ex_token_post ex_jwt_cred [] []) ex_world = (Inr x, w') \<and>
     replay_expiry w' ''j1'' = Some (unix_epoch + 90 * Second)"
proof -
  obtain registry v x w' where r: "serve_registry ex_flags ex_jfiles = Some registry"
    "Lookup registry BootstrapMethodFactoryCertJWT = Inr v"
    "run_state (v ex_token_post ex_jwt_cred [] []) ex_world = (Inr x, w')" by (rule ex_jwt_accepted)
  have "four_digit_year (unix_epoch + 90 * Second)" by code_simp
  then have "replay_expiry w' ''j1'' = Some (unix_epoch + 90 * Second)"
    using jwt_bootstrap_sound [OF r]
    by (auto simp: ex_jwt_cred_def signed_by_def ex_jfiles_def ex_jlib_def ex_jclaims_def timely_def served_skew_def
        ex_flags_def algebra_simps)
  with r show ?thesis by blast
qed

text \<open>
  C12: The exchange hands out a JWT SVID only for a SPIFFE ID of an active identity, for a
  non-empty list of audiences that are not blank and parse as URLs, to a caller that did not use
  a bearer token and that either presented a certificate for this SPIFFE ID or, without a
  certificate, an assertion signed by a leaf for this SPIFFE ID that chains to the trust anchors,
  issued by and about it, for this endpoint alone, of at most five minutes, and neither expired
  nor early up to the skew.
\<close>

theorem exchange_sound:
  assumes sv: "assemble F E = Some sv" and ok: "rs_Status (fst (run_state (ms_public sv r) w)) = 201"
    and route: "rq_Path r = [''api'', ''v1'', ''identities'', enc, ''jwt-svid'']" "rq_Method r = ''POST''"
  shows "\<exists>sp b req. DecodeSPIFFEIDEncoded enc = Inr sp \<and> read_limited r = Some b \<and>
    json_JWTSVIDRequest (sf_wire E) b = Some req \<and>
    (\<exists>l\<in>set (ldis (tabs w)). l_spiffe_id l = sp \<and> l_status l = ''active'') \<and>
    JQ_Audience req \<noteq> [] \<and> (\<forall>a\<in>set (JQ_Audience req). TrimSpace a \<noteq> [] \<and> url_Parse (sf_lib E) a \<noteq> None) \<and>
    \<not> HasPrefix (Header_Get (rq_Header r) ''Authorization'') ''Bearer '' \<and>
    ((\<exists>peer. peer_certificate r = Some peer \<and> names_spiffe peer sp) \<or>
     peer_certificate r = None \<and> served_assertion F E enc sp (JQ_ClientAssertion req) (clock w (Suc (ticks w))))"
proof -
  obtain cfg where c: "serve_jwtsvid F E \<lparr>MaxInWindow = fl_renewal_rate_limit F, Window = fl_renewal_rate_window F\<rparr> = Some cfg"
    and run: "run_state (ms_public sv r) w = answered (uuids w (draws w))
      (run_state (handleJWTSVID (sf_lib E) (sf_wire E) cfg (uuids w (draws w)) enc r) (entered w))"
    by (rule run_public_exchange [OF sv route])
  obtain a w' where h: "run_state (handleJWTSVID (sf_lib E) (sf_wire E) cfg (uuids w (draws w)) enc r) (entered w) = (a, w')"
    by (metis surj_pair)
  have ok': "rs_Status a = 201" using ok by (simp add: run h answered_def)
  obtain sp b req w1 where p: "DecodeSPIFFEIDEncoded enc = Inr sp"
    "\<not> HasPrefix (Header_Get (rq_Header r) ''Authorization'') ''Bearer ''"
    "read_limited r = Some b" "json_JWTSVIDRequest (sf_wire E) b = Some req"
    and aud: "ValidateAudience (sf_lib E) (JQ_Audience req) = Inr ()"
    and auth: "run_state (exchange_authenticated (sf_lib E) cfg enc sp (JQ_ClientAssertion req) r) (entered w) = (True, w1)"
    and l: "\<exists>l\<in>set (ldis (tabs (entered w))). l_spiffe_id l = sp \<and> l_status l = ''active''"
    by (rule handleJWTSVID_201 [OF h ok' serve_jwtsvid_parts(1) [OF c]])
  have "served_assertion F E enc sp (JQ_ClientAssertion req) (clock w (Suc (ticks w)))"
    if "run_state (VerifyClientAssertion (sf_lib E) (exchange_config cfg enc) sp (JQ_ClientAssertion req)) (entered w) = (Inr va, w1)" for va
    using served_assertion [OF c that] by simp
  with exchange_authenticated_True(1) [OF auth serve_jwtsvid_parts(1) [OF c]] p aud l show ?thesis
    unfolding ValidateAudience_ok by (intro exI [of _ sp] exI [of _ b] exI [of _ req]) auto
qed

theorem exchange_sound_witness:
  "rs_Status (fst (run_state (ms_public ex_server ex_exchange_post) ex_enrolled)) = 201 \<and>
   (\<exists>sp. DecodeSPIFFEIDEncoded (EncodeSPIFFEID ''spiffe://td/margo/device/u'') = Inr sp \<and>
     (\<exists>l\<in>set (ldis (tabs ex_enrolled)). l_spiffe_id l = sp \<and> l_status l = ''active''))"
  using exchange_sound [OF ex_server ex_exchange_ok, of "EncodeSPIFFEID ''spiffe://td/margo/device/u''"] ex_exchange_ok
  by (auto simp: ex_exchange_post_def)

section \<open>Published documents\<close>

text \<open>
  C40: The discovery document lists the bootstrap methods sorted and once each, and they are
  exactly the methods that enrollments are looked up under. An enrollment that names any other
  method is answered with the problem of an unsupported method and changes no table.
\<close>

theorem discovery_truthful:
  assumes sv: "assemble F E = Some sv" and get: "rq_Path r = [''.well-known'', ''margo'']" "rq_Method r = ''GET''"
  shows "\<exists>registry ms. serve_registry F E = Some registry \<and> sorted ms \<and> distinct ms \<and>
    rs_Status (fst (run_state (ms_public sv r) w)) = 200 \<and>
    rs_Body (fst (run_state (ms_public sv r) w)) = json_Discovery (sf_wire E)
      \<lparr>DR_TrustDomain = fl_trust_domain F, DR_TrustBundleURI = fl_advertise_url F @ ''/.well-known/spiffe/bundle.json'',
       DR_MargoIdentityServiceBaseURI = fl_advertise_url F, DR_SupportedBootstrapMethods = ms,
       DR_SVIDProfilesSupported = [SVIDProfileURIX509V1, SVIDProfileURIJWTV1]\<rparr> \<and>
    (\<forall>m. m \<in> set ms \<longleftrightarrow> (\<exists>v. Lookup registry m = Inr v)) \<and>
    (\<forall>r' w' b req. rq_Path r' = [''api'', ''v1'', ''identities''] \<longrightarrow> rq_Method r' = ''POST'' \<longrightarrow>
      read_limited r' = Some b \<longrightarrow> json_EnrollmentRequest (sf_wire E) b = Some req \<longrightarrow>
      EQ_SVIDProfileURI req = SVIDProfileURIX509V1 \<longrightarrow> BC_Method (EQ_BootstrapCredential req) \<notin> set ms \<longrightarrow>
      rs_Status (fst (run_state (ms_public sv r') w')) = 422 \<and>
      rs_Body (fst (run_state (ms_public sv r') w')) = rs_Body
        (WriteProblem (sf_wire E) [] (uuids w' (draws w')) (Spec_Problem UnsupportedBootstrapMethod)) \<and>
      tabs (snd (run_state (ms_public sv r') w')) = tabs w')"
proof -
  obtain registry where reg: "serve_registry F E = Some registry" using assemble_registry [OF sv] by blast
  have inv: "registry_inv registry" by (rule serve_registry_cases [OF reg]) simp
  have unknown: "\<exists>e. Lookup registry m = Inl e" if "m \<notin> set (Methods registry)" for m
    using that unfolding Methods_Lookup by (metis sum.exhaust)
  have refused: "rs_Status (fst (run_state (ms_public sv r') w')) = 422 \<and>
      rs_Body (fst (run_state (ms_public sv r') w')) = rs_Body
        (WriteProblem (sf_wire E) [] (uuids w' (draws w')) (Spec_Problem UnsupportedBootstrapMethod)) \<and>
      tabs (snd (run_state (ms_public sv r') w')) = tabs w'"
    if "rq_Path r' = [''api'', ''v1'', ''identities'']" "rq_Method r' = ''POST''"
      "read_limited r' = Some b" "json_EnrollmentRequest (sf_wire E) b = Some req" "EQ_SVIDProfileURI req = SVIDProfileURIX509V1"
      "BC_Method (EQ_BootstrapCredential req) \<notin> set (Methods registry)" for r' w' b req
    using that(3-5) unknown [OF that(6)]
    by (auto simp: run_public_enrollment [OF sv reg that(1,2)] handleEnrollment_def answered_def registry_defs)
  show ?thesis
    using Methods_sorted [OF inv] Methods_Lookup refused
    by (intro exI [of _ registry] exI [of _ "Methods registry"])
      (simp add: reg run_public_discovery [OF sv reg get] answered_def DiscoveryHandler_def serve_discovery_def)
qed

theorem discovery_truthful_witness:
  "rs_Status (fst (run_state (ms_public ex_server
    \<lparr>rq_Method = ''GET'', rq_Path = [''.well-known'', ''margo''], rq_Header = [], rq_Body = None, rq_PeerCertificates = None\<rparr>)
    ex_world)) = 200"
  using discovery_truthful [OF ex_server,
      of "\<lparr>rq_Method = ''GET'', rq_Path = [''.well-known'', ''margo''], rq_Header = [], rq_Body = None, rq_PeerCertificates = None\<rparr>"
        ex_world]
  by auto

end
