(* ===== verification/MIS_Admin.thy ===== *)
theory MIS_Admin
  imports MIS_Server
begin

text \<open>
  The operator's side of the identity service: the client of the admin interface
  (\<^verbatim>\<open>cmd/mis/internal/adminclient\<close>) and the three commands over it
  (\<^verbatim>\<open>cmd/mis/cmd_admin.go\<close>), with the lines they print. The network is a parameter of the
  client; the last section connects it to the modelled server.
\<close>

section \<open>The client\<close>

record adminlib =
  adm_Duration_String :: "duration \<Rightarrow> string"
  adm_json_CreateToken :: "CreateEnrollmentTokenRequest \<Rightarrow> bytes option"
  adm_json_CreateTicket :: "CreateReplacementTicketRequest \<Rightarrow> bytes option"
  adm_json_Revoke :: "RevokeSPIFFEIDRequest \<Rightarrow> bytes option"
  adm_parse_TokenCreated :: "bytes \<Rightarrow> CreateEnrollmentTokenResponse option"
  adm_parse_TicketCreated :: "bytes \<Rightarrow> CreateReplacementTicketResponse option"
  adm_parse_Revoked :: "bytes \<Rightarrow> RevokeSPIFFEIDResponse option"
  adm_NewRequest :: "string \<Rightarrow> string \<Rightarrow> bool"

text \<open>
  One exchange over the network, \<open>None\<close> for a transport failure or the timeout of ten seconds.
\<close>

type_synonym 'n transport = "string \<Rightarrow> string \<Rightarrow> http_header \<Rightarrow> bytes \<Rightarrow> ('n, http_reply option) state"

record 'n admin_client =
  adm_baseURL :: string
  adm_http :: "'n transport"

definition admin_New :: "'n transport \<Rightarrow> string \<Rightarrow> 'n admin_client" where
  "admin_New net baseURL = \<lparr>adm_baseURL = TrimRight baseURL ''/'', adm_http = net\<rparr>"

definition admin_post ::
    "adminlib \<Rightarrow> 'n admin_client \<Rightarrow> string \<Rightarrow> bytes \<Rightarrow> (bytes \<Rightarrow> 'a option) \<Rightarrow> ('n, 'a result) state" where
  "admin_post A c path body decode =
     (if \<not> adm_NewRequest A ''POST'' (adm_baseURL c @ path) then State_Monad.return (Inl [Opaque ''request''])
      else do {
        r \<leftarrow> adm_http c ''POST'' (adm_baseURL c @ path) [(''Content-Type'', ''application/json'')] body;
        State_Monad.return (case r of
          None \<Rightarrow> Inl [Opaque ''admin'']
        | Some resp \<Rightarrow>
            if rp_Status resp \<noteq> 200 \<and> rp_Status resp \<noteq> 201 then Inl [Opaque ''admin status'']
            else (case Option.bind (rp_Body resp) decode of None \<Rightarrow> Inl [Opaque ''decode''] | Some x \<Rightarrow> Inr x)) })"

definition CreateEnrollmentToken ::
    "adminlib \<Rightarrow> 'n admin_client \<Rightarrow> duration \<Rightarrow> ('n, CreateEnrollmentTokenResponse result) state" where
  "CreateEnrollmentToken A c ttl = (case adm_json_CreateToken A \<lparr>CT_TTL = adm_Duration_String A ttl\<rparr> of
     None \<Rightarrow> State_Monad.return (Inl [Opaque ''marshal''])
   | Some body \<Rightarrow> admin_post A c ''/admin/v1/enrollment-tokens'' body (adm_parse_TokenCreated A))"

definition CreateReplacementTicket ::
    "adminlib \<Rightarrow> 'n admin_client \<Rightarrow> string \<Rightarrow> duration \<Rightarrow> ('n, CreateReplacementTicketResponse result) state" where
  "CreateReplacementTicket A c spiffeID ttl =
     (case adm_json_CreateTicket A \<lparr>CK_SPIFFEID = spiffeID, CK_TTL = adm_Duration_String A ttl\<rparr> of
        None \<Rightarrow> State_Monad.return (Inl [Opaque ''marshal''])
      | Some body \<Rightarrow> admin_post A c ''/admin/v1/replacement-tickets'' body (adm_parse_TicketCreated A))"

definition admin_Revoke ::
    "adminlib \<Rightarrow> 'n admin_client \<Rightarrow> string \<Rightarrow> string \<Rightarrow> ('n, RevokeSPIFFEIDResponse result) state" where
  "admin_Revoke A c spiffeID reason =
     (case adm_json_Revoke A \<lparr>RQ_SPIFFEID = spiffeID, RQ_Reason = reason\<rparr> of
        None \<Rightarrow> State_Monad.return (Inl [Opaque ''marshal''])
      | Some body \<Rightarrow> admin_post A c ''/admin/v1/revocations'' body (adm_parse_Revoked A))"

section \<open>The commands\<close>

text \<open>A command fails, or ends with the lines it prints.\<close>

definition token_lines :: "CreateEnrollmentTokenResponse \<Rightarrow> string list" where
  "token_lines resp = [''token_id:   '' @ CTR_TokenID resp, ''secret:     '' @ CTR_Secret resp,
     ''expires_at: '' @ CTR_ExpiresAt resp, ''Provision the secret on the device out-of-band.'']"

definition requested_ttl :: "cli_flags \<Rightarrow> duration" where
  "requested_ttl cmd = (if cmd_Duration cmd ''ttl'' = 0 then cmd_Duration cmd ''enrollment-token-default-ttl''
     else cmd_Duration cmd ''ttl'')"

definition runGenerateToken :: "adminlib \<Rightarrow> 'n transport \<Rightarrow> cli_flags \<Rightarrow> ('n, string list result) state" where
  "runGenerateToken A net cmd =
     (let ttl = requested_ttl cmd in
      if ttl \<le> 0 then State_Monad.return (Inl [Opaque ''ttl must be positive''])
      else do {
        r \<leftarrow> CreateEnrollmentToken A (admin_New net (cmd_String cmd ''admin-url'')) ttl;
        State_Monad.return (case r of Inl e \<Rightarrow> Inl e | Inr resp \<Rightarrow> Inr (token_lines resp)) })"

definition runGenerateReplacementTicket :: "adminlib \<Rightarrow> 'n transport \<Rightarrow> cli_flags \<Rightarrow> ('n, string list result) state" where
  "runGenerateReplacementTicket A net cmd =
     (if cmd_String cmd ''spiffe-id'' = [] then State_Monad.return (Inl [Opaque ''--spiffe-id is required''])
      else if cmd_Duration cmd ''ttl'' \<le> 0 then State_Monad.return (Inl [Opaque ''--ttl must be positive''])
      else do {
        r \<leftarrow> CreateReplacementTicket A (admin_New net (cmd_String cmd ''admin-url''))
          (cmd_String cmd ''spiffe-id'') (cmd_Duration cmd ''ttl'');
        State_Monad.return (case r of
          Inl e \<Rightarrow> Inl e
        | Inr resp \<Rightarrow> Inr [''ticket:     '' @ CKR_Ticket resp, ''spiffe_id:  '' @ CKR_SPIFFEID resp,
            ''expires_at: '' @ CKR_ExpiresAt resp, ''Hand the ticket to the device operator out-of-band.'']) })"

definition serial_lines :: "string \<Rightarrow> string list \<Rightarrow> string list" where
  "serial_lines title serials = (if serials = [] then [] else title # map (\<lambda>s. ''  - '' @ s) serials)"

definition runRevoke :: "adminlib \<Rightarrow> 'n transport \<Rightarrow> cli_flags \<Rightarrow> ('n, string list result) state" where
  "runRevoke A net cmd =
     (if cmd_String cmd ''spiffe-id'' = [] then State_Monad.return (Inl [Opaque ''--spiffe-id is required''])
      else do {
        r \<leftarrow> admin_Revoke A (admin_New net (cmd_String cmd ''admin-url'')) (cmd_String cmd ''spiffe-id'') (cmd_String cmd ''reason'');
        State_Monad.return (case r of
          Inl e \<Rightarrow> Inl e
        | Inr resp \<Rightarrow> Inr ((''spiffe_id:       '' @ RP_SPIFFEID resp) #
            serial_lines ''revoked_serials:'' (RP_RevokedSerials resp) @
            serial_lines ''already_revoked:'' (RP_AlreadyRevoked resp))) })"

section \<open>Client and server together\<close>

text \<open>A network that carries every request under \<open>base\<close> to the admin server and back.\<close>

definition admin_network :: "AdminConfig \<Rightarrow> string \<Rightarrow> mis transport" where
  "admin_network cfg base method url header body =
     (if \<not> HasPrefix url base then State_Monad.return None
      else do {
        resp \<leftarrow> NewAdminServer cfg \<lparr>rq_Method = method, rq_Path = split_on (CHR ''/'') (drop (Suc (length base)) url),
          rq_Header = header, rq_Body = Some body, rq_PeerCertificates = None\<rparr>;
        State_Monad.return (Some \<lparr>rp_Status = rs_Status resp, rp_Header = rs_Header resp, rp_Body = Some (rs_Body resp)\<rparr>) })"

text \<open>
  What the commands rely on of JSON and durations: an ASCII text survives encoding and decoding,
  and the text of a duration reads back as it. (Elsewhere JSON may replace what is not UTF-8.)
\<close>

definition duration_law :: "adminlib \<Rightarrow> wirelib \<Rightarrow> duration \<Rightarrow> bool" where
  "duration_law A J d \<longleftrightarrow> adm_Duration_String A d \<noteq> [] \<and> ascii (adm_Duration_String A d) \<and>
     time_ParseDuration J (adm_Duration_String A d) = Some d"

definition admin_json_law :: "adminlib \<Rightarrow> wirelib \<Rightarrow> bool" where
  "admin_json_law A J \<longleftrightarrow>
     (\<forall>t b. ascii t \<longrightarrow> adm_json_CreateToken A \<lparr>CT_TTL = t\<rparr> = Some b \<longrightarrow> json_CreateToken J b = Some \<lparr>CT_TTL = t\<rparr>) \<and>
     (\<forall>i s e. ascii i \<longrightarrow> ascii s \<longrightarrow> ascii e \<longrightarrow>
        adm_parse_TokenCreated A (json_TokenCreated J \<lparr>CTR_TokenID = i, CTR_Secret = s, CTR_ExpiresAt = e\<rparr>) =
          Some \<lparr>CTR_TokenID = i, CTR_Secret = s, CTR_ExpiresAt = e\<rparr>) \<and>
     (\<forall>sp r b. ascii sp \<longrightarrow> ascii r \<longrightarrow> adm_json_Revoke A \<lparr>RQ_SPIFFEID = sp, RQ_Reason = r\<rparr> = Some b \<longrightarrow>
        json_Revoke J b = Some \<lparr>RQ_SPIFFEID = sp, RQ_Reason = r\<rparr>)"

lemma split_admin_paths:
  "split_on (CHR ''/'') ''admin/v1/enrollment-tokens'' = [''admin'', ''v1'', ''enrollment-tokens'']"
  "split_on (CHR ''/'') ''admin/v1/replacement-tickets'' = [''admin'', ''v1'', ''replacement-tickets'']"
  "split_on (CHR ''/'') ''admin/v1/revocations'' = [''admin'', ''v1'', ''revocations'']"
  by simp_all

text \<open>A request of the client is one call of the handler.\<close>

lemma run_admin_post:
  assumes "adm_NewRequest A ''POST'' (base @ ''/'' @ p)" "adm_baseURL c = base" "adm_http c = admin_network cfg base"
  shows "run_state (admin_post A c (''/'' @ p) body decode) w =
    (case run_state (NewAdminServer cfg \<lparr>rq_Method = ''POST'', rq_Path = split_on (CHR ''/'') p,
        rq_Header = [(''Content-Type'', ''application/json'')], rq_Body = Some body, rq_PeerCertificates = None\<rparr>) w of
      (resp, w') \<Rightarrow>
        (if rs_Status resp \<noteq> 200 \<and> rs_Status resp \<noteq> 201 then Inl [Opaque ''admin status'']
         else (case decode (rs_Body resp) of None \<Rightarrow> Inl [Opaque ''decode''] | Some x \<Rightarrow> Inr x), w'))"
  using assms by (simp add: admin_post_def admin_network_def run_simps HasPrefix_append split: prod.split)

lemma create_token_answer:
  assumes "json_CreateToken (ac_wire cfg) body = Some \<lparr>CT_TTL = t\<rparr>" "t \<noteq> []" "time_ParseDuration (ac_wire cfg) t = Some ttl" "0 < ttl"
  shows "run_state (createEnrollmentToken cfg \<lparr>rq_Method = m, rq_Path = p, rq_Header = h, rq_Body = Some body, rq_PeerCertificates = None\<rparr>) w =
    (case run_state (EnrollmentTokens_Create (ac_lib cfg) ttl (clock w (ticks w))) (w\<lparr>ticks := Suc (ticks w)\<rparr>) of
      (Inl e, w') \<Rightarrow> (writeError (ac_wire cfg) 500, w')
    | (Inr c, w') \<Rightarrow> (writeJSON 201 (json_TokenCreated (ac_wire cfg)
        \<lparr>CTR_TokenID = Cr_TokenID c, CTR_Secret = Secret_Wire (Cr_Secret c), CTR_ExpiresAt = RFC3339Nano (Cr_ExpiresAt c)\<rparr>), w'))"
  using assms by (simp add: createEnrollmentToken_def token_ttl_def run_simps split: prod.split sum.split)

lemma Create_names:
  "run_state (EnrollmentTokens_Create G ttl now) w = (Inr c, w') \<Longrightarrow> \<exists>n. Cr_TokenID c = uuids w n"
  by (auto simp: EnrollmentTokens_Create_def NewSecret_def run_simps Let_def split: if_splits sum.splits option.splits)

text \<open>A token command that ends well has created the token it prints.\<close>

lemma generate_token_Inr:
  assumes run: "run_state (runGenerateToken A (admin_network cfg (TrimRight (cmd_String cmd ''admin-url'') ''/'')) cmd) w = (Inr out, w')"
    and law: "admin_json_law A (ac_wire cfg)" "\<And>d. 0 < d \<Longrightarrow> duration_law A (ac_wire cfg) d" and ids: "\<And>n. ascii (uuids w n)"
  obtains c where "0 < requested_ttl cmd"
    "run_state (EnrollmentTokens_Create (ac_lib cfg) (requested_ttl cmd) (clock w (ticks w))) (w\<lparr>ticks := Suc (ticks w)\<rparr>) = (Inr c, w')"
    "out = token_lines \<lparr>CTR_TokenID = Cr_TokenID c, CTR_Secret = Secret_Wire (Cr_Secret c), CTR_ExpiresAt = RFC3339Nano (Cr_ExpiresAt c)\<rparr>"
proof -
  let ?base = "TrimRight (cmd_String cmd ''admin-url'') ''/''"
  define ttl where "ttl = requested_ttl cmd"
  let ?c = "admin_New (admin_network cfg ?base) (cmd_String cmd ''admin-url'')"
  let ?p = "''admin/v1/enrollment-tokens''"
  obtain r w1 where r: "run_state (CreateEnrollmentToken A ?c ttl) w = (r, w1)" by (metis surj_pair)
  with run obtain resp where pos: "0 < ttl" and resp: "r = Inr resp" "w1 = w'" "out = token_lines resp"
    by (auto simp: runGenerateToken_def ttl_def [symmetric] run_simps Let_def split: if_splits sum.splits)
  from r resp(1,2) obtain body where body: "adm_json_CreateToken A \<lparr>CT_TTL = adm_Duration_String A ttl\<rparr> = Some body"
    and post: "run_state (admin_post A ?c (''/'' @ ?p) body (adm_parse_TokenCreated A)) w = (Inr resp, w')"
    by (auto simp: CreateEnrollmentToken_def run_simps split: option.splits)
  have new: "adm_NewRequest A ''POST'' (?base @ ''/'' @ ?p)"
    using post by (auto simp: admin_post_def admin_New_def run_simps split: if_splits)
  have d: "duration_law A (ac_wire cfg) ttl" by (rule law(2) [OF pos])
  have req: "json_CreateToken (ac_wire cfg) body = Some \<lparr>CT_TTL = adm_Duration_String A ttl\<rparr>"
    using law(1) body d by (simp add: admin_json_law_def duration_law_def)
  obtain x w2 where x: "run_state (EnrollmentTokens_Create (ac_lib cfg) ttl (clock w (ticks w))) (w\<lparr>ticks := Suc (ticks w)\<rparr>) = (x, w2)"
    by (metis surj_pair)
  have ans: "run_state (createEnrollmentToken cfg \<lparr>rq_Method = ''POST'', rq_Path = split_on (CHR ''/'') ?p,
      rq_Header = [(''Content-Type'', ''application/json'')], rq_Body = Some body, rq_PeerCertificates = None\<rparr>) w =
    (case x of Inl e \<Rightarrow> writeError (ac_wire cfg) 500 | Inr c \<Rightarrow> writeJSON 201 (json_TokenCreated (ac_wire cfg)
        \<lparr>CTR_TokenID = Cr_TokenID c, CTR_Secret = Secret_Wire (Cr_Secret c), CTR_ExpiresAt = RFC3339Nano (Cr_ExpiresAt c)\<rparr>), w2)"
    using create_token_answer [OF req _ _ pos] d x by (simp add: duration_law_def split: sum.split)
  have c: "adm_baseURL ?c = ?base" "adm_http ?c = admin_network cfg ?base" by (simp_all add: admin_New_def)
  have served: "run_state (NewAdminServer cfg \<lparr>rq_Method = ''POST'', rq_Path = split_on (CHR ''/'') ?p,
      rq_Header = [(''Content-Type'', ''application/json'')], rq_Body = Some body, rq_PeerCertificates = None\<rparr>) w =
    (case x of Inl e \<Rightarrow> writeError (ac_wire cfg) 500 | Inr c \<Rightarrow> writeJSON 201 (json_TokenCreated (ac_wire cfg)
        \<lparr>CTR_TokenID = Cr_TokenID c, CTR_Secret = Secret_Wire (Cr_Secret c), CTR_ExpiresAt = RFC3339Nano (Cr_ExpiresAt c)\<rparr>), w2)"
    using ans by (simp add: NewAdminServer_def routed_def Let_def split_admin_paths)
  note answered = post [unfolded run_admin_post [OF new c] served]
  have "x \<noteq> Inl e" for e using answered by (auto simp: writeError_def writeJSON_def)
  then obtain c where c: "x = Inr c" by (cases x) auto
  have sec: "ascii (Secret_Wire s)" for s
    by (simp add: Secret_Wire_def ascii_RawURL) (simp add: WirePrefix_def ascii_def)
  have "ascii (Cr_TokenID c)" using Create_names x c ids by fastforce
  then have "resp = \<lparr>CTR_TokenID = Cr_TokenID c, CTR_Secret = Secret_Wire (Cr_Secret c), CTR_ExpiresAt = RFC3339Nano (Cr_ExpiresAt c)\<rparr> \<and> w2 = w'"
    using answered law(1) sec ascii_RFC3339Nano by (simp add: c writeJSON_def admin_json_law_def)
  with pos x c resp(3) that show thesis unfolding ttl_def by blast
qed

text \<open>A revocation command that ends well has revoked the SPIFFE ID.\<close>

lemma revoke_answer:
  assumes "json_Revoke (ac_wire cfg) body = Some \<lparr>RQ_SPIFFEID = sp, RQ_Reason = reason\<rparr>" "sp \<noteq> []"
  shows "run_state (createRevocation cfg \<lparr>rq_Method = m, rq_Path = p, rq_Header = h, rq_Body = Some body, rq_PeerCertificates = None\<rparr>) w =
    (case run_state (RevokeSPIFFEID sp reason) w of
      ((new, old, Some e), w') \<Rightarrow> (writeError (ac_wire cfg) (if errors_Is e Identity_ErrNotFound then 404 else 500), w')
    | ((new, old, None), w') \<Rightarrow> (writeJSON 200 (json_Revoked (ac_wire cfg)
        \<lparr>RP_SPIFFEID = sp, RP_RevokedSerials = map RE_SerialHex new, RP_AlreadyRevoked = old\<rparr>), w'))"
  using assms by (simp add: createRevocation_def run_simps split: prod.split option.split)

lemma revoke_Inr:
  assumes run: "run_state (runRevoke A (admin_network cfg (TrimRight (cmd_String cmd ''admin-url'') ''/'')) cmd) w = (Inr out, w')"
    and law: "admin_json_law A (ac_wire cfg)" "ascii (cmd_String cmd ''spiffe-id'')" "ascii (cmd_String cmd ''reason'')"
  obtains new old where
    "run_state (RevokeSPIFFEID (cmd_String cmd ''spiffe-id'') (cmd_String cmd ''reason'')) w = ((new, old, None), w')"
proof -
  let ?base = "TrimRight (cmd_String cmd ''admin-url'') ''/''"
  let ?sp = "cmd_String cmd ''spiffe-id''" and ?reason = "cmd_String cmd ''reason''"
  let ?c = "admin_New (admin_network cfg ?base) (cmd_String cmd ''admin-url'')"
  let ?p = "''admin/v1/revocations''"
  obtain r w1 where r: "run_state (admin_Revoke A ?c ?sp ?reason) w = (r, w1)" by (metis surj_pair)
  with run obtain resp where sp: "?sp \<noteq> []" and resp: "r = Inr resp" "w1 = w'"
    by (auto simp: runRevoke_def run_simps split: if_splits sum.splits)
  from r resp obtain body where body: "adm_json_Revoke A \<lparr>RQ_SPIFFEID = ?sp, RQ_Reason = ?reason\<rparr> = Some body"
    and post: "run_state (admin_post A ?c (''/'' @ ?p) body (adm_parse_Revoked A)) w = (Inr resp, w')"
    by (auto simp: admin_Revoke_def run_simps split: option.splits)
  have new: "adm_NewRequest A ''POST'' (?base @ ''/'' @ ?p)"
    using post by (auto simp: admin_post_def admin_New_def run_simps split: if_splits)
  have req: "json_Revoke (ac_wire cfg) body = Some \<lparr>RQ_SPIFFEID = ?sp, RQ_Reason = ?reason\<rparr>"
    using law body by (simp add: admin_json_law_def)
  obtain ns os err w2 where x: "run_state (RevokeSPIFFEID ?sp ?reason) w = ((ns, os, err), w2)" by (metis surj_pair)
  have c: "adm_baseURL ?c = ?base" "adm_http ?c = admin_network cfg ?base" by (simp_all add: admin_New_def)
  have served: "run_state (NewAdminServer cfg \<lparr>rq_Method = ''POST'', rq_Path = split_on (CHR ''/'') ?p,
      rq_Header = [(''Content-Type'', ''application/json'')], rq_Body = Some body, rq_PeerCertificates = None\<rparr>) w =
    (case err of Some e \<Rightarrow> writeError (ac_wire cfg) (if errors_Is e Identity_ErrNotFound then 404 else 500)
     | None \<Rightarrow> writeJSON 200 (json_Revoked (ac_wire cfg)
        \<lparr>RP_SPIFFEID = ?sp, RP_RevokedSerials = map RE_SerialHex ns, RP_AlreadyRevoked = os\<rparr>), w2)"
    using revoke_answer [OF req sp] x
    by (simp add: NewAdminServer_def routed_def Let_def split_admin_paths split: option.split)
  have "err = None \<and> w2 = w'"
    using post [unfolded run_admin_post [OF new c] served] by (auto simp: writeError_def writeJSON_def split: option.splits if_splits)
  with x that show thesis by simp
qed

lemma RevokeSPIFFEID_ldi:
  "run_state (RevokeSPIFFEID sp reason) w = ((new, old, None), w') \<Longrightarrow> \<exists>l\<in>set (ldis (tabs w)). l_spiffe_id l = sp"
proof -
  assume run: "run_state (RevokeSPIFFEID sp reason) w = ((new, old, None), w')"
  obtain g w1 where g: "run_state (GetLDIBySPIFFEID sp) w = (g, w1)" by (metis surj_pair)
  with run obtain ldi where "g = Inr ldi" by (cases g) (auto simp: RevokeSPIFFEID_def run_simps)
  with g show ?thesis using GetLDIBySPIFFEID_Inr by metis
qed

end
