(* ===== verification/MIS_Operator_Properties.thy ===== *)
theory MIS_Operator_Properties
  imports MIS_Admin MIS_Server_Example MIS_Store_Properties
begin

text \<open>
  Properties of the parts an operator sets up: the commands over the admin interface, with the
  server they talk to, and the two issuer backends.
\<close>

section \<open>The commands of the operator\<close>

text \<open>
  C15: The commands of an operator against the admin server, over a working database and a
  faithful network. A token command that ends well prints a token that works: its secret parses,
  and consuming the secret gives the printed identifier at every time before the printed expiry
  and is refused as expired from then on. A revocation command that ends well has ended the
  identity, and every serial number outstanding for it is on the revocation list.
\<close>

theorem operator_commands:
  assumes w: "no_faults w" "store_inv (tabs w)" "\<And>n. ascii (uuids w n)"
    and law: "admin_json_law A (ac_wire cfg)" "\<And>d. 0 < d \<Longrightarrow> duration_law A (ac_wire cfg) d"
    and net: "net = admin_network cfg (TrimRight (cmd_String cmd ''admin-url'') ''/'')"
    and args: "ascii (cmd_String cmd ''spiffe-id'')" "ascii (cmd_String cmd ''reason'')"
  shows "(\<forall>out w'. run_state (runGenerateToken A net cmd) w = (Inr out, w') \<longrightarrow>
      (\<exists>c :: Created. out = token_lines \<lparr>CTR_TokenID = Cr_TokenID c, CTR_Secret = Secret_Wire (Cr_Secret c), CTR_ExpiresAt = RFC3339Nano (Cr_ExpiresAt c)\<rparr> \<and>
        Cr_ExpiresAt c = clock w (ticks w) + requested_ttl cmd \<and> 0 < requested_ttl cmd \<and> ParseSecret (Secret_Wire (Cr_Secret c)) = Inr (Cr_Secret c) \<and>
        (four_digit_year (Cr_ExpiresAt c) \<longrightarrow> (\<forall>at. fst (run_state (EnrollmentTokens_Consume (Secret_Hash (ac_lib cfg) (Cr_Secret c)) at) w') =
          (if at < Cr_ExpiresAt c then Inr (Cr_TokenID c) else Inl [Tokens_ErrExpired]))))) \<and>
    (\<forall>out w'. run_state (runRevoke A net cmd) w = (Inr out, w') \<longrightarrow>
      spiffe_ended (cmd_String cmd ''spiffe-id'') (tabs w') \<and>
      (\<forall>r\<in>set (issued_svids (tabs w)). svid_active (cmd_String cmd ''spiffe-id'') (RFC3339Nano (clock w (ticks w))) r \<longrightarrow>
        on_revocation_list (s_serial_hex r) (tabs w')))"
proof (intro conjI allI impI)
  fix out w'
  assume "run_state (runGenerateToken A net cmd) w = (Inr out, w')"
  then obtain c where ttl: "0 < requested_ttl cmd"
    and run: "run_state (EnrollmentTokens_Create (ac_lib cfg) (requested_ttl cmd) (clock w (ticks w))) (w\<lparr>ticks := Suc (ticks w)\<rparr>) = (Inr c, w')"
    and out: "out = token_lines \<lparr>CTR_TokenID = Cr_TokenID c, CTR_Secret = Secret_Wire (Cr_Secret c), CTR_ExpiresAt = RFC3339Nano (Cr_ExpiresAt c)\<rparr>"
    using generate_token_Inr [where cmd = cmd and w = w and out = out and w' = w', OF _ law w(3)] unfolding net by blast
  have nf: "no_faults (w\<lparr>ticks := Suc (ticks w)\<rparr>)" using w(1) by (simp add: no_faults_def)
  note c = Create_Inr [OF run]
  show "\<exists>c :: Created. out = token_lines \<lparr>CTR_TokenID = Cr_TokenID c, CTR_Secret = Secret_Wire (Cr_Secret c), CTR_ExpiresAt = RFC3339Nano (Cr_ExpiresAt c)\<rparr> \<and>
      Cr_ExpiresAt c = clock w (ticks w) + requested_ttl cmd \<and> 0 < requested_ttl cmd \<and> ParseSecret (Secret_Wire (Cr_Secret c)) = Inr (Cr_Secret c) \<and>
      (four_digit_year (Cr_ExpiresAt c) \<longrightarrow> (\<forall>at. fst (run_state (EnrollmentTokens_Consume (Secret_Hash (ac_lib cfg) (Cr_Secret c)) at) w') =
        (if at < Cr_ExpiresAt c then Inr (Cr_TokenID c) else Inl [Tokens_ErrExpired])))"
    using ttl c(2) out ParseSecret_Wire [OF c(1)] created_token_usable [OF run nf] by - (rule exI [of _ c], simp)
next
  fix out w'
  assume "run_state (runRevoke A net cmd) w = (Inr out, w')"
  then obtain new old where run: "run_state (RevokeSPIFFEID (cmd_String cmd ''spiffe-id'') (cmd_String cmd ''reason'')) w = ((new, old, None), w')"
    using revoke_Inr [where w = w and out = out and w' = w', OF _ law(1) args] unfolding net by blast
  then obtain l where "l \<in> set (ldis (tabs w))" "l_spiffe_id l = cmd_String cmd ''spiffe-id''" using RevokeSPIFFEID_ldi by blast
  note fin = RevokeSPIFFEID_complete [OF w(2,1) this run]
  then show "spiffe_ended (cmd_String cmd ''spiffe-id'') (tabs w')"
    "\<forall>r\<in>set (issued_svids (tabs w)). svid_active (cmd_String cmd ''spiffe-id'') (RFC3339Nano (clock w (ticks w))) r \<longrightarrow>
      on_revocation_list (s_serial_hex r) (tabs w')"
    by blast+
qed

text \<open>An operator in front of the example server, with times to live in unary nanoseconds.\<close>

definition ex_admin :: adminlib where
  "ex_admin = \<lparr>adm_Duration_String = (\<lambda>d. replicate (nat d) (CHR ''n'')), adm_json_CreateToken = (\<lambda>r. Some (CT_TTL r)),
     adm_json_CreateTicket = (\<lambda>r. None),
     adm_json_Revoke = (\<lambda>r. Some (ex_put [RQ_SPIFFEID r, RQ_Reason r])),
     adm_parse_TokenCreated = (\<lambda>b. case ex_take (length b) b of
        [i, s, e] \<Rightarrow> Some \<lparr>CTR_TokenID = i, CTR_Secret = s, CTR_ExpiresAt = e\<rparr> | _ \<Rightarrow> None),
     adm_parse_TicketCreated = (\<lambda>b. None),
     adm_parse_Revoked = (\<lambda>b. Some \<lparr>RP_SPIFFEID = [], RP_RevokedSerials = ex_take (length b) b, RP_AlreadyRevoked = []\<rparr>),
     adm_NewRequest = (\<lambda>m u. True)\<rparr>"

definition ex_admin_config :: AdminConfig where
  "ex_admin_config = \<lparr>ac_lib = ex_lib,
     ac_wire = ex_wire\<lparr>json_CreateToken := (\<lambda>b. Some \<lparr>CT_TTL = b\<rparr>), time_ParseDuration := (\<lambda>s. Some (int (length s))),
       json_Revoke := (\<lambda>b. case ex_take (length b) b of [s, r] \<Rightarrow> Some \<lparr>RQ_SPIFFEID = s, RQ_Reason = r\<rparr> | _ \<Rightarrow> None)\<rparr>,
     ac_DefaultTokenTTL = Hour\<rparr>"

definition ex_cmd :: cli_flags where
  "ex_cmd = \<lparr>cmd_String = (\<lambda>f. if f = ''admin-url'' then ''http://a/'' else if f = ''spiffe-id'' then ''spiffe://td/margo/device/u'' else ''lost''),
     cmd_StringSlice = (\<lambda>f. []), cmd_Bool = (\<lambda>f. False), cmd_Int = (\<lambda>f. 0), cmd_Duration = (\<lambda>f. if f = ''ttl'' then 2 else 0)\<rparr>"

lemma ex_admin_laws:
  "admin_json_law ex_admin (ac_wire ex_admin_config)" "0 < d \<Longrightarrow> duration_law ex_admin (ac_wire ex_admin_config) d"
proof -
  have put: "ex_take (length (ex_put xs)) (ex_put xs) = xs" for xs by (simp add: ex_take_put length_ex_put)
  show "admin_json_law ex_admin (ac_wire ex_admin_config)"
    by (simp add: admin_json_law_def ex_admin_def ex_admin_config_def ex_wire_def put)
  show "0 < d \<Longrightarrow> duration_law ex_admin (ac_wire ex_admin_config) d"
    by (simp add: duration_law_def ex_admin_def ex_admin_config_def) (simp add: ascii_def list_all_iff)
qed

lemma ex_generate:
  "\<exists>out w'. run_state (runGenerateToken ex_admin (admin_network ex_admin_config ''http://a'') ex_cmd) ex_enrolled = (Inr out, w')"
proof -
  have u: "TrimRight ''http://a/'' ''/'' = ''http://a''" by code_simp
  have put: "ex_take (length (ex_put xs)) (ex_put xs) = xs" for xs by (simp add: ex_take_put length_ex_put)
  show ?thesis
    by (simp add: runGenerateToken_def requested_ttl_def CreateEnrollmentToken_def admin_New_def admin_post_def admin_network_def
        u ex_admin_def ex_cmd_def HasPrefix_def ex_admin_config_def server_defs put run_simps Let_def writeJSON_def
        ex_enrolled_eq empty_tables_def ex_world_def numeral_2_eq_2)
qed

lemma ex_enrolled_ok: "no_faults ex_enrolled" "store_inv (tabs ex_enrolled)" "ascii (uuids ex_enrolled n)"
proof -
  show "no_faults ex_enrolled" by (simp add: no_faults_def ex_enrolled_eq)
  show "store_inv (tabs ex_enrolled)" by (rule system_store.reachable_keeps [OF reachable_ex_enrolled store_inv_empty])
  show "ascii (uuids ex_enrolled n)" by (simp add: ex_enrolled_eq ex_world_def ascii_def list_all_iff)
qed

lemma ex_revoke:
  "\<exists>out w'. run_state (runRevoke ex_admin (admin_network ex_admin_config ''http://a'') ex_cmd) ex_enrolled = (Inr out, w')"
proof -
  have u: "TrimRight ''http://a/'' ''/'' = ''http://a''" by code_simp
  have put: "ex_take (length (ex_put xs)) (ex_put xs) = xs" for xs by (simp add: ex_take_put length_ex_put)
  obtain new old err w' where r: "run_state (RevokeSPIFFEID ''spiffe://td/margo/device/u'' ''lost'') ex_enrolled = ((new, old, err), w')"
    by (metis surj_pair)
  have "ex_ldi \<in> set (ldis (tabs ex_enrolled))" "l_spiffe_id ex_ldi = ''spiffe://td/margo/device/u''"
    by (simp_all add: ex_enrolled_tables)
  from RevokeSPIFFEID_complete [OF ex_enrolled_ok(2,1) this r] have "err = None" by simp
  with r show ?thesis
    by (simp add: runRevoke_def admin_Revoke_def admin_New_def admin_post_def admin_network_def createRevocation_def
        u ex_admin_def ex_cmd_def HasPrefix_def ex_admin_config_def server_defs put run_simps Let_def writeJSON_def)
qed

theorem operator_commands_witness:
  "(\<exists>c :: Created. \<exists>out w'. run_state (runGenerateToken ex_admin (admin_network ex_admin_config ''http://a'') ex_cmd) ex_enrolled = (Inr out, w') \<and>
      out = token_lines \<lparr>CTR_TokenID = Cr_TokenID c, CTR_Secret = Secret_Wire (Cr_Secret c), CTR_ExpiresAt = RFC3339Nano (Cr_ExpiresAt c)\<rparr> \<and>
      fst (run_state (EnrollmentTokens_Consume (Secret_Hash ex_lib (Cr_Secret c)) 0) w') = Inr (Cr_TokenID c)) \<and>
   (\<exists>out w'. run_state (runRevoke ex_admin (admin_network ex_admin_config ''http://a'') ex_cmd) ex_enrolled = (Inr out, w') \<and>
      spiffe_ended ''spiffe://td/margo/device/u'' (tabs w'))"
proof -
  have net: "admin_network ex_admin_config ''http://a'' =
    admin_network ex_admin_config (TrimRight (cmd_String ex_cmd ''admin-url'') ''/'')"
  proof -
    have "TrimRight ''http://a/'' ''/'' = ''http://a''" by code_simp
    then show ?thesis by (simp add: ex_cmd_def)
  qed
  have args: "ascii (cmd_String ex_cmd ''spiffe-id'')" "ascii (cmd_String ex_cmd ''reason'')"
    by (simp_all add: ex_cmd_def ascii_def)
  note ops = operator_commands [OF ex_enrolled_ok ex_admin_laws net args]
  have year: "four_digit_year (clock ex_enrolled (ticks ex_enrolled) + requested_ttl ex_cmd)"
    by (simp add: ex_enrolled_eq ex_world_def ex_cmd_def requested_ttl_def) code_simp
  have later: "0 < clock ex_enrolled (ticks ex_enrolled) + requested_ttl ex_cmd"
    by (simp add: ex_enrolled_eq ex_world_def ex_cmd_def requested_ttl_def unix_epoch_def Second_def)
  obtain out w' where gen: "run_state (runGenerateToken ex_admin (admin_network ex_admin_config ''http://a'') ex_cmd) ex_enrolled = (Inr out, w')"
    using ex_generate by blast
  obtain out2 w2 where rev: "run_state (runRevoke ex_admin (admin_network ex_admin_config ''http://a'') ex_cmd) ex_enrolled = (Inr out2, w2)"
    using ex_revoke by blast
  have "spiffe_ended ''spiffe://td/margo/device/u'' (tabs w2)" using ops rev by (simp add: ex_cmd_def)
  moreover have "ac_lib ex_admin_config = ex_lib" by (simp add: ex_admin_config_def)
  ultimately show ?thesis using ops gen rev year later by metis
qed

section \<open>The issuer backends\<close>





end
