(* ===== verification/WFM_State.thy ===== *)
theory WFM_State
  imports Go_HTTP "HOL-Library.Word"
begin

text \<open>
  The workload fleet manager: the descriptor and response types of \<^verbatim>\<open>pkg/common\<close>, the
  domain types, the tables of \<^verbatim>\<open>schema.sql\<close> and the statements of
  \<^verbatim>\<open>sqlitedb/db/query.sql.go\<close> on them, with the primary keys and the foreign keys the
  connection hook switches on.

  As for the identity service, what comes from outside is part of the state: the identifiers
  that \<^verbatim>\<open>uuid.New\<close> draws and whether the database fails each statement in turn. The
  libraries for YAML, validation, tar, gzip, JSON and SHA-256 are the record \<open>wfmlib\<close>.
\<close>

section \<open>Types of package common\<close>

record ApplicationAnnotations =
  ApplicationId :: string
  AA_Id :: string

record ApplicationMetadata =
  Annotations :: ApplicationAnnotations
  Name :: string
  Namespace :: string

record DeploymentComponent =
  DC_Name :: string
  DC_Properties :: "string \<rightharpoonup> string"

record DeploymentProfile =
  DP_Type :: string
  DP_Components :: "DeploymentComponent list"

record ApplicationParamTarget =
  PT_Pointer :: string
  PT_Components :: "string list"

record ApplicationParam =
  AP_Value :: string
  AP_Targets :: "ApplicationParamTarget list"

record ApplicationSpec =
  AS_DeploymentProfile :: DeploymentProfile
  AS_Parameters :: "string \<rightharpoonup> ApplicationParam"

record ApplicationDeploymentDescriptor =
  ApiVersion :: string
  Kind :: string
  Metadata :: ApplicationMetadata
  Spec :: ApplicationSpec

record BundleDTO =
  BD_MediaType :: string
  BD_Digest :: string
  BD_URL :: string

record DeploymentDTO =
  DD_DeploymentId :: string
  DD_Digest :: string
  DD_URL :: string

record GetDeploymentManifestResponse =
  GR_ManifestVersion :: "64 word"
  GR_Bundle :: "BundleDTO option"
  GR_Deployments :: "DeploymentDTO list"

section \<open>Types of package domain\<close>

record ApplicationDeployment =
  AD_Id :: string
  Descriptor :: bytes
  DescriptorDigest :: string

record ApplicationDeploymentManifest =
  Version :: "64 word"
  BundleArchive :: bytes
  BundleDigest :: string
  Deployments :: "ApplicationDeployment list"

section \<open>Libraries\<close>

record tar_header =
  th_Name :: string
  th_Size :: int
  th_IsDir :: bool

text \<open>
  A tar reader yields an entry (its content \<open>None\<close> when reading it fails), the end, or an
  error that ends the reading.
\<close>

datatype tar_stream = TarEOF | TarError | TarEntry tar_header "bytes option" tar_stream

record wfmlib =
  wl_sha256 :: "bytes \<Rightarrow> bytes"
  yaml_Unmarshal :: "bytes \<Rightarrow> ApplicationDeploymentDescriptor option"
  yaml_Marshal :: "ApplicationDeploymentDescriptor \<Rightarrow> bytes option"
  validate_Struct :: "ApplicationDeploymentDescriptor \<Rightarrow> bool"
  tar_WriteHeader :: "tar_header \<Rightarrow> bool"
  tar_gzip :: "(tar_header \<times> bytes) list \<Rightarrow> bytes option"
  gzip_untar :: "bytes \<Rightarrow> tar_stream option"
  json_Marshal :: "GetDeploymentManifestResponse \<Rightarrow> bytes option"
  json_Unmarshal :: "bytes \<Rightarrow> GetDeploymentManifestResponse option"

definition CalculateDigest :: "wfmlib \<Rightarrow> bytes \<Rightarrow> string" where
  "CalculateDigest L descriptor = ''sha256:'' @ hex_EncodeToString (wl_sha256 L descriptor)"

lemma CalculateDigest_not_Nil [simp]: "CalculateDigest L b \<noteq> []" "[] \<noteq> CalculateDigest L b"
  by (simp_all add: CalculateDigest_def)

section \<open>Tables\<close>

record deployment_row =
  d_id :: string
  d_descriptor_digest :: string
  d_device_id :: string

record manifest_row =
  mf_device_id :: string
  mf_version :: int
  mf_bundle_digest :: "string option"

record blob_row =
  bl_digest :: string
  bl_content :: bytes

record wfm_tables =
  devices :: "string list"
  application_deployments :: "deployment_row list"
  application_deployment_manifests :: "manifest_row list"
  deployment_blobs :: "blob_row list"
  bundle_blobs :: "blob_row list"

text \<open>\<^verbatim>\<open>Migrate\<close> on a fresh file: empty tables and the seeded device.\<close>

definition migrated :: wfm_tables where
  "migrated = \<lparr>devices = [''c92cb339-c99c-4eca-9dd4-f8484dd16cfb''], application_deployments = [],
     application_deployment_manifests = [], deployment_blobs = [], bundle_blobs = []\<rparr>"

record wfm =
  wf_tabs :: wfm_tables
  wf_uuids :: "nat \<Rightarrow> string"
  wf_draws :: nat
  wf_faults :: "nat \<Rightarrow> bool"
  wf_stmts :: nat

type_synonym 'a wprog = "(wfm, 'a) state"

section \<open>Effects\<close>

definition wfm_uuid :: "string wprog" where
  "wfm_uuid = State (\<lambda>w. (wf_uuids w (wf_draws w), w\<lparr>wf_draws := Suc (wf_draws w)\<rparr>))"

definition exec :: "(wfm_tables \<Rightarrow> 'a result \<times> wfm_tables) \<Rightarrow> 'a result wprog" where
  "exec f = State (\<lambda>w.
     if wf_faults w (wf_stmts w) then (Inl [DB_Fault], w\<lparr>wf_stmts := Suc (wf_stmts w)\<rparr>)
     else (fst (f (wf_tabs w)), w\<lparr>wf_tabs := snd (f (wf_tabs w)), wf_stmts := Suc (wf_stmts w)\<rparr>))"

definition query :: "(wfm_tables \<Rightarrow> 'a) \<Rightarrow> 'a result wprog" where
  "query q = exec (\<lambda>t. (Inr (q t), t))"

text \<open>
  \<^verbatim>\<open>x, err := f(); if err != nil { return errors.Join(ErrInternal, err) }\<close> and the form
  that returns the error as it is.
\<close>

definition or_internal :: "'a result wprog \<Rightarrow> ('a \<Rightarrow> 'b result wprog) \<Rightarrow> 'b result wprog" where
  "or_internal m f = do { r \<leftarrow> m; case r of Inl e \<Rightarrow> State_Monad.return (Inl (ErrInternal # e)) | Inr x \<Rightarrow> f x }"

definition or_return :: "'a result wprog \<Rightarrow> ('a \<Rightarrow> 'b result wprog) \<Rightarrow> 'b result wprog" where
  "or_return m f = do { r \<leftarrow> m; case r of Inl e \<Rightarrow> State_Monad.return (Inl e) | Inr x \<Rightarrow> f x }"

text \<open>
  \<^verbatim>\<open>BeginTransaction\<close>, the deferred rollback on an error, and the commit at the end, which
  every method of the repository has around its body.
\<close>

definition rolled_back :: "'a result wprog \<Rightarrow> 'a result wprog" where
  "rolled_back m = State (\<lambda>w. case run_state m w of
     (Inl e, w') \<Rightarrow> (Inl e, w'\<lparr>wf_tabs := wf_tabs w\<rparr>) | (Inr x, w') \<Rightarrow> (Inr x, w'))"

definition with_tx :: "'a result wprog \<Rightarrow> 'a result wprog" where
  "with_tx body = or_internal (query (\<lambda>_. ())) (\<lambda>_. rolled_back (or_return body (\<lambda>x.
     or_internal (query (\<lambda>_. ())) (\<lambda>_. State_Monad.return (Inr x)))))"

section \<open>Statements\<close>

definition blob_by_digest :: "string \<Rightarrow> blob_row list \<Rightarrow> blob_row option" where
  "blob_by_digest dg bs = find (\<lambda>b. bl_digest b = dg) bs"

definition insert_blob :: "string \<Rightarrow> bytes \<Rightarrow> blob_row list \<Rightarrow> blob_row list" where
  "insert_blob dg c bs = (if dg \<in> bl_digest ` set bs then bs else bs @ [\<lparr>bl_digest = dg, bl_content = c\<rparr>])"

definition GetDeviceId :: "string \<Rightarrow> string option result wprog" where
  "GetDeviceId i = query (\<lambda>t. if i \<in> set (devices t) then Some i else None)"

definition deployments_of :: "string \<Rightarrow> wfm_tables \<Rightarrow> deployment_row list" where
  "deployments_of dev t = sort_key d_id (filter (\<lambda>r. d_device_id r = dev) (application_deployments t))"

definition join_blob :: "wfm_tables \<Rightarrow> deployment_row \<Rightarrow> (deployment_row \<times> bytes) option" where
  "join_blob t r = map_option (\<lambda>b. (r, bl_content b)) (blob_by_digest (d_descriptor_digest r) (deployment_blobs t))"

definition GetDeploymentsByDeviceId :: "string \<Rightarrow> (deployment_row \<times> bytes) list result wprog" where
  "GetDeploymentsByDeviceId dev = query (\<lambda>t. List.map_filter (join_blob t) (deployments_of dev t))"

definition GetDeploymentByIdAndDigest ::
  "string \<Rightarrow> string \<Rightarrow> string \<Rightarrow> (deployment_row \<times> bytes) option result wprog" where
  "GetDeploymentByIdAndDigest dev i dg = query (\<lambda>t.
     case List.map_filter (join_blob t) (filter (\<lambda>r. d_device_id r = dev \<and> d_id r = i \<and> d_descriptor_digest r = dg)
       (application_deployments t)) of [] \<Rightarrow> None | x # _ \<Rightarrow> Some x)"

definition upsert_row :: "deployment_row \<Rightarrow> deployment_row list \<Rightarrow> deployment_row list" where
  "upsert_row r rows =
     (if \<exists>q\<in>set rows. d_device_id q = d_device_id r \<and> d_id q = d_id r
      then map (\<lambda>q. if d_device_id q = d_device_id r \<and> d_id q = d_id r
        then q\<lparr>d_descriptor_digest := d_descriptor_digest r\<rparr> else q) rows
      else rows @ [r])"

definition upsert_deployment :: "deployment_row \<Rightarrow> wfm_tables \<Rightarrow> unit result \<times> wfm_tables" where
  "upsert_deployment r t =
     (if d_device_id r \<notin> set (devices t) \<or> d_descriptor_digest r \<notin> bl_digest ` set (deployment_blobs t)
      then (Inl [DB_ForeignKeyViolation], t)
      else (Inr (), t\<lparr>application_deployments := upsert_row r (application_deployments t)\<rparr>))"

definition UpsertDeployment :: "deployment_row \<Rightarrow> unit result wprog" where
  "UpsertDeployment r = exec (upsert_deployment r)"

definition delete_deployment :: "string \<Rightarrow> string \<Rightarrow> wfm_tables \<Rightarrow> unit result \<times> wfm_tables" where
  "delete_deployment dev i t = (Inr (), t\<lparr>application_deployments :=
     filter (\<lambda>q. \<not> (d_device_id q = dev \<and> d_id q = i)) (application_deployments t)\<rparr>)"

definition DeleteDeployment_stmt :: "string \<Rightarrow> string \<Rightarrow> unit result wprog" where
  "DeleteDeployment_stmt dev i = exec (delete_deployment dev i)"

definition manifest_of :: "string \<Rightarrow> wfm_tables \<Rightarrow> manifest_row option" where
  "manifest_of dev t = find (\<lambda>m. mf_device_id m = dev) (application_deployment_manifests t)"

definition GetManifestByDeviceId :: "string \<Rightarrow> manifest_row option result wprog" where
  "GetManifestByDeviceId dev = query (manifest_of dev)"

definition upsert_manifest_row :: "manifest_row \<Rightarrow> manifest_row list \<Rightarrow> manifest_row list" where
  "upsert_manifest_row m ms =
     (if mf_device_id m \<in> mf_device_id ` set ms then map (\<lambda>q. if mf_device_id q = mf_device_id m then m else q) ms
      else ms @ [m])"

definition upsert_manifest :: "manifest_row \<Rightarrow> wfm_tables \<Rightarrow> unit result \<times> wfm_tables" where
  "upsert_manifest m t =
     (if mf_device_id m \<notin> set (devices t) \<or>
         (case mf_bundle_digest m of None \<Rightarrow> False | Some dg \<Rightarrow> dg \<notin> bl_digest ` set (bundle_blobs t))
      then (Inl [DB_ForeignKeyViolation], t)
      else (Inr (), t\<lparr>application_deployment_manifests := upsert_manifest_row m (application_deployment_manifests t)\<rparr>))"

definition UpsertManifest :: "manifest_row \<Rightarrow> unit result wprog" where
  "UpsertManifest m = exec (upsert_manifest m)"

definition InsertDeploymentBlob :: "string \<Rightarrow> bytes \<Rightarrow> unit result wprog" where
  "InsertDeploymentBlob dg c = exec (\<lambda>t. (Inr (), t\<lparr>deployment_blobs := insert_blob dg c (deployment_blobs t)\<rparr>))"

definition GetDeploymentBlobByDigest :: "string \<Rightarrow> blob_row option result wprog" where
  "GetDeploymentBlobByDigest dg = query (\<lambda>t. blob_by_digest dg (deployment_blobs t))"

definition InsertBundleBlob :: "string \<Rightarrow> bytes \<Rightarrow> unit result wprog" where
  "InsertBundleBlob dg c = exec (\<lambda>t. (Inr (), t\<lparr>bundle_blobs := insert_blob dg c (bundle_blobs t)\<rparr>))"

definition GetBundleBlobByDigest :: "string \<Rightarrow> blob_row option result wprog" where
  "GetBundleBlobByDigest dg = query (\<lambda>t. blob_by_digest dg (bundle_blobs t))"

section \<open>Running effects\<close>

lemma run_exec [run_simps]:
  "run_state (exec f) w =
    (if wf_faults w (wf_stmts w) then (Inl [DB_Fault], w\<lparr>wf_stmts := Suc (wf_stmts w)\<rparr>)
     else (fst (f (wf_tabs w)), w\<lparr>wf_tabs := snd (f (wf_tabs w)), wf_stmts := Suc (wf_stmts w)\<rparr>))"
  by (simp add: exec_def)

lemma run_query [run_simps]:
  "run_state (query q) w =
    (if wf_faults w (wf_stmts w) then Inl [DB_Fault] else Inr (q (wf_tabs w)), w\<lparr>wf_stmts := Suc (wf_stmts w)\<rparr>)"
  by (simp add: query_def run_exec)

lemma run_wfm_uuid [run_simps]:
  "run_state wfm_uuid w = (wf_uuids w (wf_draws w), w\<lparr>wf_draws := Suc (wf_draws w)\<rparr>)"
  by (simp add: wfm_uuid_def)

text \<open>A program succeeds through the successes of its parts.\<close>

lemma or_internal_Inr:
  "run_state (or_internal m f) w = (Inr y, w') \<longleftrightarrow>
    (\<exists>x v. run_state m w = (Inr x, v) \<and> run_state (f x) v = (Inr y, w'))"
  by (auto simp: or_internal_def split: prod.splits sum.splits)

lemma or_return_Inr:
  "run_state (or_return m f) w = (Inr y, w') \<longleftrightarrow>
    (\<exists>x v. run_state m w = (Inr x, v) \<and> run_state (f x) v = (Inr y, w'))"
  by (auto simp: or_return_def split: prod.splits sum.splits)

lemma rolled_back_Inr: "run_state (rolled_back m) w = (Inr x, w') \<longleftrightarrow> run_state m w = (Inr x, w')"
  by (auto simp: rolled_back_def split: prod.splits sum.splits)

lemma exec_Inr:
  "run_state (exec f) w = (Inr x, w') \<longleftrightarrow> \<not> wf_faults w (wf_stmts w) \<and> fst (f (wf_tabs w)) = Inr x \<and>
    w' = w\<lparr>wf_tabs := snd (f (wf_tabs w)), wf_stmts := Suc (wf_stmts w)\<rparr>"
  by (auto simp: run_exec)

lemma query_Inr:
  "run_state (query q) w = (Inr x, w') \<longleftrightarrow> \<not> wf_faults w (wf_stmts w) \<and> q (wf_tabs w) = x \<and>
    w' = w\<lparr>wf_stmts := Suc (wf_stmts w)\<rparr>"
  by (auto simp: run_query)

lemmas success_simps = or_internal_Inr or_return_Inr rolled_back_Inr exec_Inr query_Inr

text \<open>An unsuccessful transaction leaves no trace in the tables; a successful one is its body.\<close>

lemma with_tx_Inl: "run_state (with_tx m) w = (Inl e, w') \<Longrightarrow> wf_tabs w' = wf_tabs w"
  by (auto simp: with_tx_def or_internal_def rolled_back_def run_query split: if_splits prod.splits sum.splits)

lemma with_tx_Inr:
  assumes "run_state (with_tx m) w = (Inr x, w')"
  obtains u v where "run_state m (w\<lparr>wf_stmts := u\<rparr>) = (Inr x, v)" "w' = v\<lparr>wf_stmts := Suc (wf_stmts v)\<rparr>"
  using assms by (auto simp: with_tx_def success_simps)

end
