(* ===== verification/WFM_Service.thy ===== *)
theory WFM_Service
  imports WFM_State
begin

text \<open>
  The repository \<^verbatim>\<open>sqlitedb/repository/deployment.go\<close> and the service
  \<^verbatim>\<open>core/service/deployment.go\<close> of the workload fleet manager, method by method. The
  callback that \<^verbatim>\<open>UpsertDeployments\<close> applies to the loaded manifest is a function from the
  manifest to an error or the changed manifest.
\<close>

section \<open>The repository\<close>

definition ensureDeviceExists :: "string \<Rightarrow> unit result wprog" where
  "ensureDeviceExists dev = or_internal (GetDeviceId dev) (\<lambda>r.
     State_Monad.return (case r of None \<Rightarrow> Inl [ErrDeviceNotFound] | Some _ \<Rightarrow> Inr ()))"

definition deployment_of_row :: "deployment_row \<times> bytes \<Rightarrow> ApplicationDeployment" where
  "deployment_of_row p = \<lparr>AD_Id = d_id (fst p), Descriptor = snd p, DescriptorDigest = d_descriptor_digest (fst p)\<rparr>"

definition loadManifestWithDeployments :: "string \<Rightarrow> ApplicationDeploymentManifest result wprog" where
  "loadManifestWithDeployments dev = or_internal (GetManifestByDeviceId dev) (\<lambda>r.
     case r of
       None \<Rightarrow> State_Monad.return (Inl [ErrManifestNotFound])
     | Some m \<Rightarrow> or_internal (GetDeploymentsByDeviceId dev) (\<lambda>rows.
         State_Monad.return (Inr \<lparr>Version = word_of_int (mf_version m), BundleArchive = [],
           BundleDigest = (case mf_bundle_digest m of None \<Rightarrow> [] | Some dg \<Rightarrow> dg),
           Deployments = map deployment_of_row rows\<rparr>)))"

definition empty_manifest :: ApplicationDeploymentManifest where
  "empty_manifest = \<lparr>Version = 1, BundleArchive = [], BundleDigest = [], Deployments = []\<rparr>"

text \<open>The loaded manifest, or the empty one at version 1 when the device has none yet.\<close>

definition load_or_empty :: "string \<Rightarrow> ApplicationDeploymentManifest result wprog" where
  "load_or_empty dev = do {
     r \<leftarrow> loadManifestWithDeployments dev;
     State_Monad.return (case r of
       Inl e \<Rightarrow> if errors_Is e ErrManifestNotFound then Inr empty_manifest else Inl e
     | Inr m \<Rightarrow> Inr m) }"

primrec delete_missing :: "string \<Rightarrow> string list \<Rightarrow> unit result wprog" where
  "delete_missing dev [] = State_Monad.return (Inr ())"
| "delete_missing dev (i # is) = or_internal (DeleteDeployment_stmt dev i) (\<lambda>_. delete_missing dev is)"

primrec persist_deployments :: "string \<Rightarrow> ApplicationDeployment list \<Rightarrow> unit result wprog" where
  "persist_deployments dev [] = State_Monad.return (Inr ())"
| "persist_deployments dev (d # ds) =
     or_internal (InsertDeploymentBlob (DescriptorDigest d) (Descriptor d)) (\<lambda>_.
     or_internal (UpsertDeployment \<lparr>d_id = AD_Id d, d_descriptor_digest = DescriptorDigest d, d_device_id = dev\<rparr>) (\<lambda>_.
     persist_deployments dev ds))"

text \<open>The row of a changed manifest: the version goes to the database as a signed integer.\<close>

definition manifest_row_of :: "string \<Rightarrow> ApplicationDeploymentManifest \<Rightarrow> manifest_row" where
  "manifest_row_of dev m = \<lparr>mf_device_id = dev, mf_version = sint (Version m),
     mf_bundle_digest = (if BundleDigest m = [] then None else Some (BundleDigest m))\<rparr>"

text \<open>The writes of \<^verbatim>\<open>UpsertDeployments\<close> once the callback has changed the manifest.\<close>

definition save_manifest ::
  "string \<Rightarrow> ApplicationDeploymentManifest \<Rightarrow> ApplicationDeploymentManifest \<Rightarrow> unit result wprog" where
  "save_manifest dev original m =
     or_return (delete_missing dev (filter (\<lambda>i. i \<notin> AD_Id ` set (Deployments m)) (map AD_Id (Deployments original)))) (\<lambda>_.
     or_internal (if BundleArchive m \<noteq> [] \<and> BundleDigest m \<noteq> []
        then InsertBundleBlob (BundleDigest m) (BundleArchive m) else State_Monad.return (Inr ())) (\<lambda>_.
     or_internal (UpsertManifest (manifest_row_of dev m)) (\<lambda>_.
     persist_deployments dev (Deployments m))))"

definition UpsertDeployments ::
  "string \<Rightarrow> (ApplicationDeploymentManifest \<Rightarrow> ApplicationDeploymentManifest result) \<Rightarrow> unit result wprog" where
  "UpsertDeployments dev updateFn = with_tx (
     or_return (ensureDeviceExists dev) (\<lambda>_.
     or_return (load_or_empty dev) (\<lambda>manifest.
     case updateFn manifest of
       Inl e \<Rightarrow> State_Monad.return (Inl (ErrInternal # e))
     | Inr m \<Rightarrow> save_manifest dev manifest m)))"

definition Repo_GetDeploymentManifest :: "string \<Rightarrow> ApplicationDeploymentManifest result wprog" where
  "Repo_GetDeploymentManifest dev = with_tx (
     or_return (ensureDeviceExists dev) (\<lambda>_. loadManifestWithDeployments dev))"

definition Repo_GetDeployment :: "string \<Rightarrow> string \<Rightarrow> string \<Rightarrow> ApplicationDeployment result wprog" where
  "Repo_GetDeployment dev i dg = with_tx (
     or_return (ensureDeviceExists dev) (\<lambda>_.
     or_internal (GetDeploymentBlobByDigest dg) (\<lambda>r.
     State_Monad.return (case r of
       None \<Rightarrow> Inl [ErrDeploymentNotFound]
     | Some b \<Rightarrow> Inr \<lparr>AD_Id = i, Descriptor = bl_content b, DescriptorDigest = bl_digest b\<rparr>))))"

definition Repo_GetBundle :: "string \<Rightarrow> string \<Rightarrow> bytes result wprog" where
  "Repo_GetBundle dev dg = with_tx (
     or_return (ensureDeviceExists dev) (\<lambda>_.
     or_internal (GetBundleBlobByDigest dg) (\<lambda>r.
     State_Monad.return (case r of None \<Rightarrow> Inl [ErrBundleNotFound] | Some b \<Rightarrow> Inr (bl_content b)))))"

section \<open>Bundles\<close>

record bundle_file =
  file_Name :: string
  file_Content :: bytes

text \<open>
  Writing to the memory buffer does not fail; a header may be refused, and closing the writers
  may fail.
\<close>

definition createBundleArchive :: "wfmlib \<Rightarrow> bundle_file list \<Rightarrow> bytes option" where
  "createBundleArchive L files =
     (let hdrs = map (\<lambda>f. (\<lparr>th_Name = file_Name f, th_Size = int (length (file_Content f)), th_IsDir = False\<rparr>,
        file_Content f)) files in
      if list_all (\<lambda>p. tar_WriteHeader L (fst p)) hdrs then tar_gzip L hdrs else None)"

definition bundle_files :: "ApplicationDeployment list \<Rightarrow> bundle_file list" where
  "bundle_files ds = map (\<lambda>d. \<lparr>file_Name = AD_Id d @ ''.yaml'', file_Content = Descriptor d\<rparr>) ds"

definition rebuildManifestBundle :: "wfmlib \<Rightarrow> ApplicationDeploymentManifest \<Rightarrow> ApplicationDeploymentManifest result" where
  "rebuildManifestBundle L manifest =
     (let files = bundle_files (Deployments manifest); previousDigest = BundleDigest manifest in
      case (if files = [] then Inr (manifest\<lparr>BundleArchive := [], BundleDigest := []\<rparr>)
            else case createBundleArchive L files of
              None \<Rightarrow> Inl [ErrInternal]
            | Some archive \<Rightarrow> Inr (manifest\<lparr>BundleArchive := archive, BundleDigest := CalculateDigest L archive\<rparr>)) of
        Inl e \<Rightarrow> Inl e
      | Inr m \<Rightarrow> if BundleDigest m = previousDigest then Inr m else Inr (m\<lparr>Version := Version m + 1\<rparr>))"

section \<open>The service\<close>

definition set_deployment_id :: "string \<Rightarrow> ApplicationDeploymentDescriptor \<Rightarrow> ApplicationDeploymentDescriptor" where
  "set_deployment_id i desc = desc\<lparr>Metadata := (Metadata desc)\<lparr>Annotations :=
     (Annotations (Metadata desc))\<lparr>AA_Id := i\<rparr>\<rparr>\<rparr>"

definition descriptor_id :: "ApplicationDeploymentDescriptor \<Rightarrow> string" where
  "descriptor_id desc = AA_Id (Annotations (Metadata desc))"

definition new_deployment :: "wfmlib \<Rightarrow> string \<Rightarrow> bytes \<Rightarrow> ApplicationDeployment" where
  "new_deployment L i rendered = \<lparr>AD_Id = i, Descriptor = rendered, DescriptorDigest = CalculateDigest L rendered\<rparr>"

definition add_deployment :: "wfmlib \<Rightarrow> ApplicationDeployment \<Rightarrow> ApplicationDeploymentManifest \<Rightarrow> ApplicationDeploymentManifest result" where
  "add_deployment L d manifest = rebuildManifestBundle L (manifest\<lparr>Deployments := Deployments manifest @ [d]\<rparr>)"

definition CreateDeployment :: "wfmlib \<Rightarrow> string \<Rightarrow> bytes \<Rightarrow> ApplicationDeployment result wprog" where
  "CreateDeployment L dev ser =
     (case yaml_Unmarshal L ser of
        None \<Rightarrow> State_Monad.return (Inl [ErrInvalidDeploymentDescriptor])
      | Some desc \<Rightarrow>
          if \<not> validate_Struct L desc then State_Monad.return (Inl [ErrInvalidDeploymentDescriptor])
          else do {
            i \<leftarrow> wfm_uuid;
            case yaml_Marshal L (set_deployment_id i desc) of
              None \<Rightarrow> State_Monad.return (Inl [ErrInvalidDeploymentDescriptor])
            | Some rendered \<Rightarrow>
                or_return (UpsertDeployments dev (add_deployment L (new_deployment L i rendered))) (\<lambda>_.
                State_Monad.return (Inr (new_deployment L i rendered))) })"

text \<open>The loops of the callbacks: the first deployment with the identifier is the one.\<close>

fun replace_first :: "ApplicationDeployment \<Rightarrow> ApplicationDeployment list \<Rightarrow> ApplicationDeployment list option" where
  "replace_first u [] = None"
| "replace_first u (d # ds) = (if AD_Id d = AD_Id u then Some (u # ds) else map_option ((#) d) (replace_first u ds))"

fun remove_first :: "string \<Rightarrow> ApplicationDeployment list \<Rightarrow> ApplicationDeployment list option" where
  "remove_first i [] = None"
| "remove_first i (d # ds) = (if AD_Id d = i then Some ds else map_option ((#) d) (remove_first i ds))"

definition replace_deployment :: "wfmlib \<Rightarrow> ApplicationDeployment \<Rightarrow> ApplicationDeploymentManifest \<Rightarrow> ApplicationDeploymentManifest result" where
  "replace_deployment L u manifest = (case replace_first u (Deployments manifest) of
     None \<Rightarrow> Inl [ErrDeploymentNotFound] | Some ds \<Rightarrow> rebuildManifestBundle L (manifest\<lparr>Deployments := ds\<rparr>))"

definition drop_deployment :: "wfmlib \<Rightarrow> string \<Rightarrow> ApplicationDeploymentManifest \<Rightarrow> ApplicationDeploymentManifest result" where
  "drop_deployment L i manifest = (case remove_first i (Deployments manifest) of
     None \<Rightarrow> Inl [ErrDeploymentNotFound] | Some ds \<Rightarrow> rebuildManifestBundle L (manifest\<lparr>Deployments := ds\<rparr>))"

definition UpdateDeployment :: "wfmlib \<Rightarrow> string \<Rightarrow> string \<Rightarrow> bytes \<Rightarrow> ApplicationDeployment result wprog" where
  "UpdateDeployment L dev i ser =
     (case yaml_Unmarshal L ser of
        None \<Rightarrow> State_Monad.return (Inl [ErrInvalidDeploymentDescriptor])
      | Some desc \<Rightarrow>
          if \<not> validate_Struct L desc then State_Monad.return (Inl [ErrInvalidDeploymentDescriptor])
          else if descriptor_id desc \<noteq> [] \<and> descriptor_id desc \<noteq> i
            then State_Monad.return (Inl [ErrInvalidDeploymentDescriptor])
          else (case yaml_Marshal L (set_deployment_id i desc) of
              None \<Rightarrow> State_Monad.return (Inl [ErrInvalidDeploymentDescriptor])
            | Some rendered \<Rightarrow>
                or_return (UpsertDeployments dev (replace_deployment L (new_deployment L i rendered))) (\<lambda>_.
                State_Monad.return (Inr (new_deployment L i rendered)))))"

definition DeleteDeployment :: "wfmlib \<Rightarrow> string \<Rightarrow> string \<Rightarrow> unit result wprog" where
  "DeleteDeployment L dev i = UpsertDeployments dev (drop_deployment L i)"

definition GetDeploymentManifest :: "string \<Rightarrow> ApplicationDeploymentManifest result wprog" where
  "GetDeploymentManifest dev = Repo_GetDeploymentManifest dev"

definition GetDeployment :: "string \<Rightarrow> string \<Rightarrow> string \<Rightarrow> ApplicationDeployment result wprog" where
  "GetDeployment dev i dg = Repo_GetDeployment dev i dg"

definition GetBundle :: "string \<Rightarrow> string \<Rightarrow> bytes result wprog" where
  "GetBundle dev dg = or_return (Repo_GetBundle dev dg) (\<lambda>archive.
     State_Monad.return (if archive = [] then Inl [ErrBundleNotFound] else Inr archive))"

end
