(* ===== verification/WFM_Laws.thy ===== *)
theory WFM_Laws
  imports WFM_Service
begin

text \<open>
  What the transactions of the repository do to the tables: the manifest a device has, the
  tables a successful \<^verbatim>\<open>UpsertDeployments\<close> leaves, and the invariant of the store.
\<close>

section \<open>What a transaction reads and writes\<close>

definition stored_deployments :: "string \<Rightarrow> wfm_tables \<Rightarrow> ApplicationDeployment list" where
  "stored_deployments dev t = map deployment_of_row (List.map_filter (join_blob t) (deployments_of dev t))"

definition loaded :: "string \<Rightarrow> wfm_tables \<Rightarrow> ApplicationDeploymentManifest" where
  "loaded dev t = (case manifest_of dev t of
     None \<Rightarrow> empty_manifest
   | Some m \<Rightarrow> \<lparr>Version = word_of_int (mf_version m), BundleArchive = [],
       BundleDigest = (case mf_bundle_digest m of None \<Rightarrow> [] | Some dg \<Rightarrow> dg),
       Deployments = stored_deployments dev t\<rparr>)"

definition row_of :: "string \<Rightarrow> ApplicationDeployment \<Rightarrow> deployment_row" where
  "row_of dev d = \<lparr>d_id = AD_Id d, d_descriptor_digest = DescriptorDigest d, d_device_id = dev\<rparr>"

definition saved_rows :: "string \<Rightarrow> string list \<Rightarrow> ApplicationDeployment list \<Rightarrow> deployment_row list \<Rightarrow> deployment_row list" where
  "saved_rows dev gone ds rows =
     fold (\<lambda>d. upsert_row (row_of dev d)) ds (filter (\<lambda>q. \<not> (d_device_id q = dev \<and> d_id q \<in> set gone)) rows)"

definition saved :: "string \<Rightarrow> ApplicationDeploymentManifest \<Rightarrow> wfm_tables \<Rightarrow> wfm_tables" where
  "saved dev m t = t\<lparr>
     application_deployments := saved_rows dev (filter (\<lambda>i. i \<notin> AD_Id ` set (Deployments m)) (map AD_Id (Deployments (loaded dev t))))
       (Deployments m) (application_deployments t),
     application_deployment_manifests := upsert_manifest_row (manifest_row_of dev m) (application_deployment_manifests t),
     deployment_blobs := fold (\<lambda>d. insert_blob (DescriptorDigest d) (Descriptor d)) (Deployments m) (deployment_blobs t),
     bundle_blobs := (if BundleArchive m \<noteq> [] \<and> BundleDigest m \<noteq> []
       then insert_blob (BundleDigest m) (BundleArchive m) (bundle_blobs t) else bundle_blobs t)\<rparr>"

lemma ensureDeviceExists_Inr:
  "run_state (ensureDeviceExists dev) w = (Inr u, w') \<Longrightarrow>
    dev \<in> set (devices (wf_tabs w)) \<and> wf_tabs w' = wf_tabs w \<and> wf_uuids w' = wf_uuids w \<and> wf_draws w' = wf_draws w"
  by (auto simp: ensureDeviceExists_def GetDeviceId_def success_simps split: option.splits if_splits)

lemma loadManifest_Inr:
  "run_state (loadManifestWithDeployments dev) w = (Inr m, w') \<Longrightarrow>
    manifest_of dev (wf_tabs w) \<noteq> None \<and> m = loaded dev (wf_tabs w) \<and> wf_tabs w' = wf_tabs w \<and>
    wf_uuids w' = wf_uuids w \<and> wf_draws w' = wf_draws w"
  by (auto simp: loadManifestWithDeployments_def GetManifestByDeviceId_def GetDeploymentsByDeviceId_def
      loaded_def stored_deployments_def success_simps split: option.splits)

lemma loadManifest_Inl:
  "run_state (loadManifestWithDeployments dev) w = (Inl e, w') \<Longrightarrow>
    (errors_Is e ErrManifestNotFound \<longrightarrow> manifest_of dev (wf_tabs w) = None) \<and> wf_tabs w' = wf_tabs w \<and>
    wf_uuids w' = wf_uuids w \<and> wf_draws w' = wf_draws w"
  by (auto simp: loadManifestWithDeployments_def GetManifestByDeviceId_def GetDeploymentsByDeviceId_def
      or_internal_def run_query split: option.splits if_splits)

lemma load_or_empty_Inr:
  "run_state (load_or_empty dev) w = (Inr m, w') \<Longrightarrow>
    m = loaded dev (wf_tabs w) \<and> wf_tabs w' = wf_tabs w \<and> wf_uuids w' = wf_uuids w \<and> wf_draws w' = wf_draws w"
  by (auto simp: load_or_empty_def loaded_def split: prod.splits sum.splits if_splits
      dest: loadManifest_Inr loadManifest_Inl)

lemma delete_missing_Inr:
  "run_state (delete_missing dev is) w = (Inr u, w') \<Longrightarrow>
    wf_tabs w' = (wf_tabs w)\<lparr>application_deployments :=
      filter (\<lambda>q. \<not> (d_device_id q = dev \<and> d_id q \<in> set is)) (application_deployments (wf_tabs w))\<rparr> \<and>
    wf_uuids w' = wf_uuids w \<and> wf_draws w' = wf_draws w"
proof (induction "is" arbitrary: w)
  case (Cons i "is")
  then obtain v where "run_state (DeleteDeployment_stmt dev i) w = (Inr (), v)" "run_state (delete_missing dev is) v = (Inr u, w')"
    by (auto simp: or_internal_Inr)
  moreover have merge: "filter (\<lambda>q. (d_device_id q = dev \<longrightarrow> d_id q \<noteq> i) \<and> (d_device_id q = dev \<longrightarrow> d_id q \<notin> set is)) rows =
    filter (\<lambda>q. d_device_id q = dev \<longrightarrow> d_id q \<noteq> i \<and> d_id q \<notin> set is) rows" for rows by (rule filter_cong) auto
  ultimately show ?case using Cons.IH [of v]
    by (auto simp: DeleteDeployment_stmt_def exec_Inr delete_deployment_def merge)
qed (auto simp: filter_True)

lemma persist_Inr:
  "run_state (persist_deployments dev ds) w = (Inr u, w') \<Longrightarrow>
    wf_tabs w' = (wf_tabs w)\<lparr>
      application_deployments := fold (\<lambda>d. upsert_row (row_of dev d)) ds (application_deployments (wf_tabs w)),
      deployment_blobs := fold (\<lambda>d. insert_blob (DescriptorDigest d) (Descriptor d)) ds (deployment_blobs (wf_tabs w))\<rparr> \<and>
    wf_uuids w' = wf_uuids w \<and> wf_draws w' = wf_draws w"
proof (induction ds arbitrary: w)
  case (Cons d ds)
  from Cons.prems obtain u1 v1 u2 v2 where
    a: "run_state (InsertDeploymentBlob (DescriptorDigest d) (Descriptor d)) w = (Inr u1, v1)" and
    b: "run_state (UpsertDeployment (row_of dev d)) v1 = (Inr u2, v2)" and
    c: "run_state (persist_deployments dev ds) v2 = (Inr u, w')"
    by (auto simp: or_internal_Inr row_of_def)
  from a b have "wf_tabs v2 = (wf_tabs w)\<lparr>
      application_deployments := upsert_row (row_of dev d) (application_deployments (wf_tabs w)),
      deployment_blobs := insert_blob (DescriptorDigest d) (Descriptor d) (deployment_blobs (wf_tabs w))\<rparr> \<and>
    wf_uuids v2 = wf_uuids w \<and> wf_draws v2 = wf_draws w"
    by (auto simp: InsertDeploymentBlob_def UpsertDeployment_def exec_Inr upsert_deployment_def split: if_splits)
  with Cons.IH [OF c] show ?case by simp
qed auto

lemma UpsertDeployments_Inl: "run_state (UpsertDeployments dev f) w = (Inl e, w') \<Longrightarrow> wf_tabs w' = wf_tabs w"
  unfolding UpsertDeployments_def by (rule with_tx_Inl)

lemma save_manifest_Inr:
  assumes "run_state (save_manifest dev (loaded dev (wf_tabs w)) m) w = (Inr u, w')"
  shows "wf_tabs w' = saved dev m (wf_tabs w)" "wf_uuids w' = wf_uuids w" "wf_draws w' = wf_draws w"
    "\<forall>dg. mf_bundle_digest (manifest_row_of dev m) = Some dg \<longrightarrow> dg \<in> bl_digest ` set (bundle_blobs (wf_tabs w'))"
proof -
  from assms obtain u3 v3 u4 v4 u5 v5 where
    3: "run_state (delete_missing dev (filter (\<lambda>i. i \<notin> AD_Id ` set (Deployments m)) (map AD_Id (Deployments (loaded dev (wf_tabs w)))))) w = (Inr u3, v3)" and
    4: "run_state (if BundleArchive m \<noteq> [] \<and> BundleDigest m \<noteq> []
      then InsertBundleBlob (BundleDigest m) (BundleArchive m) else State_Monad.return (Inr ())) v3 = (Inr u4, v4)" and
    5: "run_state (UpsertManifest (manifest_row_of dev m)) v4 = (Inr u5, v5)" and
    6: "run_state (persist_deployments dev (Deployments m)) v5 = (Inr u, w')"
    unfolding save_manifest_def or_return_Inr or_internal_Inr by blast
  note c = delete_missing_Inr [OF 3] and p = persist_Inr [OF 6]
  have d: "wf_tabs v4 = (wf_tabs v3)\<lparr>bundle_blobs := (if BundleArchive m \<noteq> [] \<and> BundleDigest m \<noteq> []
       then insert_blob (BundleDigest m) (BundleArchive m) (bundle_blobs (wf_tabs v3)) else bundle_blobs (wf_tabs v3))\<rparr> \<and>
     wf_uuids v4 = wf_uuids v3 \<and> wf_draws v4 = wf_draws v3"
    using 4 by (auto simp: InsertBundleBlob_def exec_Inr split: if_splits)
  have e: "wf_tabs v5 = (wf_tabs v4)\<lparr>application_deployment_manifests :=
       upsert_manifest_row (manifest_row_of dev m) (application_deployment_manifests (wf_tabs v4))\<rparr> \<and>
     wf_uuids v5 = wf_uuids v4 \<and> wf_draws v5 = wf_draws v4 \<and>
     (\<forall>dg. mf_bundle_digest (manifest_row_of dev m) = Some dg \<longrightarrow> dg \<in> bl_digest ` set (bundle_blobs (wf_tabs v4)))"
    using 5 by (auto simp: UpsertManifest_def exec_Inr upsert_manifest_def split: if_splits option.splits)
  show "wf_tabs w' = saved dev m (wf_tabs w)"
    using c d e p by (simp add: saved_def saved_rows_def)
  show "\<forall>dg. mf_bundle_digest (manifest_row_of dev m) = Some dg \<longrightarrow> dg \<in> bl_digest ` set (bundle_blobs (wf_tabs w'))"
    using e p by simp
  show "wf_uuids w' = wf_uuids w" "wf_draws w' = wf_draws w" using c d e p by simp_all
qed

lemma UpsertDeployments_Inr:
  assumes "run_state (UpsertDeployments dev f) w = (Inr u, w')"
  obtains m where "dev \<in> set (devices (wf_tabs w))" "f (loaded dev (wf_tabs w)) = Inr m"
    "wf_tabs w' = saved dev m (wf_tabs w)" "wf_uuids w' = wf_uuids w" "wf_draws w' = wf_draws w"
    "\<forall>dg. mf_bundle_digest (manifest_row_of dev m) = Some dg \<longrightarrow> dg \<in> bl_digest ` set (bundle_blobs (wf_tabs w'))"
proof -
  from assms obtain k v where body: "run_state (or_return (ensureDeviceExists dev) (\<lambda>_.
      or_return (load_or_empty dev) (\<lambda>manifest. case f manifest of
        Inl e \<Rightarrow> State_Monad.return (Inl (ErrInternal # e)) | Inr m \<Rightarrow> save_manifest dev manifest m)))
      (w\<lparr>wf_stmts := k\<rparr>) = (Inr u, v)"
    and w': "w' = v\<lparr>wf_stmts := Suc (wf_stmts v)\<rparr>"
    unfolding UpsertDeployments_def by (rule with_tx_Inr)
  from body obtain u1 v1 m0 v2 where
    1: "run_state (ensureDeviceExists dev) (w\<lparr>wf_stmts := k\<rparr>) = (Inr u1, v1)" and
    2: "run_state (load_or_empty dev) v1 = (Inr m0, v2)" and
    3: "run_state (case f m0 of Inl e \<Rightarrow> State_Monad.return (Inl (ErrInternal # e)) | Inr m \<Rightarrow> save_manifest dev m0 m) v2 = (Inr u, v)"
    unfolding or_return_Inr by blast
  note a = ensureDeviceExists_Inr [OF 1] and b = load_or_empty_Inr [OF 2]
  from 3 obtain m where m: "f m0 = Inr m" and 4: "run_state (save_manifest dev m0 m) v2 = (Inr u, v)"
    by (cases "f m0") auto
  have m0: "m0 = loaded dev (wf_tabs v2)" using a b by simp
  note s = save_manifest_Inr [OF 4 [unfolded m0]]
  show thesis by (rule that [of m]) (use a b m m0 s in \<open>simp_all add: w'\<close>)
qed

section \<open>The deployments of a device\<close>

text \<open>
  The abstract content of a device: the digest of every deployment assigned to it. It is what
  the manifest tells the client.
\<close>

definition content :: "string \<Rightarrow> deployment_row list \<Rightarrow> string \<rightharpoonup> string" where
  "content dev rows = map_of (map (\<lambda>r. (d_id r, d_descriptor_digest r)) (filter (\<lambda>r. d_device_id r = dev) rows))"

definition digests :: "ApplicationDeployment list \<Rightarrow> string \<rightharpoonup> string" where
  "digests ds = map_of (map (\<lambda>d. (AD_Id d, DescriptorDigest d)) ds)"

definition row_key :: "deployment_row \<Rightarrow> string \<times> string" where
  "row_key r = (d_device_id r, d_id r)"

lemma content_simps [simp]:
  "content dev [] = Map.empty"
  "content dev (r # rows) =
    (if d_device_id r = dev then (content dev rows)(d_id r \<mapsto> d_descriptor_digest r) else content dev rows)"
  by (simp_all add: content_def)

lemma dom_content: "dom (content dev rows) = d_id ` {r \<in> set rows. d_device_id r = dev}"
  by (induction rows) auto

lemma dom_digests: "dom (digests ds) = AD_Id ` set ds"
  by (auto simp: digests_def dom_map_of_conv_image_fst image_iff)

lemma content_Some:
  assumes "distinct (map row_key rows)"
  shows "content dev rows i = Some dg \<longleftrightarrow> (\<exists>r\<in>set rows. d_device_id r = dev \<and> d_id r = i \<and> d_descriptor_digest r = dg)"
proof -
  have "distinct (map d_id (filter (\<lambda>r. d_device_id r = dev) rows))"
    using assms by (auto simp: distinct_map inj_on_def row_key_def)
  then show ?thesis
    by (auto simp: content_def comp_def map_of_eq_Some_iff image_iff)
qed

lemma keys_upsert_row:
  assumes "distinct (map row_key rows)"
  shows "distinct (map row_key (upsert_row r rows))"
proof (cases "\<exists>q\<in>set rows. d_device_id q = d_device_id r \<and> d_id q = d_id r")
  case True
  then have "map row_key (upsert_row r rows) = map row_key rows"
    by (auto simp: upsert_row_def row_key_def)
  with assms show ?thesis by simp
next
  case False
  with assms show ?thesis by (auto simp: upsert_row_def row_key_def)
qed

lemma content_upsert_row:
  "content dev (upsert_row r rows) =
    (if d_device_id r = dev then (content dev rows)(d_id r \<mapsto> d_descriptor_digest r) else content dev rows)"
proof (cases "\<exists>q\<in>set rows. d_device_id q = d_device_id r \<and> d_id q = d_id r")
  case True
  have "content dev (map (\<lambda>q. if d_device_id q = d_device_id r \<and> d_id q = d_id r
      then q\<lparr>d_descriptor_digest := d_descriptor_digest r\<rparr> else q) rows) i =
    (if d_device_id r = dev \<and> i = d_id r \<and> i \<in> dom (content dev rows) then Some (d_descriptor_digest r) else content dev rows i)" for i
    by (induction rows) auto
  then show ?thesis
    using True by (auto simp: upsert_row_def dom_content fun_eq_iff image_iff)
next
  case False
  then have "d_device_id r = dev \<Longrightarrow> d_id r \<notin> dom (content dev rows)" by (auto simp: dom_content)
  with False show ?thesis
    by (auto simp: upsert_row_def content_def map_add_def fun_eq_iff split: option.splits)
qed

lemma content_fold_upsert:
  "content dev' (fold (\<lambda>d. upsert_row (row_of dev d)) ds rows) =
    (if dev' = dev then content dev rows ++ map_of (rev (map (\<lambda>d. (AD_Id d, DescriptorDigest d)) ds)) else content dev' rows)"
  by (induction ds arbitrary: rows) (auto simp: content_upsert_row row_of_def)

lemma content_filter:
  "content dev' (filter (\<lambda>q. d_device_id q = dev \<longrightarrow> d_id q \<notin> G) rows) =
    (if dev' = dev then content dev rows |` (- G) else content dev' rows)"
  by (induction rows) (auto simp: fun_eq_iff restrict_map_def)

lemma content_saved_rows:
  assumes "distinct (map AD_Id ds)" "\<And>r. r \<in> set rows \<Longrightarrow> d_device_id r = dev \<Longrightarrow> d_id r \<in> set gone \<or> d_id r \<in> AD_Id ` set ds"
  shows "content dev' (saved_rows dev gone ds rows) = (if dev' = dev then digests ds else content dev' rows)"
proof -
  have "map_of (rev (map (\<lambda>d. (AD_Id d, DescriptorDigest d)) ds)) = digests ds"
    unfolding digests_def using assms(1) by (intro map_of_inject_set [THEN iffD2]) (auto simp: comp_def rev_map [symmetric])
  moreover have "(content dev rows |` (- set gone)) ++ digests ds = digests ds"
  proof
    fix i
    have "(content dev rows |` (- set gone)) i = None" if "digests ds i = None"
    proof (rule ccontr)
      assume "(content dev rows |` (- set gone)) i \<noteq> None"
      then have "i \<in> dom (content dev rows)" "i \<notin> set gone" by (auto simp: restrict_map_def split: if_splits)
      then have "i \<in> dom (digests ds)" using assms(2) by (auto simp: dom_content dom_digests)
      with that show False by auto
    qed
    then show "((content dev rows |` (- set gone)) ++ digests ds) i = digests ds i"
      by (cases "digests ds i") (auto simp: map_add_def)
  qed
  ultimately show ?thesis by (simp add: saved_rows_def content_fold_upsert content_filter)
qed

section \<open>The invariant of the store\<close>

definition manifest_wf :: "wfmlib \<Rightarrow> ApplicationDeploymentManifest \<Rightarrow> bool" where
  "manifest_wf L m \<longleftrightarrow> distinct (map AD_Id (Deployments m)) \<and>
     (\<forall>d\<in>set (Deployments m). DescriptorDigest d = CalculateDigest L (Descriptor d))"

text \<open>A bundle digest belongs to a content: it is the digest of an archive of just those deployments.\<close>

definition bundle_matches :: "wfmlib \<Rightarrow> string option \<Rightarrow> (string \<rightharpoonup> string) \<Rightarrow> bool" where
  "bundle_matches L b c = (case b of
     None \<Rightarrow> c = Map.empty
   | Some dg \<Rightarrow> \<exists>ds a. ds \<noteq> [] \<and> distinct (map AD_Id ds) \<and>
       (\<forall>d\<in>set ds. DescriptorDigest d = CalculateDigest L (Descriptor d)) \<and> digests ds = c \<and>
       createBundleArchive L (bundle_files ds) = Some a \<and> dg = CalculateDigest L a)"

definition blobs_ok :: "wfmlib \<Rightarrow> blob_row list \<Rightarrow> bool" where
  "blobs_ok L bs \<longleftrightarrow> distinct (map bl_digest bs) \<and> (\<forall>b\<in>set bs. bl_digest b = CalculateDigest L (bl_content b))"

definition rows_ok :: "wfm_tables \<Rightarrow> bool" where
  "rows_ok t \<longleftrightarrow> distinct (map row_key (application_deployments t)) \<and>
     (\<forall>r\<in>set (application_deployments t). d_device_id r \<in> set (devices t) \<and>
        d_descriptor_digest r \<in> bl_digest ` set (deployment_blobs t) \<and>
        d_device_id r \<in> mf_device_id ` set (application_deployment_manifests t))"

definition manifests_ok :: "wfmlib \<Rightarrow> wfm_tables \<Rightarrow> bool" where
  "manifests_ok L t \<longleftrightarrow> distinct (map mf_device_id (application_deployment_manifests t)) \<and>
     (\<forall>m\<in>set (application_deployment_manifests t). mf_device_id m \<in> set (devices t) \<and>
        (\<forall>dg. mf_bundle_digest m = Some dg \<longrightarrow> dg \<in> bl_digest ` set (bundle_blobs t)) \<and>
        bundle_matches L (mf_bundle_digest m) (content (mf_device_id m) (application_deployments t)) \<and>
        mf_version m = sint (word_of_int (mf_version m) :: 64 word))"

definition wfm_inv :: "wfmlib \<Rightarrow> wfm_tables \<Rightarrow> bool" where
  "wfm_inv L t \<longleftrightarrow> blobs_ok L (deployment_blobs t) \<and> blobs_ok L (bundle_blobs t) \<and> rows_ok t \<and> manifests_ok L t"

lemma wfm_inv_migrated: "wfm_inv L migrated"
  by (simp add: wfm_inv_def blobs_ok_def rows_ok_def manifests_ok_def migrated_def)

lemma insert_blob_ok: "blobs_ok L bs \<Longrightarrow> dg = CalculateDigest L c \<Longrightarrow> blobs_ok L (insert_blob dg c bs)"
  by (auto simp: blobs_ok_def insert_blob_def)

lemma insert_blob_digests: "bl_digest ` set (insert_blob dg c bs) = insert dg (bl_digest ` set bs)"
  by (auto simp: insert_blob_def)

lemma fold_blobs_ok:
  "blobs_ok L bs \<Longrightarrow> \<forall>d\<in>set ds. DescriptorDigest d = CalculateDigest L (Descriptor d) \<Longrightarrow>
    blobs_ok L (fold (\<lambda>d. insert_blob (DescriptorDigest d) (Descriptor d)) ds bs)"
  by (induction ds arbitrary: bs) (auto intro: insert_blob_ok)

lemma fold_blob_digests:
  "bl_digest ` set (fold (\<lambda>d. insert_blob (DescriptorDigest d) (Descriptor d)) ds bs) =
    bl_digest ` set bs \<union> DescriptorDigest ` set ds"
  by (induction ds arbitrary: bs) (auto simp: insert_blob_digests)

lemma join_blob_total:
  assumes "rows_ok t" "r \<in> set (application_deployments t)"
  obtains b where "b \<in> set (deployment_blobs t)" "bl_digest b = d_descriptor_digest r" "join_blob t r = Some (r, bl_content b)"
proof -
  have "d_descriptor_digest r \<in> bl_digest ` set (deployment_blobs t)" using assms by (auto simp: rows_ok_def)
  then obtain b where "find (\<lambda>b. bl_digest b = d_descriptor_digest r) (deployment_blobs t) = Some b"
    by (cases "find (\<lambda>b. bl_digest b = d_descriptor_digest r) (deployment_blobs t)") (auto simp: find_None_iff)
  moreover from this have "b \<in> set (deployment_blobs t)" "bl_digest b = d_descriptor_digest r"
    by (auto simp: find_Some_iff)
  ultimately show thesis by (auto simp: join_blob_def blob_by_digest_def intro: that)
qed

lemma stored_deployments_props:
  assumes "wfm_inv L t"
  shows "map AD_Id (stored_deployments dev t) = map d_id (deployments_of dev t)"
    "digests (stored_deployments dev t) = content dev (application_deployments t)"
    "\<forall>d\<in>set (stored_deployments dev t). DescriptorDigest d = CalculateDigest L (Descriptor d)"
proof -
  have rows: "rows_ok t" and blobs: "blobs_ok L (deployment_blobs t)" using assms by (auto simp: wfm_inv_def)
  define g where "g r = the (join_blob t r)" for r
  have g: "join_blob t r = Some (g r)" "fst (g r) = r" "d_descriptor_digest r = CalculateDigest L (snd (g r))"
    if "r \<in> set (deployments_of dev t)" for r
  proof -
    have "r \<in> set (application_deployments t)" using that by (auto simp: deployments_of_def)
    from join_blob_total [OF rows this] obtain b where b: "b \<in> set (deployment_blobs t)" "bl_digest b = d_descriptor_digest r"
      "join_blob t r = Some (r, bl_content b)" .
    then show "join_blob t r = Some (g r)" "fst (g r) = r" by (simp_all add: g_def)
    show "d_descriptor_digest r = CalculateDigest L (snd (g r))" using b blobs by (simp add: g_def blobs_ok_def)
  qed
  have mf: "List.map_filter (join_blob t) rs = map g rs" if "set rs \<subseteq> set (deployments_of dev t)" for rs
    using that by (induction rs) (auto simp: List.map_filter_simps g)
  have st: "stored_deployments dev t = map (deployment_of_row \<circ> g) (deployments_of dev t)"
    by (simp add: stored_deployments_def mf)
  show ids: "map AD_Id (stored_deployments dev t) = map d_id (deployments_of dev t)"
    by (simp add: st deployment_of_row_def g)
  show "\<forall>d\<in>set (stored_deployments dev t). DescriptorDigest d = CalculateDigest L (Descriptor d)"
    by (auto simp: st deployment_of_row_def g)
  have pairs: "map (\<lambda>d. (AD_Id d, DescriptorDigest d)) (stored_deployments dev t) =
      map (\<lambda>r. (d_id r, d_descriptor_digest r)) (deployments_of dev t)"
    by (simp add: st deployment_of_row_def g)
  have "distinct (map d_id (filter (\<lambda>r. d_device_id r = dev) (application_deployments t)))"
    using rows by (auto simp: rows_ok_def distinct_map inj_on_def row_key_def)
  then show "digests (stored_deployments dev t) = content dev (application_deployments t)"
    unfolding digests_def content_def pairs deployments_of_def
    by (intro map_of_inject_set [THEN iffD2]) (auto simp: comp_def distinct_map)
qed

lemma stored_ids_distinct:
  assumes "wfm_inv L t"
  shows "distinct (map AD_Id (stored_deployments dev t))"
proof -
  have "distinct (map d_id (filter (\<lambda>r. d_device_id r = dev) (application_deployments t)))"
    using assms by (auto simp: wfm_inv_def rows_ok_def distinct_map inj_on_def row_key_def)
  then show ?thesis
    by (simp add: stored_deployments_props(1) [OF assms] deployments_of_def distinct_map)
qed

lemma manifest_of_Some: "manifest_of dev t = Some m \<Longrightarrow> m \<in> set (application_deployment_manifests t) \<and> mf_device_id m = dev"
  by (auto simp: manifest_of_def find_Some_iff)

lemma loaded_props:
  assumes "wfm_inv L t"
  shows "manifest_wf L (loaded dev t)" "digests (Deployments (loaded dev t)) = content dev (application_deployments t)"
    "bundle_matches L (if BundleDigest (loaded dev t) = [] then None else Some (BundleDigest (loaded dev t)))
       (content dev (application_deployments t))"
proof -
  have none: "content dev (application_deployments t) = Map.empty" if "manifest_of dev t = None"
  proof -
    have "{r \<in> set (application_deployments t). d_device_id r = dev} = {}"
      using assms that by (fastforce simp: wfm_inv_def rows_ok_def manifest_of_def find_None_iff)
    then show ?thesis using dom_content [of dev "application_deployments t"] by (simp only: image_empty dom_eq_empty_conv)
  qed
  show "manifest_wf L (loaded dev t)"
    using stored_deployments_props(3) [OF assms] stored_ids_distinct [OF assms]
    by (auto simp: loaded_def manifest_wf_def empty_manifest_def split: option.splits)
  show "digests (Deployments (loaded dev t)) = content dev (application_deployments t)"
    using stored_deployments_props(2) [OF assms] none
    by (auto simp: loaded_def digests_def empty_manifest_def split: option.splits)
  show "bundle_matches L (if BundleDigest (loaded dev t) = [] then None else Some (BundleDigest (loaded dev t)))
       (content dev (application_deployments t))"
  proof (cases "manifest_of dev t")
    case None
    with none show ?thesis by (simp add: loaded_def empty_manifest_def bundle_matches_def)
  next
    case (Some m)
    with assms manifest_of_Some have "bundle_matches L (mf_bundle_digest m) (content dev (application_deployments t))"
      by (auto simp: wfm_inv_def manifests_ok_def)
    moreover from this have "mf_bundle_digest m \<noteq> Some []" by (auto simp: bundle_matches_def)
    ultimately show ?thesis using Some by (cases "mf_bundle_digest m") (auto simp: loaded_def)
  qed
qed

section \<open>Saving keeps the invariant\<close>

lemma set_upsert_row: "set (upsert_row r rows) \<subseteq> insert r (set rows)"
proof (cases "\<exists>q\<in>set rows. d_device_id q = d_device_id r \<and> d_id q = d_id r")
  case True
  then show ?thesis by (auto simp: upsert_row_def)
next
  case False
  then show ?thesis by (auto simp: upsert_row_def)
qed

lemma set_fold_upsert: "set (fold (\<lambda>d. upsert_row (row_of dev d)) ds rows) \<subseteq> set rows \<union> row_of dev ` set ds"
proof (induction ds arbitrary: rows)
  case (Cons d ds)
  show ?case using Cons [of "upsert_row (row_of dev d) rows"] set_upsert_row [of "row_of dev d" rows] by auto
qed simp

lemma keys_fold_upsert: "distinct (map row_key rows) \<Longrightarrow> distinct (map row_key (fold (\<lambda>d. upsert_row (row_of dev d)) ds rows))"
  by (induction ds arbitrary: rows) (simp_all add: keys_upsert_row)

lemma upsert_manifest_row_props:
  "mf_device_id ` set (upsert_manifest_row m ms) = insert (mf_device_id m) (mf_device_id ` set ms)"
  "q \<in> set (upsert_manifest_row m ms) \<Longrightarrow> q = m \<or> (q \<in> set ms \<and> mf_device_id q \<noteq> mf_device_id m)"
  "distinct (map mf_device_id ms) \<Longrightarrow> distinct (map mf_device_id (upsert_manifest_row m ms))"
proof -
  have ids: "map mf_device_id (map (\<lambda>q. if mf_device_id q = mf_device_id m then m else q) ms) = map mf_device_id ms" by simp
  show "mf_device_id ` set (upsert_manifest_row m ms) = insert (mf_device_id m) (mf_device_id ` set ms)"
    by (auto simp: upsert_manifest_row_def image_iff)
  show "q \<in> set (upsert_manifest_row m ms) \<Longrightarrow> q = m \<or> (q \<in> set ms \<and> mf_device_id q \<noteq> mf_device_id m)"
    by (auto simp: upsert_manifest_row_def image_iff split: if_splits)
  show "distinct (map mf_device_id ms) \<Longrightarrow> distinct (map mf_device_id (upsert_manifest_row m ms))"
    unfolding upsert_manifest_row_def using ids by (cases "mf_device_id m \<in> mf_device_id ` set ms") (simp_all del: map_map)
qed

lemma find_upsert_manifest_row:
  "find (\<lambda>q. mf_device_id q = dev) (upsert_manifest_row m ms) =
    (if dev = mf_device_id m then Some m else find (\<lambda>q. mf_device_id q = dev) ms)"
proof -
  have "find (\<lambda>q. mf_device_id q = dev) (map (\<lambda>q. if mf_device_id q = mf_device_id m then m else q) ms) =
    (if dev = mf_device_id m then (if dev \<in> mf_device_id ` set ms then Some m else None) else find (\<lambda>q. mf_device_id q = dev) ms)"
    by (induction ms) auto
  moreover have "find (\<lambda>q. mf_device_id q = dev) (ms @ [m]) = Some m" if "dev = mf_device_id m" "dev \<notin> mf_device_id ` set ms"
    using that by (induction ms) auto
  moreover have "find (\<lambda>q. mf_device_id q = dev) (ms @ [m]) = find (\<lambda>q. mf_device_id q = dev) ms" if "dev \<noteq> mf_device_id m"
    using that by (induction ms) auto
  ultimately show ?thesis by (auto simp: upsert_manifest_row_def)
qed

lemma manifest_of_saved:
  "manifest_of dev' (saved dev m t) = (if dev' = dev then Some (manifest_row_of dev m) else manifest_of dev' t)"
  by (auto simp: manifest_of_def saved_def find_upsert_manifest_row manifest_row_of_def)

lemma content_saved:
  assumes "wfm_inv L t" "manifest_wf L m"
  shows "content dev' (application_deployments (saved dev m t)) =
    (if dev' = dev then digests (Deployments m) else content dev' (application_deployments t))"
proof -
  have "AD_Id ` set (Deployments (loaded dev t)) = d_id ` {r \<in> set (application_deployments t). d_device_id r = dev}"
    using loaded_props(2) [OF assms(1), of dev] dom_content dom_digests by metis
  then have "d_id r \<in> set (filter (\<lambda>i. i \<notin> AD_Id ` set (Deployments m)) (map AD_Id (Deployments (loaded dev t)))) \<or>
      d_id r \<in> AD_Id ` set (Deployments m)" if "r \<in> set (application_deployments t)" "d_device_id r = dev" for r
    using that by auto
  from content_saved_rows [OF _ this] assms(2) show ?thesis by (simp add: saved_def manifest_wf_def)
qed

text \<open>The contract of a callback: from an admitted manifest to a sound one whose bundle is rebuilt.\<close>

locale manifest_update =
  fixes L :: wfmlib
    and admits :: "ApplicationDeploymentManifest \<Rightarrow> bool"
    and f :: "ApplicationDeploymentManifest \<Rightarrow> ApplicationDeploymentManifest result"
  assumes keeps_wf: "f m = Inr m' \<Longrightarrow> admits m \<Longrightarrow> manifest_wf L m \<Longrightarrow> manifest_wf L m'"
    and rebuilds: "f m = Inr m' \<Longrightarrow> \<exists>ds. rebuildManifestBundle L (m\<lparr>Deployments := ds\<rparr>) = Inr m'"

lemma rebuild_Inr:
  assumes "rebuildManifestBundle L m = Inr m'"
  shows "Deployments m' = Deployments m"
    "Deployments m = [] \<and> BundleDigest m' = [] \<and> BundleArchive m' = [] \<or>
     (\<exists>a. Deployments m \<noteq> [] \<and> createBundleArchive L (bundle_files (Deployments m)) = Some a \<and> BundleArchive m' = a \<and>
        BundleDigest m' = CalculateDigest L a)"
    "Version m' = (if BundleDigest m' = BundleDigest m then Version m else Version m + 1)"
  using assms by (auto simp: rebuildManifestBundle_def Let_def bundle_files_def split: if_splits option.splits)

context manifest_update
begin

lemma saved_manifest_matches:
  assumes "f m = Inr m'" "admits m" "manifest_wf L m"
  shows "bundle_matches L (mf_bundle_digest (manifest_row_of dev m')) (digests (Deployments m'))"
proof -
  obtain ds where r: "rebuildManifestBundle L (m\<lparr>Deployments := ds\<rparr>) = Inr m'" using rebuilds [OF assms(1)] by blast
  have "manifest_wf L m'" using assms by (rule keeps_wf)
  with rebuild_Inr [OF r] show ?thesis
    by (auto simp: bundle_matches_def manifest_row_of_def manifest_wf_def digests_def)
qed

lemma saved_inv:
  assumes inv: "wfm_inv L t" and dev: "dev \<in> set (devices t)" and ok: "admits (loaded dev t)"
    and f: "f (loaded dev t) = Inr m"
    and blob: "\<forall>dg. mf_bundle_digest (manifest_row_of dev m) = Some dg \<longrightarrow> dg \<in> bl_digest ` set (bundle_blobs (saved dev m t))"
  shows "wfm_inv L (saved dev m t)"
proof -
  have wf: "manifest_wf L m" using f ok loaded_props(1) [OF inv] by (rule keeps_wf)
  obtain ds where r: "rebuildManifestBundle L ((loaded dev t)\<lparr>Deployments := ds\<rparr>) = Inr m" using rebuilds [OF f] by blast
  have b: "blobs_ok L (deployment_blobs (saved dev m t))"
    using inv wf by (simp add: saved_def wfm_inv_def manifest_wf_def fold_blobs_ok)
  have c: "blobs_ok L (bundle_blobs (saved dev m t))"
    using inv rebuild_Inr(2) [OF r] by (auto simp: saved_def wfm_inv_def intro: insert_blob_ok)
  have sub: "set (application_deployments (saved dev m t)) \<subseteq> set (application_deployments t) \<union> row_of dev ` set (Deployments m)"
    using set_fold_upsert by (fastforce simp: saved_def saved_rows_def)
  have d: "rows_ok (saved dev m t)" unfolding rows_ok_def
  proof (intro conjI ballI)
    show "distinct (map row_key (application_deployments (saved dev m t)))"
      using inv by (auto simp: saved_def saved_rows_def wfm_inv_def rows_ok_def intro!: keys_fold_upsert distinct_map_filter)
    fix q assume "q \<in> set (application_deployments (saved dev m t))"
    with sub consider "q \<in> set (application_deployments t)" | d where "d \<in> set (Deployments m)" "q = row_of dev d" by blast
    then have "d_device_id q \<in> set (devices t) \<and> d_descriptor_digest q \<in> bl_digest ` set (deployment_blobs t) \<union> DescriptorDigest ` set (Deployments m)
      \<and> d_device_id q \<in> insert dev (mf_device_id ` set (application_deployment_manifests t))"
      using inv dev by cases (auto simp: wfm_inv_def rows_ok_def row_of_def)
    then show "d_device_id q \<in> set (devices (saved dev m t))"
      "d_descriptor_digest q \<in> bl_digest ` set (deployment_blobs (saved dev m t))"
      "d_device_id q \<in> mf_device_id ` set (application_deployment_manifests (saved dev m t))"
      by (simp_all add: saved_def fold_blob_digests upsert_manifest_row_props(1) manifest_row_of_def)
  qed
  have keep: "bl_digest ` set (bundle_blobs t) \<subseteq> bl_digest ` set (bundle_blobs (saved dev m t))"
    by (auto simp: saved_def insert_blob_digests)
  have e: "manifests_ok L (saved dev m t)" unfolding manifests_ok_def
  proof (intro conjI ballI)
    show "distinct (map mf_device_id (application_deployment_manifests (saved dev m t)))"
      using inv by (simp add: saved_def wfm_inv_def manifests_ok_def upsert_manifest_row_props(3))
    fix q assume "q \<in> set (application_deployment_manifests (saved dev m t))"
    then consider "q = manifest_row_of dev m" | "q \<in> set (application_deployment_manifests t)" "mf_device_id q \<noteq> dev"
      using upsert_manifest_row_props(2) by (fastforce simp: saved_def manifest_row_of_def)
    then have "mf_device_id q \<in> set (devices t) \<and> (\<forall>dg. mf_bundle_digest q = Some dg \<longrightarrow> dg \<in> bl_digest ` set (bundle_blobs (saved dev m t))) \<and>
      bundle_matches L (mf_bundle_digest q) (content (mf_device_id q) (application_deployments (saved dev m t))) \<and>
      mf_version q = sint (word_of_int (mf_version q) :: 64 word)"
    proof cases
      case 1
      then show ?thesis
        using dev blob saved_manifest_matches [OF f ok loaded_props(1) [OF inv]]
        by (simp add: content_saved [OF inv wf] manifest_row_of_def)
    next
      case 2
      then show ?thesis using inv keep by (auto simp: content_saved [OF inv wf] wfm_inv_def manifests_ok_def)
    qed
    then show "mf_device_id q \<in> set (devices (saved dev m t))"
      "\<forall>dg. mf_bundle_digest q = Some dg \<longrightarrow> dg \<in> bl_digest ` set (bundle_blobs (saved dev m t))"
      "bundle_matches L (mf_bundle_digest q) (content (mf_device_id q) (application_deployments (saved dev m t)))"
      "mf_version q = sint (word_of_int (mf_version q) :: 64 word)"
      by (simp_all add: saved_def)
  qed
  from b c d e show ?thesis by (simp add: wfm_inv_def)
qed

lemma Upsert_keeps_inv:
  assumes "run_state (UpsertDeployments dev f) w = (r, w')" "wfm_inv L (wf_tabs w)" "admits (loaded dev (wf_tabs w))"
  shows "wfm_inv L (wf_tabs w')"
proof (cases r)
  case (Inl e)
  with assms UpsertDeployments_Inl show ?thesis by metis
next
  case (Inr u)
  from UpsertDeployments_Inr [OF assms(1) [unfolded Inr]] obtain m where
    "dev \<in> set (devices (wf_tabs w))" "f (loaded dev (wf_tabs w)) = Inr m" "wf_tabs w' = saved dev m (wf_tabs w)"
    "\<forall>dg. mf_bundle_digest (manifest_row_of dev m) = Some dg \<longrightarrow> dg \<in> bl_digest ` set (bundle_blobs (wf_tabs w'))" .
  with saved_inv [OF assms(2)] assms(3) show ?thesis by metis
qed

end

end
