(* ===== verification/WFM_System.thy ===== *)
theory WFM_System
  imports WFM_Laws
begin

text \<open>
  The fleet manager as a state machine, its invariant along every run, and its abstract
  specification: per device a version and the digests of the deployments assigned to it.
\<close>

section \<open>The callbacks of the service\<close>

lemma digests_simps [simp]:
  "digests [] = Map.empty" "digests (d # ds) = (digests ds)(AD_Id d \<mapsto> DescriptorDigest d)"
  by (simp_all add: digests_def)

lemma digests_append: "digests (ds @ es) = digests es ++ digests ds"
  by (simp add: digests_def)

lemma new_deployment_simps [simp]:
  "AD_Id (new_deployment L i c) = i" "Descriptor (new_deployment L i c) = c"
  "DescriptorDigest (new_deployment L i c) = CalculateDigest L c"
  by (simp_all add: new_deployment_def)

lemma replace_first_Some:
  assumes "replace_first u ds = Some ds'"
  shows "map AD_Id ds' = map AD_Id ds" "AD_Id u \<in> AD_Id ` set ds" "set ds' \<subseteq> insert u (set ds)"
    "distinct (map AD_Id ds) \<Longrightarrow> digests ds' = (digests ds)(AD_Id u \<mapsto> DescriptorDigest u)"
  using assms
  by (induction u ds arbitrary: ds' rule: replace_first.induct) (auto split: if_splits)

lemma replace_first_None: "replace_first u ds = None \<longleftrightarrow> AD_Id u \<notin> AD_Id ` set ds"
  by (induction u ds rule: replace_first.induct) auto

lemma remove_first_Some:
  assumes "remove_first i ds = Some ds'"
  shows "i \<in> AD_Id ` set ds" "set ds' \<subseteq> set ds" "distinct (map AD_Id ds) \<Longrightarrow> distinct (map AD_Id ds')"
    "distinct (map AD_Id ds) \<Longrightarrow> digests ds' = (digests ds)(i := None)"
  using assms
proof (induction i ds arbitrary: ds' rule: remove_first.induct)
  case (2 i d ds)
  { case 1 then show ?case using 2 by (auto split: if_splits) }
  { case 2 then show ?case using "2.IH" by (fastforce split: if_splits) }
  { case 3 then show ?case using "2.IH" by (fastforce split: if_splits) }
  { case 4
    have "i \<notin> AD_Id ` set ds \<Longrightarrow> (digests ds)(i := None) = digests ds"
      using dom_digests [of ds] by (auto simp: fun_upd_idem domIff)
    moreover have "((digests ds)(AD_Id d \<mapsto> DescriptorDigest d))(i := None) =
      (if AD_Id d = i then (digests ds)(i := None) else ((digests ds)(i := None))(AD_Id d \<mapsto> DescriptorDigest d))" by auto
    ultimately show ?case using 4 "2.IH" by (auto split: if_splits simp del: fun_upd_apply) }
qed simp_all

lemma remove_first_None: "remove_first i ds = None \<longleftrightarrow> i \<notin> AD_Id ` set ds"
  by (induction i ds rule: remove_first.induct) auto

interpretation adding: manifest_update L "\<lambda>m. i \<notin> AD_Id ` set (Deployments m)" "add_deployment L (new_deployment L i c)"
  for L i c
proof
  fix m m' assume f: "add_deployment L (new_deployment L i c) m = Inr m'"
  then show "\<exists>ds. rebuildManifestBundle L (m\<lparr>Deployments := ds\<rparr>) = Inr m'" by (auto simp: add_deployment_def)
  show "i \<notin> AD_Id ` set (Deployments m) \<Longrightarrow> manifest_wf L m \<Longrightarrow> manifest_wf L m'"
    using rebuild_Inr(1) [OF f [unfolded add_deployment_def]] by (auto simp: manifest_wf_def)
qed

interpretation replacing: manifest_update L "\<lambda>_. True" "replace_deployment L (new_deployment L i c)" for L i c
proof
  fix m m' assume "replace_deployment L (new_deployment L i c) m = Inr m'"
  then obtain ds where r: "replace_first (new_deployment L i c) (Deployments m) = Some ds"
    and f: "rebuildManifestBundle L (m\<lparr>Deployments := ds\<rparr>) = Inr m'"
    by (auto simp: replace_deployment_def split: option.splits)
  from f show "\<exists>ds. rebuildManifestBundle L (m\<lparr>Deployments := ds\<rparr>) = Inr m'" by blast
  show "manifest_wf L m \<Longrightarrow> manifest_wf L m'"
    using rebuild_Inr(1) [OF f] replace_first_Some(1,3) [OF r] by (auto simp: manifest_wf_def)
qed

interpretation dropping: manifest_update L "\<lambda>_. True" "drop_deployment L i" for L i
proof
  fix m m' assume "drop_deployment L i m = Inr m'"
  then obtain ds where r: "remove_first i (Deployments m) = Some ds"
    and f: "rebuildManifestBundle L (m\<lparr>Deployments := ds\<rparr>) = Inr m'"
    by (auto simp: drop_deployment_def split: option.splits)
  from f show "\<exists>ds. rebuildManifestBundle L (m\<lparr>Deployments := ds\<rparr>) = Inr m'" by blast
  show "manifest_wf L m \<Longrightarrow> manifest_wf L m'"
    using rebuild_Inr(1) [OF f] remove_first_Some(2,3) [OF r] by (auto simp: manifest_wf_def)
qed

section \<open>The abstract specification\<close>

type_synonym fleet = "string \<rightharpoonup> 64 word \<times> (string \<rightharpoonup> string)"

definition fleet_of :: "wfm_tables \<Rightarrow> fleet" where
  "fleet_of t dev = (if dev \<in> set (devices t)
     then Some (Version (loaded dev t), content dev (application_deployments t)) else None)"

datatype change = Put string string | Drop string

fun apply_change :: "change \<Rightarrow> (string \<rightharpoonup> string) \<Rightarrow> string \<rightharpoonup> string" where
  "apply_change (Put i dg) c = c(i \<mapsto> dg)"
| "apply_change (Drop i) c = c(i := None)"

text \<open>
  One change of one device: its version goes up by one, or stays when the content stays.
\<close>

definition fleet_step :: "string \<Rightarrow> change \<Rightarrow> fleet \<Rightarrow> fleet \<Rightarrow> bool" where
  "fleet_step dev ch F F' \<longleftrightarrow> (\<exists>v c v'. F dev = Some (v, c) \<and> F' = F(dev \<mapsto> (v', apply_change ch c)) \<and>
     (v' = v + 1 \<or> v' = v \<and> apply_change ch c = c))"

text \<open>
  Bundle digests identify bundles: the archive format is unambiguous and SHA-256 has no
  collisions on archives.
\<close>

definition bundles_identified :: "wfmlib \<Rightarrow> bool" where
  "bundles_identified L \<longleftrightarrow> (\<forall>fs gs a b. createBundleArchive L fs = Some a \<longrightarrow> createBundleArchive L gs = Some b \<longrightarrow>
     CalculateDigest L a = CalculateDigest L b \<longrightarrow> fs = gs)"

lemma digests_of_files:
  assumes "\<forall>d\<in>set ds. DescriptorDigest d = CalculateDigest L (Descriptor d)"
  shows "digests ds = map_of (map (\<lambda>f. (take (length (file_Name f) - 5) (file_Name f), CalculateDigest L (file_Content f)))
    (bundle_files ds))"
  using assms by (induction ds) (simp_all add: bundle_files_def)

lemma bundle_files_digests:
  assumes "bundle_files ds = bundle_files es" "\<forall>d\<in>set ds. DescriptorDigest d = CalculateDigest L (Descriptor d)"
    "\<forall>d\<in>set es. DescriptorDigest d = CalculateDigest L (Descriptor d)"
  shows "digests ds = digests es"
  using digests_of_files [OF assms(2)] digests_of_files [OF assms(3)] assms(1) by simp

lemma bundle_matches_unique:
  "bundles_identified L \<Longrightarrow> bundle_matches L b c \<Longrightarrow> bundle_matches L b c' \<Longrightarrow> c = c'"
proof (cases b)
  case (Some dg)
  assume id: "bundles_identified L" and "bundle_matches L b c" "bundle_matches L b c'"
  with Some obtain ds a es e where
    d: "\<forall>d\<in>set ds. DescriptorDigest d = CalculateDigest L (Descriptor d)" "digests ds = c"
      "createBundleArchive L (bundle_files ds) = Some a" "dg = CalculateDigest L a" and
    e: "\<forall>d\<in>set es. DescriptorDigest d = CalculateDigest L (Descriptor d)" "digests es = c'"
      "createBundleArchive L (bundle_files es) = Some e" "dg = CalculateDigest L e"
    by (auto simp: bundle_matches_def)
  have "bundle_files ds = bundle_files es" using id d(3,4) e(3,4) unfolding bundles_identified_def by metis
  from bundle_files_digests [OF this d(1) e(1)] d(2) e(2) show "c = c'" by simp
qed (simp add: bundle_matches_def)

context manifest_update
begin

lemma version_step:
  assumes inv: "wfm_inv L t" and ok: "admits (loaded dev t)" and f: "f (loaded dev t) = Inr m" and id: "bundles_identified L"
  shows "Version m = Version (loaded dev t) + 1 \<or>
    Version m = Version (loaded dev t) \<and> digests (Deployments m) = content dev (application_deployments t)"
proof -
  obtain ds where r: "rebuildManifestBundle L ((loaded dev t)\<lparr>Deployments := ds\<rparr>) = Inr m" using rebuilds [OF f] by blast
  show ?thesis
  proof (cases "BundleDigest m = BundleDigest (loaded dev t)")
    case True
    have "bundle_matches L (mf_bundle_digest (manifest_row_of dev m)) (content dev (application_deployments t))"
      using loaded_props(3) [OF inv, of dev] True by (cases "BundleDigest m = []") (simp_all add: manifest_row_of_def)
    then have "digests (Deployments m) = content dev (application_deployments t)"
      using saved_manifest_matches [OF f ok loaded_props(1) [OF inv]] bundle_matches_unique [OF id] by blast
    with True rebuild_Inr(3) [OF r] show ?thesis by simp
  next
    case False
    with rebuild_Inr(3) [OF r] show ?thesis by simp
  qed
qed

lemma loaded_saved_version: "Version (loaded dev' (saved dev m t)) = (if dev' = dev then Version m else Version (loaded dev' t))"
  by (auto simp: loaded_def manifest_of_saved manifest_row_of_def split: option.splits)

lemma Upsert_refines:
  assumes run: "run_state (UpsertDeployments dev f) w = (Inr u, w')" and inv: "wfm_inv L (wf_tabs w)"
    and ok: "admits (loaded dev (wf_tabs w))" and id: "bundles_identified L"
    and ch: "\<And>m. f (loaded dev (wf_tabs w)) = Inr m \<Longrightarrow>
      digests (Deployments m) = apply_change ch (content dev (application_deployments (wf_tabs w)))"
  shows "fleet_step dev ch (fleet_of (wf_tabs w)) (fleet_of (wf_tabs w'))"
proof -
  from UpsertDeployments_Inr [OF run] obtain m where
    m: "dev \<in> set (devices (wf_tabs w))" "f (loaded dev (wf_tabs w)) = Inr m" "wf_tabs w' = saved dev m (wf_tabs w)" .
  have wf: "manifest_wf L m" using m(2) ok loaded_props(1) [OF inv] by (rule keeps_wf)
  have "fleet_of (wf_tabs w') = (fleet_of (wf_tabs w))(dev \<mapsto> (Version m, digests (Deployments m)))"
    using m(1) by (auto simp: fleet_of_def fun_eq_iff m(3) content_saved [OF inv wf] loaded_saved_version)
      (auto simp: saved_def)
  with version_step [OF inv ok m(2) id] ch [OF m(2)] m(1) show ?thesis
    by (auto simp: fleet_step_def fleet_of_def)
qed

end

section \<open>What the operations leave alone\<close>

definition outside :: "wfm \<Rightarrow> (nat \<Rightarrow> string) \<times> nat \<times> (nat \<Rightarrow> bool)" where
  "outside w = (wf_uuids w, wf_draws w, wf_faults w)"

lemma keeps_exec_outside [inv_intros]: "keeps (\<lambda>w. outside w = x) (exec f)" "keeps (\<lambda>w. outside w = x) (query q)"
  by (auto simp: keeps_def run_simps outside_def)

lemma keeps_query_tabs [inv_intros]: "keeps (\<lambda>w. wf_tabs w = t) (query q)"
  by (auto simp: keeps_def run_simps)

lemma keeps_or [inv_intros]:
  assumes "keeps P m" "\<And>x. keeps P (f x)"
  shows "keeps P (or_internal m f)" "keeps P (or_return m f)"
  unfolding or_internal_def or_return_def using assms by (auto intro!: inv_intros)

lemma snd_rolled_back:
  "snd (run_state (rolled_back m) w) = (case fst (run_state m w) of
     Inl _ \<Rightarrow> (snd (run_state m w))\<lparr>wf_tabs := wf_tabs w\<rparr> | Inr _ \<Rightarrow> snd (run_state m w))"
  by (auto simp: rolled_back_def split: prod.splits sum.splits)

lemma keeps_rolled_back [inv_intros]:
  "keeps (\<lambda>w. outside w = x) m \<Longrightarrow> keeps (\<lambda>w. outside w = x) (rolled_back m)"
  "keeps (\<lambda>w. wf_tabs w = t) m \<Longrightarrow> keeps (\<lambda>w. wf_tabs w = t) (rolled_back m)"
  by (simp_all add: keeps_def snd_rolled_back outside_def split: sum.splits)

lemma keeps_with_tx [inv_intros]:
  "keeps (\<lambda>w. outside w = x) m \<Longrightarrow> keeps (\<lambda>w. outside w = x) (with_tx m)"
  "keeps (\<lambda>w. wf_tabs w = t) m \<Longrightarrow> keeps (\<lambda>w. wf_tabs w = t) (with_tx m)"
  unfolding with_tx_def by (auto intro!: inv_intros)

lemma keeps_loops_outside [inv_intros]:
  "keeps (\<lambda>w. outside w = x) (delete_missing dev is)" "keeps (\<lambda>w. outside w = x) (persist_deployments dev ds)"
  by (induction "is", auto intro!: inv_intros simp: DeleteDeployment_stmt_def)
    (induction ds, auto intro!: inv_intros simp: InsertDeploymentBlob_def UpsertDeployment_def)

lemmas reading_defs = ensureDeviceExists_def GetDeviceId_def loadManifestWithDeployments_def GetManifestByDeviceId_def
  GetDeploymentsByDeviceId_def load_or_empty_def Repo_GetDeploymentManifest_def Repo_GetDeployment_def
  GetDeploymentBlobByDigest_def Repo_GetBundle_def GetBundleBlobByDigest_def GetDeploymentManifest_def GetDeployment_def GetBundle_def

lemma reading_keeps_tabs:
  "keeps (\<lambda>w. wf_tabs w = t) (GetDeploymentManifest dev)" "keeps (\<lambda>w. wf_tabs w = t) (GetDeployment dev i dg)"
  "keeps (\<lambda>w. wf_tabs w = t) (GetBundle dev dg)"
  unfolding reading_defs by (auto intro!: inv_intros)

lemma reading_keeps_outside:
  "keeps (\<lambda>w. outside w = x) (GetDeploymentManifest dev)" "keeps (\<lambda>w. outside w = x) (GetDeployment dev i dg)"
  "keeps (\<lambda>w. outside w = x) (GetBundle dev dg)"
  unfolding reading_defs by (auto intro!: inv_intros)

lemma Upsert_keeps_outside [inv_intros]: "keeps (\<lambda>w. outside w = x) (UpsertDeployments dev f)"
  unfolding UpsertDeployments_def save_manifest_def UpsertManifest_def InsertBundleBlob_def reading_defs
  by (auto intro!: inv_intros)

section \<open>Steps\<close>

datatype wfm_operation =
    OpCreate string bytes
  | OpUpdate string string bytes
  | OpDelete string string
  | OpManifest string
  | OpDeployment string string string
  | OpBundle string string

fun wfm_perform :: "wfmlib \<Rightarrow> wfm_operation \<Rightarrow> wfm \<Rightarrow> wfm" where
  "wfm_perform L (OpCreate dev ser) w = snd (run_state (CreateDeployment L dev ser) w)"
| "wfm_perform L (OpUpdate dev i ser) w = snd (run_state (UpdateDeployment L dev i ser) w)"
| "wfm_perform L (OpDelete dev i) w = snd (run_state (DeleteDeployment L dev i) w)"
| "wfm_perform L (OpManifest dev) w = snd (run_state (GetDeploymentManifest dev) w)"
| "wfm_perform L (OpDeployment dev i dg) w = snd (run_state (GetDeployment dev i dg) w)"
| "wfm_perform L (OpBundle dev dg) w = snd (run_state (GetBundle dev dg) w)"

text \<open>
  A run starts on a migrated database; \<^verbatim>\<open>uuid.New\<close> never draws the same identifier twice.
\<close>

inductive wfm_reachable :: "wfmlib \<Rightarrow> wfm \<Rightarrow> bool" for L where
  start: "wf_tabs w = migrated \<Longrightarrow> inj (wf_uuids w) \<Longrightarrow> wfm_reachable L w"
| step: "wfm_reachable L w \<Longrightarrow> wfm_reachable L (wfm_perform L x w)"

definition world_ok :: "wfmlib \<Rightarrow> wfm \<Rightarrow> bool" where
  "world_ok L w \<longleftrightarrow> wfm_inv L (wf_tabs w) \<and> inj (wf_uuids w) \<and>
     d_id ` set (application_deployments (wf_tabs w)) \<subseteq> wf_uuids w ` {..<wf_draws w}"

lemma loaded_ids:
  assumes "wfm_inv L t"
  shows "AD_Id ` set (Deployments (loaded dev t)) \<subseteq> d_id ` set (application_deployments t)"
  using loaded_props(2) [OF assms, of dev] dom_content [of dev] dom_digests by (metis (mono_tags, lifting) image_mono mem_Collect_eq subsetI)

lemma fresh_uuid:
  assumes "world_ok L w"
  shows "wf_uuids w (wf_draws w) \<notin> AD_Id ` set (Deployments (loaded dev (wf_tabs w)))"
proof -
  have "wf_uuids w (wf_draws w) \<notin> wf_uuids w ` {..<wf_draws w}" using assms by (auto simp: world_ok_def inj_def)
  with assms loaded_ids [of L "wf_tabs w" dev] show ?thesis by (auto simp: world_ok_def)
qed

lemma saved_ids:
  "d_id ` set (application_deployments (saved dev m t)) \<subseteq> d_id ` set (application_deployments t) \<union> AD_Id ` set (Deployments m)"
proof -
  have "set (application_deployments (saved dev m t)) \<subseteq> set (application_deployments t) \<union> row_of dev ` set (Deployments m)"
    using set_fold_upsert by (fastforce simp: saved_def saved_rows_def)
  then show ?thesis by (force simp: row_of_def)
qed

context manifest_update
begin

lemma Upsert_world_ok:
  assumes run: "run_state (UpsertDeployments dev f) w = (r, w')" and ok: "world_ok L w" "admits (loaded dev (wf_tabs w))"
    and ids: "\<And>m. f (loaded dev (wf_tabs w)) = Inr m \<Longrightarrow> AD_Id ` set (Deployments m) \<subseteq> wf_uuids w ` {..<wf_draws w}"
  shows "world_ok L w'"
proof -
  have out: "outside w' = outside w" using keepsD' [OF Upsert_keeps_outside [of "outside w"] run] by simp
  have inv: "wfm_inv L (wf_tabs w')" using Upsert_keeps_inv [OF run _ ok(2)] ok(1) by (simp add: world_ok_def)
  have "d_id ` set (application_deployments (wf_tabs w')) \<subseteq> wf_uuids w ` {..<wf_draws w}"
  proof (cases r)
    case (Inl e)
    from UpsertDeployments_Inl [OF run [unfolded Inl]] ok(1) show ?thesis by (simp add: world_ok_def)
  next
    case (Inr u)
    from UpsertDeployments_Inr [OF run [unfolded Inr]] obtain m where
      m: "f (loaded dev (wf_tabs w)) = Inr m" "wf_tabs w' = saved dev m (wf_tabs w)" .
    have old: "d_id ` set (application_deployments (wf_tabs w)) \<subseteq> wf_uuids w ` {..<wf_draws w}"
      using ok(1) by (simp add: world_ok_def)
    show ?thesis unfolding m(2) by (rule subset_trans [OF saved_ids Un_least [OF old ids [OF m(1)]]])
  qed
  with inv out ok(1) show ?thesis by (simp add: world_ok_def outside_def)
qed

end

end
