(* ===== verification/WFM_Runs.thy ===== *)
theory WFM_Runs
  imports WFM_System
begin

text \<open>
  The operations of the fleet manager along a run: they keep the invariant, refine the abstract
  fleet, and succeed when the database works.
\<close>

section \<open>Content of the changed manifest\<close>

lemma add_deployment_Inr:
  assumes "wfm_inv L t" "add_deployment L (new_deployment L i c) (loaded dev t) = Inr m" "i \<notin> AD_Id ` set (Deployments (loaded dev t))"
  shows "digests (Deployments m) = apply_change (Put i (CalculateDigest L c)) (content dev (application_deployments t))"
    "AD_Id ` set (Deployments m) = insert i (AD_Id ` set (Deployments (loaded dev t)))"
proof -
  have m: "Deployments m = Deployments (loaded dev t) @ [new_deployment L i c]"
    using rebuild_Inr(1) [OF assms(2) [unfolded add_deployment_def]] by simp
  have "i \<notin> dom (digests (Deployments (loaded dev t)))" using assms(3) by (simp add: dom_digests)
  then show "digests (Deployments m) = apply_change (Put i (CalculateDigest L c)) (content dev (application_deployments t))"
    by (auto simp: m digests_append loaded_props(2) [OF assms(1)] map_add_def fun_eq_iff split: option.splits)
  show "AD_Id ` set (Deployments m) = insert i (AD_Id ` set (Deployments (loaded dev t)))" by (simp add: m)
qed

lemma replace_deployment_Inr:
  assumes "wfm_inv L t" "replace_deployment L (new_deployment L i c) (loaded dev t) = Inr m"
  shows "digests (Deployments m) = apply_change (Put i (CalculateDigest L c)) (content dev (application_deployments t))"
    "AD_Id ` set (Deployments m) = AD_Id ` set (Deployments (loaded dev t))" "i \<in> dom (content dev (application_deployments t))"
proof -
  obtain ds where r: "replace_first (new_deployment L i c) (Deployments (loaded dev t)) = Some ds"
    and f: "rebuildManifestBundle L ((loaded dev t)\<lparr>Deployments := ds\<rparr>) = Inr m"
    using assms(2) by (auto simp: replace_deployment_def split: option.splits)
  note p = replace_first_Some [OF r] and m = rebuild_Inr(1) [OF f]
  have "distinct (map AD_Id (Deployments (loaded dev t)))" using loaded_props(1) [OF assms(1)] by (simp add: manifest_wf_def)
  then show "digests (Deployments m) = apply_change (Put i (CalculateDigest L c)) (content dev (application_deployments t))"
    using p(4) m loaded_props(2) [OF assms(1)] by simp
  show "AD_Id ` set (Deployments m) = AD_Id ` set (Deployments (loaded dev t))" using arg_cong [OF p(1), of set] m by simp
  show "i \<in> dom (content dev (application_deployments t))"
    using p(2) by (simp add: loaded_props(2) [OF assms(1), symmetric] dom_digests)
qed

lemma drop_deployment_Inr:
  assumes "wfm_inv L t" "drop_deployment L i (loaded dev t) = Inr m"
  shows "digests (Deployments m) = apply_change (Drop i) (content dev (application_deployments t))"
    "AD_Id ` set (Deployments m) \<subseteq> AD_Id ` set (Deployments (loaded dev t))" "i \<in> dom (content dev (application_deployments t))"
proof -
  obtain ds where r: "remove_first i (Deployments (loaded dev t)) = Some ds"
    and f: "rebuildManifestBundle L ((loaded dev t)\<lparr>Deployments := ds\<rparr>) = Inr m"
    using assms(2) by (auto simp: drop_deployment_def split: option.splits)
  note p = remove_first_Some [OF r] and m = rebuild_Inr(1) [OF f]
  have "distinct (map AD_Id (Deployments (loaded dev t)))" using loaded_props(1) [OF assms(1)] by (simp add: manifest_wf_def)
  then show "digests (Deployments m) = apply_change (Drop i) (content dev (application_deployments t))"
    using p(4) m loaded_props(2) [OF assms(1)] by simp
  show "AD_Id ` set (Deployments m) \<subseteq> AD_Id ` set (Deployments (loaded dev t))" using p(2) m by auto
  show "i \<in> dom (content dev (application_deployments t))"
    using p(1) by (simp add: loaded_props(2) [OF assms(1), symmetric] dom_digests)
qed

section \<open>The operations\<close>

text \<open>A successful creation or update is a successful transaction with the rendered descriptor.\<close>

lemma CreateDeployment_Inr:
  assumes "run_state (CreateDeployment L dev ser) w = (Inr d, w')"
  obtains desc rendered where "yaml_Unmarshal L ser = Some desc" "validate_Struct L desc"
    "yaml_Marshal L (set_deployment_id (wf_uuids w (wf_draws w)) desc) = Some rendered"
    "d = new_deployment L (wf_uuids w (wf_draws w)) rendered"
    "run_state (UpsertDeployments dev (add_deployment L d)) (w\<lparr>wf_draws := Suc (wf_draws w)\<rparr>) = (Inr (), w')"
  using assms by (auto simp: CreateDeployment_def run_wfm_uuid or_return_Inr split: option.splits if_splits)

lemma UpdateDeployment_Inr:
  assumes "run_state (UpdateDeployment L dev i ser) w = (Inr d, w')"
  obtains desc rendered where "yaml_Unmarshal L ser = Some desc" "validate_Struct L desc" "descriptor_id desc \<in> {[], i}"
    "yaml_Marshal L (set_deployment_id i desc) = Some rendered" "d = new_deployment L i rendered"
    "run_state (UpsertDeployments dev (replace_deployment L d)) w = (Inr (), w')"
  using assms by (auto simp: UpdateDeployment_def or_return_Inr split: option.splits if_splits)

lemma world_ok_draw: "world_ok L w \<Longrightarrow> world_ok L (w\<lparr>wf_draws := Suc (wf_draws w)\<rparr>)"
  by (auto simp: world_ok_def lessThan_Suc)

lemma loaded_ids_drawn:
  "world_ok L w \<Longrightarrow> AD_Id ` set (Deployments (loaded dev (wf_tabs w))) \<subseteq> wf_uuids w ` {..<wf_draws w}"
  using subset_trans [OF loaded_ids [of L "wf_tabs w" dev]] by (simp add: world_ok_def)

lemma Upsert_add_world_ok:
  assumes "world_ok L w" "i = wf_uuids w (wf_draws w)"
    "run_state (UpsertDeployments dev (add_deployment L (new_deployment L i c))) (w\<lparr>wf_draws := Suc (wf_draws w)\<rparr>) = (r, w')"
  shows "world_ok L w'"
proof (rule adding.Upsert_world_ok [OF assms(3) world_ok_draw [OF assms(1)]])
  have inv: "wfm_inv L (wf_tabs w)" using assms(1) by (simp add: world_ok_def)
  show fresh: "i \<notin> AD_Id ` set (Deployments (loaded dev (wf_tabs (w\<lparr>wf_draws := Suc (wf_draws w)\<rparr>))))"
    using fresh_uuid [OF assms(1)] assms(2) by simp
  fix m assume "add_deployment L (new_deployment L i c) (loaded dev (wf_tabs (w\<lparr>wf_draws := Suc (wf_draws w)\<rparr>))) = Inr m"
  from add_deployment_Inr(2) [OF inv, of i c dev m] this fresh loaded_ids_drawn [OF assms(1), of dev] assms(2)
  show "AD_Id ` set (Deployments m) \<subseteq> wf_uuids (w\<lparr>wf_draws := Suc (wf_draws w)\<rparr>) ` {..<wf_draws (w\<lparr>wf_draws := Suc (wf_draws w)\<rparr>)}"
    by (auto simp: lessThan_Suc)
qed

lemma Upsert_replace_world_ok:
  assumes "world_ok L w" "run_state (UpsertDeployments dev (replace_deployment L (new_deployment L i c))) w = (r, w')"
  shows "world_ok L w'"
  using replace_deployment_Inr(2) [of L "wf_tabs w" i c dev] loaded_ids_drawn [OF assms(1), of dev] assms(1)
  by (intro replacing.Upsert_world_ok [OF assms(2,1) TrueI]) (auto simp: world_ok_def)

lemma Upsert_drop_world_ok:
  assumes "world_ok L w" "run_state (UpsertDeployments dev (drop_deployment L i)) w = (r, w')"
  shows "world_ok L w'"
  using drop_deployment_Inr(2) [of L "wf_tabs w" i dev] loaded_ids_drawn [OF assms(1), of dev] assms(1)
  by (intro dropping.Upsert_world_ok [OF assms(2,1) TrueI]) (auto simp: world_ok_def)

lemma world_ok_keep: "world_ok L w \<Longrightarrow> wf_tabs w' = wf_tabs w \<Longrightarrow> outside w' = outside w \<Longrightarrow> world_ok L w'"
  by (simp add: world_ok_def outside_def)

lemma Create_world_ok:
  assumes "world_ok L w" shows "world_ok L (snd (run_state (CreateDeployment L dev ser) w))"
proof -
  have "world_ok L (snd (run_state (UpsertDeployments dev (add_deployment L (new_deployment L (wf_uuids w (wf_draws w)) c)))
      (w\<lparr>wf_draws := Suc (wf_draws w)\<rparr>)))" for c
    by (rule Upsert_add_world_ok [OF assms refl]) (rule prod.collapse [symmetric])
  then show ?thesis using assms world_ok_draw [OF assms]
    by (auto simp: CreateDeployment_def run_wfm_uuid or_return_def split: option.splits prod.splits sum.splits) (metis snd_conv)+
qed

lemma Update_world_ok:
  assumes "world_ok L w" shows "world_ok L (snd (run_state (UpdateDeployment L dev i ser) w))"
proof -
  have "world_ok L (snd (run_state (UpsertDeployments dev (replace_deployment L (new_deployment L i c))) w))" for c
    by (rule Upsert_replace_world_ok [OF assms]) (rule prod.collapse [symmetric])
  then show ?thesis using assms
    by (auto simp: UpdateDeployment_def or_return_def split: option.splits prod.splits sum.splits) (metis snd_conv)+
qed

lemma Delete_world_ok: "world_ok L w \<Longrightarrow> world_ok L (snd (run_state (DeleteDeployment L dev i) w))"
  unfolding DeleteDeployment_def by (erule Upsert_drop_world_ok) (rule prod.collapse [symmetric])

lemma reading_world_ok:
  assumes "world_ok L w"
  shows "world_ok L (snd (run_state (GetDeploymentManifest dev) w))" "world_ok L (snd (run_state (GetDeployment dev i dg) w))"
    "world_ok L (snd (run_state (GetBundle dev dg) w))"
  using world_ok_keep [OF assms keepsD [OF reading_keeps_tabs(1) refl] keepsD [OF reading_keeps_outside(1) refl]]
    world_ok_keep [OF assms keepsD [OF reading_keeps_tabs(2) refl] keepsD [OF reading_keeps_outside(2) refl]]
    world_ok_keep [OF assms keepsD [OF reading_keeps_tabs(3) refl] keepsD [OF reading_keeps_outside(3) refl]]
  by blast+

lemma perform_world_ok: "world_ok L w \<Longrightarrow> world_ok L (wfm_perform L x w)"
  by (cases x) (simp_all add: Create_world_ok Update_world_ok Delete_world_ok reading_world_ok)

lemma reachable_world_ok: "wfm_reachable L w \<Longrightarrow> world_ok L w"
proof (induction rule: wfm_reachable.induct)
  case (start w)
  then show ?case by (simp add: world_ok_def wfm_inv_migrated) (simp add: migrated_def)
qed (rule perform_world_ok)

section \<open>What a stored blob promises\<close>

text \<open>A predicate on the tables that saving a manifest keeps holds along every run.\<close>

locale saved_stable =
  fixes P :: "wfm_tables \<Rightarrow> bool"
  assumes saved_P: "P t \<Longrightarrow> P (saved dev m t)"
begin

lemma Upsert_stable: "P (wf_tabs w) \<Longrightarrow> P (wf_tabs (snd (run_state (UpsertDeployments dev f) w)))"
proof -
  assume P: "P (wf_tabs w)"
  obtain r w' where run: "run_state (UpsertDeployments dev f) w = (r, w')" by (metis surj_pair)
  show ?thesis
  proof (cases r)
    case (Inl e)
    with P run UpsertDeployments_Inl show ?thesis by fastforce
  next
    case (Inr u)
    with run UpsertDeployments_Inr obtain m where "wf_tabs w' = saved dev m (wf_tabs w)" by metis
    with P run saved_P show ?thesis by simp
  qed
qed

lemma or_return_stable: "P (wf_tabs (snd (run_state m w))) \<Longrightarrow> P (wf_tabs (snd (run_state (or_return m (\<lambda>x. State_Monad.return (Inr y))) w)))"
  by (cases "run_state m w") (auto simp: or_return_def split: sum.splits)

lemma perform_stable: "P (wf_tabs w) \<Longrightarrow> P (wf_tabs (wfm_perform L x w))"
proof (cases x)
  case (OpCreate dev ser)
  then show "P (wf_tabs w) \<Longrightarrow> ?thesis"
    using Upsert_stable [of "w\<lparr>wf_draws := Suc (wf_draws w)\<rparr>"]
    by (auto simp: CreateDeployment_def run_wfm_uuid intro!: or_return_stable split: option.splits)
next
  case (OpUpdate dev i ser)
  then show "P (wf_tabs w) \<Longrightarrow> ?thesis"
    using Upsert_stable [of w] by (auto simp: UpdateDeployment_def intro!: or_return_stable split: option.splits)
next
  case (OpDelete dev i)
  then show "P (wf_tabs w) \<Longrightarrow> ?thesis" using Upsert_stable [of w] by (simp add: DeleteDeployment_def)
qed (use keepsD [OF reading_keeps_tabs(1) refl] keepsD [OF reading_keeps_tabs(2) refl] keepsD [OF reading_keeps_tabs(3) refl] in simp_all)

lemma run_stable: "P (wf_tabs w) \<Longrightarrow> P (wf_tabs (fold (wfm_perform L) xs w))"
  by (induction xs arbitrary: w) (auto intro: perform_stable)

end

lemma blob_by_digest_insert:
  "blob_by_digest dg bs = Some b \<Longrightarrow> blob_by_digest dg (insert_blob dg' c bs) = Some b"
proof -
  have "find P bs = Some b \<Longrightarrow> find P (bs @ cs) = Some b" for P and cs :: "blob_row list" by (induction bs) auto
  then show "blob_by_digest dg bs = Some b \<Longrightarrow> blob_by_digest dg (insert_blob dg' c bs) = Some b"
    by (simp add: blob_by_digest_def insert_blob_def)
qed

lemma blob_by_digest_fold:
  "blob_by_digest dg bs = Some b \<Longrightarrow>
    blob_by_digest dg (fold (\<lambda>d. insert_blob (DescriptorDigest d) (Descriptor d)) ds bs) = Some b"
  by (induction ds arbitrary: bs) (auto intro: blob_by_digest_insert)

interpretation descriptor_blob: saved_stable "\<lambda>t. blob_by_digest dg (deployment_blobs t) = Some b" for dg b
  by unfold_locales (simp add: saved_def blob_by_digest_fold)

interpretation bundle_blob: saved_stable "\<lambda>t. blob_by_digest dg (bundle_blobs t) = Some b" for dg b
  by unfold_locales (simp add: saved_def blob_by_digest_insert)

interpretation known_devices: saved_stable "\<lambda>t. devices t = ds" for ds
  by unfold_locales (simp add: saved_def)

lemma blob_by_digest_ok:
  "blobs_ok L bs \<Longrightarrow> blob_by_digest dg bs = Some b \<Longrightarrow> bl_digest b = dg \<and> CalculateDigest L (bl_content b) = dg"
  by (auto simp: blob_by_digest_def blobs_ok_def find_Some_iff)

lemma GetDeployment_Inr:
  assumes "run_state (GetDeployment dev i dg) w = (Inr d, w')"
  shows "dev \<in> set (devices (wf_tabs w))"
    "\<exists>b. blob_by_digest dg (deployment_blobs (wf_tabs w)) = Some b \<and> d = \<lparr>AD_Id = i, Descriptor = bl_content b, DescriptorDigest = bl_digest b\<rparr>"
proof -
  from assms obtain u v where v: "run_state (or_return (ensureDeviceExists dev) (\<lambda>_. or_internal (GetDeploymentBlobByDigest dg) (\<lambda>r.
     State_Monad.return (case r of None \<Rightarrow> Inl [ErrDeploymentNotFound]
       | Some b \<Rightarrow> Inr \<lparr>AD_Id = i, Descriptor = bl_content b, DescriptorDigest = bl_digest b\<rparr>)))) (w\<lparr>wf_stmts := u\<rparr>) = (Inr d, v)"
    unfolding GetDeployment_def Repo_GetDeployment_def by (rule with_tx_Inr)
  then show "dev \<in> set (devices (wf_tabs w))"
    "\<exists>b. blob_by_digest dg (deployment_blobs (wf_tabs w)) = Some b \<and> d = \<lparr>AD_Id = i, Descriptor = bl_content b, DescriptorDigest = bl_digest b\<rparr>"
    by (auto simp: or_return_Inr or_internal_Inr GetDeploymentBlobByDigest_def query_Inr split: option.splits
        dest!: ensureDeviceExists_Inr)
qed

lemma GetBundle_Inr:
  assumes "run_state (GetBundle dev dg) w = (Inr a, w')"
  shows "a \<noteq> []" "\<exists>b. blob_by_digest dg (bundle_blobs (wf_tabs w)) = Some b \<and> a = bl_content b"
proof -
  from assms obtain v where a: "a \<noteq> []" and r: "run_state (Repo_GetBundle dev dg) w = (Inr a, v)"
    by (auto simp: GetBundle_def or_return_Inr split: if_splits)
  from r obtain u v where "run_state (or_return (ensureDeviceExists dev) (\<lambda>_. or_internal (GetBundleBlobByDigest dg) (\<lambda>r.
     State_Monad.return (case r of None \<Rightarrow> Inl [ErrBundleNotFound] | Some b \<Rightarrow> Inr (bl_content b))))) (w\<lparr>wf_stmts := u\<rparr>) = (Inr a, v)"
    unfolding Repo_GetBundle_def by (rule with_tx_Inr)
  then show "\<exists>b. blob_by_digest dg (bundle_blobs (wf_tabs w)) = Some b \<and> a = bl_content b"
    by (auto simp: or_return_Inr or_internal_Inr GetBundleBlobByDigest_def query_Inr split: option.splits
        dest!: ensureDeviceExists_Inr)
  show "a \<noteq> []" by (fact a)
qed

section \<open>A working database\<close>

definition wf_sound :: "wfm \<Rightarrow> bool" where
  "wf_sound w \<longleftrightarrow> (\<forall>n. \<not> wf_faults w n)"

lemma sound_updates [simp]:
  "wf_sound (w\<lparr>wf_tabs := t\<rparr>) = wf_sound w" "wf_sound (w\<lparr>wf_stmts := n\<rparr>) = wf_sound w" "wf_sound (w\<lparr>wf_draws := n\<rparr>) = wf_sound w"
  by (simp_all add: wf_sound_def)

lemma sound_exec: "wf_sound w \<Longrightarrow> run_state (exec f) w = (fst (f (wf_tabs w)), w\<lparr>wf_tabs := snd (f (wf_tabs w)), wf_stmts := Suc (wf_stmts w)\<rparr>)"
  by (simp add: wf_sound_def run_exec)

lemma sound_query: "wf_sound w \<Longrightarrow> run_state (query q) w = (Inr (q (wf_tabs w)), w\<lparr>wf_stmts := Suc (wf_stmts w)\<rparr>)"
  by (simp add: wf_sound_def run_query)

lemma run_or:
  "run_state (or_internal m f) w = (case run_state m w of (Inl e, v) \<Rightarrow> (Inl (ErrInternal # e), v) | (Inr x, v) \<Rightarrow> run_state (f x) v)"
  "run_state (or_return m f) w = (case run_state m w of (Inl e, v) \<Rightarrow> (Inl e, v) | (Inr x, v) \<Rightarrow> run_state (f x) v)"
  by (auto simp: or_internal_def or_return_def split: prod.splits sum.splits)

text \<open>A program that succeeds on a working database, moving the tables from one value to another.\<close>

definition succeeds :: "'a result wprog \<Rightarrow> wfm_tables \<Rightarrow> 'a \<Rightarrow> wfm_tables \<Rightarrow> bool" where
  "succeeds m t x t' \<longleftrightarrow> (\<forall>w. wf_sound w \<longrightarrow> wf_tabs w = t \<longrightarrow>
     (\<exists>w'. run_state m w = (Inr x, w') \<and> wf_sound w' \<and> wf_tabs w' = t'))"

lemma succeeds_exec: "f t = (Inr x, t') \<Longrightarrow> succeeds (exec f) t x t'"
  by (simp add: succeeds_def sound_exec)

lemma succeeds_query: "q t = x \<Longrightarrow> succeeds (query q) t x t"
  by (simp add: succeeds_def sound_query)

lemma succeeds_return: "succeeds (State_Monad.return (Inr x)) t x t"
  by (simp add: succeeds_def)

lemma succeeds_or:
  assumes "succeeds m t x t'" "succeeds (f x) t' y t''"
  shows "succeeds (or_internal m f) t y t''" "succeeds (or_return m f) t y t''"
  using assms unfolding succeeds_def by (fastforce simp: run_or)+

lemma succeeds_with_tx:
  assumes "succeeds m t x t'"
  shows "succeeds (with_tx m) t x t'"
proof -
  have "succeeds (or_return m (\<lambda>x. or_internal (query (\<lambda>_. ())) (\<lambda>_. State_Monad.return (Inr x)))) t x t'"
    using assms by (rule succeeds_or) (rule succeeds_or(1) [OF succeeds_query [OF refl]], rule succeeds_return)
  then have "succeeds (rolled_back (or_return m (\<lambda>x. or_internal (query (\<lambda>_. ())) (\<lambda>_. State_Monad.return (Inr x))))) t x t'"
    unfolding succeeds_def rolled_back_Inr .
  then show ?thesis unfolding with_tx_def by (rule succeeds_or(1) [OF succeeds_query [OF refl]])
qed

lemma succeeds_device: "dev \<in> set (devices t) \<Longrightarrow> succeeds (ensureDeviceExists dev) t () t"
  unfolding ensureDeviceExists_def GetDeviceId_def
  by (rule succeeds_or [OF succeeds_query [OF refl]]) (simp add: succeeds_return)

lemma succeeds_load: "manifest_of dev t \<noteq> None \<Longrightarrow> succeeds (loadManifestWithDeployments dev) t (loaded dev t) t"
  unfolding loadManifestWithDeployments_def GetManifestByDeviceId_def GetDeploymentsByDeviceId_def
  by (rule succeeds_or [OF succeeds_query [OF refl]])
    (auto simp: loaded_def stored_deployments_def intro!: succeeds_or [OF succeeds_query [OF refl]] succeeds_return)

lemma succeeds_load_or_empty: "succeeds (load_or_empty dev) t (loaded dev t) t"
proof (cases "manifest_of dev t")
  case None
  have "run_state (loadManifestWithDeployments dev) w = (Inl [ErrManifestNotFound], w\<lparr>wf_stmts := Suc (wf_stmts w)\<rparr>)"
    if "wf_sound w" "wf_tabs w = t" for w
    using that None by (simp add: loadManifestWithDeployments_def GetManifestByDeviceId_def run_or sound_query)
  then show ?thesis by (simp add: succeeds_def load_or_empty_def loaded_def None)
next
  case (Some m)
  then have "succeeds (loadManifestWithDeployments dev) t (loaded dev t) t" by (simp add: succeeds_load)
  then show ?thesis by (fastforce simp: succeeds_def load_or_empty_def)
qed

lemma succeeds_delete_missing:
  "succeeds (delete_missing dev is) t () (t\<lparr>application_deployments :=
     filter (\<lambda>q. \<not> (d_device_id q = dev \<and> d_id q \<in> set is)) (application_deployments t)\<rparr>)"
proof -
  have "\<exists>t'. succeeds (delete_missing dev is) t () t'" for t
  proof (induction "is" arbitrary: t)
    case (Cons i "is")
    have "succeeds (DeleteDeployment_stmt dev i) t () (snd (delete_deployment dev i t))"
      unfolding DeleteDeployment_stmt_def by (rule succeeds_exec) (simp add: delete_deployment_def)
    with Cons [of "snd (delete_deployment dev i t)"] show ?case by (auto intro: succeeds_or)
  qed (auto intro: succeeds_return)
  then obtain t' where s: "succeeds (delete_missing dev is) t () t'" by blast
  show ?thesis unfolding succeeds_def
  proof (intro allI impI)
    fix w assume w: "wf_sound w" "wf_tabs w = t"
    with s obtain w' where run: "run_state (delete_missing dev is) w = (Inr (), w')" and w': "wf_sound w'"
      unfolding succeeds_def by blast
    from delete_missing_Inr [OF run] w(2) w' run
    show "\<exists>w'. run_state (delete_missing dev is) w = (Inr (), w') \<and> wf_sound w' \<and> wf_tabs w' = t\<lparr>application_deployments :=
      filter (\<lambda>q. \<not> (d_device_id q = dev \<and> d_id q \<in> set is)) (application_deployments t)\<rparr>" by simp
  qed
qed

lemma succeeds_persist: "dev \<in> set (devices t) \<Longrightarrow> \<exists>t'. succeeds (persist_deployments dev ds) t () t'"
proof (induction ds arbitrary: t)
  case (Cons d ds)
  let ?t = "t\<lparr>deployment_blobs := insert_blob (DescriptorDigest d) (Descriptor d) (deployment_blobs t)\<rparr>"
  let ?r = "\<lparr>d_id = AD_Id d, d_descriptor_digest = DescriptorDigest d, d_device_id = dev\<rparr>"
  have "succeeds (InsertDeploymentBlob (DescriptorDigest d) (Descriptor d)) t () ?t"
    unfolding InsertDeploymentBlob_def by (rule succeeds_exec) simp
  moreover have "succeeds (UpsertDeployment ?r) ?t () (snd (upsert_deployment ?r ?t))"
    unfolding UpsertDeployment_def by (rule succeeds_exec) (use Cons.prems in \<open>auto simp: upsert_deployment_def insert_blob_digests\<close>)
  moreover have "dev \<in> set (devices (snd (upsert_deployment ?r ?t)))" using Cons.prems by (simp add: upsert_deployment_def)
  ultimately show ?case using Cons.IH by (fastforce intro: succeeds_or)
qed (auto intro: succeeds_return)

lemma UpsertDeployments_succeeds:
  assumes "dev \<in> set (devices t)" "f (loaded dev t) = Inr m" "BundleDigest m \<noteq> [] \<longrightarrow> BundleArchive m \<noteq> []"
  shows "\<exists>t'. succeeds (UpsertDeployments dev f) t () t'"
proof -
  let ?gone = "filter (\<lambda>i. i \<notin> AD_Id ` set (Deployments m)) (map AD_Id (Deployments (loaded dev t)))"
  let ?t1 = "t\<lparr>application_deployments := filter (\<lambda>q. \<not> (d_device_id q = dev \<and> d_id q \<in> set ?gone)) (application_deployments t)\<rparr>"
  let ?t2 = "if BundleArchive m \<noteq> [] \<and> BundleDigest m \<noteq> []
    then ?t1\<lparr>bundle_blobs := insert_blob (BundleDigest m) (BundleArchive m) (bundle_blobs ?t1)\<rparr> else ?t1"
  let ?t3 = "snd (upsert_manifest (manifest_row_of dev m) ?t2)"
  have 2: "succeeds (if BundleArchive m \<noteq> [] \<and> BundleDigest m \<noteq> []
      then InsertBundleBlob (BundleDigest m) (BundleArchive m) else State_Monad.return (Inr ())) ?t1 () ?t2"
    unfolding InsertBundleBlob_def by (auto intro: succeeds_exec succeeds_return)
  have 3: "succeeds (UpsertManifest (manifest_row_of dev m)) ?t2 () ?t3"
    unfolding UpsertManifest_def
    by (rule succeeds_exec) (use assms(1,3) in \<open>auto simp: upsert_manifest_def manifest_row_of_def insert_blob_digests split: if_splits\<close>)
  have "dev \<in> set (devices ?t3)" using assms(1) by (simp add: upsert_manifest_def)
  then obtain t4 where 4: "succeeds (persist_deployments dev (Deployments m)) ?t3 () t4" using succeeds_persist by blast
  have "succeeds (save_manifest dev (loaded dev t) m) t () t4"
    unfolding save_manifest_def by (intro succeeds_or [OF succeeds_delete_missing] succeeds_or [OF 2] succeeds_or [OF 3] 4)
  then have "succeeds (UpsertDeployments dev f) t () t4"
    unfolding UpsertDeployments_def using assms(2)
    by (intro succeeds_with_tx succeeds_or [OF succeeds_device [OF assms(1)]] succeeds_or [OF succeeds_load_or_empty]) simp
  then show ?thesis ..
qed

section \<open>Refinement\<close>

lemma loaded_dom:
  "wfm_inv L t \<Longrightarrow> AD_Id ` set (Deployments (loaded dev t)) = dom (content dev (application_deployments t))"
  by (metis dom_digests loaded_props(2))

lemma create_refines:
  assumes "world_ok L w" "bundles_identified L" "run_state (CreateDeployment L dev ser) w = (Inr d, w')"
  shows "AD_Id d \<notin> dom (content dev (application_deployments (wf_tabs w)))"
    "fleet_step dev (Put (AD_Id d) (DescriptorDigest d)) (fleet_of (wf_tabs w)) (fleet_of (wf_tabs w'))"
proof -
  obtain rendered where d: "d = new_deployment L (wf_uuids w (wf_draws w)) rendered"
    and run: "run_state (UpsertDeployments dev (add_deployment L d)) (w\<lparr>wf_draws := Suc (wf_draws w)\<rparr>) = (Inr (), w')"
    using assms(3) by (rule CreateDeployment_Inr)
  have inv: "wfm_inv L (wf_tabs w)" using assms(1) by (simp add: world_ok_def)
  have fresh: "AD_Id d \<notin> AD_Id ` set (Deployments (loaded dev (wf_tabs w)))"
    using fresh_uuid [OF assms(1)] by (simp add: d)
  then show "AD_Id d \<notin> dom (content dev (application_deployments (wf_tabs w)))" by (simp add: loaded_dom [OF inv])
  from adding.Upsert_refines [OF run [unfolded d] _ _ assms(2), of "Put (AD_Id d) (DescriptorDigest d)"] inv fresh
  show "fleet_step dev (Put (AD_Id d) (DescriptorDigest d)) (fleet_of (wf_tabs w)) (fleet_of (wf_tabs w'))"
    using add_deployment_Inr(1) [OF inv] by (simp add: d)
qed

lemma update_refines:
  assumes "world_ok L w" "bundles_identified L" "run_state (UpdateDeployment L dev i ser) w = (Inr d, w')"
  shows "AD_Id d = i" "i \<in> dom (content dev (application_deployments (wf_tabs w)))"
    "fleet_step dev (Put i (DescriptorDigest d)) (fleet_of (wf_tabs w)) (fleet_of (wf_tabs w'))"
proof -
  obtain rendered where d: "d = new_deployment L i rendered"
    and run: "run_state (UpsertDeployments dev (replace_deployment L d)) w = (Inr (), w')"
    using assms(3) by (rule UpdateDeployment_Inr)
  have inv: "wfm_inv L (wf_tabs w)" using assms(1) by (simp add: world_ok_def)
  show "AD_Id d = i" by (simp add: d)
  obtain m where "replace_deployment L d (loaded dev (wf_tabs w)) = Inr m" using run by (rule UpsertDeployments_Inr)
  then show "i \<in> dom (content dev (application_deployments (wf_tabs w)))" using replace_deployment_Inr(3) [OF inv] d by blast
  from replacing.Upsert_refines [OF run [unfolded d] inv TrueI assms(2), of "Put i (DescriptorDigest d)"]
  show "fleet_step dev (Put i (DescriptorDigest d)) (fleet_of (wf_tabs w)) (fleet_of (wf_tabs w'))"
    using replace_deployment_Inr(1) [OF inv] by (simp add: d)
qed

lemma delete_refines:
  assumes "world_ok L w" "bundles_identified L" "run_state (DeleteDeployment L dev i) w = (Inr u, w')"
  shows "i \<in> dom (content dev (application_deployments (wf_tabs w)))"
    "fleet_step dev (Drop i) (fleet_of (wf_tabs w)) (fleet_of (wf_tabs w'))"
proof -
  have inv: "wfm_inv L (wf_tabs w)" using assms(1) by (simp add: world_ok_def)
  note run = assms(3) [unfolded DeleteDeployment_def]
  obtain m where "drop_deployment L i (loaded dev (wf_tabs w)) = Inr m" using run by (rule UpsertDeployments_Inr)
  then show "i \<in> dom (content dev (application_deployments (wf_tabs w)))" using drop_deployment_Inr(3) [OF inv] by blast
  show "fleet_step dev (Drop i) (fleet_of (wf_tabs w)) (fleet_of (wf_tabs w'))"
    by (rule dropping.Upsert_refines [OF run inv TrueI assms(2)]) (rule drop_deployment_Inr(1) [OF inv])
qed

lemma or_return_Inl:
  "run_state (or_return m (\<lambda>x. State_Monad.return (Inr y))) w = (Inl e, w') \<Longrightarrow> run_state m w = (Inl e, w')"
  by (cases "run_state m w") (auto simp: or_return_def split: sum.splits)

lemma failures_keep_tabs:
  "run_state (CreateDeployment L dev ser) w = (Inl e, w') \<Longrightarrow> wf_tabs w' = wf_tabs w"
  "run_state (UpdateDeployment L dev i ser) w = (Inl e, w') \<Longrightarrow> wf_tabs w' = wf_tabs w"
  "run_state (DeleteDeployment L dev i) w = (Inl e, w') \<Longrightarrow> wf_tabs w' = wf_tabs w"
  by (auto simp: CreateDeployment_def UpdateDeployment_def DeleteDeployment_def run_wfm_uuid split: option.splits if_splits
      dest!: or_return_Inl dest: UpsertDeployments_Inl)

section \<open>Creation on a working database\<close>

text \<open>Archives of memory files are written without an error and are never empty.\<close>

definition archives_work :: "wfmlib \<Rightarrow> bool" where
  "archives_work L \<longleftrightarrow> (\<forall>fs. \<exists>a. createBundleArchive L fs = Some a \<and> a \<noteq> [])"

lemma rebuild_works:
  assumes "archives_work L"
  obtains m' where "rebuildManifestBundle L m = Inr m'" "BundleDigest m' \<noteq> [] \<longrightarrow> BundleArchive m' \<noteq> []"
proof -
  obtain a where "createBundleArchive L (bundle_files (Deployments m)) = Some a" "a \<noteq> []" using assms unfolding archives_work_def by blast
  then have "\<exists>m'. rebuildManifestBundle L m = Inr m' \<and> (BundleDigest m' \<noteq> [] \<longrightarrow> BundleArchive m' \<noteq> [])"
    by (auto simp: rebuildManifestBundle_def Let_def)
  then show thesis using that by blast
qed

lemma Create_succeeds:
  assumes "wf_sound w" "dev \<in> set (devices (wf_tabs w))" "archives_work L" "yaml_Unmarshal L ser = Some desc" "validate_Struct L desc"
    "yaml_Marshal L (set_deployment_id (wf_uuids w (wf_draws w)) desc) = Some rendered"
  obtains w' where "run_state (CreateDeployment L dev ser) w = (Inr (new_deployment L (wf_uuids w (wf_draws w)) rendered), w')" "wf_sound w'"
proof -
  let ?d = "new_deployment L (wf_uuids w (wf_draws w)) rendered"
  obtain m where "add_deployment L ?d (loaded dev (wf_tabs w)) = Inr m" "BundleDigest m \<noteq> [] \<longrightarrow> BundleArchive m \<noteq> []"
    unfolding add_deployment_def using assms(3) by (rule rebuild_works)
  then obtain t' where "succeeds (UpsertDeployments dev (add_deployment L ?d)) (wf_tabs w) () t'"
    using UpsertDeployments_succeeds [OF assms(2)] by blast
  from this [unfolded succeeds_def, rule_format, of "w\<lparr>wf_draws := Suc (wf_draws w)\<rparr>"] assms(1)
  obtain w' where "run_state (UpsertDeployments dev (add_deployment L ?d)) (w\<lparr>wf_draws := Suc (wf_draws w)\<rparr>) = (Inr (), w')" "wf_sound w'" by auto
  then show thesis using assms(4-6) by (intro that [of w']) (simp_all add: CreateDeployment_def run_wfm_uuid run_or)
qed

text \<open>After a successful creation the descriptor is filed, under the digest it was answered with.\<close>

lemma blob_after_fold:
  assumes "d \<in> set ds"
  shows "\<exists>b. blob_by_digest (DescriptorDigest d) (fold (\<lambda>d. insert_blob (DescriptorDigest d) (Descriptor d)) ds bs) = Some b"
proof -
  have "DescriptorDigest d \<in> bl_digest ` set (fold (\<lambda>d. insert_blob (DescriptorDigest d) (Descriptor d)) ds bs)"
    using assms by (simp add: fold_blob_digests)
  then show ?thesis unfolding blob_by_digest_def
    by (cases "find (\<lambda>b. bl_digest b = DescriptorDigest d) (fold (\<lambda>d. insert_blob (DescriptorDigest d) (Descriptor d)) ds bs)")
      (auto simp: find_None_iff)
qed

lemma created_blob:
  assumes "world_ok L w" "run_state (CreateDeployment L dev ser) w = (Inr d, w')"
  obtains b where "blob_by_digest (DescriptorDigest d) (deployment_blobs (wf_tabs w')) = Some b"
    "CalculateDigest L (bl_content b) = DescriptorDigest d" "dev \<in> set (devices (wf_tabs w'))"
proof -
  obtain rendered where d: "d = new_deployment L (wf_uuids w (wf_draws w)) rendered"
    and run: "run_state (UpsertDeployments dev (add_deployment L d)) (w\<lparr>wf_draws := Suc (wf_draws w)\<rparr>) = (Inr (), w')"
    using assms(2) by (rule CreateDeployment_Inr)
  obtain m where m: "dev \<in> set (devices (wf_tabs w))" "add_deployment L d (loaded dev (wf_tabs w)) = Inr m"
    "wf_tabs w' = saved dev m (wf_tabs w)"
    by (rule UpsertDeployments_Inr [OF run]) simp
  have "d \<in> set (Deployments m)" using rebuild_Inr(1) [OF m(2) [unfolded add_deployment_def]] by simp
  then obtain b where b: "blob_by_digest (DescriptorDigest d) (deployment_blobs (wf_tabs w')) = Some b"
    using blob_after_fold by (fastforce simp: m(3) saved_def)
  have "world_ok L w'" using Upsert_add_world_ok [OF assms(1) refl run [unfolded d]] .
  then have "blobs_ok L (deployment_blobs (wf_tabs w'))" by (simp add: world_ok_def wfm_inv_def)
  with blob_by_digest_ok b have "CalculateDigest L (bl_content b) = DescriptorDigest d" by blast
  with b m show thesis by (intro that [of b]) (simp_all add: saved_def)
qed

section \<open>Refusals on a working database\<close>

lemma Upsert_unknown_device:
  assumes "wf_sound w" "dev \<notin> set (devices (wf_tabs w))"
  shows "\<exists>w'. run_state (UpsertDeployments dev f) w = (Inl [ErrDeviceNotFound], w')"
  using assms
  by (simp add: UpsertDeployments_def with_tx_def run_or sound_query rolled_back_def ensureDeviceExists_def GetDeviceId_def)

lemma Upsert_refused:
  assumes "wf_sound w" "dev \<in> set (devices (wf_tabs w))" "f (loaded dev (wf_tabs w)) = Inl e"
  shows "\<exists>w'. run_state (UpsertDeployments dev f) w = (Inl (ErrInternal # e), w')"
proof -
  let ?w = "w\<lparr>wf_stmts := Suc (wf_stmts w)\<rparr>"
  obtain v where v: "run_state (ensureDeviceExists dev) ?w = (Inr (), v)" "wf_sound v" "wf_tabs v = wf_tabs w"
    using succeeds_device [OF assms(2), unfolded succeeds_def, rule_format, of ?w] assms(1) by auto
  obtain u where "run_state (load_or_empty dev) v = (Inr (loaded dev (wf_tabs w)), u)"
    using succeeds_load_or_empty [of dev "wf_tabs w", unfolded succeeds_def, rule_format, of v] v by auto
  with v(1) assms(1,3) show ?thesis
    by (simp add: UpsertDeployments_def with_tx_def run_or sound_query rolled_back_def)
qed

end
