(* ===== verification/WFM_HTTP.thy ===== *)
theory WFM_HTTP
  imports WFM_Runs
begin

text \<open>
  The HTTP interface of the fleet manager, \<^verbatim>\<open>adapter/transport/http\<close>: the handlers, the
  conditional requests, content negotiation and the routes. A handler is a program that yields
  the response it writes.
\<close>

section \<open>Conditional requests\<close>

definition DQUOTE :: char where "DQUOTE = CHR 0x22"

definition quoted :: "string \<Rightarrow> string" where
  "quoted s = [DQUOTE] @ s @ [DQUOTE]"

text \<open>
  The inner loop of \<^verbatim>\<open>clientHasETag\<close>: the index of the closing quote, from the index
  \<open>n\<close> of the next character.
\<close>

fun closing_quote :: "string \<Rightarrow> bool \<Rightarrow> nat \<Rightarrow> nat option" where
  "closing_quote [] escaped n = None"
| "closing_quote (c # cs) escaped n =
     (if c = CHR 0x5C then closing_quote cs (\<not> escaped) (Suc n)
      else if c = DQUOTE then (if \<not> escaped then Some n else closing_quote cs False (Suc n))
      else closing_quote cs False (Suc n))"

text \<open>The loop over one header value; leaving it is \<open>False\<close>, as only the return of true matters.\<close>

function has_etag :: "string \<Rightarrow> string \<Rightarrow> bool" where
  "has_etag cur remaining =
     (if remaining = [] then False
      else let r = TrimLeft remaining [CHR '' '', CHR 0x09, CHR '',''] in
        if r = [] then False
        else if hd r = CHR ''*'' then True
        else let weak = HasPrefix r ''W/'';
                 q = (if weak then TrimLeft (TrimPrefix r ''W/'') [CHR '' '', CHR 0x09] else r) in
          if \<not> HasPrefix q [DQUOTE] then
            (case find_index (CHR '','') q of
               None \<Rightarrow> False
             | Some commaIdx \<Rightarrow> has_etag cur (drop (commaIdx + 1) q))
          else (case closing_quote (tl q) False 1 of
               None \<Rightarrow> False
             | Some e \<Rightarrow>
                 let tag = (if weak then ''W/'' else []) @ take (e + 1) q in
                 if tag = cur then True
                 else has_etag cur (if length q \<le> e + 1 then [] else drop (e + 1) q)))"
  by pat_completeness auto

lemma TrimLeft_le: "length (TrimLeft s cs) \<le> length s"
  by (simp add: TrimLeft_def length_dropWhile_le)

lemma skip_weak_le: "length (TrimLeft (TrimPrefix (TrimLeft s cs) p) ds) \<le> length s"
  using TrimLeft_le [of s cs] TrimLeft_le [of "TrimPrefix (TrimLeft s cs) p" ds] by (auto simp: TrimPrefix_def split: if_splits)

lemma drop_shorter: "length q \<le> length (s :: string) \<Longrightarrow> s \<noteq> [] \<Longrightarrow> length q - Suc n < length s"
  by (cases s) auto

termination has_etag
  by (relation "measure (\<lambda>(cur, remaining). length remaining)")
    (auto simp: drop_shorter [OF skip_weak_le] drop_shorter [OF TrimLeft_le])

declare has_etag.simps [simp del]

definition clientHasETag :: "http_header \<Rightarrow> string \<Rightarrow> bool" where
  "clientHasETag header currentETag =
     (if currentETag = [] then False
      else list_ex (\<lambda>value. has_etag currentETag (TrimSpace value)) (Header_Values header ''If-None-Match''))"

text \<open>The reference: a header value that is a list of entity tags, strong or weak.\<close>

datatype etag = ETag bool string

fun etag_text :: "etag \<Rightarrow> string" where
  "etag_text (ETag weak s) = (if weak then ''W/'' else []) @ quoted s"

fun etag_ok :: "etag \<Rightarrow> bool" where
  "etag_ok (ETag weak s) \<longleftrightarrow> DQUOTE \<notin> set s \<and> CHR 0x5C \<notin> set s"

fun etags_text :: "etag list \<Rightarrow> string" where
  "etags_text [] = []"
| "etags_text [t] = etag_text t"
| "etags_text (t # ts) = etag_text t @ '', '' @ etags_text ts"

lemma closing_quote_clean:
  "DQUOTE \<notin> set s \<Longrightarrow> CHR 0x5C \<notin> set s \<Longrightarrow> closing_quote (s @ DQUOTE # rest) False n = Some (n + length s)"
  by (induction s arbitrary: n) (auto simp: DQUOTE_def)

lemma has_etag_Nil [simp]: "has_etag cur [] = False"
  by (subst has_etag.simps) simp

lemma has_etag_separator: "c \<in> {CHR '' '', CHR 0x09, CHR '',''} \<Longrightarrow> has_etag cur (c # s) = has_etag cur s"
proof -
  assume c: "c \<in> {CHR '' '', CHR 0x09, CHR '',''}"
  then have "TrimLeft (c # s) [CHR '' '', CHR 0x09, CHR '',''] = TrimLeft s [CHR '' '', CHR 0x09, CHR '','']"
    by (auto simp: TrimLeft_def)
  then show ?thesis by (subst (1 2) has_etag.simps) (simp add: TrimLeft_def)
qed

lemma has_etag_tag:
  assumes "etag_ok t"
  shows "has_etag cur (etag_text t @ rest) \<longleftrightarrow> etag_text t = cur \<or> has_etag cur rest"
proof -
  obtain weak s where t: "t = ETag weak s" by (cases t)
  let ?q = "DQUOTE # s @ DQUOTE # rest"
  have close: "closing_quote (s @ DQUOTE # rest) False 1 = Some (Suc (length s))"
    using closing_quote_clean [of s rest 1] assms by (simp add: t)
  have cut: "take (Suc (Suc (length s))) ?q = quoted s" "drop (Suc (Suc (length s))) ?q = rest"
    by (simp_all add: quoted_def)
  have next_value: "(if length ?q \<le> Suc (Suc (length s)) then [] else rest) = rest" by auto
  show ?thesis
  proof (cases weak)
    case True
    then show ?thesis using close cut next_value
      by (subst has_etag.simps)
        (auto simp: t TrimLeft_def HasPrefix_def TrimPrefix_def quoted_def DQUOTE_def Let_def)
  next
    case False
    then show ?thesis using close cut next_value
      by (subst has_etag.simps)
        (auto simp: t TrimLeft_def HasPrefix_def TrimPrefix_def quoted_def DQUOTE_def Let_def)
  qed
qed

lemma has_etag_list: "list_all etag_ok ts \<Longrightarrow> has_etag cur (etags_text ts) \<longleftrightarrow> cur \<in> etag_text ` set ts"
proof (induction ts rule: etags_text.induct)
  case (2 t)
  then show ?case using has_etag_tag [of t cur "[]"] by auto
next
  case (3 t u ts)
  then show ?case using has_etag_tag [of t cur "'', '' @ etags_text (u # ts)"] by (auto simp: has_etag_separator)
qed simp

lemma etags_text_ends: "ts \<noteq> [] \<Longrightarrow> \<exists>s. etags_text ts = s @ [DQUOTE]"
proof (induction ts rule: etags_text.induct)
  case (2 t)
  then show ?case by (cases t) (auto simp: quoted_def)
next
  case (3 t u ts)
  then obtain s where "etags_text (u # ts) = s @ [DQUOTE]" by blast
  then have "etags_text (t # u # ts) = (etag_text t @ '', '' @ s) @ [DQUOTE]" by simp
  then show ?case by blast
qed simp

lemma etags_text_starts: "ts \<noteq> [] \<Longrightarrow> \<exists>s. etags_text ts = CHR ''W'' # s \<or> etags_text ts = DQUOTE # s"
proof (cases ts)
  case (Cons t us)
  then show "ts \<noteq> [] \<Longrightarrow> ?thesis" by (cases t; cases us) (auto simp: quoted_def)
qed simp

lemma TrimSpace_etags: "TrimSpace (etags_text ts) = etags_text ts"
proof (cases "ts = []")
  case False
  have space: "\<not> is_space (CHR ''W'')" "\<not> is_space DQUOTE" by (simp_all add: is_space_def DQUOTE_def)
  obtain s where "etags_text ts = s @ [DQUOTE]" using etags_text_ends [OF False] by blast
  moreover have "dropWhile is_space (etags_text ts) = etags_text ts"
    using etags_text_starts [OF False] space by auto
  ultimately show ?thesis using space by (simp add: TrimSpace_def)
qed (simp add: TrimSpace_def)

section \<open>Content negotiation\<close>

fun Contains :: "string \<Rightarrow> string \<Rightarrow> bool" where
  "Contains [] sub = (sub = [])"
| "Contains (c # cs) sub = (HasPrefix (c # cs) sub \<or> Contains cs sub)"

definition validateManifestAcceptHeader :: "http_header \<Rightarrow> bool" where
  "validateManifestAcceptHeader header =
     (let acceptHeader = Header_Get header ''Accept'' in
      acceptHeader = [] \<or>
      list_ex (Contains acceptHeader) [''application/vnd.margo.manifest.v1+json'', ''*/*'', ''application/*''])"

section \<open>Handlers\<close>

definition deployment_url :: "string \<Rightarrow> string \<Rightarrow> string \<Rightarrow> string" where
  "deployment_url dev i dg = ''/api/v1/devices/'' @ dev @ ''/deployments/'' @ i @ ''/'' @ dg"

definition bundle_url :: "string \<Rightarrow> string \<Rightarrow> string" where
  "bundle_url dev dg = ''/api/v1/devices/'' @ dev @ ''/bundles/'' @ dg"

text \<open>The answer to a created or updated deployment.\<close>

definition stored_response :: "int \<Rightarrow> string \<Rightarrow> ApplicationDeployment \<Rightarrow> http_response" where
  "stored_response code dev d = \<lparr>rs_Status = code,
     rs_Header = [(''ETag'', quoted (DescriptorDigest d)), (''Content-Type'', ''application/yaml''),
       (''Location'', deployment_url dev (AD_Id d) (DescriptorDigest d))],
     rs_Body = Descriptor d\<rparr>"

definition CreateDeployment_handler :: "wfmlib \<Rightarrow> string \<Rightarrow> http_request \<Rightarrow> http_response wprog" where
  "CreateDeployment_handler L dev r = (case rq_Body r of
     None \<Rightarrow> State_Monad.return (http_Error ''Bad request'' 400)
   | Some descriptor \<Rightarrow> do {
       x \<leftarrow> CreateDeployment L dev descriptor;
       State_Monad.return (case x of
         Inl e \<Rightarrow>
           if errors_Is e ErrDeviceNotFound then http_Error ''Device not found'' 404
           else if errors_Is e ErrInvalidDeploymentDescriptor then http_Error ''Invalid deployment descriptor'' 400
           else http_Error ''Internal server error'' 500
       | Inr created \<Rightarrow> stored_response 201 dev created) })"

definition UpdateDeployment_handler :: "wfmlib \<Rightarrow> string \<Rightarrow> string \<Rightarrow> http_request \<Rightarrow> http_response wprog" where
  "UpdateDeployment_handler L dev i r = (case rq_Body r of
     None \<Rightarrow> State_Monad.return (http_Error ''Bad request'' 400)
   | Some descriptor \<Rightarrow> do {
       x \<leftarrow> UpdateDeployment L dev i descriptor;
       State_Monad.return (case x of
         Inl e \<Rightarrow>
           if errors_Is e ErrDeviceNotFound then http_Error ''Device not found'' 404
           else if errors_Is e ErrDeploymentNotFound then http_Error ''Deployment not found'' 404
           else if errors_Is e ErrInvalidDeploymentDescriptor then http_Error ''Invalid deployment descriptor'' 400
           else http_Error ''Internal server error'' 500
       | Inr updated \<Rightarrow> stored_response 200 dev updated) })"

definition DeleteDeployment_handler :: "wfmlib \<Rightarrow> string \<Rightarrow> string \<Rightarrow> http_response wprog" where
  "DeleteDeployment_handler L dev i = do {
     x \<leftarrow> DeleteDeployment L dev i;
     State_Monad.return (case x of
       Inl e \<Rightarrow>
         if errors_Is e ErrDeviceNotFound then http_Error ''Device not found'' 404
         else if errors_Is e ErrDeploymentNotFound then http_Error ''Deployment not found'' 404
         else http_Error ''Internal server error'' 500
     | Inr _ \<Rightarrow> \<lparr>rs_Status = 204, rs_Header = [], rs_Body = []\<rparr>) }"

definition manifest_response :: "string \<Rightarrow> ApplicationDeploymentManifest \<Rightarrow> GetDeploymentManifestResponse" where
  "manifest_response dev manifest = \<lparr>GR_ManifestVersion = Version manifest,
     GR_Bundle = (if BundleDigest manifest \<noteq> [] then
       Some \<lparr>BD_MediaType = ''application/vnd.margo.bundle.v1+tar+gzip'', BD_Digest = BundleDigest manifest,
         BD_URL = bundle_url dev (BundleDigest manifest)\<rparr> else None),
     GR_Deployments = map (\<lambda>d. \<lparr>DD_DeploymentId = AD_Id d, DD_Digest = DescriptorDigest d,
       DD_URL = deployment_url dev (AD_Id d) (DescriptorDigest d)\<rparr>) (Deployments manifest)\<rparr>"

text \<open>Writing a body under an ETag, or 304 when the client has it.\<close>

definition conditional :: "http_request \<Rightarrow> string \<Rightarrow> http_header \<Rightarrow> bytes \<Rightarrow> http_response" where
  "conditional r etag hdr body =
     (if clientHasETag (rq_Header r) etag then \<lparr>rs_Status = 304, rs_Header = [(''ETag'', etag)], rs_Body = []\<rparr>
      else \<lparr>rs_Status = 200, rs_Header = (''ETag'', etag) # hdr, rs_Body = body\<rparr>)"

definition answer_manifest :: "wfmlib \<Rightarrow> string \<Rightarrow> http_request \<Rightarrow> ApplicationDeploymentManifest \<Rightarrow> http_response" where
  "answer_manifest L dev r manifest = (case json_Marshal L (manifest_response dev manifest) of
     None \<Rightarrow> http_Error ''Internal server error'' 500
   | Some jsonData \<Rightarrow> conditional r (quoted (CalculateDigest L jsonData))
       [(''Content-Type'', ''application/vnd.margo.manifest.v1+json'')] jsonData)"

definition not_acceptable :: string where
  "not_acceptable = ''Not Acceptable: Server cannot generate a response that matches any of the media types listed in the Accept header''"

definition GetDeploymentManifest_handler :: "wfmlib \<Rightarrow> string \<Rightarrow> http_request \<Rightarrow> http_response wprog" where
  "GetDeploymentManifest_handler L dev r =
     (if \<not> validateManifestAcceptHeader (rq_Header r) then State_Monad.return (http_Error not_acceptable 406)
      else do {
        x \<leftarrow> GetDeploymentManifest dev;
        State_Monad.return (case x of
          Inl e \<Rightarrow>
            if errors_Is e ErrManifestNotFound then answer_manifest L dev r empty_manifest
            else if errors_Is e ErrDeviceNotFound then http_Error ''Device not found'' 404
            else http_Error ''Internal server error'' 500
        | Inr manifest \<Rightarrow> answer_manifest L dev r manifest) })"

definition immutable_cache :: "string \<times> string" where
  "immutable_cache = (''Cache-Control'', ''public, max-age=31536000, immutable'')"

definition GetDeployment_handler :: "string \<Rightarrow> string \<Rightarrow> string \<Rightarrow> http_request \<Rightarrow> http_response wprog" where
  "GetDeployment_handler dev i dg r = do {
     x \<leftarrow> GetDeployment dev i dg;
     State_Monad.return (case x of
       Inl e \<Rightarrow>
         if errors_Is e ErrDeviceNotFound then http_Error ''Device not found'' 404
         else if errors_Is e ErrDeploymentNotFound then http_Error ''Deployment not found'' 404
         else http_Error ''Internal server error'' 500
     | Inr deployment \<Rightarrow> conditional r (quoted (DescriptorDigest deployment))
         [(''Content-Type'', ''application/yaml''), immutable_cache] (Descriptor deployment)) }"

definition GetBundle_handler :: "string \<Rightarrow> string \<Rightarrow> http_request \<Rightarrow> http_response wprog" where
  "GetBundle_handler dev dg r = do {
     x \<leftarrow> GetBundle dev dg;
     State_Monad.return (case x of
       Inl e \<Rightarrow>
         if errors_Is e ErrDeviceNotFound then http_Error ''Device not found'' 404
         else if errors_Is e ErrBundleNotFound then http_Error ''Bundle not found'' 404
         else http_Error ''Internal server error'' 500
     | Inr archive \<Rightarrow> conditional r (quoted dg)
         [(''Content-Type'', ''application/vnd.margo.bundle.v1+tar+gzip''), immutable_cache] archive) }"

section \<open>Routes\<close>

text \<open>
  The patterns \<^verbatim>\<open>NewServer\<close> registers, on the segments of a clean path. A path of the API under another method is not
  allowed; other paths are the documentation's or unknown, which \<open>docs\<close> answers.
\<close>

definition NewServer :: "wfmlib \<Rightarrow> (http_request \<Rightarrow> http_response) \<Rightarrow> http_request \<Rightarrow> http_response wprog" where
  "NewServer L docs r = (case rq_Path r of
     [api, v1, devs, dev, kind] \<Rightarrow>
       if [api, v1, devs, kind] \<noteq> [''api'', ''v1'', ''devices'', ''deployments''] then State_Monad.return (docs r)
       else if is_get (rq_Method r) then GetDeploymentManifest_handler L dev r
       else if rq_Method r = ''POST'' then CreateDeployment_handler L dev r
       else State_Monad.return method_not_allowed
   | [api, v1, devs, dev, kind, x] \<Rightarrow>
       if [api, v1, devs, kind] = [''api'', ''v1'', ''devices'', ''bundles''] then
         (if is_get (rq_Method r) then GetBundle_handler dev x r else State_Monad.return method_not_allowed)
       else if [api, v1, devs, kind] = [''api'', ''v1'', ''devices'', ''deployments''] then
         (if rq_Method r = ''PUT'' then UpdateDeployment_handler L dev x r
          else if rq_Method r = ''DELETE'' then DeleteDeployment_handler L dev x
          else State_Monad.return method_not_allowed)
       else State_Monad.return (docs r)
   | [api, v1, devs, dev, kind, x, y] \<Rightarrow>
       if [api, v1, devs, kind] \<noteq> [''api'', ''v1'', ''devices'', ''deployments''] then State_Monad.return (docs r)
       else if is_get (rq_Method r) then GetDeployment_handler dev x y r
       else State_Monad.return method_not_allowed
   | [healthz] \<Rightarrow>
       if healthz = ''healthz'' then State_Monad.return
         (if is_get (rq_Method r) then \<lparr>rs_Status = 204, rs_Header = [], rs_Body = []\<rparr> else method_not_allowed)
       else State_Monad.return (docs r)
   | _ \<Rightarrow> State_Monad.return (docs r))"

end
