(* ===== verification/WFM_Client.thy ===== *)
theory WFM_Client
  imports WFM_State
begin

text \<open>
  The client \<^verbatim>\<open>cmd/wfm-client/main.go\<close>: one poll of the manifest, the fetches it leads
  to and the reconciliation of the cached deployments.

  The network answers the requests of a poll one after the other; an answer is none at all
  (building or sending the request fails) or a reply, whose body is \<open>None\<close> when reading it
  fails. Go iterates over a map in no fixed order: the order is an argument \<open>ord\<close> that lists the
  keys of a map.
\<close>

section \<open>Types\<close>

record clientConfig =
  BaseURL :: string
  DeviceID :: string

record deploymentCacheEntry =
  ce_Digest :: string
  ce_ApplicationID :: string
  ce_Name :: string

record resolvedDeployment =
  rd_Digest :: string
  rd_Descriptor :: "ApplicationDeploymentDescriptor option"

record client_state =
  ManifestETag :: string
  ManifestVersion :: "64 word"
  st_Deployments :: "string \<rightharpoonup> deploymentCacheEntry"
  BundleFetched :: bool

record net =
  net_answer :: "nat \<Rightarrow> string \<Rightarrow> http_header \<Rightarrow> http_reply option"
  net_count :: nat

type_synonym 'a cprog = "(net, 'a) state"

definition client_Do :: "string \<Rightarrow> http_header \<Rightarrow> http_reply option cprog" where
  "client_Do url hdr = State (\<lambda>n. (net_answer n (net_count n) url hdr, n\<lparr>net_count := Suc (net_count n)\<rparr>))"

lemma run_client_Do [run_simps]:
  "run_state (client_Do url hdr) n = (net_answer n (net_count n) url hdr, n\<lparr>net_count := Suc (net_count n)\<rparr>)"
  by (simp add: client_Do_def)

section \<open>URLs, digests, file names\<close>

definition has_scheme :: "string \<Rightarrow> bool" where
  "has_scheme s \<longleftrightarrow> HasPrefix s ''http://'' \<or> HasPrefix s ''https://''"

definition resolveURL :: "string \<Rightarrow> string \<Rightarrow> string" where
  "resolveURL base ref =
     (if ref = [] then ref
      else if has_scheme ref then ref
      else if \<not> has_scheme base then ref
      else if HasPrefix ref ''/'' then TrimRight base ''/'' @ ref
      else TrimRight base ''/'' @ ''/'' @ ref)"

definition is_hex :: "char \<Rightarrow> bool" where
  "is_hex c \<longleftrightarrow> c \<in> set ''0123456789abcdef''"

definition is_algorithm_char :: "char \<Rightarrow> bool" where
  "is_algorithm_char c \<longleftrightarrow> c \<in> set ''abcdefghijklmnopqrstuvwxyz0123456789_-''"

text \<open>\<^verbatim>\<open>digestRe\<close>: an algorithm of at least one character, a colon and 64 hexadecimal digits.\<close>

definition digestRe :: "string \<Rightarrow> bool" where
  "digestRe s \<longleftrightarrow> 65 < length s \<and> list_all is_algorithm_char (take (length s - 65) s) \<and>
     s ! (length s - 65) = CHR '':'' \<and> list_all is_hex (drop (length s - 64) s)"

definition isSupportedDigest :: "string \<Rightarrow> bool" where
  "isSupportedDigest digest \<longleftrightarrow> digestRe digest \<and> HasPrefix digest ''sha256:''"

text \<open>\<^verbatim>\<open>filepath.Ext\<close>: the last element of the path from its last dot on.\<close>

definition Ext :: "string \<Rightarrow> string" where
  "Ext path = (let base = takeWhile (\<lambda>c. c \<noteq> CHR ''/'') (rev path) in
     if CHR ''.'' \<in> set base then rev (takeWhile (\<lambda>c. c \<noteq> CHR ''.'') base @ ''.'') else [])"

definition is_yaml_name :: "string \<Rightarrow> bool" where
  "is_yaml_name name \<longleftrightarrow> map ToLower_ascii (Ext name) \<in> {''.yaml'', ''.yml''}"

section \<open>Fetching\<close>

text \<open>The manifest with its ETag, or nothing new.\<close>

definition fetchManifest :: "wfmlib \<Rightarrow> clientConfig \<Rightarrow> string \<Rightarrow> (GetDeploymentManifestResponse \<times> string) option result cprog" where
  "fetchManifest L cfg etag = do {
     r \<leftarrow> client_Do (resolveURL (BaseURL cfg) (''/api/v1/devices/'' @ DeviceID cfg @ ''/deployments''))
       (if etag \<noteq> [] then [(''If-None-Match'', etag)] else []);
     State_Monad.return (case r of
       None \<Rightarrow> Inl [Opaque ''manifest request failed'']
     | Some resp \<Rightarrow>
         if rp_Status resp = 304 then Inr None
         else if rp_Status resp = 200 then
           (case rp_Body resp of
              None \<Rightarrow> Inl [Opaque ''manifest read failed'']
            | Some raw \<Rightarrow> (case json_Unmarshal L raw of
                None \<Rightarrow> Inl [Opaque ''manifest parse error'']
              | Some manifest \<Rightarrow> Inr (Some (manifest, Header_Get (rp_Header resp) ''ETag''))))
         else Inl [Opaque ''unexpected manifest status'']) }"

definition fetchDeployment :: "wfmlib \<Rightarrow> string \<Rightarrow> string \<Rightarrow> ApplicationDeploymentDescriptor option cprog" where
  "fetchDeployment L url expectedDigest = do {
     r \<leftarrow> client_Do url [];
     State_Monad.return (case r of
       None \<Rightarrow> None
     | Some resp \<Rightarrow>
         if rp_Status resp \<noteq> 200 then None
         else (case rp_Body resp of
             None \<Rightarrow> None
           | Some body \<Rightarrow> if CalculateDigest L body \<noteq> expectedDigest then None else yaml_Unmarshal L body)) }"

text \<open>The map from digests to deployments: the last entry of the manifest wins.\<close>

definition digestToDep :: "DeploymentDTO list \<Rightarrow> string \<rightharpoonup> string" where
  "digestToDep deployments = foldl (\<lambda>m d. m(DD_Digest d \<mapsto> DD_DeploymentId d)) Map.empty deployments"

primrec read_archive ::
  "wfmlib \<Rightarrow> (string \<rightharpoonup> string) \<Rightarrow> tar_stream \<Rightarrow> (string \<rightharpoonup> resolvedDeployment) \<Rightarrow> (string \<rightharpoonup> resolvedDeployment) option" where
  "read_archive L deps TarEOF entries = Some entries"
| "read_archive L deps TarError entries = None"
| "read_archive L deps (TarEntry hdr content s) entries =
     (if th_IsDir hdr \<or> \<not> is_yaml_name (th_Name hdr) then read_archive L deps s entries
      else (case content of
          None \<Rightarrow> read_archive L deps s entries
        | Some c \<Rightarrow> (case deps (CalculateDigest L c) of
            None \<Rightarrow> read_archive L deps s entries
          | Some depID \<Rightarrow> (case yaml_Unmarshal L c of
              None \<Rightarrow> read_archive L deps s entries
            | Some desc \<Rightarrow> read_archive L deps s
                (entries(depID \<mapsto> \<lparr>rd_Digest = CalculateDigest L c, rd_Descriptor = Some desc\<rparr>))))))"

definition processBundleArchive ::
  "wfmlib \<Rightarrow> bytes \<Rightarrow> DeploymentDTO list \<Rightarrow> (string \<rightharpoonup> resolvedDeployment) option" where
  "processBundleArchive L raw deployments = (case gzip_untar L raw of
     None \<Rightarrow> None
   | Some s \<Rightarrow> read_archive L (digestToDep deployments) s Map.empty)"

definition fetchBundleOnce ::
  "wfmlib \<Rightarrow> string \<Rightarrow> BundleDTO option \<Rightarrow> DeploymentDTO list \<Rightarrow> (string \<rightharpoonup> resolvedDeployment) option cprog" where
  "fetchBundleOnce L baseURL b deployments = (case b of
     None \<Rightarrow> State_Monad.return (Some Map.empty)
   | Some bundle \<Rightarrow>
       if BD_URL bundle = [] then State_Monad.return (Some Map.empty)
       else do {
         r \<leftarrow> client_Do (resolveURL baseURL (BD_URL bundle)) [];
         State_Monad.return (case r of
           None \<Rightarrow> None
         | Some resp \<Rightarrow>
             if rp_Status resp \<noteq> 200 then None
             else (case rp_Body resp of
                 None \<Rightarrow> None
               | Some raw \<Rightarrow> if CalculateDigest L raw \<noteq> BD_Digest bundle then None
                   else processBundleArchive L raw deployments)) })"

section \<open>Reconciliation\<close>

definition next_entry :: "deploymentCacheEntry option \<Rightarrow> resolvedDeployment \<Rightarrow> deploymentCacheEntry" where
  "next_entry existing desired = (case rd_Descriptor desired of
     Some desc \<Rightarrow> \<lparr>ce_Digest = rd_Digest desired, ce_ApplicationID = ApplicationId (Annotations (Metadata desc)),
       ce_Name = Name (Metadata desc)\<rparr>
   | None \<Rightarrow> (case existing of
       Some e \<Rightarrow> e\<lparr>ce_Digest := rd_Digest desired\<rparr>
     | None \<Rightarrow> \<lparr>ce_Digest = rd_Digest desired, ce_ApplicationID = [], ce_Name = []\<rparr>))"

definition applyDeploymentChange :: "client_state \<Rightarrow> string \<Rightarrow> resolvedDeployment option \<Rightarrow> client_state" where
  "applyDeploymentChange st i desired = (case desired of
     None \<Rightarrow> (case st_Deployments st i of
         None \<Rightarrow> st | Some _ \<Rightarrow> st\<lparr>st_Deployments := (st_Deployments st)(i := None)\<rparr>)
   | Some d \<Rightarrow> (case st_Deployments st i of
         None \<Rightarrow> st\<lparr>st_Deployments := (st_Deployments st)(i \<mapsto> next_entry None d)\<rparr>
       | Some e \<Rightarrow> if ce_Digest e \<noteq> rd_Digest d
           then st\<lparr>st_Deployments := (st_Deployments st)(i \<mapsto> next_entry (Some e) d)\<rparr> else st))"

text \<open>The plan: removals are \<open>Some None\<close>.\<close>

definition reconcile_plan ::
  "client_state \<Rightarrow> string set \<Rightarrow> (string \<rightharpoonup> resolvedDeployment) \<Rightarrow> string \<rightharpoonup> resolvedDeployment option" where
  "reconcile_plan st desiredIDs resolved i = (case resolved i of
     Some entry \<Rightarrow> Some (Some entry)
   | None \<Rightarrow> if st_Deployments st i \<noteq> None \<and> i \<notin> desiredIDs then Some None else None)"

definition reconcileDeployments ::
  "(string set \<Rightarrow> string list) \<Rightarrow> client_state \<Rightarrow> string set \<Rightarrow> (string \<rightharpoonup> resolvedDeployment) \<Rightarrow> client_state" where
  "reconcileDeployments ord st desiredIDs resolved =
     (let plan = reconcile_plan st desiredIDs resolved in
      fold (\<lambda>i s. applyDeploymentChange s i (the (plan i))) (ord (dom plan)) st)"

section \<open>One poll\<close>

text \<open>The loop over the deployments of the manifest: what each resolves to.\<close>

fun resolve_deployments ::
  "wfmlib \<Rightarrow> string \<Rightarrow> client_state \<Rightarrow> (string \<rightharpoonup> resolvedDeployment) \<Rightarrow> DeploymentDTO list \<Rightarrow> (string \<rightharpoonup> resolvedDeployment) cprog" where
  "resolve_deployments L base st resolved [] = State_Monad.return resolved"
| "resolve_deployments L base st resolved (d # ds) =
     (if \<not> isSupportedDigest (DD_Digest d) then resolve_deployments L base st resolved ds
      else (case resolved (DD_DeploymentId d) of
          Some entry \<Rightarrow> resolve_deployments L base st
            (resolved(DD_DeploymentId d \<mapsto> entry\<lparr>rd_Digest := DD_Digest d\<rparr>)) ds
        | None \<Rightarrow>
            if map_option ce_Digest (st_Deployments st (DD_DeploymentId d)) = Some (DD_Digest d)
            then resolve_deployments L base st
              (resolved(DD_DeploymentId d \<mapsto> \<lparr>rd_Digest = DD_Digest d, rd_Descriptor = None\<rparr>)) ds
            else do {
              r \<leftarrow> fetchDeployment L (resolveURL base (DD_URL d)) (DD_Digest d);
              case r of
                None \<Rightarrow> resolve_deployments L base st resolved ds
              | Some pd \<Rightarrow> resolve_deployments L base st
                  (resolved(DD_DeploymentId d \<mapsto> \<lparr>rd_Digest = DD_Digest d, rd_Descriptor = Some pd\<rparr>)) ds }))"

text \<open>What a poll does with a manifest it accepts.\<close>

definition take_manifest ::
  "wfmlib \<Rightarrow> (string set \<Rightarrow> string list) \<Rightarrow> clientConfig \<Rightarrow> client_state \<Rightarrow> GetDeploymentManifestResponse \<Rightarrow> client_state cprog" where
  "take_manifest L ord cfg st manifest = do {
     b \<leftarrow> (if \<not> BundleFetched st \<and> st_Deployments st = Map.empty
       then fetchBundleOnce L (BaseURL cfg) (GR_Bundle manifest) (GR_Deployments manifest)
       else State_Monad.return None);
     let st = (case b of None \<Rightarrow> st | Some _ \<Rightarrow> st\<lparr>BundleFetched := True\<rparr>);
     resolved \<leftarrow> resolve_deployments L (BaseURL cfg) st (case b of None \<Rightarrow> Map.empty | Some m \<Rightarrow> m) (GR_Deployments manifest);
     State_Monad.return (reconcileDeployments ord st (DD_DeploymentId ` set (GR_Deployments manifest)) resolved) }"

definition pollOnce ::
  "wfmlib \<Rightarrow> (string set \<Rightarrow> string list) \<Rightarrow> clientConfig \<Rightarrow> client_state \<Rightarrow> (unit result \<times> client_state) cprog" where
  "pollOnce L ord cfg st = do {
     r \<leftarrow> fetchManifest L cfg (ManifestETag st);
     case r of
       Inl e \<Rightarrow> State_Monad.return (Inl e, st)
     | Inr None \<Rightarrow> State_Monad.return (Inr (), st)
     | Inr (Some (manifest, etag)) \<Rightarrow>
         if GR_ManifestVersion manifest \<le> ManifestVersion st then State_Monad.return (Inr (), st)
         else do {
           st' \<leftarrow> take_manifest L ord cfg (st\<lparr>ManifestETag := etag, ManifestVersion := GR_ManifestVersion manifest\<rparr>) manifest;
           State_Monad.return (Inr (), st') } }"

text \<open>The loop of \<^verbatim>\<open>run\<close>, for as many polls as happen before it is cancelled.\<close>

primrec client_loop ::
  "wfmlib \<Rightarrow> (string set \<Rightarrow> string list) \<Rightarrow> clientConfig \<Rightarrow> nat \<Rightarrow> client_state \<Rightarrow> client_state cprog" where
  "client_loop L ord cfg 0 st = State_Monad.return st"
| "client_loop L ord cfg (Suc k) st = do { (r, st') \<leftarrow> pollOnce L ord cfg st; client_loop L ord cfg k st' }"

definition initial_state :: client_state where
  "initial_state = \<lparr>ManifestETag = [], ManifestVersion = 0, st_Deployments = Map.empty, BundleFetched = False\<rparr>"

section \<open>Reconciliation does not depend on the order\<close>

definition lists_keys :: "(string set \<Rightarrow> string list) \<Rightarrow> bool" where
  "lists_keys ord \<longleftrightarrow> (\<forall>S. finite S \<longrightarrow> distinct (ord S) \<and> set (ord S) = S)"

text \<open>The entry a change leaves, as a function of the entry there was.\<close>

definition changed :: "deploymentCacheEntry option \<Rightarrow> resolvedDeployment option \<Rightarrow> deploymentCacheEntry option" where
  "changed existing desired = (case desired of
     None \<Rightarrow> None
   | Some d \<Rightarrow> (case existing of
       Some e \<Rightarrow> if ce_Digest e = rd_Digest d then Some e else Some (next_entry (Some e) d)
     | None \<Rightarrow> Some (next_entry None d)))"

lemma applyDeploymentChange_eq:
  "applyDeploymentChange st i desired = st\<lparr>st_Deployments := (st_Deployments st)(i := changed (st_Deployments st i) desired)\<rparr>"
proof -
  have "(st_Deployments st)(i := st_Deployments st i) = st_Deployments st" by simp
  then show ?thesis
    by (auto simp: applyDeploymentChange_def changed_def fun_upd_idem split: option.splits)
qed

lemma fold_changes:
  "distinct is \<Longrightarrow> fold (\<lambda>i s. applyDeploymentChange s i (g i)) is st =
    st\<lparr>st_Deployments := (\<lambda>i. if i \<in> set is then changed (st_Deployments st i) (g i) else st_Deployments st i)\<rparr>"
  by (induction "is" arbitrary: st) (auto simp: applyDeploymentChange_eq fun_eq_iff)

lemma dom_plan: "dom (reconcile_plan st D R) \<subseteq> dom R \<union> dom (st_Deployments st)"
proof
  fix i assume "i \<in> dom (reconcile_plan st D R)"
  then show "i \<in> dom R \<union> dom (st_Deployments st)" by (cases "R i") (auto simp: reconcile_plan_def split: if_splits)
qed

lemma reconcile_eq:
  assumes "lists_keys ord" "finite (dom (st_Deployments st))" "finite (dom R)"
  shows "reconcileDeployments ord st D R = st\<lparr>st_Deployments := (\<lambda>i. case R i of
      Some r \<Rightarrow> changed (st_Deployments st i) (Some r)
    | None \<Rightarrow> if i \<in> D then st_Deployments st i else None)\<rparr>"
proof -
  let ?plan = "reconcile_plan st D R"
  have "finite (dom ?plan)" using assms(2,3) dom_plan [of st D R] by (meson finite_UnI finite_subset)
  then have ord: "distinct (ord (dom ?plan))" "set (ord (dom ?plan)) = dom ?plan" using assms(1) by (auto simp: lists_keys_def)
  have "(if i \<in> dom ?plan then changed (st_Deployments st i) (the (?plan i)) else st_Deployments st i) =
    (case R i of Some r \<Rightarrow> changed (st_Deployments st i) (Some r) | None \<Rightarrow> if i \<in> D then st_Deployments st i else None)" for i
    by (auto simp: reconcile_plan_def changed_def domIff split: option.splits)
  then show ?thesis
    by (simp add: reconcileDeployments_def Let_def fold_changes [OF ord(1)] ord(2))
qed

section \<open>What a poll resolves\<close>

text \<open>
  A resolved deployment is justified by content with its digest that parses to its descriptor,
  or by the cache, which already has that digest.
\<close>

definition from_content :: "wfmlib \<Rightarrow> resolvedDeployment \<Rightarrow> bool" where
  "from_content L r \<longleftrightarrow> (\<exists>c desc. CalculateDigest L c = rd_Digest r \<and> yaml_Unmarshal L c = Some desc \<and> rd_Descriptor r = Some desc)"

definition justified :: "wfmlib \<Rightarrow> client_state \<Rightarrow> string \<Rightarrow> resolvedDeployment \<Rightarrow> bool" where
  "justified L st i r \<longleftrightarrow> from_content L r \<or>
     rd_Descriptor r = None \<and> map_option ce_Digest (st_Deployments st i) = Some (rd_Digest r)"

definition fits :: "DeploymentDTO list \<Rightarrow> (string \<rightharpoonup> resolvedDeployment) \<Rightarrow> bool" where
  "fits ds R \<longleftrightarrow> (\<forall>d\<in>set ds. \<forall>r. R (DD_DeploymentId d) = Some r \<longrightarrow> rd_Digest r = DD_Digest d)"

lemma fetchDeployment_Some:
  assumes "run_state (fetchDeployment L url dg) n = (Some desc, n')"
  shows "\<exists>c. CalculateDigest L c = dg \<and> yaml_Unmarshal L c = Some desc"
  using assms by (auto simp: fetchDeployment_def run_client_Do split: option.splits if_splits)

lemma net_fetchDeployment: "run_state (fetchDeployment L url dg) n = (x, n') \<Longrightarrow> net_answer n' = net_answer n"
  by (auto simp: fetchDeployment_def run_client_Do)

text \<open>A reply that makes the fetch of a deployment succeed.\<close>

definition delivers :: "wfmlib \<Rightarrow> net \<Rightarrow> string \<Rightarrow> string \<Rightarrow> bool" where
  "delivers L n url dg \<longleftrightarrow> (\<forall>k. \<exists>resp c. net_answer n k url [] = Some resp \<and> rp_Status resp = 200 \<and> rp_Body resp = Some c \<and>
     CalculateDigest L c = dg \<and> yaml_Unmarshal L c \<noteq> None)"

lemma delivers_fetch: "delivers L n url dg \<Longrightarrow> \<exists>desc n'. run_state (fetchDeployment L url dg) n = (Some desc, n')"
proof -
  assume "delivers L n url dg"
  then obtain resp c desc where "net_answer n (net_count n) url [] = Some resp" "rp_Status resp = 200" "rp_Body resp = Some c"
    "CalculateDigest L c = dg" "yaml_Unmarshal L c = Some desc" unfolding delivers_def by blast
  then show ?thesis by (auto simp: fetchDeployment_def run_client_Do)
qed

text \<open>One turn of the loop: at most the turn's own deployment gets a justified entry.\<close>

lemma resolve_turn:
  assumes "run_state (resolve_deployments L base st R (d # ds)) n = (R', n')"
    "\<And>r. R (DD_DeploymentId d) = Some r \<Longrightarrow> rd_Digest r = DD_Digest d \<and> justified L st (DD_DeploymentId d) r"
  obtains n1 ent where "run_state (resolve_deployments L base st (R(DD_DeploymentId d := ent)) ds) n1 = (R', n')"
    "net_answer n1 = net_answer n" "\<And>r. ent = Some r \<Longrightarrow> rd_Digest r = DD_Digest d \<and> justified L st (DD_DeploymentId d) r"
    "isSupportedDigest (DD_Digest d) \<Longrightarrow>
      map_option ce_Digest (st_Deployments st (DD_DeploymentId d)) = Some (DD_Digest d) \<or> delivers L n (resolveURL base (DD_URL d)) (DD_Digest d) \<Longrightarrow> ent \<noteq> None"
proof -
  let ?i = "DD_DeploymentId d"
  consider (skip) "\<not> isSupportedDigest (DD_Digest d)" | (present) r where "isSupportedDigest (DD_Digest d)" "R ?i = Some r"
    | (cached) "isSupportedDigest (DD_Digest d)" "R ?i = None" "map_option ce_Digest (st_Deployments st ?i) = Some (DD_Digest d)"
    | (fetch) "isSupportedDigest (DD_Digest d)" "R ?i = None" "map_option ce_Digest (st_Deployments st ?i) \<noteq> Some (DD_Digest d)"
    by (cases "R ?i") auto
  then show thesis
  proof cases
    case skip
    show thesis by (rule that [of "R ?i" n]) (use skip assms in auto)
  next
    case (present r)
    then have same: "r\<lparr>rd_Digest := DD_Digest d\<rparr> = r" using assms(2) by simp
    have "run_state (resolve_deployments L base st (R(?i \<mapsto> r\<lparr>rd_Digest := DD_Digest d\<rparr>)) ds) n = (R', n')"
      using assms(1) present by simp
    then have run: "run_state (resolve_deployments L base st (R(?i \<mapsto> r)) ds) n = (R', n')" unfolding same .
    show thesis by (rule that [of "R ?i" n]) (use present run assms(2) in auto)
  next
    case cached
    show thesis by (rule that [of "Some \<lparr>rd_Digest = DD_Digest d, rd_Descriptor = None\<rparr>" n])
        (use cached assms in \<open>auto simp: justified_def\<close>)
  next
    case fetch
    obtain x n1 where f: "run_state (fetchDeployment L (resolveURL base (DD_URL d)) (DD_Digest d)) n = (x, n1)" by (metis surj_pair)
    have go: "run_state (case x of None \<Rightarrow> resolve_deployments L base st R ds
      | Some pd \<Rightarrow> resolve_deployments L base st (R(?i \<mapsto> \<lparr>rd_Digest = DD_Digest d, rd_Descriptor = Some pd\<rparr>)) ds) n1 = (R', n')"
      using assms(1) fetch f by (simp del: map_option_eq_Some)
    show thesis
    proof (cases x)
      case None
      have no: "\<not> delivers L n (resolveURL base (DD_URL d)) (DD_Digest d)" using delivers_fetch f None by fastforce
      have same: "R(?i := None) = R" using fetch by auto
      show thesis by (rule that [of None n1]) (use fetch go None no same net_fetchDeployment [OF f] in auto)
    next
      case (Some desc)
      have "from_content L \<lparr>rd_Digest = DD_Digest d, rd_Descriptor = Some desc\<rparr>"
        using fetchDeployment_Some f Some by (fastforce simp: from_content_def)
      then show thesis
        by (intro that [of "Some \<lparr>rd_Digest = DD_Digest d, rd_Descriptor = Some desc\<rparr>" n1])
          (use fetch go Some net_fetchDeployment [OF f] in \<open>auto simp: justified_def\<close>)
    qed
  qed
qed

definition resolution :: "wfmlib \<Rightarrow> client_state \<Rightarrow> DeploymentDTO list \<Rightarrow> (string \<rightharpoonup> resolvedDeployment) \<Rightarrow> bool" where
  "resolution L st ds R \<longleftrightarrow> finite (dom R) \<and> fits ds R \<and> (\<forall>i r. R i = Some r \<longrightarrow> justified L st i r)"

lemma resolve_props:
  assumes "run_state (resolve_deployments L base st R ds) n = (R', n')" "distinct (map DD_DeploymentId ds)" "resolution L st ds R"
  shows "resolution L st ds R' \<and> (\<forall>i. i \<notin> DD_DeploymentId ` set ds \<longrightarrow> R' i = R i) \<and>
    (\<forall>d\<in>set ds. isSupportedDigest (DD_Digest d) \<longrightarrow>
      map_option ce_Digest (st_Deployments st (DD_DeploymentId d)) = Some (DD_Digest d) \<or>
      delivers L n (resolveURL base (DD_URL d)) (DD_Digest d) \<longrightarrow> R' (DD_DeploymentId d) \<noteq> None)"
  using assms
proof (induction ds arbitrary: R n)
  case (Cons d ds)
  let ?i = "DD_DeploymentId d"
  obtain n1 ent where 1: "run_state (resolve_deployments L base st (R(?i := ent)) ds) n1 = (R', n')" "net_answer n1 = net_answer n"
    "\<And>r. ent = Some r \<Longrightarrow> rd_Digest r = DD_Digest d \<and> justified L st ?i r"
    "isSupportedDigest (DD_Digest d) \<Longrightarrow> map_option ce_Digest (st_Deployments st ?i) = Some (DD_Digest d) \<or>
      delivers L n (resolveURL base (DD_URL d)) (DD_Digest d) \<Longrightarrow> ent \<noteq> None"
    by (rule resolve_turn [OF Cons.prems(1)]) (use Cons.prems(3) in \<open>auto simp: resolution_def fits_def\<close>)
  have "resolution L st ds (R(?i := ent))"
    using Cons.prems 1(3) by (auto simp: resolution_def fits_def image_iff)
  from Cons.IH [OF 1(1) _ this] Cons.prems(2)
  have ih: "resolution L st ds R'" "\<And>j. j \<notin> DD_DeploymentId ` set ds \<Longrightarrow> R' j = (R(?i := ent)) j"
    "\<And>e. e \<in> set ds \<Longrightarrow> isSupportedDigest (DD_Digest e) \<Longrightarrow> map_option ce_Digest (st_Deployments st (DD_DeploymentId e)) = Some (DD_Digest e) \<or>
      delivers L n1 (resolveURL base (DD_URL e)) (DD_Digest e) \<Longrightarrow> R' (DD_DeploymentId e) \<noteq> None"
    by auto
  have own: "R' ?i = ent" using ih(2) [of ?i] Cons.prems(2) by simp
  have "delivers L n1 u x = delivers L n u x" for u x using 1(2) by (simp add: delivers_def)
  with ih own 1(3,4) show ?case by (auto simp: resolution_def fits_def)
qed (auto simp: resolution_def fits_def)

section \<open>The bundle\<close>

lemma digestToDep_Some: "digestToDep ds dg = Some i \<Longrightarrow> \<exists>d\<in>set ds. DD_Digest d = dg \<and> DD_DeploymentId d = i"
proof -
  have "foldl (\<lambda>m d. m(DD_Digest d \<mapsto> DD_DeploymentId d)) m ds dg = Some i \<Longrightarrow>
    m dg = Some i \<or> (\<exists>d\<in>set ds. DD_Digest d = dg \<and> DD_DeploymentId d = i)" for m
  proof (induction ds arbitrary: m)
    case (Cons d ds)
    from Cons.IH [of "m(DD_Digest d \<mapsto> DD_DeploymentId d)"] Cons.prems show ?case by (auto split: if_splits)
  qed simp
  then show "digestToDep ds dg = Some i \<Longrightarrow> ?thesis" unfolding digestToDep_def by fastforce
qed

lemma read_archive_props:
  assumes "read_archive L deps s E = Some E'" "finite (dom E)"
    "\<forall>i r. E i = Some r \<longrightarrow> from_content L r \<and> deps (rd_Digest r) = Some i"
  shows "finite (dom E') \<and> (\<forall>i r. E' i = Some r \<longrightarrow> from_content L r \<and> deps (rd_Digest r) = Some i)"
  using assms
proof (induction s arbitrary: E)
  case (TarEntry hdr content s)
  show ?case
  proof (cases "\<exists>c i desc. content = Some c \<and> deps (CalculateDigest L c) = Some i \<and> yaml_Unmarshal L c = Some desc \<and>
      \<not> th_IsDir hdr \<and> is_yaml_name (th_Name hdr)")
    case True
    then obtain c i desc where c: "content = Some c" "deps (CalculateDigest L c) = Some i" "yaml_Unmarshal L c = Some desc"
      "\<not> th_IsDir hdr" "is_yaml_name (th_Name hdr)" by blast
    have "from_content L \<lparr>rd_Digest = CalculateDigest L c, rd_Descriptor = Some desc\<rparr>" using c(3) by (auto simp: from_content_def)
    moreover define E1 where "E1 = E(i \<mapsto> \<lparr>rd_Digest = CalculateDigest L c, rd_Descriptor = Some desc\<rparr>)"
    ultimately have "read_archive L deps s E1 = Some E'" "finite (dom E1)"
      "\<forall>i r. E1 i = Some r \<longrightarrow> from_content L r \<and> deps (rd_Digest r) = Some i"
      using TarEntry.prems c by auto
    then show ?thesis by (rule TarEntry.IH)
  next
    case False
    then have "read_archive L deps s E = Some E'"
      using TarEntry.prems(1) by (auto split: option.splits if_splits)
    with TarEntry show ?thesis by blast
  qed
qed auto

lemma bundle_content:
  assumes "run_state (fetchBundleOnce L base b ds) n = (Some E, n')"
  shows "finite (dom E) \<and> (\<forall>i r. E i = Some r \<longrightarrow> from_content L r \<and> digestToDep ds (rd_Digest r) = Some i)"
proof (cases "E = Map.empty")
  case False
  with assms obtain s where "read_archive L (digestToDep ds) s Map.empty = Some E"
    by (auto simp: fetchBundleOnce_def run_client_Do processBundleArchive_def split: option.splits if_splits)
  then show ?thesis by (rule read_archive_props) auto
qed simp

lemma bundle_dom:
  assumes "run_state (fetchBundleOnce L base b ds) n = (Some E, n')"
  shows "dom E \<subseteq> DD_DeploymentId ` set ds"
  using bundle_content [OF assms] digestToDep_Some by fastforce

lemma bundle_resolution:
  assumes "run_state (fetchBundleOnce L base b ds) n = (Some E, n')" "distinct (map DD_DeploymentId ds)"
  shows "resolution L st ds E"
proof -
  note bundle_content [OF assms(1)]
  moreover have "d = e" if "d \<in> set ds" "e \<in> set ds" "DD_DeploymentId d = DD_DeploymentId e" for d e
    using assms(2) that by (auto simp: distinct_map inj_on_def)
  ultimately show ?thesis unfolding resolution_def fits_def justified_def using digestToDep_Some by metis
qed

lemma net_fetches:
  "run_state (fetchManifest L cfg etag) n = (x, n') \<Longrightarrow> net_answer n' = net_answer n"
  "run_state (fetchBundleOnce L base b ds) n = (y, n') \<Longrightarrow> net_answer n' = net_answer n"
  by (auto simp: fetchManifest_def fetchBundleOnce_def run_client_Do split: option.splits if_splits)

section \<open>A poll\<close>

lemma reconcile_frame:
  "ManifestVersion (reconcileDeployments ord st D R) = ManifestVersion st"
  "ManifestETag (reconcileDeployments ord st D R) = ManifestETag st"
  "BundleFetched (reconcileDeployments ord st D R) = BundleFetched st"
proof -
  have "ManifestVersion (fold (\<lambda>i s. applyDeploymentChange s i (g i)) is st) = ManifestVersion st \<and>
    ManifestETag (fold (\<lambda>i s. applyDeploymentChange s i (g i)) is st) = ManifestETag st \<and>
    BundleFetched (fold (\<lambda>i s. applyDeploymentChange s i (g i)) is st) = BundleFetched st" for g "is"
    by (induction "is" arbitrary: st) (simp_all add: applyDeploymentChange_eq)
  then show "ManifestVersion (reconcileDeployments ord st D R) = ManifestVersion st"
    "ManifestETag (reconcileDeployments ord st D R) = ManifestETag st"
    "BundleFetched (reconcileDeployments ord st D R) = BundleFetched st"
    by (simp_all add: reconcileDeployments_def Let_def)
qed

text \<open>A poll leaves the state alone, or takes a manifest with a higher version.\<close>

lemma pollOnce_cases:
  assumes "run_state (pollOnce L ord cfg st) n = ((x, st'), n')"
  obtains (same) "st' = st"
  | (taken) manifest etag n1 b st1 n2 R where
    "run_state (fetchManifest L cfg (ManifestETag st)) n = (Inr (Some (manifest, etag)), n1)"
    "ManifestVersion st < GR_ManifestVersion manifest"
    "b = None \<or> run_state (fetchBundleOnce L (BaseURL cfg) (GR_Bundle manifest) (GR_Deployments manifest)) n1 = (b, n2)"
    "net_answer n2 = net_answer n"
    "st_Deployments st1 = st_Deployments st" "ManifestVersion st1 = GR_ManifestVersion manifest" "ManifestETag st1 = etag"
    "run_state (resolve_deployments L (BaseURL cfg) st1 (case b of None \<Rightarrow> Map.empty | Some m \<Rightarrow> m) (GR_Deployments manifest)) n2 = (R, n')"
    "x = Inr ()" "st' = reconcileDeployments ord st1 (DD_DeploymentId ` set (GR_Deployments manifest)) R"
proof -
  obtain f n1 where f: "run_state (fetchManifest L cfg (ManifestETag st)) n = (f, n1)" by (metis surj_pair)
  consider "st' = st" | manifest etag where "f = Inr (Some (manifest, etag))" "ManifestVersion st < GR_ManifestVersion manifest"
    using assms f by (auto simp: pollOnce_def not_le split: sum.splits option.splits if_splits)
  then show thesis
  proof cases
    case 1
    then show thesis by (rule same)
  next
    case (2 manifest etag)
    let ?st = "st\<lparr>ManifestETag := etag, ManifestVersion := GR_ManifestVersion manifest\<rparr>"
    let ?get = "if \<not> BundleFetched st \<and> st_Deployments st = Map.empty
      then fetchBundleOnce L (BaseURL cfg) (GR_Bundle manifest) (GR_Deployments manifest) else State_Monad.return None"
    have take: "run_state (take_manifest L ord cfg ?st manifest) n1 = (st', n')" "x = Inr ()"
      using assms f 2 by (auto simp: pollOnce_def not_le [symmetric] split: prod.splits)
    obtain b n2 where b: "run_state ?get n1 = (b, n2)" by (metis surj_pair)
    define st1 where "st1 = (case b of None \<Rightarrow> ?st | Some _ \<Rightarrow> ?st\<lparr>BundleFetched := True\<rparr>)"
    obtain R n3 where R: "run_state (resolve_deployments L (BaseURL cfg) st1 (case b of None \<Rightarrow> Map.empty | Some m \<Rightarrow> m)
      (GR_Deployments manifest)) n2 = (R, n3)" by (metis surj_pair)
    have end': "n' = n3" "st' = reconcileDeployments ord st1 (DD_DeploymentId ` set (GR_Deployments manifest)) R"
      using take(1) R by (simp_all add: take_manifest_def b Let_def st1_def)
    show thesis
    proof (rule taken [of manifest etag n1 b n2 st1 R])
      show "b = None \<or> run_state (fetchBundleOnce L (BaseURL cfg) (GR_Bundle manifest) (GR_Deployments manifest)) n1 = (b, n2)"
        using b by (auto split: if_splits)
      have "net_answer n2 = net_answer n1" using b by (auto split: if_splits dest: net_fetches(2))
      with net_fetches(1) [OF f] show "net_answer n2 = net_answer n" by simp
    qed (use f 2 R end' take in \<open>auto simp: st1_def split: option.splits\<close>)
  qed
qed

text \<open>The cache holds what some content with the entry's digest says.\<close>

definition verified :: "wfmlib \<Rightarrow> deploymentCacheEntry \<Rightarrow> bool" where
  "verified L e \<longleftrightarrow> (\<exists>c desc. CalculateDigest L c = ce_Digest e \<and> yaml_Unmarshal L c = Some desc \<and>
     ce_ApplicationID e = ApplicationId (Annotations (Metadata desc)) \<and> ce_Name e = Name (Metadata desc))"

definition cache_ok :: "wfmlib \<Rightarrow> client_state \<Rightarrow> bool" where
  "cache_ok L st \<longleftrightarrow> finite (dom (st_Deployments st)) \<and> (\<forall>i e. st_Deployments st i = Some e \<longrightarrow> verified L e)"

text \<open>The identifiers in every manifest the network delivers are distinct.\<close>

definition manifests_distinct :: "wfmlib \<Rightarrow> net \<Rightarrow> bool" where
  "manifests_distinct L n \<longleftrightarrow> (\<forall>k url hdr resp raw m. net_answer n k url hdr = Some resp \<longrightarrow> rp_Body resp = Some raw \<longrightarrow>
     json_Unmarshal L raw = Some m \<longrightarrow> distinct (map DD_DeploymentId (GR_Deployments m)))"

lemma fetchManifest_distinct:
  assumes "run_state (fetchManifest L cfg etag) n = (Inr (Some (m, e)), n')" "manifests_distinct L n"
  shows "distinct (map DD_DeploymentId (GR_Deployments m))"
proof -
  obtain k url hdr resp raw where "net_answer n k url hdr = Some resp" "rp_Body resp = Some raw" "json_Unmarshal L raw = Some m"
    using assms(1) by (auto simp: fetchManifest_def run_client_Do split: option.splits if_splits)
  with assms(2) show ?thesis unfolding manifests_distinct_def by blast
qed

lemma changed_verified:
  assumes "changed old (Some r) = Some e" "justified L st i r" "st_Deployments st i = old" "\<And>e. old = Some e \<Longrightarrow> verified L e"
  shows "verified L e"
proof (cases "old = Some e")
  case False
  with assms(1) have e: "e = next_entry old r" "map_option ce_Digest old \<noteq> Some (rd_Digest r)"
    by (auto simp: changed_def split: option.splits if_splits)
  with assms(2,3) have "from_content L r" by (auto simp: justified_def)
  with e(1) show ?thesis by (auto simp: from_content_def verified_def next_entry_def)
qed (use assms(4) in blast)

lemma changed_digest: "map_option ce_Digest (changed old (Some r)) = Some (rd_Digest r)"
  by (auto simp: changed_def next_entry_def split: option.splits)

text \<open>The resolution an accepted manifest leads to, and the state it leaves.\<close>

lemma poll_taken:
  assumes "b = None \<or> run_state (fetchBundleOnce L base bd ds) n1 = (b, n2)"
    and run: "run_state (resolve_deployments L base st1 (case b of None \<Rightarrow> Map.empty | Some m \<Rightarrow> m) ds) n2 = (R, n')"
    and ids: "distinct (map DD_DeploymentId ds)" and ord: "lists_keys ord" and fin: "finite (dom (st_Deployments st1))"
  shows "resolution L st1 ds R" "dom R \<subseteq> DD_DeploymentId ` set ds"
    "st_Deployments (reconcileDeployments ord st1 (DD_DeploymentId ` set ds) R) i = (case R i of
      Some r \<Rightarrow> changed (st_Deployments st1 i) (Some r) | None \<Rightarrow> if i \<in> DD_DeploymentId ` set ds then st_Deployments st1 i else None)"
    "\<And>d. d \<in> set ds \<Longrightarrow> isSupportedDigest (DD_Digest d) \<Longrightarrow> delivers L n2 (resolveURL base (DD_URL d)) (DD_Digest d) \<Longrightarrow>
      R (DD_DeploymentId d) \<noteq> None"
proof -
  let ?E = "case b of None \<Rightarrow> Map.empty | Some m \<Rightarrow> m"
  have E: "resolution L st1 ds ?E"
    using assms(1) bundle_resolution [OF _ ids] by (cases b) (auto simp: resolution_def fits_def)
  note p = resolve_props [OF run ids E]
  from p show R: "resolution L st1 ds R" by blast
  have sub: "dom ?E \<subseteq> DD_DeploymentId ` set ds"
  proof (cases b)
    case (Some E)
    then have "run_state (fetchBundleOnce L base bd ds) n1 = (Some E, n2)" using assms(1) by simp
    then have "dom E \<subseteq> DD_DeploymentId ` set ds" by (rule bundle_dom)
    with Some show ?thesis by simp
  qed simp
  have frame: "\<And>j. j \<notin> DD_DeploymentId ` set ds \<Longrightarrow> R j = ?E j" using p by blast
  show "dom R \<subseteq> DD_DeploymentId ` set ds"
  proof (rule subsetI, rule ccontr)
    fix j assume R: "j \<in> dom R" and j: "j \<notin> DD_DeploymentId ` set ds"
    from R have "j \<in> dom ?E" unfolding domIff frame [OF j, symmetric] .
    with sub j show False by blast
  qed
  show "st_Deployments (reconcileDeployments ord st1 (DD_DeploymentId ` set ds) R) i = (case R i of
      Some r \<Rightarrow> changed (st_Deployments st1 i) (Some r) | None \<Rightarrow> if i \<in> DD_DeploymentId ` set ds then st_Deployments st1 i else None)"
    using R by (simp add: reconcile_eq [OF ord fin] resolution_def)
  fix d assume "d \<in> set ds" "isSupportedDigest (DD_Digest d)" "delivers L n2 (resolveURL base (DD_URL d)) (DD_Digest d)"
  then show "R (DD_DeploymentId d) \<noteq> None" using p by simp
qed

lemma poll_version:
  assumes "run_state (pollOnce L ord cfg st) n = ((x, st'), n')"
  shows "st' = st \<or> ManifestVersion st < ManifestVersion st'"
  using assms by (cases rule: pollOnce_cases) (auto simp: reconcile_frame)

lemma net_resolve: "run_state (resolve_deployments L base st R ds) n = (R', n') \<Longrightarrow> net_answer n' = net_answer n"
proof (induction ds arbitrary: R n)
  case (Cons d ds)
  have fetch: "net_answer (snd (run_state (fetchDeployment L url dg) n)) = net_answer n" for url dg
    using net_fetchDeployment by (metis prod.collapse)
  show ?case
    using Cons.prems fetch [of "resolveURL base (DD_URL d)" "DD_Digest d"]
    by (auto split: if_splits option.splits prod.splits dest!: Cons.IH simp del: fun_upd_apply)
qed simp

lemma net_poll:
  assumes "run_state (pollOnce L ord cfg st) n = ((x, st'), n')"
  shows "net_answer n' = net_answer n"
proof -
  obtain f n1 where f: "run_state (fetchManifest L cfg (ManifestETag st)) n = (f, n1)" by (metis surj_pair)
  have take: "net_answer n3 = net_answer n2" if "run_state (take_manifest L ord cfg s m) n2 = (s', n3)" for s m s' n2 n3
    using that by (auto simp: take_manifest_def Let_def split: prod.splits if_splits dest!: net_fetches(2) net_resolve)
  show ?thesis using assms f net_fetches(1) [OF f]
    by (auto simp: pollOnce_def split: sum.splits option.splits if_splits prod.splits dest!: take)
qed

lemma poll_cache_ok:
  assumes "run_state (pollOnce L ord cfg st) n = ((x, st'), n')" "lists_keys ord" "manifests_distinct L n" "cache_ok L st"
  shows "cache_ok L st'"
  using assms(1)
proof (cases rule: pollOnce_cases)
  case (taken manifest etag n1 b st1 n2 R)
  have fin: "finite (dom (st_Deployments st1))" using assms(4) taken by (simp add: cache_ok_def)
  have ids: "distinct (map DD_DeploymentId (GR_Deployments manifest))" using taken(1) assms(3) by (rule fetchManifest_distinct)
  note p = poll_taken [OF taken(3,8) ids assms(2) fin]
  have e: "verified L e" if "st_Deployments st' i = Some e" for i e
  proof (cases "R i")
    case None
    with that p(3) [of i] taken assms(4) show ?thesis by (auto simp: cache_ok_def split: if_splits)
  next
    case (Some r)
    then have "justified L st1 i r" using p(1) by (simp add: resolution_def)
    moreover have "changed (st_Deployments st1 i) (Some r) = Some e" using that p(3) [of i] taken Some by simp
    ultimately show ?thesis using changed_verified assms(4) taken(5) by (metis cache_ok_def)
  qed
  have "dom (st_Deployments st') \<subseteq> DD_DeploymentId ` set (GR_Deployments manifest)"
  proof
    fix i assume "i \<in> dom (st_Deployments st')"
    with p(2) p(3) [of i] taken(10) show "i \<in> DD_DeploymentId ` set (GR_Deployments manifest)"
      by (cases "R i") (auto split: if_splits)
  qed
  then have "finite (dom (st_Deployments st'))" by (rule finite_subset) simp
  with e show ?thesis by (simp add: cache_ok_def)
qed (use assms in simp)

lemma loop_props:
  assumes "run_state (client_loop L ord cfg k st) n = (st', n')"
  shows "ManifestVersion st \<le> ManifestVersion st'"
    "lists_keys ord \<Longrightarrow> manifests_distinct L n \<Longrightarrow> cache_ok L st \<Longrightarrow> cache_ok L st'"
  using assms
proof (induction k arbitrary: st n)
  case (Suc k)
  { case (1 st n)
    obtain x st1 n1 where p: "run_state (pollOnce L ord cfg st) n = ((x, st1), n1)" by (metis surj_pair)
    with 1 have "run_state (client_loop L ord cfg k st1) n1 = (st', n')" by (simp add: p)
    with Suc.IH(1) [OF this] poll_version [OF p] show ?case by auto }
  { case (2 st n)
    obtain x st1 n1 where p: "run_state (pollOnce L ord cfg st) n = ((x, st1), n1)" by (metis surj_pair)
    with 2 have run: "run_state (client_loop L ord cfg k st1) n1 = (st', n')" by (simp add: p)
    have "manifests_distinct L n1" using 2 net_poll [OF p] by (simp add: manifests_distinct_def)
    with Suc.IH(2) [OF _ _ _ run] poll_cache_ok [OF p] 2 show ?case by blast }
qed auto

text \<open>A poll that gets a newer manifest and everything it names ends with just those deployments.\<close>

definition manifest_content :: "GetDeploymentManifestResponse \<Rightarrow> string \<rightharpoonup> string" where
  "manifest_content m = map_of (map (\<lambda>d. (DD_DeploymentId d, DD_Digest d)) (GR_Deployments m))"

lemma poll_converges:
  assumes fetch: "run_state (fetchManifest L cfg (ManifestETag st)) n = (Inr (Some (m, etag)), n1)"
    and newer: "ManifestVersion st < GR_ManifestVersion m" and ids: "distinct (map DD_DeploymentId (GR_Deployments m))"
    and good: "\<And>d. d \<in> set (GR_Deployments m) \<Longrightarrow> isSupportedDigest (DD_Digest d) \<and> delivers L n (resolveURL (BaseURL cfg) (DD_URL d)) (DD_Digest d)"
    and ord: "lists_keys ord" and fin: "finite (dom (st_Deployments st))"
    and run: "run_state (pollOnce L ord cfg st) n = ((x, st'), n')"
  shows "x = Inr () \<and> ManifestVersion st' = GR_ManifestVersion m \<and> map_option ce_Digest \<circ> st_Deployments st' = manifest_content m"
  using run
proof (cases rule: pollOnce_cases)
  case same
  have "run_state (pollOnce L ord cfg st) n = (case run_state (take_manifest L ord cfg
      (st\<lparr>ManifestETag := etag, ManifestVersion := GR_ManifestVersion m\<rparr>) m) n1 of (s, v) \<Rightarrow> ((Inr (), s), v))"
    using fetch newer by (simp add: pollOnce_def not_le [symmetric] split: prod.splits)
  with run same have "run_state (take_manifest L ord cfg (st\<lparr>ManifestETag := etag, ManifestVersion := GR_ManifestVersion m\<rparr>) m) n1 = (st, n')"
    by (simp split: prod.splits)
  then have "ManifestVersion st = GR_ManifestVersion m"
    by (auto simp: take_manifest_def Let_def reconcile_frame split: prod.splits option.splits
        dest!: arg_cong [of _ st ManifestVersion])
  with newer show ?thesis by simp
next
  case (taken manifest etag' n1' b st1 n2 R)
  have m: "manifest = m" using taken(1) fetch by simp
  have fin1: "finite (dom (st_Deployments st1))" using fin taken(5) by simp
  note p = poll_taken [OF taken(3,8) ids [folded m] ord fin1]
  have same: "delivers L n2 u g = delivers L n u g" for u g using taken(4) by (simp add: delivers_def)
  have "map_option ce_Digest (st_Deployments st' i) = manifest_content m i" for i
  proof (cases "i \<in> DD_DeploymentId ` set (GR_Deployments m)")
    case True
    then obtain d where d: "d \<in> set (GR_Deployments m)" "DD_DeploymentId d = i" by blast
    then obtain r where r: "R i = Some r" using p(4) [of d] good [of d] same m by auto
    then have "rd_Digest r = DD_Digest d" using p(1) d m by (auto simp: resolution_def fits_def)
    moreover have "manifest_content m i = Some (DD_Digest d)"
      unfolding manifest_content_def using ids d by (intro map_of_is_SomeI) (auto simp: comp_def)
    ultimately show ?thesis using p(3) [of i] r taken(10) m by (simp add: changed_digest)
  next
    case False
    then have "R i = None" using p(2) m by auto
    moreover have "manifest_content m i = None" using False by (force simp: manifest_content_def map_of_eq_None_iff)
    ultimately show ?thesis using p(3) [of i] False taken(10) m by simp
  qed
  then show ?thesis using taken(9,10,6) m by (auto simp: reconcile_frame)
qed

end
