(* ===== verification/WFM_Exchange.thy ===== *)
theory WFM_Exchange
  imports WFM_HTTP WFM_Client
begin

text \<open>
  The fleet manager and its client together: what the handlers answer on a working database,
  and a client whose network is the server itself.
\<close>

section \<open>Answers on a working database\<close>

lemma sound_manifest:
  assumes "wf_sound w" "dev \<in> set (devices (wf_tabs w))" "validateManifestAcceptHeader (rq_Header r)"
  shows "fst (run_state (GetDeploymentManifest_handler L dev r) w) = answer_manifest L dev r (loaded dev (wf_tabs w))"
proof (cases "manifest_of dev (wf_tabs w)")
  case None
  obtain v where v: "run_state (ensureDeviceExists dev) (w\<lparr>wf_stmts := Suc (wf_stmts w)\<rparr>) = (Inr (), v)" "wf_sound v" "wf_tabs v = wf_tabs w"
    using succeeds_device [OF assms(2), unfolded succeeds_def, rule_format, of "w\<lparr>wf_stmts := Suc (wf_stmts w)\<rparr>"] assms(1) by auto
  have "run_state (loadManifestWithDeployments dev) v = (Inl [ErrManifestNotFound], v\<lparr>wf_stmts := Suc (wf_stmts v)\<rparr>)"
    using None v by (simp add: loadManifestWithDeployments_def GetManifestByDeviceId_def run_or sound_query)
  then have "\<exists>w'. run_state (GetDeploymentManifest dev) w = (Inl [ErrManifestNotFound], w')"
    using assms(1) v(1) by (simp add: GetDeploymentManifest_def Repo_GetDeploymentManifest_def with_tx_def run_or sound_query rolled_back_def)
  then show ?thesis using assms(3) None by (auto simp: GetDeploymentManifest_handler_def loaded_def)
next
  case (Some m)
  have "succeeds (GetDeploymentManifest dev) (wf_tabs w) (loaded dev (wf_tabs w)) (wf_tabs w)"
    unfolding GetDeploymentManifest_def Repo_GetDeploymentManifest_def
    using Some by (intro succeeds_with_tx succeeds_or [OF succeeds_device [OF assms(2)]] succeeds_load) simp
  then obtain w' where "run_state (GetDeploymentManifest dev) w = (Inr (loaded dev (wf_tabs w)), w')"
    using assms(1) unfolding succeeds_def by blast
  then show ?thesis using assms(3) by (simp add: GetDeploymentManifest_handler_def)
qed

lemma sound_GetDeployment:
  assumes "wf_sound w" "dev \<in> set (devices (wf_tabs w))" "blob_by_digest dg (deployment_blobs (wf_tabs w)) = Some b"
  shows "\<exists>w'. run_state (GetDeployment dev i dg) w = (Inr \<lparr>AD_Id = i, Descriptor = bl_content b, DescriptorDigest = bl_digest b\<rparr>, w')"
proof -
  have "succeeds (GetDeployment dev i dg) (wf_tabs w) \<lparr>AD_Id = i, Descriptor = bl_content b, DescriptorDigest = bl_digest b\<rparr> (wf_tabs w)"
    unfolding GetDeployment_def Repo_GetDeployment_def GetDeploymentBlobByDigest_def
    by (intro succeeds_with_tx succeeds_or(2) [OF succeeds_device [OF assms(2)]] succeeds_or(1) [OF succeeds_query [OF refl]])
      (simp add: assms(3) succeeds_return)
  then show ?thesis using assms(1) unfolding succeeds_def by blast
qed

lemma sound_deployment:
  assumes "wf_sound w" "dev \<in> set (devices (wf_tabs w))" "blob_by_digest dg (deployment_blobs (wf_tabs w)) = Some b"
  shows "fst (run_state (GetDeployment_handler dev i dg r) w) =
    conditional r (quoted (bl_digest b)) [(''Content-Type'', ''application/yaml''), immutable_cache] (bl_content b)"
  using sound_GetDeployment [OF assms, of i] by (auto simp: GetDeployment_handler_def)

text \<open>Changes that name no known device or deployment.\<close>

lemma create_unknown_device:
  assumes "wf_sound w" "rq_Body r = Some ser" "yaml_Unmarshal L ser = Some desc" "validate_Struct L desc"
    "yaml_Marshal L (set_deployment_id (wf_uuids w (wf_draws w)) desc) = Some rendered" "dev \<notin> set (devices (wf_tabs w))"
  shows "rs_Status (fst (run_state (CreateDeployment_handler L dev r) w)) = 404"
proof -
  let ?w = "w\<lparr>wf_draws := Suc (wf_draws w)\<rparr>"
  obtain w' where "run_state (UpsertDeployments dev (add_deployment L (new_deployment L (wf_uuids w (wf_draws w)) rendered))) ?w = (Inl [ErrDeviceNotFound], w')"
    using Upsert_unknown_device [of ?w dev] assms(1,6) by auto
  with assms show ?thesis by (simp add: CreateDeployment_handler_def CreateDeployment_def run_wfm_uuid run_or)
qed

lemma unknown_deployment:
  assumes "world_ok L w" "wf_sound w" "i \<notin> dom (content dev (application_deployments (wf_tabs w)))"
  shows "\<exists>e w'. run_state (UpsertDeployments dev (drop_deployment L i)) w = (Inl e, w') \<and> (errors_Is e ErrDeviceNotFound \<or> errors_Is e ErrDeploymentNotFound)"
    "\<exists>e w'. run_state (UpsertDeployments dev (replace_deployment L (new_deployment L i c))) w = (Inl e, w') \<and> (errors_Is e ErrDeviceNotFound \<or> errors_Is e ErrDeploymentNotFound)"
proof -
  have "i \<notin> AD_Id ` set (Deployments (loaded dev (wf_tabs w)))"
    using assms(1,3) loaded_dom [of L "wf_tabs w" dev] by (simp add: world_ok_def)
  then have f: "drop_deployment L i (loaded dev (wf_tabs w)) = Inl [ErrDeploymentNotFound]"
    "replace_deployment L (new_deployment L i c) (loaded dev (wf_tabs w)) = Inl [ErrDeploymentNotFound]"
    by (simp_all add: drop_deployment_def replace_deployment_def remove_first_None [THEN iffD2] replace_first_None [THEN iffD2])
  show "\<exists>e w'. run_state (UpsertDeployments dev (drop_deployment L i)) w = (Inl e, w') \<and> (errors_Is e ErrDeviceNotFound \<or> errors_Is e ErrDeploymentNotFound)"
    "\<exists>e w'. run_state (UpsertDeployments dev (replace_deployment L (new_deployment L i c))) w = (Inl e, w') \<and> (errors_Is e ErrDeviceNotFound \<or> errors_Is e ErrDeploymentNotFound)"
    using Upsert_unknown_device [OF assms(2), of dev] Upsert_refused [OF assms(2), of dev "drop_deployment L i"]
      Upsert_refused [OF assms(2), of dev "replace_deployment L (new_deployment L i c)"] f
    by (cases "dev \<in> set (devices (wf_tabs w))"; fastforce)+
qed

lemma delete_unknown:
  assumes "world_ok L w" "wf_sound w" "i \<notin> dom (content dev (application_deployments (wf_tabs w)))"
  shows "rs_Status (fst (run_state (DeleteDeployment_handler L dev i) w)) = 404"
  using unknown_deployment(1) [OF assms] by (auto simp: DeleteDeployment_handler_def DeleteDeployment_def)

lemma update_unknown:
  assumes "world_ok L w" "wf_sound w" "rq_Body r = Some ser" "yaml_Unmarshal L ser = Some desc" "validate_Struct L desc"
    "yaml_Marshal L (set_deployment_id i desc) = Some c" "descriptor_id desc \<in> {[], i}"
    "i \<notin> dom (content dev (application_deployments (wf_tabs w)))"
  shows "rs_Status (fst (run_state (UpdateDeployment_handler L dev i r) w)) = 404"
  using unknown_deployment(2) [OF assms(1,2,8), of c] assms(3-7)
  by (auto simp: UpdateDeployment_handler_def UpdateDeployment_def run_or)

text \<open>An answer of 400 or above leaves the tables alone.\<close>

lemma handlers_keep_tabs:
  assumes "400 \<le> rs_Status resp"
  shows "run_state (CreateDeployment_handler L dev r) w = (resp, w') \<Longrightarrow> wf_tabs w' = wf_tabs w"
    "run_state (UpdateDeployment_handler L dev i r) w = (resp, w') \<Longrightarrow> wf_tabs w' = wf_tabs w"
    "run_state (DeleteDeployment_handler L dev i) w = (resp, w') \<Longrightarrow> wf_tabs w' = wf_tabs w"
  using assms
  by (auto simp: CreateDeployment_handler_def UpdateDeployment_handler_def DeleteDeployment_handler_def stored_response_def
      split: option.splits prod.splits sum.splits dest!: failures_keep_tabs)

section \<open>Digests and URLs\<close>

lemma hex_digit_ok: "n < 16 \<Longrightarrow> is_hex (hex_digit n)"
proof -
  have "list_all (\<lambda>n. is_hex (hex_digit n)) [0..<16]" by code_simp
  then show "n < 16 \<Longrightarrow> is_hex (hex_digit n)" by (simp add: list_all_iff)
qed

lemma hex_ok: "list_all is_hex (hex_EncodeToString bs)"
proof (induction bs)
  case (Cons b bs)
  have "(of_char b :: nat) div 16 < 16" using nat_of_char_less_256 [of b] by linarith
  then show ?case using Cons by (simp add: hex_EncodeToString_def hex_digit_ok)
qed (simp add: hex_EncodeToString_def)

lemma length_hex: "length (hex_EncodeToString bs) = 2 * length bs"
  by (induction bs) (simp_all add: hex_EncodeToString_def)

lemma supported_digest:
  assumes "\<And>b. length (wl_sha256 L b) = 32"
  shows "isSupportedDigest (CalculateDigest L c)"
proof -
  have "length (hex_EncodeToString (wl_sha256 L c)) = 64" using assms by (simp add: length_hex)
  moreover have "list_all is_algorithm_char ''sha256''" by code_simp
  ultimately show ?thesis
    by (simp add: isSupportedDigest_def digestRe_def CalculateDigest_def HasPrefix_def hex_ok nth_append)
qed

lemma digest_no_slash: "CHR ''/'' \<notin> set (CalculateDigest L c)"
proof -
  have "\<not> is_hex (CHR ''/'')" by code_simp
  then have "CHR ''/'' \<notin> set (hex_EncodeToString bs)" for bs using hex_ok [of bs] by (metis list_all_iff)
  then show ?thesis by (simp add: CalculateDigest_def)
qed

section \<open>A client of this server\<close>

text \<open>The request the server sees for a URL under its base URL.\<close>

definition get_request :: "string \<Rightarrow> string \<Rightarrow> http_header \<Rightarrow> http_request" where
  "get_request base url hdr = \<lparr>rq_Method = ''GET'', rq_Path = split_on (CHR ''/'') (drop (length base + 1) url),
     rq_Header = hdr, rq_Body = Some [], rq_PeerCertificates = None\<rparr>"

definition server_answer ::
  "wfmlib \<Rightarrow> (http_request \<Rightarrow> http_response) \<Rightarrow> string \<Rightarrow> wfm \<Rightarrow> nat \<Rightarrow> string \<Rightarrow> http_header \<Rightarrow> http_reply option" where
  "server_answer L docs base w k url hdr =
     (if HasPrefix url (base @ ''/'') then
        let resp = fst (run_state (NewServer L docs (get_request base url hdr)) w) in
        Some \<lparr>rp_Status = rs_Status resp, rp_Header = rs_Header resp, rp_Body = Some (rs_Body resp)\<rparr>
      else None)"

lemma resolve_base:
  assumes "has_scheme base" "TrimRight base ''/'' = base"
  shows "resolveURL base (CHR ''/'' # s) = base @ CHR ''/'' # s"
  using assms by (simp add: resolveURL_def has_scheme_def HasPrefix_def)

lemma get_request_path: "rq_Path (get_request base (base @ CHR ''/'' # s) hdr) = split_on (CHR ''/'') s"
  by (simp add: get_request_def)

lemma server_manifest:
  assumes "wf_sound w" "dev \<in> set (devices (wf_tabs w))" "CHR ''/'' \<notin> set dev" "Header_Get hdr ''Accept'' = []"
    "url = base @ ''/api/v1/devices/'' @ dev @ ''/deployments''"
  shows "server_answer L docs base w k url hdr =
    (let resp = answer_manifest L dev (get_request base url hdr) (loaded dev (wf_tabs w)) in
     Some \<lparr>rp_Status = rs_Status resp, rp_Header = rs_Header resp, rp_Body = Some (rs_Body resp)\<rparr>)"
proof -
  have path: "rq_Path (get_request base url hdr) = [''api'', ''v1'', ''devices'', dev, ''deployments'']"
    using assms(3) by (simp add: assms(5) get_request_path split_on_append)
  have "HasPrefix url (base @ ''/'')" by (simp add: assms(5) HasPrefix_def)
  moreover have "validateManifestAcceptHeader (rq_Header (get_request base url hdr))"
    using assms(4) by (simp add: validateManifestAcceptHeader_def get_request_def)
  moreover have "is_get (rq_Method (get_request base url hdr))" by (simp add: is_get_def get_request_def)
  ultimately show ?thesis
    using sound_manifest [OF assms(1,2)] by (simp add: server_answer_def NewServer_def path Let_def)
qed

lemma server_deployment:
  assumes "wf_sound w" "dev \<in> set (devices (wf_tabs w))" "CHR ''/'' \<notin> set dev" "CHR ''/'' \<notin> set i" "CHR ''/'' \<notin> set dg"
    "blob_by_digest dg (deployment_blobs (wf_tabs w)) = Some b"
  shows "server_answer L docs base w k (base @ deployment_url dev i dg) [] =
    Some \<lparr>rp_Status = 200, rp_Header = [(''ETag'', quoted (bl_digest b)), (''Content-Type'', ''application/yaml''), immutable_cache],
      rp_Body = Some (bl_content b)\<rparr>"
proof -
  let ?r = "get_request base (base @ deployment_url dev i dg) []"
  have path: "rq_Path ?r = [''api'', ''v1'', ''devices'', dev, ''deployments'', i, dg]"
    using assms(3-5) by (simp add: deployment_url_def get_request_path split_on_append split_on_clean)
  have "HasPrefix (base @ deployment_url dev i dg) (base @ ''/'')" by (simp add: deployment_url_def HasPrefix_def)
  moreover have "is_get (rq_Method ?r)" "\<not> clientHasETag (rq_Header ?r) (quoted (bl_digest b))"
    by (simp_all add: is_get_def get_request_def clientHasETag_def Header_Values_def)
  ultimately show ?thesis
    using sound_deployment [OF assms(1,2,6), of i ?r] by (simp add: server_answer_def NewServer_def path conditional_def Let_def)
qed

section \<open>A poll of this server\<close>

text \<open>What the client relies on of the libraries, for the tables of the server.\<close>

definition understood :: "wfmlib \<Rightarrow> string \<Rightarrow> wfm_tables \<Rightarrow> bool" where
  "understood L dev t \<longleftrightarrow> (\<forall>b. length (wl_sha256 L b) = 32) \<and>
     (\<exists>raw. json_Marshal L (manifest_response dev (loaded dev t)) = Some raw \<and>
        json_Unmarshal L raw = Some (manifest_response dev (loaded dev t))) \<and>
     (\<forall>b\<in>set (deployment_blobs t). yaml_Unmarshal L (bl_content b) \<noteq> None)"

definition no_slashes :: "string \<Rightarrow> wfm_tables \<Rightarrow> bool" where
  "no_slashes dev t \<longleftrightarrow> CHR ''/'' \<notin> set dev \<and> (\<forall>r\<in>set (application_deployments t). CHR ''/'' \<notin> set (d_id r))"

lemma manifest_entries:
  assumes "wfm_inv L t" "d \<in> set (GR_Deployments (manifest_response dev (loaded dev t)))"
  obtains r b where "r \<in> set (application_deployments t)" "DD_DeploymentId d = d_id r" "DD_URL d = deployment_url dev (d_id r) (DD_Digest d)"
    "blob_by_digest (DD_Digest d) (deployment_blobs t) = Some b" "b \<in> set (deployment_blobs t)" "CalculateDigest L (bl_content b) = DD_Digest d"
proof -
  obtain x where x: "x \<in> set (Deployments (loaded dev t))" "DD_DeploymentId d = AD_Id x" "DD_Digest d = DescriptorDigest x"
    "DD_URL d = deployment_url dev (AD_Id x) (DescriptorDigest x)"
    using assms(2) by (auto simp: manifest_response_def)
  have "distinct (map AD_Id (Deployments (loaded dev t)))" using loaded_props(1) [OF assms(1)] by (simp add: manifest_wf_def)
  then have "digests (Deployments (loaded dev t)) (AD_Id x) = Some (DescriptorDigest x)"
    using x(1) unfolding digests_def by (intro map_of_is_SomeI) (auto simp: comp_def)
  then have "content dev (application_deployments t) (AD_Id x) = Some (DescriptorDigest x)" by (simp add: loaded_props(2) [OF assms(1)])
  moreover have rows: "rows_ok t" and blobs: "blobs_ok L (deployment_blobs t)" using assms(1) by (auto simp: wfm_inv_def)
  ultimately obtain r where r: "r \<in> set (application_deployments t)" "d_id r = AD_Id x" "d_descriptor_digest r = DescriptorDigest x"
    by (auto simp: content_Some rows_ok_def)
  then have "DescriptorDigest x \<in> bl_digest ` set (deployment_blobs t)" using rows unfolding rows_ok_def by metis
  then obtain b where b: "blob_by_digest (DescriptorDigest x) (deployment_blobs t) = Some b"
    unfolding blob_by_digest_def by (cases "find (\<lambda>b. bl_digest b = DescriptorDigest x) (deployment_blobs t)") (auto simp: find_None_iff)
  then have "b \<in> set (deployment_blobs t)" by (auto simp: blob_by_digest_def find_Some_iff)
  with r x b blob_by_digest_ok [OF blobs b] show thesis by (intro that [of r b]) simp_all
qed

lemma server_sends_manifest:
  assumes "wf_sound w" "DeviceID cfg \<in> set (devices (wf_tabs w))" "CHR ''/'' \<notin> set (DeviceID cfg)"
    "has_scheme (BaseURL cfg)" "TrimRight (BaseURL cfg) ''/'' = BaseURL cfg"
    "net_answer n = server_answer L docs (BaseURL cfg) w"
    "json_Marshal L (manifest_response (DeviceID cfg) (loaded (DeviceID cfg) (wf_tabs w))) = Some raw" "json_Unmarshal L raw = Some m"
    "\<not> clientHasETag [(''If-None-Match'', etag)] (quoted (CalculateDigest L raw))"
  shows "run_state (fetchManifest L cfg etag) n = (Inr (Some (m, quoted (CalculateDigest L raw))), n\<lparr>net_count := Suc (net_count n)\<rparr>)"
proof -
  define hdr where "hdr = (if etag \<noteq> [] then [(''If-None-Match'', etag)] else [])"
  define url where "url = BaseURL cfg @ ''/api/v1/devices/'' @ DeviceID cfg @ ''/deployments''"
  have res: "resolveURL (BaseURL cfg) (''/api/v1/devices/'' @ DeviceID cfg @ ''/deployments'') = url"
    using resolve_base [OF assms(4,5)] by (simp add: url_def)
  have "\<not> clientHasETag hdr (quoted (CalculateDigest L raw))" using assms(9) by (auto simp: hdr_def clientHasETag_def Header_Values_def)
  moreover have "Header_Get hdr ''Accept'' = []" by (simp add: hdr_def)
  ultimately have "net_answer n k url hdr = Some \<lparr>rp_Status = 200, rp_Header = [(''ETag'', quoted (CalculateDigest L raw)),
      (''Content-Type'', ''application/vnd.margo.manifest.v1+json'')], rp_Body = Some raw\<rparr>" for k
    using server_manifest [OF assms(1-3) _ url_def, of hdr L docs k] assms(7)
    by (simp add: assms(6) answer_manifest_def conditional_def get_request_def)
  then show ?thesis unfolding fetchManifest_def hdr_def [symmetric] res by (simp add: run_client_Do assms(8))
qed

lemma server_delivers:
  assumes "wfm_inv L (wf_tabs w)" "wf_sound w" "DeviceID cfg \<in> set (devices (wf_tabs w))" "understood L (DeviceID cfg) (wf_tabs w)"
    "no_slashes (DeviceID cfg) (wf_tabs w)" "has_scheme (BaseURL cfg)" "TrimRight (BaseURL cfg) ''/'' = BaseURL cfg"
    "net_answer n = server_answer L docs (BaseURL cfg) w"
    "d \<in> set (GR_Deployments (manifest_response (DeviceID cfg) (loaded (DeviceID cfg) (wf_tabs w))))"
  shows "isSupportedDigest (DD_Digest d) \<and> delivers L n (resolveURL (BaseURL cfg) (DD_URL d)) (DD_Digest d)"
proof -
  obtain r b where r: "r \<in> set (application_deployments (wf_tabs w))" "DD_URL d = deployment_url (DeviceID cfg) (d_id r) (DD_Digest d)"
    and b: "blob_by_digest (DD_Digest d) (deployment_blobs (wf_tabs w)) = Some b" "b \<in> set (deployment_blobs (wf_tabs w))"
      "CalculateDigest L (bl_content b) = DD_Digest d"
    using manifest_entries [OF assms(1,9)] by blast
  have dg: "isSupportedDigest (DD_Digest d)" "CHR ''/'' \<notin> set (DD_Digest d)"
    using supported_digest [of L "bl_content b"] digest_no_slash [of L "bl_content b"] assms(4) b(3) by (auto simp: understood_def)
  have "resolveURL (BaseURL cfg) (DD_URL d) = BaseURL cfg @ deployment_url (DeviceID cfg) (d_id r) (DD_Digest d)"
    using resolve_base [OF assms(6,7)] by (simp add: r(2) deployment_url_def)
  moreover have "CHR ''/'' \<notin> set (DeviceID cfg)" "CHR ''/'' \<notin> set (d_id r)" using assms(5) r(1) by (auto simp: no_slashes_def)
  ultimately have "delivers L n (resolveURL (BaseURL cfg) (DD_URL d)) (DD_Digest d)"
    unfolding delivers_def using server_deployment [OF assms(2,3) _ _ dg(2) b(1), of "d_id r" L docs "BaseURL cfg"] assms(4) b
    by (simp add: assms(8) understood_def)
  with dg show ?thesis by simp
qed

lemma manifest_content_loaded:
  "wfm_inv L t \<Longrightarrow> manifest_content (manifest_response dev (loaded dev t)) = content dev (application_deployments t)"
  using loaded_props(2) [of L t dev] by (simp add: manifest_content_def manifest_response_def digests_def comp_def)

end
