(* ===== verification/WFM_Example.thy ===== *)
theory WFM_Example
  imports WFM_Exchange
begin

text \<open>
  A small instance of the libraries of the fleet manager, on which the hypotheses of the
  properties hold, and a fresh world.
\<close>

section \<open>An instance\<close>

definition ex_desc :: "string \<Rightarrow> ApplicationDeploymentDescriptor" where
  "ex_desc i = \<lparr>ApiVersion = ''v1'', Kind = ''K'', Metadata = \<lparr>Annotations = \<lparr>ApplicationId = ''app'', AA_Id = i\<rparr>,
     Name = ''n'', Namespace = ''ns''\<rparr>, Spec = \<lparr>AS_DeploymentProfile = \<lparr>DP_Type = ''t'', DP_Components = []\<rparr>,
     AS_Parameters = Map.empty\<rparr>\<rparr>"

text \<open>An archive writes each byte after a mark, and ends each text with another mark.\<close>

definition ex_text :: "string \<Rightarrow> bytes" where
  "ex_text s = concat (map (\<lambda>c. [CHR ''a'', c]) s) @ [CHR ''z'']"

definition ex_tar :: "(tar_header \<times> bytes) list \<Rightarrow> bytes" where
  "ex_tar fs = concat (map (\<lambda>(h, c). ex_text (th_Name h) @ ex_text c) fs) @ [CHR ''e'']"

definition ex_wfmlib :: "(bytes \<Rightarrow> bytes) \<Rightarrow> GetDeploymentManifestResponse \<Rightarrow> wfmlib" where
  "ex_wfmlib sha m = \<lparr>wl_sha256 = sha, yaml_Unmarshal = (\<lambda>b. if b = [] then None else Some (ex_desc [])),
     yaml_Marshal = (\<lambda>d. Some (CHR ''y'' # descriptor_id d)), validate_Struct = (\<lambda>_. True), tar_WriteHeader = (\<lambda>_. True),
     tar_gzip = (\<lambda>fs. Some (ex_tar fs)), gzip_untar = (\<lambda>_. None), json_Marshal = (\<lambda>_. Some ''m''),
     json_Unmarshal = (\<lambda>_. Some m)\<rparr>"

definition ex_dev :: string where "ex_dev = ''c92cb339-c99c-4eca-9dd4-f8484dd16cfb''"

definition ex_wfm :: wfm where
  "ex_wfm = \<lparr>wf_tabs = migrated, wf_uuids = (\<lambda>n. replicate (Suc n) (CHR ''u'')), wf_draws = 0, wf_faults = (\<lambda>_. False), wf_stmts = 0\<rparr>"

abbreviation ex_manifest :: GetDeploymentManifestResponse where
  "ex_manifest \<equiv> \<lparr>GR_ManifestVersion = 1, GR_Bundle = None, GR_Deployments = []\<rparr>"

abbreviation ex_L :: wfmlib where "ex_L \<equiv> ex_wfmlib (\<lambda>b. b) ex_manifest"

lemma ex_reachable: "wfm_reachable L ex_wfm"
  by (rule wfm_reachable.start) (auto simp: ex_wfm_def inj_def)

lemma ex_text_inj: "ex_text s @ x = ex_text t @ y \<Longrightarrow> s = t \<and> x = y"
proof (induction s arbitrary: t)
  case Nil
  then show ?case by (cases t) (auto simp: ex_text_def)
next
  case (Cons c s)
  then show ?case by (cases t) (auto simp: ex_text_def)
qed

lemma ex_text_not_end: "ex_text s @ x \<noteq> [CHR ''e'']" "[CHR ''e''] \<noteq> ex_text s @ x" "ex_text s \<noteq> []"
  by (cases s; auto simp: ex_text_def)+

lemma ex_tar_inj: "ex_tar fs = ex_tar gs \<Longrightarrow> map (\<lambda>p. (th_Name (fst p), snd p)) fs = map (\<lambda>p. (th_Name (fst p), snd p)) gs"
proof (induction fs arbitrary: gs)
  case Nil
  then show ?case by (cases gs) (auto simp: ex_tar_def ex_text_not_end)
next
  case (Cons f fs)
  show ?case
  proof (cases gs)
    case Nil
    with Cons.prems show ?thesis by (cases f) (auto simp: ex_tar_def ex_text_not_end)
  next
    case (Cons g gs')
    with Cons.prems have "ex_text (th_Name (fst f)) @ ex_text (snd f) @ ex_tar fs = ex_text (th_Name (fst g)) @ ex_text (snd g) @ ex_tar gs'"
      by (simp add: ex_tar_def case_prod_beta)
    then have "th_Name (fst f) = th_Name (fst g)" "snd f = snd g" "ex_tar fs = ex_tar gs'" using ex_text_inj by metis+
    with Cons.IH Cons show ?thesis by simp
  qed
qed

lemma hex_digit_inj: "m < 16 \<Longrightarrow> n < 16 \<Longrightarrow> hex_digit m = hex_digit n \<Longrightarrow> m = n"
proof -
  assume n: "m < 16" "n < 16" "hex_digit m = hex_digit n"
  have code: "of_char (hex_digit k) = (if k < 10 then 48 + k else 87 + k)" if "k < 16" for k :: nat
    using that by (simp add: hex_digit_def)
  from n(3) have "of_char (hex_digit m) = (of_char (hex_digit n) :: nat)" by simp
  then show "m = n" using code [OF n(1)] code [OF n(2)] n(1,2) by (simp split: if_splits)
qed

lemma hex_inj: "hex_EncodeToString s = hex_EncodeToString t \<Longrightarrow> s = t"
proof (induction s arbitrary: t)
  case (Cons c s)
  then obtain d t' where t: "t = d # t'" by (cases t) (auto simp: hex_EncodeToString_def)
  have b: "(of_char c :: nat) div 16 < 16" "(of_char d :: nat) div 16 < 16"
    using nat_of_char_less_256 [of c] nat_of_char_less_256 [of d] by linarith+
  have "(of_char c :: nat) div 16 = of_char d div 16" "(of_char c :: nat) mod 16 = of_char d mod 16"
    using Cons.prems b by (auto simp: t hex_EncodeToString_def intro: hex_digit_inj)
  then have "(of_char c :: nat) = of_char d" by (metis div_mult_mod_eq)
  with Cons show ?case by (simp add: t hex_EncodeToString_def)
qed (metis hex_EncodeToString_def length_0_conv length_hex mult_is_0 numeral_2_eq_2 nat.distinct(1))

lemma ex_bundles_identified: "bundles_identified (ex_wfmlib (\<lambda>b. b) m)"
  unfolding bundles_identified_def
proof (intro allI impI)
  fix fs gs a b
  assume "createBundleArchive (ex_wfmlib (\<lambda>b. b) m) fs = Some a" "createBundleArchive (ex_wfmlib (\<lambda>b. b) m) gs = Some b"
    "CalculateDigest (ex_wfmlib (\<lambda>b. b) m) a = CalculateDigest (ex_wfmlib (\<lambda>b. b) m) b"
  then have "map (\<lambda>f. (file_Name f, file_Content f)) fs = map (\<lambda>f. (file_Name f, file_Content f)) gs"
    by (auto simp: createBundleArchive_def ex_wfmlib_def CalculateDigest_def Let_def comp_def
        dest!: hex_inj ex_tar_inj split: if_splits)
  then show "fs = gs" by (rule inj_map_eq_map [THEN iffD1, rotated]) (auto simp: inj_def)
qed

lemma ex_archives_work: "archives_work (ex_wfmlib sha m)"
  by (auto simp: archives_work_def createBundleArchive_def ex_wfmlib_def ex_tar_def Let_def list_all_iff)

lemma ex_sound: "wf_sound ex_wfm"
  by (simp add: wf_sound_def ex_wfm_def)

lemma ex_device: "ex_dev \<in> set (devices (wf_tabs ex_wfm))"
  by (simp add: ex_dev_def ex_wfm_def migrated_def)

text \<open>A first creation on the fresh world.\<close>

definition ex_d :: "(bytes \<Rightarrow> bytes) \<Rightarrow> GetDeploymentManifestResponse \<Rightarrow> ApplicationDeployment" where
  "ex_d sha m = new_deployment (ex_wfmlib sha m) ''u'' ''yu''"

lemma ex_create:
  obtains w' where "run_state (CreateDeployment (ex_wfmlib sha m) ex_dev ''d'') ex_wfm = (Inr (ex_d sha m), w')" "wf_sound w'"
proof -
  have 1: "yaml_Unmarshal (ex_wfmlib sha m) ''d'' = Some (ex_desc [])" "validate_Struct (ex_wfmlib sha m) (ex_desc [])"
    "yaml_Marshal (ex_wfmlib sha m) (set_deployment_id (wf_uuids ex_wfm (wf_draws ex_wfm)) (ex_desc [])) = Some ''yu''"
    by (simp_all add: ex_wfmlib_def ex_wfm_def set_deployment_id_def descriptor_id_def ex_desc_def)
  have u: "wf_uuids ex_wfm (wf_draws ex_wfm) = ''u''" by (simp add: ex_wfm_def)
  show thesis
    by (rule Create_succeeds [OF ex_sound ex_device ex_archives_work 1]) (rule that, simp_all add: ex_d_def u)
qed

text \<open>A hash of 32 bytes, the world after one creation, and what the server then answers.\<close>

definition ex_D :: string where
  "ex_D = ''sha256:'' @ hex_EncodeToString (replicate 32 (CHR ''x''))"

definition ex_T :: wfm_tables where
  "ex_T = \<lparr>devices = [ex_dev], application_deployments = [\<lparr>d_id = ''u'', d_descriptor_digest = ex_D, d_device_id = ex_dev\<rparr>],
     application_deployment_manifests = [\<lparr>mf_device_id = ex_dev, mf_version = 2, mf_bundle_digest = Some ex_D\<rparr>],
     deployment_blobs = [\<lparr>bl_digest = ex_D, bl_content = ''yu''\<rparr>],
     bundle_blobs = [\<lparr>bl_digest = ex_D, bl_content = ex_tar [(\<lparr>th_Name = ''u.yaml'', th_Size = 2, th_IsDir = False\<rparr>, ''yu'')]\<rparr>]\<rparr>"

definition ex_served :: wfm where
  "ex_served = ex_wfm\<lparr>wf_tabs := ex_T, wf_draws := 1, wf_stmts := 8\<rparr>"

definition ex_loaded_manifest :: ApplicationDeploymentManifest where
  "ex_loaded_manifest = \<lparr>Version = 2, BundleArchive = [], BundleDigest = ex_D,
     Deployments = [\<lparr>AD_Id = ''u'', Descriptor = ''yu'', DescriptorDigest = ex_D\<rparr>]\<rparr>"

lemma ex_loaded: "loaded ex_dev ex_T = ex_loaded_manifest"
  by (simp add: loaded_def ex_T_def manifest_of_def ex_loaded_manifest_def stored_deployments_def deployments_of_def
      List.map_filter_simps join_blob_def blob_by_digest_def deployment_of_row_def)

abbreviation ex_L32 :: wfmlib where
  "ex_L32 \<equiv> ex_wfmlib (\<lambda>_. replicate 32 (CHR ''x'')) (manifest_response ex_dev ex_loaded_manifest)"

lemma ex_served_run: "snd (run_state (CreateDeployment ex_L32 ex_dev ''d'') ex_wfm) = ex_served"
proof -
  have D: "CalculateDigest ex_L32 c = ex_D" for c by (simp add: CalculateDigest_def ex_wfmlib_def ex_D_def)
  have n: "ex_D \<noteq> []" by (simp add: ex_D_def)
  have y: "yaml_Unmarshal ex_L32 ''d'' = Some (ex_desc [])" "validate_Struct ex_L32 (ex_desc [])"
    "yaml_Marshal ex_L32 (set_deployment_id ''u'' (ex_desc [])) = Some ''yu''"
    by (simp_all add: ex_wfmlib_def set_deployment_id_def descriptor_id_def ex_desc_def)
  have a: "createBundleArchive ex_L32 [\<lparr>file_Name = ''u.yaml'', file_Content = ''yu''\<rparr>] =
      Some (ex_tar [(\<lparr>th_Name = ''u.yaml'', th_Size = 2, th_IsDir = False\<rparr>, ''yu'')])"
    by (simp add: createBundleArchive_def ex_wfmlib_def)
  have e: "ex_tar fs \<noteq> []" for fs by (simp add: ex_tar_def)
  have s: "sint (2 :: 64 word) = 2" by simp
  show ?thesis
    by (simp add: CreateDeployment_def y run_wfm_uuid run_or UpsertDeployments_def with_tx_def rolled_back_def run_query run_exec
        ensureDeviceExists_def GetDeviceId_def load_or_empty_def loadManifestWithDeployments_def GetManifestByDeviceId_def manifest_of_def
        ex_wfm_def migrated_def ex_dev_def [symmetric] add_deployment_def empty_manifest_def rebuildManifestBundle_def bundle_files_def
        new_deployment_def D n a e save_manifest_def InsertBundleBlob_def UpsertManifest_def upsert_manifest_def manifest_row_of_def s
        insert_blob_def upsert_manifest_row_def InsertDeploymentBlob_def UpsertDeployment_def upsert_deployment_def upsert_row_def
        ex_served_def ex_T_def)
qed

lemma ex_served_reachable: "wfm_reachable ex_L32 ex_served"
  using wfm_reachable.step [OF ex_reachable, of ex_L32 "OpCreate ex_dev ''d''"] by (simp add: ex_served_run)

lemma ex_served_sound: "wf_sound ex_served"
  by (simp add: wf_sound_def ex_served_def ex_wfm_def)

lemma ex_served_device: "ex_dev \<in> set (devices (wf_tabs ex_served))"
  by (simp add: ex_served_def ex_T_def)

lemma ex_understood: "understood ex_L32 ex_dev (wf_tabs ex_served)"
  by (simp add: understood_def ex_served_def ex_loaded) (simp add: ex_wfmlib_def ex_T_def)

lemma ex_no_slashes: "no_slashes ex_dev (wf_tabs ex_served)"
  by (simp add: no_slashes_def ex_served_def ex_T_def) (simp add: ex_dev_def)

end
