(* ===== verification/WFM_Properties.thy ===== *)
theory WFM_Properties
  imports WFM_Example
begin

text \<open>The properties of the workload fleet manager and of its client.\<close>

section \<open>The server\<close>

text \<open>
  C23: Along every run of the fleet manager, under any database failures, the tables keep their
  keys and references, every stored descriptor and bundle is filed under its own digest, and the
  bundle digest of every manifest is that of an archive of exactly the deployments the device has.
\<close>

theorem wfm_reachable_inv: "wfm_reachable L w \<Longrightarrow> wfm_inv L (wf_tabs w)"
  using reachable_world_ok by (auto simp: world_ok_def)

theorem wfm_reachable_inv_witness:
  "wfm_inv ex_L (wf_tabs (wfm_perform ex_L (OpDelete ex_dev []) (wfm_perform ex_L (OpCreate ex_dev ''d'') ex_wfm)))"
  by (rule wfm_reachable_inv) (intro wfm_reachable.step ex_reachable)

text \<open>
  C24: The service implements the abstract fleet: a successful creation adds the new deployment
  under an identifier that was free, an update replaces the digest of one that was there, a
  deletion removes one that was there, each as one step of the abstract fleet, in which the
  version of the device goes up by one unless its content stays the same; an operation that
  fails changes nothing.
\<close>

theorem wfm_refinement:
  assumes "wfm_reachable L w" "bundles_identified L"
  shows "(\<forall>d w'. run_state (CreateDeployment L dev ser) w = (Inr d, w') \<longrightarrow>
      AD_Id d \<notin> dom (content dev (application_deployments (wf_tabs w))) \<and>
      fleet_step dev (Put (AD_Id d) (DescriptorDigest d)) (fleet_of (wf_tabs w)) (fleet_of (wf_tabs w'))) \<and>
    (\<forall>d w'. run_state (UpdateDeployment L dev i ser) w = (Inr d, w') \<longrightarrow>
      AD_Id d = i \<and> i \<in> dom (content dev (application_deployments (wf_tabs w))) \<and>
      fleet_step dev (Put i (DescriptorDigest d)) (fleet_of (wf_tabs w)) (fleet_of (wf_tabs w'))) \<and>
    (\<forall>w'. run_state (DeleteDeployment L dev i) w = (Inr (), w') \<longrightarrow>
      i \<in> dom (content dev (application_deployments (wf_tabs w))) \<and>
      fleet_step dev (Drop i) (fleet_of (wf_tabs w)) (fleet_of (wf_tabs w'))) \<and>
    (\<forall>e w'. run_state (CreateDeployment L dev ser) w = (Inl e, w') \<or> run_state (UpdateDeployment L dev i ser) w = (Inl e, w') \<or>
      run_state (DeleteDeployment L dev i) w = (Inl e, w') \<longrightarrow> fleet_of (wf_tabs w') = fleet_of (wf_tabs w))"
proof (intro conjI allI impI)
  note ok = reachable_world_ok [OF assms(1)]
  fix d w'
  { assume run: "run_state (CreateDeployment L dev ser) w = (Inr d, w')"
    show "AD_Id d \<notin> dom (content dev (application_deployments (wf_tabs w)))"
      "fleet_step dev (Put (AD_Id d) (DescriptorDigest d)) (fleet_of (wf_tabs w)) (fleet_of (wf_tabs w'))"
      by (fact create_refines [OF ok assms(2) run])+ }
  { assume run: "run_state (UpdateDeployment L dev i ser) w = (Inr d, w')"
    show "AD_Id d = i" "i \<in> dom (content dev (application_deployments (wf_tabs w)))"
      "fleet_step dev (Put i (DescriptorDigest d)) (fleet_of (wf_tabs w)) (fleet_of (wf_tabs w'))"
      by (fact update_refines [OF ok assms(2) run])+ }
  { assume run: "run_state (DeleteDeployment L dev i) w = (Inr (), w')"
    show "i \<in> dom (content dev (application_deployments (wf_tabs w)))"
      "fleet_step dev (Drop i) (fleet_of (wf_tabs w)) (fleet_of (wf_tabs w'))"
      by (fact delete_refines [OF ok assms(2) run])+ }
qed (auto dest: failures_keep_tabs)

theorem wfm_refinement_witness:
  "\<exists>w'. run_state (CreateDeployment ex_L ex_dev ''d'') ex_wfm = (Inr (ex_d (\<lambda>b. b) ex_manifest), w') \<and>
     fleet_step ex_dev (Put ''u'' (CalculateDigest ex_L ''yu'')) (fleet_of migrated) (fleet_of (wf_tabs w'))"
proof -
  obtain w' where run: "run_state (CreateDeployment ex_L ex_dev ''d'') ex_wfm = (Inr (ex_d (\<lambda>b. b) ex_manifest), w')"
    by (rule ex_create)
  then show ?thesis
    using wfm_refinement [OF ex_reachable ex_bundles_identified, of ex_manifest ex_dev "''d''"] by (auto simp: ex_d_def ex_wfm_def)
qed

text \<open>
  C25: What the fleet manager serves under a digest has that digest, and is the same bytes
  whenever it is served again, to any device and after any further operations: the answers may
  be cached for ever, as their header says.
\<close>

theorem wfm_served_integrity:
  assumes "wfm_reachable L w"
  shows "(\<forall>d v. run_state (GetDeployment dev i dg) w = (Inr d, v) \<longrightarrow> CalculateDigest L (Descriptor d) = dg \<and>
      (\<forall>xs dev' j d' v'. run_state (GetDeployment dev' j dg) (fold (wfm_perform L) xs w) = (Inr d', v') \<longrightarrow> Descriptor d' = Descriptor d)) \<and>
    (\<forall>a v. run_state (GetBundle dev dg) w = (Inr a, v) \<longrightarrow> CalculateDigest L a = dg \<and>
      (\<forall>xs dev' a' v'. run_state (GetBundle dev' dg) (fold (wfm_perform L) xs w) = (Inr a', v') \<longrightarrow> a' = a))"
proof (intro conjI allI impI)
  have ok: "blobs_ok L (deployment_blobs (wf_tabs w))" "blobs_ok L (bundle_blobs (wf_tabs w))"
    using reachable_world_ok [OF assms] by (auto simp: world_ok_def wfm_inv_def)
  { fix d v xs dev' j d' v' assume "run_state (GetDeployment dev i dg) w = (Inr d, v)"
    from GetDeployment_Inr(2) [OF this] obtain b where b: "blob_by_digest dg (deployment_blobs (wf_tabs w)) = Some b" "Descriptor d = bl_content b" by auto
    show "CalculateDigest L (Descriptor d) = dg" using blob_by_digest_ok [OF ok(1) b(1)] b(2) by simp
    assume "run_state (GetDeployment dev' j dg) (fold (wfm_perform L) xs w) = (Inr d', v')"
    from GetDeployment_Inr(2) [OF this] descriptor_blob.run_stable [OF b(1)] b(2) show "Descriptor d' = Descriptor d" by auto }
  { fix a v xs dev' a' v' assume "run_state (GetBundle dev dg) w = (Inr a, v)"
    from GetBundle_Inr(2) [OF this] obtain b where b: "blob_by_digest dg (bundle_blobs (wf_tabs w)) = Some b" "a = bl_content b" by auto
    show "CalculateDigest L a = dg" using blob_by_digest_ok [OF ok(2) b(1)] b(2) by simp
    assume "run_state (GetBundle dev' dg) (fold (wfm_perform L) xs w) = (Inr a', v')"
    from GetBundle_Inr(2) [OF this] bundle_blob.run_stable [OF b(1)] b(2) show "a' = a" by auto }
qed

theorem wfm_served_integrity_witness:
  "\<exists>d v w. run_state (GetDeployment ex_dev ''u'' (CalculateDigest ex_L ''yu'')) w = (Inr d, v) \<and>
     CalculateDigest ex_L (Descriptor d) = CalculateDigest ex_L ''yu''"
proof -
  obtain w' where run: "run_state (CreateDeployment ex_L ex_dev ''d'') ex_wfm = (Inr (ex_d (\<lambda>b. b) ex_manifest), w')" and w': "wf_sound w'"
    by (rule ex_create)
  have r: "wfm_reachable ex_L w'" using wfm_reachable.step [OF ex_reachable, of ex_L "OpCreate ex_dev ''d''"] by (simp add: run)
  obtain b where "blob_by_digest (DescriptorDigest (ex_d (\<lambda>b. b) ex_manifest)) (deployment_blobs (wf_tabs w')) = Some b" "ex_dev \<in> set (devices (wf_tabs w'))"
    using created_blob [OF reachable_world_ok [OF ex_reachable] run] by blast
  then obtain d v where "run_state (GetDeployment ex_dev ''u'' (CalculateDigest ex_L ''yu'')) w' = (Inr d, v)"
    using sound_GetDeployment [OF w'] by (fastforce simp: ex_d_def)
  with wfm_served_integrity [OF r] show ?thesis by blast
qed


definition ex_post :: http_request where
  "ex_post = \<lparr>rq_Method = ''POST'', rq_Path = [], rq_Header = [], rq_Body = Some ''d'', rq_PeerCertificates = None\<rparr>"

lemma ex_post_simps [simp]: "rq_Body ex_post = Some ''d''" "rq_Header ex_post = []"
  by (simp_all add: ex_post_def)




section \<open>Conditional requests\<close>

text \<open>
  C28: On \<^verbatim>\<open>If-None-Match\<close> headers that list well-formed entity tags, strong or weak, over
  any number of header lines, the server finds the current tag exactly when it is in the list;
  the scan ends on every header.
\<close>

theorem etag_match_exact:
  assumes "Header_Values h ''If-None-Match'' = map etags_text tss" "\<forall>ts\<in>set tss. list_all etag_ok ts" "cur \<noteq> []"
  shows "clientHasETag h cur \<longleftrightarrow> (\<exists>ts\<in>set tss. cur \<in> etag_text ` set ts)"
  using assms by (auto simp: clientHasETag_def list_ex_iff TrimSpace_etags has_etag_list)

theorem etag_match_exact_witness:
  "clientHasETag [(''If-None-Match'', etags_text [ETag True ''a'', ETag False ''b''])] (quoted ''b'')"
  using etag_match_exact [of "[(''If-None-Match'', etags_text [ETag True ''a'', ETag False ''b''])]"
      "[[ETag True ''a'', ETag False ''b'']]" "quoted ''b''"]
  by (simp add: Header_Values_def DQUOTE_def quoted_def)

section \<open>The client\<close>

text \<open>
  C29: No poll ever takes the client back: it leaves its state alone or takes a manifest with a
  strictly higher version, whatever the network answers, so that the version never falls over
  any number of polls.
\<close>

theorem client_no_rollback:
  "(let st' = snd (fst (run_state (pollOnce L ord cfg st) n)) in st' = st \<or> ManifestVersion st < ManifestVersion st') \<and>
   ManifestVersion st \<le> ManifestVersion (fst (run_state (client_loop L ord cfg k st) n))"
proof -
  obtain x st' n' where "run_state (pollOnce L ord cfg st) n = ((x, st'), n')" by (metis surj_pair)
  moreover obtain s m where "run_state (client_loop L ord cfg k st) n = (s, m)" by (metis surj_pair)
  ultimately show ?thesis using poll_version loop_props(1) by (auto simp: Let_def)
qed


lemma sorted_lists_keys: "lists_keys sorted_list_of_set"
  by (simp add: lists_keys_def)


definition ex_cfg :: clientConfig where
  "ex_cfg = \<lparr>BaseURL = ''http://h'', DeviceID = ex_dev\<rparr>"


text \<open>
  C31: The order in which Go iterates over the plan does not matter: any two orders reconcile a
  state to the same state.
\<close>

theorem reconcile_order_irrelevant:
  assumes "lists_keys ord" "lists_keys ord'" "finite (dom (st_Deployments st))" "finite (dom R)"
  shows "reconcileDeployments ord st D R = reconcileDeployments ord' st D R"
  using reconcile_eq [OF assms(1,3,4)] reconcile_eq [OF assms(2,3,4)] by simp

theorem reconcile_order_irrelevant_witness:
  "reconcileDeployments sorted_list_of_set initial_state {''a'', ''b''}
     [''a'' \<mapsto> \<lparr>rd_Digest = ''1'', rd_Descriptor = None\<rparr>, ''b'' \<mapsto> \<lparr>rd_Digest = ''2'', rd_Descriptor = None\<rparr>] =
   reconcileDeployments (rev \<circ> sorted_list_of_set) initial_state {''a'', ''b''}
     [''a'' \<mapsto> \<lparr>rd_Digest = ''1'', rd_Descriptor = None\<rparr>, ''b'' \<mapsto> \<lparr>rd_Digest = ''2'', rd_Descriptor = None\<rparr>]"
  by (rule reconcile_order_irrelevant) (simp_all add: lists_keys_def initial_state_def)

text \<open>
  C32: Server and client together: a client that polls a server with a newer version, over a
  network that reaches it and with a working database, ends the poll without an error, at the
  server's version, with exactly the deployments the server has for the device, at their current
  digests, whatever it had cached before and whether or not the bundle could be used.
\<close>

theorem client_converges:
  assumes "wfm_reachable L w" "wf_sound w" "DeviceID cfg \<in> set (devices (wf_tabs w))"
    "understood L (DeviceID cfg) (wf_tabs w)" "no_slashes (DeviceID cfg) (wf_tabs w)"
    "has_scheme (BaseURL cfg)" "TrimRight (BaseURL cfg) ''/'' = BaseURL cfg"
    "net_answer n = server_answer L docs (BaseURL cfg) w" "lists_keys ord" "finite (dom (st_Deployments st))"
    "ManifestVersion st < Version (loaded (DeviceID cfg) (wf_tabs w))"
    "\<And>raw. json_Marshal L (manifest_response (DeviceID cfg) (loaded (DeviceID cfg) (wf_tabs w))) = Some raw \<Longrightarrow>
      \<not> clientHasETag [(''If-None-Match'', ManifestETag st)] (quoted (CalculateDigest L raw))"
  shows "let (x, st') = fst (run_state (pollOnce L ord cfg st) n) in
    x = Inr () \<and> fleet_of (wf_tabs w) (DeviceID cfg) = Some (ManifestVersion st', map_option ce_Digest \<circ> st_Deployments st')"
proof -
  let ?m = "manifest_response (DeviceID cfg) (loaded (DeviceID cfg) (wf_tabs w))"
  have inv: "wfm_inv L (wf_tabs w)" using reachable_world_ok [OF assms(1)] by (simp add: world_ok_def)
  obtain raw where raw: "json_Marshal L ?m = Some raw" "json_Unmarshal L raw = Some ?m" using assms(4) by (auto simp: understood_def)
  note fetch = server_sends_manifest [OF assms(2,3) _ assms(6-8) raw assms(12) [OF raw(1)]]
  obtain x st' n' where run: "run_state (pollOnce L ord cfg st) n = ((x, st'), n')" by (metis surj_pair)
  have "x = Inr () \<and> ManifestVersion st' = GR_ManifestVersion ?m \<and> map_option ce_Digest \<circ> st_Deployments st' = manifest_content ?m"
  proof (rule poll_converges [OF fetch _ _ _ assms(9,10) run])
    show "CHR ''/'' \<notin> set (DeviceID cfg)" using assms(5) by (simp add: no_slashes_def)
    show "ManifestVersion st < GR_ManifestVersion ?m" using assms(11) by (simp add: manifest_response_def)
    show "distinct (map DD_DeploymentId (GR_Deployments ?m))"
      using loaded_props(1) [OF inv] by (simp add: manifest_response_def manifest_wf_def comp_def)
  qed (rule server_delivers [OF inv assms(2-8)])
  moreover have "GR_ManifestVersion ?m = Version (loaded (DeviceID cfg) (wf_tabs w))" by (simp add: manifest_response_def)
  ultimately show ?thesis using assms(3) by (simp add: run fleet_of_def manifest_content_loaded [OF inv])
qed

theorem client_converges_witness:
  "fleet_of (wf_tabs ex_served) ex_dev = Some (2, [''u'' \<mapsto> ex_D]) \<and>
   (let (x, st') = fst (run_state (pollOnce ex_L32 sorted_list_of_set ex_cfg initial_state)
      \<lparr>net_answer = server_answer ex_L32 (\<lambda>_. http_Error [] 404) ''http://h'' ex_served, net_count = 0\<rparr>) in
    x = Inr () \<and> fleet_of (wf_tabs ex_served) ex_dev = Some (ManifestVersion st', map_option ce_Digest \<circ> st_Deployments st'))"
proof (rule conjI)
  show "fleet_of (wf_tabs ex_served) ex_dev = Some (2, [''u'' \<mapsto> ex_D])"
    by (simp add: fleet_of_def ex_served_def ex_loaded ex_loaded_manifest_def) (simp add: ex_T_def)
  show "let (x, st') = fst (run_state (pollOnce ex_L32 sorted_list_of_set ex_cfg initial_state)
      \<lparr>net_answer = server_answer ex_L32 (\<lambda>_. http_Error [] 404) ''http://h'' ex_served, net_count = 0\<rparr>) in
    x = Inr () \<and> fleet_of (wf_tabs ex_served) ex_dev = Some (ManifestVersion st', map_option ce_Digest \<circ> st_Deployments st')"
  proof -
    have "ManifestVersion initial_state < Version (loaded (DeviceID ex_cfg) (wf_tabs ex_served))"
      by (simp add: ex_cfg_def ex_served_def ex_loaded ex_loaded_manifest_def initial_state_def)
    moreover have "\<not> clientHasETag [(''If-None-Match'', ManifestETag initial_state)] t" for t
      by (simp add: initial_state_def clientHasETag_def Header_Values_def TrimSpace_def)
    moreover have "DeviceID ex_cfg = ex_dev" "BaseURL ex_cfg = ''http://h''" by (simp_all add: ex_cfg_def)
    moreover have "has_scheme ''http://h''" "TrimRight ''http://h'' ''/'' = ''http://h''"
      by (simp_all add: has_scheme_def HasPrefix_def TrimRight_def)
    moreover have "finite (dom (st_Deployments initial_state))" by (simp add: initial_state_def)
    ultimately show ?thesis
      using client_converges [OF ex_served_reachable ex_served_sound _ _ _ _ _ _ sorted_lists_keys, of ex_cfg
          "\<lparr>net_answer = server_answer ex_L32 (\<lambda>_. http_Error [] 404) ''http://h'' ex_served, net_count = 0\<rparr>"
          "\<lambda>_. http_Error [] 404" initial_state] ex_understood ex_no_slashes ex_served_device
      by (simp only: net.select_convs simp_thms not_False_eq_True)
  qed
qed

end
