(* ===== verification/Agent_State.thy ===== *)
theory Agent_State
  imports MIS_Wire
begin

text \<open>
  What the parts of the device agent share: the world its programs run in, the file system, the
  state file (\<^verbatim>\<open>pkg/device-agent/agentstate\<close>), keys (\<^verbatim>\<open>keygen\<close>, \<^verbatim>\<open>csr\<close>), HTTP
  clients (\<^verbatim>\<open>httpclient\<close>) and the cache of JWT SVIDs (\<^verbatim>\<open>jwtsvid/cache\<close>).

  A file operation succeeds, fails without effect, or, when it writes, leaves a torn file
  behind, as the schedule \<open>io\<close> of the world says for every operation in turn. The network is a
  type of its own: what a client's request does to it, and what comes back, is the field
  \<open>al_Do\<close> of the library, so that a server of the development can stand behind it.
\<close>

section \<open>The world of the agent\<close>

datatype io_outcome = IO_ok | IO_fail | IO_torn bytes

record 'n agent =
  disk :: "string \<Rightarrow> bytes option"
  io :: "nat \<Rightarrow> io_outcome"
  io_count :: nat
  ag_clock :: "nat \<Rightarrow> gotime"
  ag_ticks :: nat
  ag_keys :: "nat \<Rightarrow> (int \<times> int) option"
  ag_uuids :: "nat \<Rightarrow> string"
  ag_draws :: nat
  net :: 'n

type_synonym ('n, 'a) aprog = "('n agent, 'a) state"

definition io_next :: "('n, io_outcome) aprog" where
  "io_next = State (\<lambda>w. (io w (io_count w), w\<lparr>io_count := Suc (io_count w)\<rparr>))"

definition os_MkdirAll :: "string \<Rightarrow> ('n, bool) aprog" where
  "os_MkdirAll path = do { o' \<leftarrow> io_next; State_Monad.return (o' = IO_ok) }"

definition os_ReadFile_disk :: "string \<Rightarrow> ('n, bytes option) aprog" where
  "os_ReadFile_disk path = do {
     o' \<leftarrow> io_next;
     w \<leftarrow> State_Monad.get;
     State_Monad.return (if o' = IO_ok then disk w path else None) }"

definition os_WriteFile :: "string \<Rightarrow> bytes \<Rightarrow> ('n, bool) aprog" where
  "os_WriteFile path b = do {
     o' \<leftarrow> io_next;
     w \<leftarrow> State_Monad.get;
     State_Monad.set (case o' of
       IO_ok \<Rightarrow> w\<lparr>disk := (disk w)(path \<mapsto> b)\<rparr>
     | IO_fail \<Rightarrow> w
     | IO_torn t \<Rightarrow> w\<lparr>disk := (disk w)(path \<mapsto> t)\<rparr>);
     State_Monad.return (o' = IO_ok) }"

definition os_Rename :: "string \<Rightarrow> string \<Rightarrow> ('n, bool) aprog" where
  "os_Rename old new = do {
     o' \<leftarrow> io_next;
     w \<leftarrow> State_Monad.get;
     case disk w old of
       None \<Rightarrow> State_Monad.return False
     | Some b \<Rightarrow>
         if o' = IO_ok then do {
           State_Monad.set (w\<lparr>disk := ((disk w)(old := None))(new \<mapsto> b)\<rparr>);
           State_Monad.return True }
         else State_Monad.return False }"

definition os_Remove :: "string \<Rightarrow> ('n, unit) aprog" where
  "os_Remove path = do {
     o' \<leftarrow> io_next;
     w \<leftarrow> State_Monad.get;
     State_Monad.set (if o' = IO_ok then w\<lparr>disk := (disk w)(path := None)\<rparr> else w) }"

definition Clock_Now :: "('n, gotime) aprog" where
  "Clock_Now = State (\<lambda>w. (ag_clock w (ag_ticks w), w\<lparr>ag_ticks := Suc (ag_ticks w)\<rparr>))"

definition agent_uuid :: "('n, string) aprog" where
  "agent_uuid = State (\<lambda>w. (ag_uuids w (ag_draws w), w\<lparr>ag_draws := Suc (ag_draws w)\<rparr>))"

section \<open>The state of the agent\<close>

record agent_state =
  SPIFFEID :: string
  Serial :: string
  ExpiresAt :: gotime
  LastEnrolled :: gotime
  BundleLastModified :: string
  RevocationsETag :: string
  RevocationsLastModified :: string
  LastBundleRefreshAt :: gotime
  LastRevocationsCheckAt :: gotime
  LastRenewalAt :: gotime
  RevokedAt :: gotime

text \<open>
  The parameters: the library of the service, PEM and keys, JSON codecs, certificate requests,
  signed assertions, key pairs and pools of TLS, and the network. The record \<open>oslib\<close> is used for
  its parsers; files are read from the disk of the world.
\<close>

record http_client =
  cl_RootCAs :: "bytes option"
  cl_Certificates :: "(bytes \<times> bytes) option"

record 'n agentlib =
  al_go :: golib
  al_os :: oslib
  al_wire :: wirelib
  json_State :: "agent_state \<Rightarrow> bytes option"
  parse_State :: "bytes \<Rightarrow> agent_state option"
  json_of_EnrollmentRequest :: "EnrollmentRequestDTO \<Rightarrow> bytes"
  parse_EnrollmentResponse :: "bytes \<Rightarrow> EnrollmentResponseDTO option"
  json_of_JWTSVIDRequest :: "JWTSVIDExchangeRequestDTO \<Rightarrow> bytes"
  parse_JWTSVIDResponse :: "bytes \<Rightarrow> JWTSVIDExchangeResponseDTO option"
  parse_RevocationList :: "bytes \<Rightarrow> RevocationListDTO option"
  parse_Discovery :: "bytes \<Rightarrow> DiscoveryResponseDTO option"
  parse_Problem :: "bytes \<Rightarrow> ProblemDetails option"
  CreateCertificateRequest :: "nat \<Rightarrow> sigalg \<Rightarrow> pubkey \<Rightarrow> bytes option"
  MarshalPKCS8PrivateKey :: "pubkey \<Rightarrow> bytes option"
  pem_EncodeToMemory :: "string \<Rightarrow> bytes \<Rightarrow> bytes"
  AppendCertsFromPEM :: "bytes \<Rightarrow> bool"
  LoadX509KeyPair :: "bytes \<Rightarrow> bytes \<Rightarrow> bool"
  jose_Sign :: "string \<Rightarrow> pubkey \<Rightarrow> string list \<Rightarrow> jwt_claims \<Rightarrow> string option"
  http_NewRequest :: "string \<Rightarrow> bool"
  al_Do :: "http_client \<Rightarrow> string \<Rightarrow> string \<Rightarrow> http_header \<Rightarrow> bytes \<Rightarrow> 'n \<Rightarrow> http_reply option \<times> 'n"

text \<open>\<^verbatim>\<open>dirOf\<close>, which two packages have: the path up to its last slash.\<close>

definition dirOf :: "string \<Rightarrow> string" where
  "dirOf path = (case dropWhile (\<lambda>c. c \<noteq> CHR ''/'') (rev path) of [] \<Rightarrow> ''.'' | _ # r \<Rightarrow> rev r)"

definition agentstate_Save :: "'n agentlib \<Rightarrow> string \<Rightarrow> agent_state \<Rightarrow> ('n, unit result) aprog" where
  "agentstate_Save L path s = do {
     ok \<leftarrow> os_MkdirAll (dirOf path);
     if \<not> ok then State_Monad.return (Inl [Opaque ''mkdir''])
     else case json_State L s of
       None \<Rightarrow> State_Monad.return (Inl [Opaque ''marshal''])
     | Some b \<Rightarrow> do {
         let tmp = path @ ''.tmp'';
         ok \<leftarrow> os_WriteFile tmp b;
         if \<not> ok then State_Monad.return (Inl [Opaque ''write temp''])
         else do {
           ok \<leftarrow> os_Rename tmp path;
           if ok then State_Monad.return (Inr ())
           else do { _ \<leftarrow> os_Remove tmp; State_Monad.return (Inl [Opaque ''rename'']) } } } }"

definition agentstate_Load :: "'n agentlib \<Rightarrow> string \<Rightarrow> ('n, agent_state result) aprog" where
  "agentstate_Load L path = do {
     b \<leftarrow> os_ReadFile_disk path;
     State_Monad.return (case b of
       None \<Rightarrow> Inl [Opaque ''read state'']
     | Some raw \<Rightarrow> (case parse_State L raw of None \<Rightarrow> Inl [Opaque ''parse state''] | Some s \<Rightarrow> Inr s)) }"

section \<open>Keys and requests\<close>

text \<open>
  \<^verbatim>\<open>keygen.Generate\<close>: the numbers of a fresh key come from the world. As in the service, a
  private key is known by its public key.
\<close>

definition keygen_Generate :: "string \<Rightarrow> ('n, pubkey result) aprog" where
  "keygen_Generate alg =
     (if alg = ''ES256'' \<or> alg = ''PS256'' then do {
        w \<leftarrow> State_Monad.get;
        State_Monad.set (w\<lparr>ag_draws := Suc (ag_draws w)\<rparr>);
        State_Monad.return (case ag_keys w (ag_draws w) of
          None \<Rightarrow> Inl [Opaque ''rand'']
        | Some (a, b) \<Rightarrow> Inr (if alg = ''ES256'' then ECDSA_PublicKey P256 a b else RSA_PublicKey a b)) }
      else State_Monad.return (Inl [Opaque ''unsupported algorithm'']))"

text \<open>\<^verbatim>\<open>keygen.LoadSigner\<close> has the text of the service's \<open>loadKey\<close>, on the file it reads.\<close>

definition LoadSigner :: "'n agentlib \<Rightarrow> string \<Rightarrow> ('n, pubkey result) aprog" where
  "LoadSigner L path = do {
     raw \<leftarrow> os_ReadFile_disk path;
     State_Monad.return (loadKey ((al_os L)\<lparr>os_ReadFile := (\<lambda>p. if p = path then raw else None)\<rparr>) path) }"

definition signatureAlgorithmFor :: "pubkey \<Rightarrow> sigalg result" where
  "signatureAlgorithmFor key = (case key of
     ECDSA_PublicKey _ _ _ \<Rightarrow> Inr ECDSAWithSHA256
   | RSA_PublicKey _ _ \<Rightarrow> Inr SHA256WithRSAPSS
   | OtherKey _ \<Rightarrow> Inl [Opaque ''csr: unsupported key type''])"

definition csr_Build :: "'n agentlib \<Rightarrow> pubkey \<Rightarrow> ('n, string result) aprog" where
  "csr_Build L key = (case signatureAlgorithmFor key of
     Inl e \<Rightarrow> State_Monad.return (Inl e)
   | Inr alg \<Rightarrow> do {
       w \<leftarrow> State_Monad.get;
       State_Monad.set (w\<lparr>ag_draws := Suc (ag_draws w)\<rparr>);
       State_Monad.return (case CreateCertificateRequest L (ag_draws w) alg key of
         None \<Rightarrow> Inl [Opaque ''create certificate request'']
       | Some der \<Rightarrow> Inr (Std_EncodeToString der)) })"

section \<open>HTTP clients\<close>

text \<open>An empty path stands for the system's trust store, \<open>None\<close>.\<close>

definition loadPEMPool :: "'n agentlib \<Rightarrow> string \<Rightarrow> ('n, bytes option result) aprog" where
  "loadPEMPool L path =
     (if path = [] then State_Monad.return (Inr None)
      else do {
        raw \<leftarrow> os_ReadFile_disk path;
        State_Monad.return (case raw of
          None \<Rightarrow> Inl [Opaque ''read trust anchor'']
        | Some b \<Rightarrow> if AppendCertsFromPEM L b then Inr (Some b) else Inl [Opaque ''no PEM certificates'']) })"

definition httpclient_New :: "'n agentlib \<Rightarrow> string \<Rightarrow> ('n, http_client result) aprog" where
  "httpclient_New L trustAnchorFile = do {
     p \<leftarrow> loadPEMPool L trustAnchorFile;
     State_Monad.return (case p of
       Inl e \<Rightarrow> Inl e | Inr pool \<Rightarrow> Inr \<lparr>cl_RootCAs = pool, cl_Certificates = None\<rparr>) }"

definition httpclient_NewMTLS :: "'n agentlib \<Rightarrow> string \<Rightarrow> string \<Rightarrow> string \<Rightarrow> ('n, http_client result) aprog" where
  "httpclient_NewMTLS L trustAnchorFile clientCertFile clientKeyFile = do {
     p \<leftarrow> loadPEMPool L trustAnchorFile;
     case p of
       Inl e \<Rightarrow> State_Monad.return (Inl e)
     | Inr pool \<Rightarrow> do {
         c \<leftarrow> os_ReadFile_disk clientCertFile;
         k \<leftarrow> (if c = None then State_Monad.return None else os_ReadFile_disk clientKeyFile);
         State_Monad.return (case (c, k) of
           (Some cb, Some kb) \<Rightarrow>
             if LoadX509KeyPair L cb kb then Inr \<lparr>cl_RootCAs = pool, cl_Certificates = Some (cb, kb)\<rparr>
             else Inl [Opaque ''load client keypair'']
         | _ \<Rightarrow> Inl [Opaque ''load client keypair'']) } }"

text \<open>Building a request, which fails for a URL that does not parse, and sending it.\<close>

definition send :: "'n agentlib \<Rightarrow> http_client \<Rightarrow> string \<Rightarrow> string \<Rightarrow> http_header \<Rightarrow> bytes \<Rightarrow> ('n, http_reply result) aprog" where
  "send L cli meth url hdr body =
     (if \<not> http_NewRequest L url then State_Monad.return (Inl [Opaque ''new request''])
      else do {
        w \<leftarrow> State_Monad.get;
        case al_Do L cli meth url hdr body (net w) of (reply, n') \<Rightarrow> do {
          State_Monad.set (w\<lparr>net := n'\<rparr>);
          State_Monad.return (case reply of None \<Rightarrow> Inl [Opaque ''send''] | Some r \<Rightarrow> Inr r) } })"

section \<open>The cache of JWT SVIDs\<close>

text \<open>A Go map from keys to entries, as an association list without duplicates.\<close>

record cache_Entry =
  ce_Token :: string
  ce_ExpiresAt :: gotime

record Cache =
  ca_threshold :: duration
  ca_entries :: "(string \<times> cache_Entry) list"

definition cache_New :: "duration \<Rightarrow> Cache" where
  "cache_New threshold = \<lparr>ca_threshold = threshold, ca_entries = []\<rparr>"

definition cache_key :: "string list \<Rightarrow> string" where
  "cache_key audiences = join_with (CHR 0x00) (sort audiences)"

definition cache_Put :: "Cache \<Rightarrow> string list \<Rightarrow> cache_Entry \<Rightarrow> Cache" where
  "cache_Put c audiences e =
     c\<lparr>ca_entries := (cache_key audiences, e) # filter (\<lambda>p. fst p \<noteq> cache_key audiences) (ca_entries c)\<rparr>"

definition near_expiry :: "Cache \<Rightarrow> gotime \<Rightarrow> cache_Entry \<Rightarrow> bool" where
  "near_expiry c now e \<longleftrightarrow> time_sub (ce_ExpiresAt e) now < ca_threshold c"

definition cache_Get :: "Cache \<Rightarrow> string list \<Rightarrow> gotime \<Rightarrow> cache_Entry option" where
  "cache_Get c audiences now = (case map_of (ca_entries c) (cache_key audiences) of
     None \<Rightarrow> None | Some e \<Rightarrow> if near_expiry c now e then None else Some e)"

definition cache_EvictExpired :: "Cache \<Rightarrow> gotime \<Rightarrow> Cache" where
  "cache_EvictExpired c now = c\<lparr>ca_entries := filter (\<lambda>p. \<not> near_expiry c now (snd p)) (ca_entries c)\<rparr>"

definition cache_Len :: "Cache \<Rightarrow> nat" where
  "cache_Len c = length (ca_entries c)"

end
