(* ===== verification/Agent_Clients.thy ===== *)
theory Agent_Clients
  imports Agent_State
begin

text \<open>
  The clients of the device agent: discovery, bundle map, revocation list, enrollment with each
  bootstrap method, renewal and JWT exchange (\<^verbatim>\<open>pkg/device-agent/discovery\<close>,
  \<^verbatim>\<open>bundle\<close>, \<^verbatim>\<open>revocations\<close>, \<^verbatim>\<open>enroll\<close>, \<^verbatim>\<open>renew\<close>, \<^verbatim>\<open>jwtsvid\<close>). They return an error
  only for a transport failure; an answer outside 2xx is a result with its status and, when the
  body parses, its problem. Where the code ignores an error of reading a body, the body counts
  as empty. Client and keys of a request are not nil.
\<close>

definition is_2xx :: "int \<Rightarrow> bool" where
  "is_2xx st \<longleftrightarrow> 200 \<le> st \<and> st < 300"

definition no_problem :: ProblemDetails where
  "no_problem = \<lparr>PD_Type = [], PD_Title = [], PD_Status = 0, PD_Instance = []\<rparr>"

definition body_of :: "http_reply \<Rightarrow> bytes" where
  "body_of r = (case rp_Body r of None \<Rightarrow> [] | Some b \<Rightarrow> b)"

definition problem_of :: "'n agentlib \<Rightarrow> bytes \<Rightarrow> ProblemDetails" where
  "problem_of L b = (case parse_Problem L b of None \<Rightarrow> no_problem | Some p \<Rightarrow> p)"

definition json_content :: http_header where
  "json_content = [(''Content-Type'', ''application/json'')]"

section \<open>Discovery\<close>

definition discovery_Fetch :: "'n agentlib \<Rightarrow> http_client \<Rightarrow> string \<Rightarrow> ('n, DiscoveryResponseDTO result) aprog" where
  "discovery_Fetch L cli misBaseURL = do {
     r \<leftarrow> send L cli ''GET'' (TrimRight misBaseURL ''/'' @ ''/.well-known/margo'') [(''Accept'', ''application/json'')] [];
     State_Monad.return (case r of
       Inl e \<Rightarrow> Inl e
     | Inr resp \<Rightarrow> (case rp_Body resp of
         None \<Rightarrow> Inl [Opaque ''read'']
       | Some body \<Rightarrow>
           if rp_Status resp \<noteq> 200 then Inl [Opaque ''discovery status'']
           else (case parse_Discovery L body of None \<Rightarrow> Inl [Opaque ''decode discovery''] | Some d \<Rightarrow> Inr d))) }"

section \<open>The bundle map\<close>

record bundle_Result =
  br_Body :: bytes
  br_LastModified :: string
  br_NotModified :: bool

definition bundle_Fetch :: "'n agentlib \<Rightarrow> http_client \<Rightarrow> string \<Rightarrow> string \<Rightarrow> ('n, bundle_Result result) aprog" where
  "bundle_Fetch L cli trustBundleURI ifModifiedSince = do {
     r \<leftarrow> send L cli ''GET'' trustBundleURI
       (if ifModifiedSince \<noteq> [] then [(''If-Modified-Since'', ifModifiedSince)] else []) [];
     State_Monad.return (case r of
       Inl e \<Rightarrow> Inl e
     | Inr resp \<Rightarrow>
         if rp_Status resp = 200 then (case rp_Body resp of
             None \<Rightarrow> Inl [Opaque ''read'']
           | Some b \<Rightarrow> Inr \<lparr>br_Body = b, br_LastModified = Header_Get (rp_Header resp) ''Last-Modified'', br_NotModified = False\<rparr>)
         else if rp_Status resp = 304
         then Inr \<lparr>br_Body = [], br_LastModified = Header_Get (rp_Header resp) ''Last-Modified'', br_NotModified = True\<rparr>
         else Inl [Opaque ''bundle map status'']) }"

text \<open>
  The keys of an entry of the envelope, with the empty text for a field that is missing, and
  the two loops over them. Decoding the envelope is a parameter: the entries of the map
  \<^verbatim>\<open>trust_domains\<close>.
\<close>

record bundle_key =
  bk_Use :: string
  bk_Kid :: string
  bk_Kty :: string
  bk_Crv :: string
  bk_X :: string
  bk_Y :: string
  bk_N :: string
  bk_E :: string
  bk_X5C :: "string list"

type_synonym envelope_decoder = "bytes \<Rightarrow> (string \<times> bundle_key list) list option"

fun x509_authorities :: "golib \<Rightarrow> bundle_key list \<Rightarrow> certificate list result" where
  "x509_authorities G [] = Inr []"
| "x509_authorities G (k # ks) =
     (if bk_Use k \<noteq> ''x509-svid'' then x509_authorities G ks
      else case bk_X5C k of
        [] \<Rightarrow> Inl [Opaque ''missing x5c'']
      | b # _ \<Rightarrow> (case Std_DecodeString b of
          None \<Rightarrow> Inl [Opaque ''decode x5c'']
        | Some der \<Rightarrow> (case ParseCertificate G der of
            None \<Rightarrow> Inl [Opaque ''parse x509 authority'']
          | Some cert \<Rightarrow> (case x509_authorities G ks of Inl e \<Rightarrow> Inl e | Inr cs \<Rightarrow> Inr (cert # cs)))))"

definition ExtractX509Authorities :: "golib \<Rightarrow> envelope_decoder \<Rightarrow> bytes \<Rightarrow> string \<Rightarrow> certificate list result" where
  "ExtractX509Authorities G decode body trustDomain = (case decode body of
     None \<Rightarrow> Inl [Opaque ''parse bundle map'']
   | Some tds \<Rightarrow> (case map_of tds trustDomain of
       None \<Rightarrow> Inl [Opaque ''no entry'']
     | Some keys \<Rightarrow> (case x509_authorities G keys of
         Inl e \<Rightarrow> Inl e
       | Inr cs \<Rightarrow> if cs = [] then Inl [Opaque ''no x509-svid authorities''] else Inr cs)))"

definition ecCurveByName :: "string \<Rightarrow> curve result" where
  "ecCurveByName name =
     (if name = ''P-256'' then Inr P256 else if name = ''P-384'' then Inr P384
      else if name = ''P-521'' then Inr P521 else Inl [Opaque ''unsupported EC curve''])"

text \<open>\<^verbatim>\<open>big.Int.SetBytes\<close> is \<open>bytes_nat\<close>; \<^verbatim>\<open>Int64\<close> keeps the low 64 bits.\<close>

definition decodeJWTKey :: "string \<Rightarrow> string \<Rightarrow> string \<Rightarrow> string \<Rightarrow> string \<Rightarrow> string \<Rightarrow> pubkey result" where
  "decodeJWTKey kty crv x y n e =
     (if kty = ''EC'' then (case ecCurveByName crv of
         Inl err \<Rightarrow> Inl err
       | Inr c \<Rightarrow> (case RawURL_DecodeString x of
           None \<Rightarrow> Inl [Opaque ''decode x'']
         | Some xb \<Rightarrow> (case RawURL_DecodeString y of
             None \<Rightarrow> Inl [Opaque ''decode y'']
           | Some yb \<Rightarrow> Inr (ECDSA_PublicKey c (int (bytes_nat xb)) (int (bytes_nat yb))))))
      else if kty = ''RSA'' then (case RawURL_DecodeString n of
         None \<Rightarrow> Inl [Opaque ''decode n'']
       | Some nb \<Rightarrow> (case RawURL_DecodeString e of
           None \<Rightarrow> Inl [Opaque ''decode e'']
         | Some eb \<Rightarrow> Inr (RSA_PublicKey (int (bytes_nat nb)) (int64 (int (bytes_nat eb))))))
      else Inl [Opaque ''unsupported kty''])"

fun jwt_authorities :: "bundle_key list \<Rightarrow> jwt_authority list result" where
  "jwt_authorities [] = Inr []"
| "jwt_authorities (k # ks) =
     (if bk_Use k \<noteq> ''jwt-svid'' then jwt_authorities ks
      else case decodeJWTKey (bk_Kty k) (bk_Crv k) (bk_X k) (bk_Y k) (bk_N k) (bk_E k) of
        Inl e \<Rightarrow> Inl e
      | Inr pub \<Rightarrow> (case jwt_authorities ks of
          Inl e \<Rightarrow> Inl e | Inr as \<Rightarrow> Inr (\<lparr>JA_KeyID = bk_Kid k, JA_PublicKey = pub\<rparr> # as)))"

definition ExtractJWTAuthorities :: "envelope_decoder \<Rightarrow> bytes \<Rightarrow> string \<Rightarrow> jwt_authority list result" where
  "ExtractJWTAuthorities decode body trustDomain = (case decode body of
     None \<Rightarrow> Inl [Opaque ''parse bundle map'']
   | Some tds \<Rightarrow> (case map_of tds trustDomain of
       None \<Rightarrow> Inl [Opaque ''no entry''] | Some keys \<Rightarrow> jwt_authorities keys))"

text \<open>
  \<^verbatim>\<open>verify.SourceFromBundleMap\<close>: the same loop with \<^verbatim>\<open>AddJWTAuthority\<close> of
  \<^verbatim>\<open>go-spiffe\<close> for every key; its \<^verbatim>\<open>decodeJWK\<close> and \<^verbatim>\<open>ecCurve\<close> have the text of
  \<^verbatim>\<open>decodeJWTKey\<close> and \<^verbatim>\<open>ecCurveByName\<close>.
\<close>

fun add_authorities :: "wirelib \<Rightarrow> bundle_key list \<Rightarrow> jwt_authority list \<Rightarrow> jwt_authority list result" where
  "add_authorities J [] bundle = Inr bundle"
| "add_authorities J (k # ks) bundle =
     (if bk_Use k \<noteq> ''jwt-svid'' then add_authorities J ks bundle
      else case decodeJWTKey (bk_Kty k) (bk_Crv k) (bk_X k) (bk_Y k) (bk_N k) (bk_E k) of
        Inl e \<Rightarrow> Inl e
      | Inr pub \<Rightarrow>
          let a = \<lparr>JA_KeyID = bk_Kid k, JA_PublicKey = pub\<rparr> in
          if \<not> AddJWTAuthority J a then Inl [Opaque ''AddJWTAuthority'']
          else add_authorities J ks (bundle @ [a]))"

definition SourceFromBundleMap :: "wirelib \<Rightarrow> envelope_decoder \<Rightarrow> bytes \<Rightarrow> string \<Rightarrow> jwt_authority list result" where
  "SourceFromBundleMap J decode body trustDomain = (case decode body of
     None \<Rightarrow> Inl [Opaque ''parse bundle map'']
   | Some tds \<Rightarrow> (case map_of tds trustDomain of
       None \<Rightarrow> Inl [Opaque ''no entry''] | Some keys \<Rightarrow> add_authorities J keys []))"

section \<open>The revocation list\<close>

record rev_Result =
  rr_HTTPStatus :: int
  rr_RetryAfter :: string
  rr_Problem :: ProblemDetails
  rr_NotModified :: bool
  rr_List :: RevocationListDTO
  rr_ETag :: string
  rr_LastModified :: string

definition ContainsFingerprint :: "rev_Result \<Rightarrow> string \<Rightarrow> bool" where
  "ContainsFingerprint r fp = list_ex (\<lambda>e. RV_CertFingerprintSHA256 e = fp) (RL_RevokedSVIDs (rr_List r))"

definition no_list :: RevocationListDTO where
  "no_list = \<lparr>RL_LastUpdated = [], RL_RevokedSVIDs = []\<rparr>"

definition revocations_Fetch ::
    "'n agentlib \<Rightarrow> http_client \<Rightarrow> string \<Rightarrow> string \<Rightarrow> string \<Rightarrow> ('n, rev_Result result) aprog" where
  "revocations_Fetch L cli uri etag lastModified = do {
     r \<leftarrow> send L cli ''GET'' uri ((''Accept'', ''application/json'') #
       (if etag \<noteq> [] then [(''If-None-Match'', etag)]
        else if lastModified \<noteq> [] then [(''If-Modified-Since'', lastModified)] else [])) [];
     State_Monad.return (case r of
       Inl e \<Rightarrow> Inl e
     | Inr resp \<Rightarrow>
         if rp_Status resp = 200 then (case rp_Body resp of
             None \<Rightarrow> Inl [Opaque ''read body'']
           | Some body \<Rightarrow> (case parse_RevocationList L body of
               None \<Rightarrow> Inl [Opaque ''parse revocation list'']
             | Some l \<Rightarrow> Inr \<lparr>rr_HTTPStatus = 200, rr_RetryAfter = [], rr_Problem = no_problem, rr_NotModified = False,
                 rr_List = l, rr_ETag = Header_Get (rp_Header resp) ''ETag'',
                 rr_LastModified = Header_Get (rp_Header resp) ''Last-Modified''\<rparr>))
         else if rp_Status resp = 304
         then Inr \<lparr>rr_HTTPStatus = 304, rr_RetryAfter = [], rr_Problem = no_problem, rr_NotModified = True,
           rr_List = no_list, rr_ETag = Header_Get (rp_Header resp) ''ETag'',
           rr_LastModified = Header_Get (rp_Header resp) ''Last-Modified''\<rparr>
         else Inr \<lparr>rr_HTTPStatus = rp_Status resp, rr_RetryAfter = Header_Get (rp_Header resp) ''Retry-After'',
           rr_Problem = problem_of L (body_of resp), rr_NotModified = False, rr_List = no_list, rr_ETag = [],
           rr_LastModified = []\<rparr>) }"

section \<open>Enrollment and renewal\<close>

record enr_Result =
  en_HTTPStatus :: int
  en_RetryAfter :: string
  en_Problem :: ProblemDetails
  en_Response :: EnrollmentResponseDTO

definition no_response :: EnrollmentResponseDTO where
  "no_response = \<lparr>EP_SVIDProfileURI = [], EP_SVID = \<lparr>XS_CertificateChainPEM = []\<rparr>\<rparr>"

text \<open>The tail of the four clients: one of them does not go on when reading the body fails.\<close>

definition post_enrollment ::
    "'n agentlib \<Rightarrow> bool \<Rightarrow> http_client \<Rightarrow> string \<Rightarrow> http_header \<Rightarrow> EnrollmentRequestDTO \<Rightarrow> ('n, enr_Result result) aprog" where
  "post_enrollment L strict cli url hdr dto = do {
     r \<leftarrow> send L cli ''POST'' url hdr (json_of_EnrollmentRequest L dto);
     State_Monad.return (case r of
       Inl e \<Rightarrow> Inl e
     | Inr resp \<Rightarrow>
         if strict \<and> rp_Body resp = None then Inl [Opaque ''read response body'']
         else if is_2xx (rp_Status resp) then (case parse_EnrollmentResponse L (body_of resp) of
             None \<Rightarrow> Inl [Opaque ''decode 2xx response'']
           | Some d \<Rightarrow> Inr \<lparr>en_HTTPStatus = rp_Status resp, en_RetryAfter = Header_Get (rp_Header resp) ''Retry-After'',
               en_Problem = no_problem, en_Response = d\<rparr>)
         else Inr \<lparr>en_HTTPStatus = rp_Status resp, en_RetryAfter = Header_Get (rp_Header resp) ''Retry-After'',
           en_Problem = problem_of L (body_of resp), en_Response = no_response\<rparr>) }"

definition enrollment_url :: "string \<Rightarrow> string" where
  "enrollment_url misBaseURL = TrimRight misBaseURL ''/'' @ ''/api/v1/identities''"

definition enrollment_request ::
    "string \<Rightarrow> string \<Rightarrow> BootstrapProof option \<Rightarrow> ReplacementAuthorizationDTO option \<Rightarrow> EnrollmentRequestDTO" where
  "enrollment_request csrB64 meth pf repl = \<lparr>EQ_SVIDProfileURI = SVIDProfileURIX509V1, EQ_SVIDRequest = \<lparr>SR_CSR = csrB64\<rparr>,
     EQ_BootstrapCredential = \<lparr>BC_Method = meth, BC_Proof = pf\<rparr>, EQ_ReplacementAuthorization = repl\<rparr>"

definition enroll_mtls ::
    "'n agentlib \<Rightarrow> http_client \<Rightarrow> string \<Rightarrow> pubkey \<Rightarrow> ReplacementAuthorizationDTO option \<Rightarrow> ('n, enr_Result result) aprog" where
  "enroll_mtls L cli misBaseURL devKey repl = do {
     c \<leftarrow> csr_Build L devKey;
     case c of
       Inl e \<Rightarrow> State_Monad.return (Inl e)
     | Inr csrB64 \<Rightarrow> post_enrollment L False cli (enrollment_url misBaseURL) json_content
         (enrollment_request csrB64 BootstrapMethodFactoryCertMTLS None repl) }"

definition enroll_token ::
    "'n agentlib \<Rightarrow> http_client \<Rightarrow> string \<Rightarrow> string \<Rightarrow> pubkey \<Rightarrow> ReplacementAuthorizationDTO option \<Rightarrow> ('n, enr_Result result) aprog" where
  "enroll_token L cli misBaseURL token devKey repl =
     (if TrimSpace token = [] then State_Monad.return (Inl [Opaque ''token is empty''])
      else do {
        c \<leftarrow> csr_Build L devKey;
        case c of
          Inl e \<Rightarrow> State_Monad.return (Inl e)
        | Inr csrB64 \<Rightarrow> post_enrollment L False cli (enrollment_url misBaseURL) json_content
            (enrollment_request csrB64 BootstrapMethodEnrollmentToken (Some \<lparr>BP_Assertion = [], BP_Token = token\<rparr>) repl) })"

text \<open>\<^verbatim>\<open>algForKey\<close> and \<^verbatim>\<open>assertionAlg\<close>.\<close>

definition algForKey :: "pubkey \<Rightarrow> string result" where
  "algForKey k = (case k of
     ECDSA_PublicKey _ _ _ \<Rightarrow> Inr ''ES256'' | RSA_PublicKey _ _ \<Rightarrow> Inr ''PS256''
   | OtherKey _ \<Rightarrow> Inl [Opaque ''unsupported key type''])"

definition assertion_claims :: "string \<Rightarrow> string \<Rightarrow> gotime \<Rightarrow> duration \<Rightarrow> string \<Rightarrow> jwt_claims" where
  "assertion_claims who audience now life jti = \<lparr>jwt_Issuer = who, jwt_Subject = who, jwt_Audience = [audience],
     jwt_Expiry = Some (NumericDate (now + life)), jwt_NotBefore = None, jwt_IssuedAt = Some (NumericDate now),
     jwt_ID = jti, jwt_raw_jti = Some jti\<rparr>"

definition x5c_of :: "certificate list \<Rightarrow> string list" where
  "x5c_of chain = map (\<lambda>c. Std_EncodeToString (cert_Raw c)) chain"

text \<open>\<^verbatim>\<open>BuildAssertion\<close> with the real clock and the given lifetime, 0 for the default.\<close>

definition BuildAssertion ::
    "'n agentlib \<Rightarrow> certificate list \<Rightarrow> pubkey \<Rightarrow> string \<Rightarrow> duration \<Rightarrow> ('n, string result) aprog" where
  "BuildAssertion L factoryCerts factoryKey audience lifetime = (case factoryCerts of
     [] \<Rightarrow> State_Monad.return (Inl [Opaque ''FactoryCerts is required''])
   | leaf # _ \<Rightarrow>
       if audience = [] then State_Monad.return (Inl [Opaque ''Audience is required''])
       else let life = (if lifetime = 0 then 5 * Minute else lifetime) in
         if 5 * Minute < life then State_Monad.return (Inl [Opaque ''Lifetime exceeds maximum''])
         else case algForKey factoryKey of
           Inl e \<Rightarrow> State_Monad.return (Inl e)
         | Inr alg \<Rightarrow> do {
             now \<leftarrow> Clock_Now;
             jti \<leftarrow> agent_uuid;
             State_Monad.return (case jose_Sign L alg factoryKey (x5c_of factoryCerts)
                 (assertion_claims (''urn:margo:device:sha256:'' @ hex_EncodeToString (sha256 (al_go L) (cert_Raw leaf)))
                   audience now life jti) of
               None \<Rightarrow> Inl [Opaque ''serialize''] | Some compact \<Rightarrow> Inr compact) })"

definition enroll_jwt ::
    "'n agentlib \<Rightarrow> http_client \<Rightarrow> string \<Rightarrow> certificate list \<Rightarrow> pubkey \<Rightarrow> pubkey \<Rightarrow>
     ReplacementAuthorizationDTO option \<Rightarrow> ('n, enr_Result result) aprog" where
  "enroll_jwt L cli misBaseURL factoryCerts factoryKey devKey repl =
     (if factoryCerts = [] then State_Monad.return (Inl [Opaque ''FactoryCerts is empty''])
      else do {
        a \<leftarrow> BuildAssertion L factoryCerts factoryKey (enrollment_url misBaseURL) 0;
        case a of
          Inl e \<Rightarrow> State_Monad.return (Inl e)
        | Inr assertion \<Rightarrow> do {
            c \<leftarrow> csr_Build L devKey;
            case c of
              Inl e \<Rightarrow> State_Monad.return (Inl e)
            | Inr csrB64 \<Rightarrow> post_enrollment L True cli (enrollment_url misBaseURL) json_content
                (enrollment_request csrB64 BootstrapMethodFactoryCertJWT
                  (Some \<lparr>BP_Assertion = assertion, BP_Token = []\<rparr>) repl) } })"

definition RenewalURL :: "string \<Rightarrow> string \<Rightarrow> string" where
  "RenewalURL misBaseURL spiffeID =
     TrimRight misBaseURL ''/'' @ ''/api/v1/identities/'' @ EncodeSPIFFEID spiffeID @ ''/renewal''"

definition renew_Renew ::
    "'n agentlib \<Rightarrow> http_client \<Rightarrow> string \<Rightarrow> string \<Rightarrow> pubkey \<Rightarrow> string \<Rightarrow> ('n, enr_Result result) aprog" where
  "renew_Renew L cli misBaseURL spiffeID devKey bearerToken =
     (if spiffeID = [] then State_Monad.return (Inl [Opaque ''SPIFFEID is empty''])
      else do {
        c \<leftarrow> csr_Build L devKey;
        case c of
          Inl e \<Rightarrow> State_Monad.return (Inl e)
        | Inr csrB64 \<Rightarrow> post_enrollment L False cli (RenewalURL misBaseURL spiffeID)
            (json_content @ (if bearerToken \<noteq> [] then [(''Authorization'', ''Bearer '' @ bearerToken)] else []))
            (enrollment_request csrB64 [] None None) })"

section \<open>JWT SVIDs\<close>

text \<open>
  \<^verbatim>\<open>LoadSVIDChain\<close>: the loop over PEM blocks as the code has it, with no bound on its rounds.
\<close>

partial_function (option) chain_blocks ::
    "golib \<Rightarrow> oslib \<Rightarrow> bytes \<Rightarrow> certificate list \<Rightarrow> certificate list result option" where
  "chain_blocks G L rest chain = (case pem_Decode L rest of
     None \<Rightarrow> Some (Inr chain)
   | Some (typ, der, rest') \<Rightarrow>
       if typ \<noteq> ''CERTIFICATE'' then chain_blocks G L rest' chain
       else (case ParseCertificate G der of
         None \<Rightarrow> Some (Inl [Opaque ''parse''])
       | Some c \<Rightarrow> chain_blocks G L rest' (chain @ [c])))"

declare chain_blocks.simps [code]

text \<open>The result on the bytes of the file; \<open>None\<close> if the loop does not end.\<close>

definition chain_of_file :: "golib \<Rightarrow> oslib \<Rightarrow> bytes \<Rightarrow> certificate list result option" where
  "chain_of_file G L raw = map_option (\<lambda>r. case r of
     Inl e \<Rightarrow> Inl e | Inr chain \<Rightarrow> if chain = [] then Inl [Opaque ''no CERTIFICATE blocks''] else Inr chain)
     (chain_blocks G L raw [])"

text \<open>
  The function on a path. A loop that does not end has no result; the agent's theory shows that
  it ends, so the error that stands for it here is never returned.
\<close>

definition LoadSVIDChain :: "'n agentlib \<Rightarrow> string \<Rightarrow> ('n, certificate list result) aprog" where
  "LoadSVIDChain L path = do {
     raw \<leftarrow> os_ReadFile_disk path;
     State_Monad.return (case raw of
       None \<Rightarrow> Inl [Opaque ''read'']
     | Some b \<Rightarrow> (case chain_of_file (al_go L) (al_os L) b of
         None \<Rightarrow> Inl [Opaque ''no result''] | Some r \<Rightarrow> r)) }"

definition BuildClientAssertion ::
    "'n agentlib \<Rightarrow> pubkey \<Rightarrow> certificate list \<Rightarrow> string \<Rightarrow> string \<Rightarrow> gotime \<Rightarrow> ('n, string result) aprog" where
  "BuildClientAssertion L key chain spiffeID audience now =
     (if chain = [] then State_Monad.return (Inl [Opaque ''SVID chain is required''])
      else case algForKey key of
        Inl e \<Rightarrow> State_Monad.return (Inl e)
      | Inr alg \<Rightarrow> do {
          jti \<leftarrow> agent_uuid;
          State_Monad.return (case jose_Sign L alg key (x5c_of chain) (assertion_claims spiffeID audience now (5 * Minute) jti) of
            None \<Rightarrow> Inl [Opaque ''sign''] | Some compact \<Rightarrow> Inr compact) })"

datatype Mode = ModeMTLS | ModeClientAssertion

record xch_Request =
  xq_Client :: http_client
  xq_MISBaseURL :: string
  xq_SPIFFEID :: string
  xq_Audiences :: "string list"
  xq_TTL :: duration
  xq_Mode :: Mode
  xq_SigningKey :: "pubkey option"
  xq_SVIDChain :: "certificate list"

record xch_Result =
  xr_HTTPStatus :: int
  xr_RetryAfter :: string
  xr_Problem :: ProblemDetails
  xr_Response :: JWTSVIDExchangeResponseDTO

text \<open>\<^verbatim>\<open>int(d.Seconds())\<close>: whole seconds toward zero, exact for durations below 97 days.\<close>

definition trunc_seconds :: "duration \<Rightarrow> int" where
  "trunc_seconds d = (if d < 0 then - ((- d) div Second) else d div Second)"

definition exchange_url :: "string \<Rightarrow> string \<Rightarrow> string" where
  "exchange_url misBaseURL spiffeID =
     TrimRight misBaseURL ''/'' @ ''/api/v1/identities/'' @ EncodeSPIFFEID spiffeID @ ''/jwt-svid''"

text \<open>The client assertion of a request, empty for mTLS.\<close>

definition exchange_assertion :: "'n agentlib \<Rightarrow> xch_Request \<Rightarrow> ('n, string result) aprog" where
  "exchange_assertion L req = (case xq_Mode req of
     ModeMTLS \<Rightarrow> State_Monad.return (Inr [])
   | ModeClientAssertion \<Rightarrow> (case xq_SigningKey req of
       None \<Rightarrow> State_Monad.return (Inl [Opaque ''SigningKey required''])
     | Some key \<Rightarrow>
         if xq_SVIDChain req = [] then State_Monad.return (Inl [Opaque ''SVIDChain required''])
         else do {
           now \<leftarrow> Clock_Now;
           BuildClientAssertion L key (xq_SVIDChain req) (xq_SPIFFEID req)
             (exchange_url (xq_MISBaseURL req) (xq_SPIFFEID req)) now }))"

definition jwtsvid_Exchange :: "'n agentlib \<Rightarrow> xch_Request \<Rightarrow> ('n, xch_Result result) aprog" where
  "jwtsvid_Exchange L req =
     (if xq_SPIFFEID req = [] then State_Monad.return (Inl [Opaque ''SPIFFEID is empty''])
      else if xq_Audiences req = [] then State_Monad.return (Inl [Opaque ''Audiences is empty''])
      else do {
        a \<leftarrow> exchange_assertion L req;
        case a of
          Inl e \<Rightarrow> State_Monad.return (Inl e)
        | Inr assertion \<Rightarrow> do {
            r \<leftarrow> send L (xq_Client req) ''POST'' (exchange_url (xq_MISBaseURL req) (xq_SPIFFEID req)) json_content
              (json_of_JWTSVIDRequest L \<lparr>JQ_Audience = xq_Audiences req, JQ_TTLSeconds = trunc_seconds (xq_TTL req),
                 JQ_ClientAssertion = assertion\<rparr>);
            State_Monad.return (case r of
              Inl e \<Rightarrow> Inl e
            | Inr resp \<Rightarrow>
                if is_2xx (rp_Status resp) then (case parse_JWTSVIDResponse L (body_of resp) of
                    None \<Rightarrow> Inl [Opaque ''decode response'']
                  | Some d \<Rightarrow> Inr \<lparr>xr_HTTPStatus = rp_Status resp, xr_RetryAfter = Header_Get (rp_Header resp) ''Retry-After'',
                      xr_Problem = no_problem, xr_Response = d\<rparr>)
                else Inr \<lparr>xr_HTTPStatus = rp_Status resp, xr_RetryAfter = Header_Get (rp_Header resp) ''Retry-After'',
                  xr_Problem = problem_of L (body_of resp), xr_Response = \<lparr>JP_JWT = [], JP_ExpiresAt = []\<rparr>\<rparr>) } })"

end
