(* ===== verification/Agent_Manager.thy ===== *)
theory Agent_Manager
  imports Agent_Clients
begin

text \<open>
  \<^verbatim>\<open>pkg/device-agent/identitymanager\<close>: the one goroutine that changes the state of the
  agent, as a state machine that takes commands one after the other. A handler returns the
  reply it sends and the manager after it; a change of the state in memory stays even when
  writing it to the file fails, as in the code. Closing channels, the order in which commands
  arrive and the mutex of the cache are not modelled: the commands are a list.
\<close>

section \<open>Commands and replies\<close>

text \<open>The field \<^verbatim>\<open>HTTPStatus\<close> of a bundle refresh, which no code sets, is left out.\<close>

datatype Cmd = CmdRenew | CmdRefresh | CmdCheck | CmdJWT "string list" duration | CmdStatus | CmdStop | CmdEmpty

record RenewReply =
  ry_HTTPStatus :: int
  ry_NewSerial :: string
  ry_NewExpiry :: gotime
  ry_Problem :: ProblemDetails
  ry_Err :: "goerr option"

record RefreshBundleReply =
  fy_NotModified :: bool
  fy_BundleLastModif :: string
  fy_Err :: "goerr option"

record CheckRevocationsReply =
  cy_HTTPStatus :: int
  cy_NotModified :: bool
  cy_OwnSVIDListed :: bool
  cy_ETag :: string
  cy_LastModified :: string
  cy_Err :: "goerr option"

record ExchangeJWTReply =
  jy_HTTPStatus :: int
  jy_JWT :: string
  jy_ExpiresAt :: gotime
  jy_FromCache :: bool
  jy_Problem :: ProblemDetails
  jy_Err :: "goerr option"

record StatusReply =
  sy_SPIFFEID :: string
  sy_Serial :: string
  sy_ExpiresAt :: gotime
  sy_LastRenewalAt :: gotime
  sy_LastBundleRefreshAt :: gotime
  sy_LastRevocationsCheckAt :: gotime
  sy_RevokedAt :: gotime
  sy_BundleLastModified :: string
  sy_RevocationsETag :: string
  sy_RevocationsLastModified :: string
  sy_JWTCacheSize :: nat

datatype Reply = RRenew RenewReply | RRefresh RefreshBundleReply | RCheck CheckRevocationsReply
  | RJWT ExchangeJWTReply | RStatus StatusReply | RStopped | RDropped

definition renew_err :: "int \<Rightarrow> ProblemDetails \<Rightarrow> goerr \<Rightarrow> RenewReply" where
  "renew_err st p e = \<lparr>ry_HTTPStatus = st, ry_NewSerial = [], ry_NewExpiry = zero_time, ry_Problem = p, ry_Err = Some e\<rparr>"

definition refresh_err :: "goerr \<Rightarrow> RefreshBundleReply" where
  "refresh_err e = \<lparr>fy_NotModified = False, fy_BundleLastModif = [], fy_Err = Some e\<rparr>"

definition check_err :: "goerr \<Rightarrow> CheckRevocationsReply" where
  "check_err e = \<lparr>cy_HTTPStatus = 0, cy_NotModified = False, cy_OwnSVIDListed = False, cy_ETag = [],
     cy_LastModified = [], cy_Err = Some e\<rparr>"

definition jwt_err :: "int \<Rightarrow> ProblemDetails \<Rightarrow> goerr \<Rightarrow> ExchangeJWTReply" where
  "jwt_err st p e = \<lparr>jy_HTTPStatus = st, jy_JWT = [], jy_ExpiresAt = zero_time, jy_FromCache = False, jy_Problem = p,
     jy_Err = Some e\<rparr>"

section \<open>The manager\<close>

record ManagerConfig =
  mc_StateFile :: string
  mc_SVIDCertFile :: string
  mc_SVIDKeyFile :: string
  mc_MISBaseURL :: string
  mc_MISTrustAnchor :: string
  mc_RenewAuth :: string
  mc_BundleMapURL :: string
  mc_RevocationsURL :: string

text \<open>The cache, a pointer the configuration shares with the scheduler, is part of the state.\<close>

record Manager =
  mg_state :: agent_state
  mg_revoked :: bool
  mg_stopped :: bool
  mg_cache :: "Cache option"

definition persist :: "'n agentlib \<Rightarrow> ManagerConfig \<Rightarrow> Manager \<Rightarrow> ('n, unit result) aprog" where
  "persist L cfg m = agentstate_Save L (mc_StateFile cfg) (mg_state m)"

definition writeFile :: "string \<Rightarrow> bytes \<Rightarrow> ('n, unit result) aprog" where
  "writeFile path data = do {
     ok \<leftarrow> os_MkdirAll (dirOf path);
     if \<not> ok then State_Monad.return (Inl [Opaque ''mkdir''])
     else do {
       ok \<leftarrow> os_WriteFile path data;
       State_Monad.return (if ok then Inr () else Inl [Opaque ''write'']) } }"

section \<open>Renewal\<close>

text \<open>The client and the bearer token of the configured mode, or the reply that ends the command.\<close>

definition renew_client ::
    "'n agentlib \<Rightarrow> ManagerConfig \<Rightarrow> Manager \<Rightarrow> ('n, RenewReply + http_client \<times> string) aprog" where
  "renew_client L cfg m =
     (let mode = map ToLower_ascii (mc_RenewAuth cfg) in
      if mode = [] \<or> mode = ''mtls'' then do {
        c \<leftarrow> httpclient_NewMTLS L (mc_MISTrustAnchor cfg) (mc_SVIDCertFile cfg) (mc_SVIDKeyFile cfg);
        State_Monad.return (case c of Inl e \<Rightarrow> Inl (renew_err 0 no_problem e) | Inr cli \<Rightarrow> Inr (cli, [])) }
      else if mode = ''bearer'' then do {
        c \<leftarrow> httpclient_New L (mc_MISTrustAnchor cfg);
        case c of
          Inl e \<Rightarrow> State_Monad.return (Inl (renew_err 0 no_problem e))
        | Inr cli \<Rightarrow> do {
            s \<leftarrow> LoadSigner L (mc_SVIDKeyFile cfg);
            case s of
              Inl e \<Rightarrow> State_Monad.return (Inl (renew_err 0 no_problem e))
            | Inr signer \<Rightarrow> do {
                ch \<leftarrow> LoadSVIDChain L (mc_SVIDCertFile cfg);
                case ch of
                  Inl e \<Rightarrow> State_Monad.return (Inl (renew_err 0 no_problem e))
                | Inr svidChain \<Rightarrow> do {
                    x \<leftarrow> jwtsvid_Exchange L \<lparr>xq_Client = cli, xq_MISBaseURL = mc_MISBaseURL cfg,
                      xq_SPIFFEID = SPIFFEID (mg_state m),
                      xq_Audiences = [RenewalURL (mc_MISBaseURL cfg) (SPIFFEID (mg_state m))], xq_TTL = 5 * Minute,
                      xq_Mode = ModeClientAssertion, xq_SigningKey = Some signer, xq_SVIDChain = svidChain\<rparr>;
                    State_Monad.return (case x of
                      Inl e \<Rightarrow> Inl (renew_err 0 no_problem e)
                    | Inr exchange \<Rightarrow>
                        if \<not> is_2xx (xr_HTTPStatus exchange)
                        then Inl (renew_err (xr_HTTPStatus exchange) (xr_Problem exchange) [Opaque ''renewal bearer exchange''])
                        else Inr (cli, JP_JWT (xr_Response exchange))) } } } }
      else State_Monad.return (Inl (renew_err 0 no_problem [Opaque ''unsupported renewal auth mode''])))"

text \<open>Writing the new certificate chain and key, then the state.\<close>

definition store_renewal ::
    "'n agentlib \<Rightarrow> ManagerConfig \<Rightarrow> Manager \<Rightarrow> pubkey \<Rightarrow> enr_Result \<Rightarrow> ('n, RenewReply \<times> Manager) aprog" where
  "store_renewal L cfg m devKey res =
     (let chain = concat (XS_CertificateChainPEM (EP_SVID (en_Response res))) in
      case pem_Decode (al_os L) chain of
        None \<Rightarrow> State_Monad.return (renew_err 0 no_problem [Opaque ''no PEM block''], m)
      | Some (_, der, _) \<Rightarrow> (case ParseCertificate (al_go L) der of
          None \<Rightarrow> State_Monad.return (renew_err 0 no_problem [Opaque ''parse leaf''], m)
        | Some leaf \<Rightarrow> (case MarshalPKCS8PrivateKey L devKey of
            None \<Rightarrow> State_Monad.return (renew_err 0 no_problem [Opaque ''marshal key''], m)
          | Some keyDER \<Rightarrow> do {
              c \<leftarrow> writeFile (mc_SVIDCertFile cfg) chain;
              case c of
                Inl e \<Rightarrow> State_Monad.return (renew_err 0 no_problem e, m)
              | Inr _ \<Rightarrow> do {
                  k \<leftarrow> writeFile (mc_SVIDKeyFile cfg) (pem_EncodeToMemory L ''PRIVATE KEY'' keyDER);
                  case k of
                    Inl e \<Rightarrow> State_Monad.return (renew_err 0 no_problem e, m)
                  | Inr _ \<Rightarrow> do {
                      now \<leftarrow> Clock_Now;
                      let m' = m\<lparr>mg_state := (mg_state m)\<lparr>Serial := Itoa (cert_SerialNumber leaf),
                        ExpiresAt := cert_NotAfter leaf, LastRenewalAt := now\<rparr>\<rparr>;
                      p \<leftarrow> persist L cfg m';
                      State_Monad.return (case p of
                        Inl e \<Rightarrow> (renew_err 0 no_problem e, m')
                      | Inr _ \<Rightarrow> (\<lparr>ry_HTTPStatus = en_HTTPStatus res, ry_NewSerial = Serial (mg_state m'),
                          ry_NewExpiry = ExpiresAt (mg_state m'), ry_Problem = no_problem, ry_Err = None\<rparr>, m')) } } })))"

definition handleRenew :: "'n agentlib \<Rightarrow> ManagerConfig \<Rightarrow> Manager \<Rightarrow> ('n, RenewReply \<times> Manager) aprog" where
  "handleRenew L cfg m =
     (if mg_revoked m then State_Monad.return (renew_err 0 no_problem [Opaque ''device is revoked''], m)
      else do {
        k \<leftarrow> keygen_Generate ''ES256'';
        case k of
          Inl e \<Rightarrow> State_Monad.return (renew_err 0 no_problem e, m)
        | Inr devKey \<Rightarrow> do {
            c \<leftarrow> renew_client L cfg m;
            case c of
              Inl r \<Rightarrow> State_Monad.return (r, m)
            | Inr (cli, bearerToken) \<Rightarrow> do {
                r \<leftarrow> renew_Renew L cli (mc_MISBaseURL cfg) (SPIFFEID (mg_state m)) devKey bearerToken;
                case r of
                  Inl e \<Rightarrow> State_Monad.return (renew_err 0 no_problem e, m)
                | Inr res \<Rightarrow>
                    if \<not> is_2xx (en_HTTPStatus res)
                    then State_Monad.return (renew_err (en_HTTPStatus res) (en_Problem res) [Opaque ''renewal returned''], m)
                    else store_renewal L cfg m devKey res } } })"

section \<open>Bundle map, revocations, JWT SVIDs, status\<close>

definition handleRefreshBundle :: "'n agentlib \<Rightarrow> ManagerConfig \<Rightarrow> Manager \<Rightarrow> ('n, RefreshBundleReply \<times> Manager) aprog" where
  "handleRefreshBundle L cfg m = do {
     c \<leftarrow> httpclient_New L (mc_MISTrustAnchor cfg);
     case c of
       Inl e \<Rightarrow> State_Monad.return (refresh_err e, m)
     | Inr cli \<Rightarrow> do {
         r \<leftarrow> bundle_Fetch L cli (mc_BundleMapURL cfg) (BundleLastModified (mg_state m));
         case r of
           Inl e \<Rightarrow> State_Monad.return (refresh_err e, m)
         | Inr res \<Rightarrow> do {
             now \<leftarrow> Clock_Now;
             let s1 = (mg_state m)\<lparr>LastBundleRefreshAt := now\<rparr>;
             let m' = m\<lparr>mg_state := (if br_NotModified res then s1 else s1\<lparr>BundleLastModified := br_LastModified res\<rparr>)\<rparr>;
             p \<leftarrow> persist L cfg m';
             State_Monad.return (case p of
               Inl e \<Rightarrow> (refresh_err e, m')
             | Inr _ \<Rightarrow> (\<lparr>fy_NotModified = br_NotModified res, fy_BundleLastModif = BundleLastModified (mg_state m'),
                 fy_Err = None\<rparr>, m')) } } }"

text \<open>Whether the certificate in the file is on the list.\<close>

definition own_listed :: "'n agentlib \<Rightarrow> rev_Result \<Rightarrow> bytes \<Rightarrow> bool" where
  "own_listed L res raw = (case pem_Decode (al_os L) raw of
     None \<Rightarrow> False
   | Some (_, der, _) \<Rightarrow> (case ParseCertificate (al_go L) der of
       None \<Rightarrow> False
     | Some leaf \<Rightarrow> ContainsFingerprint res (hex_EncodeToString (sha256 (al_go L) (cert_Raw leaf)))))"

definition handleCheckRevocations :: "'n agentlib \<Rightarrow> ManagerConfig \<Rightarrow> Manager \<Rightarrow> ('n, CheckRevocationsReply \<times> Manager) aprog" where
  "handleCheckRevocations L cfg m = do {
     c \<leftarrow> httpclient_New L (mc_MISTrustAnchor cfg);
     case c of
       Inl e \<Rightarrow> State_Monad.return (check_err e, m)
     | Inr cli \<Rightarrow> do {
         r \<leftarrow> revocations_Fetch L cli (mc_RevocationsURL cfg) (RevocationsETag (mg_state m)) (RevocationsLastModified (mg_state m));
         case r of
           Inl e \<Rightarrow> State_Monad.return (check_err e, m)
         | Inr res \<Rightarrow> do {
             now \<leftarrow> Clock_Now;
             let s1 = (mg_state m)\<lparr>LastRevocationsCheckAt := now\<rparr>;
             let m1 = m\<lparr>mg_state := (if is_2xx (rr_HTTPStatus res) \<and> \<not> rr_NotModified res
                   then s1\<lparr>RevocationsETag := rr_ETag res, RevocationsLastModified := rr_LastModified res\<rparr> else s1)\<rparr>;
             l \<leftarrow> (if \<not> rr_NotModified res \<and> rr_HTTPStatus res = 200 then do {
                    raw \<leftarrow> os_ReadFile_disk (mc_SVIDCertFile cfg);
                    State_Monad.return (case raw of None \<Rightarrow> Inl [Opaque ''read''] | Some b \<Rightarrow> Inr (own_listed L res b)) }
                  else State_Monad.return (Inr False));
             case l of
               Inl e \<Rightarrow> State_Monad.return (check_err e, m1)
             | Inr revokedNow \<Rightarrow> do {
                 m2 \<leftarrow> (if revokedNow \<and> IsZero (RevokedAt (mg_state m1)) then do {
                        at \<leftarrow> Clock_Now;
                        State_Monad.return (m1\<lparr>mg_state := (mg_state m1)\<lparr>RevokedAt := at\<rparr>, mg_revoked := True\<rparr>) }
                      else State_Monad.return m1);
                 p \<leftarrow> persist L cfg m2;
                 State_Monad.return (case p of
                   Inl e \<Rightarrow> (check_err e, m2)
                 | Inr _ \<Rightarrow> (\<lparr>cy_HTTPStatus = rr_HTTPStatus res, cy_NotModified = rr_NotModified res,
                     cy_OwnSVIDListed = revokedNow, cy_ETag = RevocationsETag (mg_state m2),
                     cy_LastModified = RevocationsLastModified (mg_state m2), cy_Err = None\<rparr>, m2)) } } } }"

text \<open>\<^verbatim>\<open>time.Parse(time.RFC3339, \<dots>)\<close> with its error ignored is \<open>mustParseTime\<close>.\<close>

definition handleExchangeJWT ::
    "'n agentlib \<Rightarrow> ManagerConfig \<Rightarrow> Manager \<Rightarrow> string list \<Rightarrow> duration \<Rightarrow> ('n, ExchangeJWTReply \<times> Manager) aprog" where
  "handleExchangeJWT L cfg m audiences ttl =
     (if mg_revoked m then State_Monad.return (jwt_err 0 no_problem [Opaque ''device is revoked''], m)
      else do {
        now \<leftarrow> Clock_Now;
        case Option.bind (mg_cache m) (\<lambda>c. cache_Get c audiences now) of
          Some cached \<Rightarrow> State_Monad.return (\<lparr>jy_HTTPStatus = 0, jy_JWT = ce_Token cached, jy_ExpiresAt = ce_ExpiresAt cached,
            jy_FromCache = True, jy_Problem = no_problem, jy_Err = None\<rparr>, m)
        | None \<Rightarrow> do {
            c \<leftarrow> httpclient_NewMTLS L (mc_MISTrustAnchor cfg) (mc_SVIDCertFile cfg) (mc_SVIDKeyFile cfg);
            case c of
              Inl e \<Rightarrow> State_Monad.return (jwt_err 0 no_problem e, m)
            | Inr cli \<Rightarrow> do {
                s \<leftarrow> LoadSigner L (mc_SVIDKeyFile cfg);
                case s of
                  Inl e \<Rightarrow> State_Monad.return (jwt_err 0 no_problem e, m)
                | Inr signer \<Rightarrow> do {
                    x \<leftarrow> jwtsvid_Exchange L \<lparr>xq_Client = cli, xq_MISBaseURL = mc_MISBaseURL cfg,
                      xq_SPIFFEID = SPIFFEID (mg_state m), xq_Audiences = audiences, xq_TTL = ttl,
                      xq_Mode = ModeMTLS, xq_SigningKey = Some signer, xq_SVIDChain = []\<rparr>;
                    State_Monad.return (case x of
                      Inl e \<Rightarrow> (jwt_err 0 no_problem e, m)
                    | Inr res \<Rightarrow>
                        if \<not> is_2xx (xr_HTTPStatus res)
                        then (jwt_err (xr_HTTPStatus res) (xr_Problem res) [Opaque ''jwt-svid returned''], m)
                        else let expiry = mustParseTime (JP_ExpiresAt (xr_Response res));
                                 e = \<lparr>ce_Token = JP_JWT (xr_Response res), ce_ExpiresAt = expiry\<rparr> in
                          (\<lparr>jy_HTTPStatus = xr_HTTPStatus res, jy_JWT = JP_JWT (xr_Response res), jy_ExpiresAt = expiry,
                            jy_FromCache = False, jy_Problem = no_problem, jy_Err = None\<rparr>,
                           m\<lparr>mg_cache := map_option (\<lambda>c. cache_Put c audiences e) (mg_cache m)\<rparr>)) } } } })"

definition handleStatus :: "Manager \<Rightarrow> StatusReply" where
  "handleStatus m = \<lparr>sy_SPIFFEID = SPIFFEID (mg_state m), sy_Serial = Serial (mg_state m), sy_ExpiresAt = ExpiresAt (mg_state m),
     sy_LastRenewalAt = LastRenewalAt (mg_state m), sy_LastBundleRefreshAt = LastBundleRefreshAt (mg_state m),
     sy_LastRevocationsCheckAt = LastRevocationsCheckAt (mg_state m), sy_RevokedAt = RevokedAt (mg_state m),
     sy_BundleLastModified = BundleLastModified (mg_state m), sy_RevocationsETag = RevocationsETag (mg_state m),
     sy_RevocationsLastModified = RevocationsLastModified (mg_state m),
     sy_JWTCacheSize = (case mg_cache m of None \<Rightarrow> 0 | Some c \<Rightarrow> cache_Len c)\<rparr>"

section \<open>The loop\<close>

definition dispatch :: "'n agentlib \<Rightarrow> ManagerConfig \<Rightarrow> Cmd \<Rightarrow> Manager \<Rightarrow> ('n, Reply \<times> Manager) aprog" where
  "dispatch L cfg c m = (case c of
     CmdRenew \<Rightarrow> do { (r, m') \<leftarrow> handleRenew L cfg m; State_Monad.return (RRenew r, m') }
   | CmdRefresh \<Rightarrow> do { (r, m') \<leftarrow> handleRefreshBundle L cfg m; State_Monad.return (RRefresh r, m') }
   | CmdCheck \<Rightarrow> do { (r, m') \<leftarrow> handleCheckRevocations L cfg m; State_Monad.return (RCheck r, m') }
   | CmdJWT auds ttl \<Rightarrow> do { (r, m') \<leftarrow> handleExchangeJWT L cfg m auds ttl; State_Monad.return (RJWT r, m') }
   | CmdStatus \<Rightarrow> State_Monad.return (RStatus (handleStatus m), m)
   | CmdStop \<Rightarrow> State_Monad.return (RStopped, m\<lparr>mg_stopped := True\<rparr>)
   | CmdEmpty \<Rightarrow> State_Monad.return (RDropped, m))"

text \<open>The commands until the context is cancelled, which ends the list, or one of them stops the loop.\<close>

fun manager_loop :: "'n agentlib \<Rightarrow> ManagerConfig \<Rightarrow> Cmd list \<Rightarrow> Manager \<Rightarrow> ('n, Reply list \<times> Manager) aprog" where
  "manager_loop L cfg [] m = State_Monad.return ([], m)"
| "manager_loop L cfg (c # cs) m = do {
     (r, m') \<leftarrow> dispatch L cfg c m;
     if c = CmdStop then State_Monad.return ([r], m')
     else do { (rs, m'') \<leftarrow> manager_loop L cfg cs m'; State_Monad.return (r # rs, m'') } }"

text \<open>The start of the loop: the state file, and with it whether the device is revoked.\<close>

definition manager_start :: "'n agentlib \<Rightarrow> ManagerConfig \<Rightarrow> Cache option \<Rightarrow> ('n, Manager result) aprog" where
  "manager_start L cfg cache = do {
     s \<leftarrow> agentstate_Load L (mc_StateFile cfg);
     State_Monad.return (case s of
       Inl e \<Rightarrow> Inl e
     | Inr st \<Rightarrow> Inr \<lparr>mg_state = st, mg_revoked = (\<not> IsZero (RevokedAt st)), mg_stopped = False, mg_cache = cache\<rparr>) }"

end
