(* ===== verification/Agent_Daemon.thy ===== *)
theory Agent_Daemon
  imports Agent_Manager Complex_Main
begin

text \<open>
  The daemon of the agent: the scheduler (\<^verbatim>\<open>pkg/device-agent/scheduler\<close>), the control
  socket and the wiring (\<^verbatim>\<open>pkg/device-agent/daemon\<close>, \<^verbatim>\<open>ctl\<close>).

  The daemon takes events one after the other: a timer of the scheduler fires, a client writes
  to the socket, a signal arrives. Both goroutines hand their commands to the manager and wait
  for the reply, so an event that needs the manager is one round of its loop. The waiting time
  in the manager's queue is part of the choice of the order of events. Logging and the bytes of
  the socket are not modelled; a request that does not decode is \<open>None\<close>.
\<close>

section \<open>When to renew\<close>

text \<open>
  \<^verbatim>\<open>float64\<close>: rounding to nearest, ties to even, with 53 bits. Below one half the step of
  the numbers is not the code's, which makes no difference here: such a result is truncated to 0.
\<close>

fun bitlen :: "nat \<Rightarrow> nat" where
  "bitlen n = (if n = 0 then 0 else Suc (bitlen (n div 2)))"

declare bitlen.simps [simp del]

definition round_even :: "rat \<Rightarrow> int" where
  "round_even x = (let f = \<lfloor>x\<rfloor>; d = x - of_int f in
     if d < 1 / 2 then f else if 1 / 2 < d then f + 1 else if even f then f else f + 1)"

definition ulp64 :: "rat \<Rightarrow> rat" where
  "ulp64 x = 2 ^ bitlen (nat \<lfloor>\<bar>x\<bar>\<rfloor>) / 2 ^ 53"

definition float64 :: "rat \<Rightarrow> rat" where
  "float64 x = sgn x * (of_int (round_even (\<bar>x\<bar> / ulp64 x)) * ulp64 x)"

definition trunc_rat :: "rat \<Rightarrow> int" where
  "trunc_rat x = (if x < 0 then - \<lfloor>- x\<rfloor> else \<lfloor>x\<rfloor>)"

text \<open>The ratio is a number, so not NaN.\<close>

definition RenewAt :: "gotime \<Rightarrow> gotime \<Rightarrow> rat \<Rightarrow> gotime" where
  "RenewAt notBefore notAfter ratio =
     (let r = (if ratio \<le> 0 \<or> 1 \<le> ratio then 1 / 2 else ratio);
          lifetime = time_sub notAfter notBefore;
          delta = trunc_rat (float64 (float64 (of_int lifetime) * r)) in
      notBefore + delta)"

section \<open>The scheduler\<close>

record sched_Config =
  sc_BundleEvery :: duration
  sc_RevocationsEvery :: duration
  sc_JWTEvictEvery :: duration
  sc_RenewalRatio :: rat
  sc_LeafNotBefore :: gotime
  sc_LeafNotAfter :: gotime

definition scheduler_New :: "sched_Config \<Rightarrow> sched_Config" where
  "scheduler_New c = c\<lparr>
     sc_BundleEvery := (if sc_BundleEvery c = 0 then Hour else sc_BundleEvery c),
     sc_RevocationsEvery := (if sc_RevocationsEvery c = 0 then 5 * Minute else sc_RevocationsEvery c),
     sc_JWTEvictEvery := (if sc_JWTEvictEvery c = 0 then 30 * Second else sc_JWTEvictEvery c),
     sc_RenewalRatio := (if sc_RenewalRatio c = 0 then 1 / 2 else sc_RenewalRatio c)\<rparr>"

text \<open>Each timer with the delay it was last armed with.\<close>

record timers =
  tm_renew :: duration
  tm_bundle :: duration
  tm_rev :: duration
  tm_jwt :: duration

datatype timer = TRenew | TBundle | TRev | TJwt

definition at_least_ms :: "duration \<Rightarrow> duration" where
  "at_least_ms d = (if d \<le> 0 then 1000000 else d)"

definition sched_start :: "sched_Config \<Rightarrow> ('n, timers) aprog" where
  "sched_start sc = do {
     now \<leftarrow> Clock_Now;
     let renewAt = RenewAt (sc_LeafNotBefore sc) (sc_LeafNotAfter sc) (sc_RenewalRatio sc);
     State_Monad.return \<lparr>tm_renew = at_least_ms (time_sub renewAt now), tm_bundle = sc_BundleEvery sc,
       tm_rev = sc_RevocationsEvery sc, tm_jwt = sc_JWTEvictEvery sc\<rparr> }"

text \<open>The command of a timer, and the timers after its reply; \<open>None\<close> when the scheduler returns.\<close>

definition timer_command :: "timer \<Rightarrow> Cmd" where
  "timer_command t = (case t of TRenew \<Rightarrow> CmdRenew | TBundle \<Rightarrow> CmdRefresh | TRev \<Rightarrow> CmdCheck | TJwt \<Rightarrow> CmdEmpty)"

definition rearm :: "sched_Config \<Rightarrow> timers \<Rightarrow> Reply \<Rightarrow> ('n, timers option) aprog" where
  "rearm sc tm r = (case r of
     RRenew x \<Rightarrow>
       if ry_Err x \<noteq> None then State_Monad.return (Some (tm\<lparr>tm_renew := 5 * Minute\<rparr>))
       else do {
         now \<leftarrow> Clock_Now;
         let nxt = RenewAt now (ry_NewExpiry x) (sc_RenewalRatio sc);
         now' \<leftarrow> Clock_Now;
         State_Monad.return (Some (tm\<lparr>tm_renew := at_least_ms (time_sub nxt now')\<rparr>)) }
   | RRefresh _ \<Rightarrow> State_Monad.return (Some (tm\<lparr>tm_bundle := sc_BundleEvery sc\<rparr>))
   | RCheck x \<Rightarrow>
       if cy_OwnSVIDListed x then State_Monad.return None
       else State_Monad.return (Some (tm\<lparr>tm_rev := sc_RevocationsEvery sc\<rparr>))
   | _ \<Rightarrow> State_Monad.return (Some tm))"

section \<open>The control socket\<close>

record ctl_Request =
  cq_Cmd :: string
  cq_Audiences :: "string list"
  cq_TTLSeconds :: int

datatype ctl_Response = CtlError goerr | CtlData Reply

definition socket_command :: "ctl_Request option \<Rightarrow> Cmd result" where
  "socket_command q = (case q of
     None \<Rightarrow> Inl [Opaque ''decode request'']
   | Some req \<Rightarrow>
       if cq_Cmd req = ''status'' then Inr CmdStatus
       else if cq_Cmd req = ''exchange-jwt''
       then Inr (CmdJWT (cq_Audiences req) (int64 (cq_TTLSeconds req * Second)))
       else if cq_Cmd req = ''force-renew'' then Inr CmdRenew
       else if cq_Cmd req = ''force-revocations-check'' then Inr CmdCheck
       else if cq_Cmd req = ''force-bundle-refresh'' then Inr CmdRefresh
       else Inl [Opaque ''unknown cmd''])"

definition socket_response :: "Reply \<Rightarrow> ctl_Response" where
  "socket_response r = (let err = (case r of
       RRenew x \<Rightarrow> ry_Err x | RRefresh x \<Rightarrow> fy_Err x | RCheck x \<Rightarrow> cy_Err x | RJWT x \<Rightarrow> jy_Err x | _ \<Rightarrow> None) in
     case err of None \<Rightarrow> CtlData r | Some e \<Rightarrow> CtlError e)"

definition socket_Start :: "string \<Rightarrow> ('n, unit result) aprog" where
  "socket_Start path = do {
     ok \<leftarrow> os_MkdirAll (dirOf path);
     if \<not> ok then State_Monad.return (Inl [Opaque ''mkdir''])
     else do {
       _ \<leftarrow> os_Remove path;
       ln \<leftarrow> io_next;
       if ln \<noteq> IO_ok then State_Monad.return (Inl [Opaque ''listen''])
       else do {
         c \<leftarrow> io_next;
         State_Monad.return (if c = IO_ok then Inr () else Inl [Opaque ''chmod'']) } } }"

text \<open>\<^verbatim>\<open>ctl.Call\<close>, the client of the socket: the daemon's error is an error of the call.\<close>

definition ctl_Call :: "ctl_Response option \<Rightarrow> Reply result" where
  "ctl_Call answer = (case answer of
     None \<Rightarrow> Inl [Opaque ''dial, encode or decode''] | Some (CtlError e) \<Rightarrow> Inl e | Some (CtlData r) \<Rightarrow> Inr r)"

section \<open>The daemon\<close>

record daemon_Config =
  dc_StateFile :: string
  dc_SVIDCertFile :: string
  dc_SVIDKeyFile :: string
  dc_MISBaseURL :: string
  dc_MISTrustAnchor :: string
  dc_RenewAuth :: string
  dc_SocketPath :: string
  dc_BundleEvery :: duration
  dc_RevocationsEvery :: duration
  dc_RenewalRatio :: rat
  dc_JWTCacheTTL :: duration

text \<open>
  The running daemon. A manager whose loop could not load the state answers nothing, and a
  scheduler that waits for it never fires again; both are \<open>None\<close>.
\<close>

record daemon =
  dm_config :: ManagerConfig
  dm_sched :: sched_Config
  dm_manager :: "Manager option"
  dm_timers :: "timers option"

definition readLeaf :: "'n agentlib \<Rightarrow> string \<Rightarrow> ('n, certificate result) aprog" where
  "readLeaf L certPath = do {
     raw \<leftarrow> os_ReadFile_disk certPath;
     State_Monad.return (case raw of
       None \<Rightarrow> Inl [Opaque ''read'']
     | Some b \<Rightarrow> (case pem_Decode (al_os L) b of
         None \<Rightarrow> Inl [Opaque ''no PEM block'']
       | Some (_, der, _) \<Rightarrow> (case ParseCertificate (al_go L) der of
           None \<Rightarrow> Inl [Opaque ''parse certificate''] | Some c \<Rightarrow> Inr c))) }"

definition manager_config :: "daemon_Config \<Rightarrow> DiscoveryResponseDTO \<Rightarrow> ManagerConfig" where
  "manager_config dc doc = \<lparr>mc_StateFile = dc_StateFile dc, mc_SVIDCertFile = dc_SVIDCertFile dc,
     mc_SVIDKeyFile = dc_SVIDKeyFile dc, mc_MISBaseURL = dc_MISBaseURL dc, mc_MISTrustAnchor = dc_MISTrustAnchor dc,
     mc_RenewAuth = dc_RenewAuth dc, mc_BundleMapURL = DR_TrustBundleURI doc,
     mc_RevocationsURL = TrimRight (DR_MargoIdentityServiceBaseURI doc) ''/'' @ ''/api/v1/revocations''\<rparr>"

definition sched_config :: "daemon_Config \<Rightarrow> certificate \<Rightarrow> sched_Config" where
  "sched_config dc leaf = scheduler_New \<lparr>sc_BundleEvery = dc_BundleEvery dc, sc_RevocationsEvery = dc_RevocationsEvery dc,
     sc_JWTEvictEvery = 30 * Second, sc_RenewalRatio = dc_RenewalRatio dc, sc_LeafNotBefore = cert_NotBefore leaf,
     sc_LeafNotAfter = cert_NotAfter leaf\<rparr>"

definition daemon_start :: "'n agentlib \<Rightarrow> daemon_Config \<Rightarrow> ('n, daemon result) aprog" where
  "daemon_start L dc = do {
     let socketPath = (if dc_SocketPath dc = [] then ''/run/device-agent/daemon.sock'' else dc_SocketPath dc);
     let ttl = (if dc_JWTCacheTTL dc = 0 then 5 * Minute else dc_JWTCacheTTL dc);
     st \<leftarrow> agentstate_Load L (dc_StateFile dc);
     case st of
       Inl e \<Rightarrow> State_Monad.return (Inl e)
     | Inr _ \<Rightarrow> do {
         l \<leftarrow> readLeaf L (dc_SVIDCertFile dc);
         case l of
           Inl e \<Rightarrow> State_Monad.return (Inl e)
         | Inr leaf \<Rightarrow> do {
             c \<leftarrow> httpclient_New L (dc_MISTrustAnchor dc);
             case c of
               Inl e \<Rightarrow> State_Monad.return (Inl e)
             | Inr cli \<Rightarrow> do {
                 d \<leftarrow> discovery_Fetch L cli (dc_MISBaseURL dc);
                 case d of
                   Inl e \<Rightarrow> State_Monad.return (Inl e)
                 | Inr doc \<Rightarrow> do {
                     let cfg = manager_config dc doc;
                     let sc = sched_config dc leaf;
                     m \<leftarrow> manager_start L cfg (Some (cache_New ttl));
                     tm \<leftarrow> sched_start sc;
                     s \<leftarrow> socket_Start socketPath;
                     State_Monad.return (case s of
                       Inl e \<Rightarrow> Inl e
                     | Inr _ \<Rightarrow> Inr \<lparr>dm_config = cfg, dm_sched = sc,
                         dm_manager = (case m of Inl _ \<Rightarrow> None | Inr mgr \<Rightarrow> Some mgr),
                         dm_timers = Some tm\<rparr>) } } } } }"

datatype event = Fire timer | Ask "ctl_Request option" | Signal bool

text \<open>One round of the manager's loop on a command, which has at most one reply.\<close>

definition ask_manager :: "'n agentlib \<Rightarrow> daemon \<Rightarrow> Cmd \<Rightarrow> ('n, Reply option \<times> daemon) aprog" where
  "ask_manager L d c = (case dm_manager d of
     None \<Rightarrow> State_Monad.return (None, d)
   | Some m \<Rightarrow> do {
       (rs, m') \<leftarrow> manager_loop L (dm_config d) [c] m;
       State_Monad.return (case rs of [] \<Rightarrow> None | r # _ \<Rightarrow> Some r, d\<lparr>dm_manager := Some m'\<rparr>) })"

definition evict_round :: "daemon \<Rightarrow> timers \<Rightarrow> ('n, daemon) aprog" where
  "evict_round d tm = do {
     now \<leftarrow> Clock_Now;
     State_Monad.return (d\<lparr>dm_manager := map_option (\<lambda>m. m\<lparr>mg_cache := map_option (\<lambda>c. cache_EvictExpired c now) (mg_cache m)\<rparr>) (dm_manager d),
       dm_timers := Some (tm\<lparr>tm_jwt := sc_JWTEvictEvery (dm_sched d)\<rparr>)\<rparr>) }"

text \<open>
  An event, with the reply of the manager it caused. A timer that no scheduler waits for has no
  effect. A signal cancels the context: the manager sees that first, or the command to stop.
\<close>

definition daemon_step :: "'n agentlib \<Rightarrow> event \<Rightarrow> daemon \<Rightarrow> ('n, Reply option \<times> daemon) aprog" where
  "daemon_step L ev d = (case ev of
     Fire t \<Rightarrow> (case dm_timers d of
       None \<Rightarrow> State_Monad.return (None, d)
     | Some tm \<Rightarrow>
         if t = TJwt then do { d' \<leftarrow> evict_round d tm; State_Monad.return (None, d') }
         else do {
           (r, d') \<leftarrow> ask_manager L d (timer_command t);
           tm' \<leftarrow> (case r of None \<Rightarrow> State_Monad.return None | Some reply \<Rightarrow> rearm (dm_sched d) tm reply);
           State_Monad.return (r, d'\<lparr>dm_timers := tm'\<rparr>) })
   | Ask q \<Rightarrow> (case socket_command q of
       Inl e \<Rightarrow> State_Monad.return (None, d)
     | Inr c \<Rightarrow> ask_manager L d c)
   | Signal done_first \<Rightarrow> do {
       (r, d') \<leftarrow> (if done_first then State_Monad.return (None, d) else ask_manager L d CmdStop);
       State_Monad.return (r, d'\<lparr>dm_manager := None, dm_timers := None\<rparr>) })"

text \<open>The answer a client of the socket reads, if it gets one.\<close>

definition socket_answer :: "ctl_Request option \<Rightarrow> Reply option \<Rightarrow> ctl_Response option" where
  "socket_answer q r = (case socket_command q of
     Inl e \<Rightarrow> Some (CtlError e) | Inr _ \<Rightarrow> map_option socket_response r)"

fun daemon_run :: "'n agentlib \<Rightarrow> event list \<Rightarrow> daemon \<Rightarrow> ('n, Reply list \<times> daemon) aprog" where
  "daemon_run L [] d = State_Monad.return ([], d)"
| "daemon_run L (ev # evs) d = do {
     (r, d') \<leftarrow> daemon_step L ev d;
     (rs, d'') \<leftarrow> daemon_run L evs d';
     State_Monad.return ((case r of None \<Rightarrow> rs | Some x \<Rightarrow> x # rs), d'') }"

end
