(* ===== verification/Agent_Commands.thy ===== *)
theory Agent_Commands
  imports Agent_Daemon
begin

text \<open>
  The commands of \<^verbatim>\<open>cmd/device-agent\<close> that run once: enrollment with each bootstrap method,
  renewal, the check of the revocation list, the exchange and the verification of JWT SVIDs and
  the two commands that print what the service publishes; and those that start the daemon and
  send it requests. The flags are arguments; printing is left out, except where it is the result.
\<close>

section \<open>Paths and flags\<close>

record cli_root =
  rt_MISBaseURL :: string
  rt_MISTrustAnchor :: string
  rt_DataDir :: string
  rt_StateFile :: string
  rt_SVIDCert :: string
  rt_SVIDKey :: string

text \<open>
  The values of \<^verbatim>\<open>main\<close> for flags that are not given, by the name of the command; a flag
  that is not listed has the zero value of its type. The ratio is the one number that is not whole.
\<close>

definition agent_flag_defaults :: "string \<Rightarrow> cli_flags" where
  "agent_flag_defaults command =
     \<lparr>cmd_String = (\<lambda>f. case map_of
        [(''mis-base-url'', ''https://localhost:8443''), (''data-dir'', ''/var/lib/device-agent''),
         (''svid-key-alg'', if command = ''enroll'' \<or> command = ''renew'' then ''ES256'' else []),
         (''auth'', if command = ''renew'' then ''mtls'' else if command = ''jwt-exchange'' then ''client-assertion'' else []),
         (''socket'', if command = ''daemon'' \<or> command = ''ctl'' then ''/run/device-agent/daemon.sock'' else []),
         (''renew-auth'', if command = ''daemon'' then ''mtls'' else []),
         (''trust-domain'', if command = ''interop-call'' then ''margo.example.com'' else [])] f of None \<Rightarrow> [] | Some v \<Rightarrow> v),
      cmd_StringSlice = (\<lambda>f. []), cmd_Bool = (\<lambda>f. False), cmd_Int = (\<lambda>f. 0),
      cmd_Duration = (\<lambda>f. case map_of
        (if command = ''daemon'' then [(''bundle-every'', Hour), (''revocations-every'', 5 * Minute), (''jwt-cache-ttl'', 5 * Minute)]
         else if command = ''jwt-exchange'' \<or> command = ''exchange-jwt'' then [(''ttl'', 5 * Minute)]
         else []) f of None \<Rightarrow> 0 | Some v \<Rightarrow> v)\<rparr>"

definition renewal_ratio_default :: rat where "renewal_ratio_default = 1 / 2"

definition dataDirPaths :: "cli_root \<Rightarrow> string \<times> string \<times> string" where
  "dataDirPaths rt =
     (if rt_StateFile rt = [] then filepath_Join (rt_DataDir rt) ''state.json'' else rt_StateFile rt,
      if rt_SVIDCert rt = [] then filepath_Join (rt_DataDir rt) ''svid.pem'' else rt_SVIDCert rt,
      if rt_SVIDKey rt = [] then filepath_Join (rt_DataDir rt) ''svid.key'' else rt_SVIDKey rt)"

definition resolveToken :: "string \<Rightarrow> string \<Rightarrow> ('n, string result) aprog" where
  "resolveToken inline fromFile =
     (if inline \<noteq> [] \<and> fromFile \<noteq> [] then State_Monad.return (Inl [Opaque ''mutually exclusive''])
      else if inline \<noteq> [] then State_Monad.return (Inr inline)
      else if fromFile = [] then State_Monad.return (Inl [Opaque ''one of --token or --token-file is required''])
      else do {
        raw \<leftarrow> os_ReadFile_disk fromFile;
        State_Monad.return (case raw of
          None \<Rightarrow> Inl [Opaque ''read --token-file''] | Some b \<Rightarrow> Inr (TrimSpace b)) })"

section \<open>Storing an identity\<close>

definition joinPEM :: "string list \<Rightarrow> string" where
  "joinPEM chain = concat chain"

text \<open>\<^verbatim>\<open>writePEMFile\<close> has the text of the manager's \<^verbatim>\<open>writeFile\<close>.\<close>

definition enrolled_state :: "certificate \<Rightarrow> gotime \<Rightarrow> agent_state" where
  "enrolled_state leaf now = \<lparr>SPIFFEID = (case cert_URIs leaf of [] \<Rightarrow> [] | u # _ \<Rightarrow> url_String u),
     Serial = Itoa (cert_SerialNumber leaf), ExpiresAt = cert_NotAfter leaf, LastEnrolled = now,
     BundleLastModified = [], RevocationsETag = [], RevocationsLastModified = [], LastBundleRefreshAt = zero_time,
     LastRevocationsCheckAt = zero_time, LastRenewalAt = zero_time, RevokedAt = zero_time\<rparr>"

definition persistEnrollmentResult :: "'n agentlib \<Rightarrow> cli_root \<Rightarrow> string list \<Rightarrow> pubkey \<Rightarrow> ('n, unit result) aprog" where
  "persistEnrollmentResult L rt chainPEM key = (case chainPEM of
     [] \<Rightarrow> State_Monad.return (Inl [Opaque ''no certificate chain''])
   | leafPEM # _ \<Rightarrow> (case pem_Decode (al_os L) leafPEM of
       None \<Rightarrow> State_Monad.return (Inl [Opaque ''malformed leaf PEM''])
     | Some (_, der, _) \<Rightarrow> (case ParseCertificate (al_go L) der of
         None \<Rightarrow> State_Monad.return (Inl [Opaque ''parse leaf''])
       | Some leaf \<Rightarrow> (case MarshalPKCS8PrivateKey L key of
           None \<Rightarrow> State_Monad.return (Inl [Opaque ''marshal key''])
         | Some keyDER \<Rightarrow> do {
             now \<leftarrow> Clock_Now;
             case dataDirPaths rt of (stateOut, chainOut, keyOut) \<Rightarrow> do {
               c \<leftarrow> writeFile chainOut (joinPEM chainPEM);
               case c of
                 Inl e \<Rightarrow> State_Monad.return (Inl e)
               | Inr _ \<Rightarrow> do {
                   k \<leftarrow> writeFile keyOut (pem_EncodeToMemory L ''PRIVATE KEY'' keyDER);
                   case k of
                     Inl e \<Rightarrow> State_Monad.return (Inl e)
                   | Inr _ \<Rightarrow> agentstate_Save L stateOut (enrolled_state leaf now) } } }))))"

text \<open>What the enrollments and the renewal do with the answer.\<close>

definition finish_enrollment ::
    "'n agentlib \<Rightarrow> cli_root \<Rightarrow> pubkey \<Rightarrow> enr_Result result \<Rightarrow> ('n, unit result) aprog" where
  "finish_enrollment L rt key r = (case r of
     Inl e \<Rightarrow> State_Monad.return (Inl e)
   | Inr res \<Rightarrow>
       if \<not> is_2xx (en_HTTPStatus res) then State_Monad.return (Inl [Opaque ''enrollment status''])
       else persistEnrollmentResult L rt (XS_CertificateChainPEM (EP_SVID (en_Response res))) key)"

section \<open>Enrollment\<close>

definition replacementAuthorizationForTicket :: "string \<Rightarrow> ReplacementAuthorizationDTO option" where
  "replacementAuthorizationForTicket ticket =
     (if ticket = [] then None else Some \<lparr>RA_Method = ReplacementAuthMethodOperatorTicket, RA_Ticket = ticket\<rparr>)"

definition enrollFactoryCertMTLS ::
    "'n agentlib \<Rightarrow> cli_root \<Rightarrow> string \<Rightarrow> string \<Rightarrow> string \<Rightarrow> string \<Rightarrow> ('n, unit result) aprog" where
  "enrollFactoryCertMTLS L rt factoryCert factoryKey keyAlg ticket = do {
     c \<leftarrow> httpclient_NewMTLS L (rt_MISTrustAnchor rt) factoryCert factoryKey;
     case c of
       Inl e \<Rightarrow> State_Monad.return (Inl e)
     | Inr client \<Rightarrow> do {
         k \<leftarrow> keygen_Generate keyAlg;
         case k of
           Inl e \<Rightarrow> State_Monad.return (Inl e)
         | Inr key \<Rightarrow> do {
             r \<leftarrow> enroll_mtls L client (rt_MISBaseURL rt) key (replacementAuthorizationForTicket ticket);
             finish_enrollment L rt key r } } }"

text \<open>The loop of \<^verbatim>\<open>loadFactoryChainPEM\<close> is the one of \<^verbatim>\<open>LoadSVIDChain\<close>.\<close>

definition loadFactoryChainPEM :: "'n agentlib \<Rightarrow> string \<Rightarrow> ('n, certificate list result) aprog" where
  "loadFactoryChainPEM L path = LoadSVIDChain L path"

definition loadFactoryKeyPEM :: "'n agentlib \<Rightarrow> string \<Rightarrow> ('n, pubkey result) aprog" where
  "loadFactoryKeyPEM L path = do {
     raw \<leftarrow> os_ReadFile_disk path;
     State_Monad.return (case raw of
       None \<Rightarrow> Inl [Opaque ''read'']
     | Some b \<Rightarrow> (case pem_Decode (al_os L) b of
         None \<Rightarrow> Inl [Opaque ''no PEM block'']
       | Some (typ, der, _) \<Rightarrow>
           if typ = ''EC PRIVATE KEY''
           then (case ParseECPrivateKey (al_os L) der of None \<Rightarrow> Inl [Opaque ''parse EC key''] | Some k \<Rightarrow> Inr k)
           else if typ = ''RSA PRIVATE KEY''
           then (case ParsePKCS1PrivateKey (al_os L) der of None \<Rightarrow> Inl [Opaque ''parse RSA key''] | Some k \<Rightarrow> Inr k)
           else if typ = ''PRIVATE KEY''
           then (case ParsePKCS8PrivateKey (al_os L) der of
                   None \<Rightarrow> Inl [Opaque ''parse PKCS8 key'']
                 | Some None \<Rightarrow> Inl [Opaque ''not a crypto.Signer'']
                 | Some (Some k) \<Rightarrow> Inr k)
           else Inl [Opaque ''unsupported PEM type''])) }"

definition enrollFactoryCertJWT ::
    "'n agentlib \<Rightarrow> cli_root \<Rightarrow> string \<Rightarrow> string \<Rightarrow> string \<Rightarrow> string \<Rightarrow> ('n, unit result) aprog" where
  "enrollFactoryCertJWT L rt factoryCert factoryKey keyAlg ticket = do {
     fc \<leftarrow> loadFactoryChainPEM L factoryCert;
     case fc of
       Inl e \<Rightarrow> State_Monad.return (Inl e)
     | Inr factoryCerts \<Rightarrow> do {
         fk \<leftarrow> loadFactoryKeyPEM L factoryKey;
         case fk of
           Inl e \<Rightarrow> State_Monad.return (Inl e)
         | Inr fkey \<Rightarrow> do {
             c \<leftarrow> httpclient_New L (rt_MISTrustAnchor rt);
             case c of
               Inl e \<Rightarrow> State_Monad.return (Inl e)
             | Inr client \<Rightarrow> do {
                 k \<leftarrow> keygen_Generate keyAlg;
                 case k of
                   Inl e \<Rightarrow> State_Monad.return (Inl e)
                 | Inr devKey \<Rightarrow> do {
                     r \<leftarrow> enroll_jwt L client (rt_MISBaseURL rt) factoryCerts fkey devKey (replacementAuthorizationForTicket ticket);
                     finish_enrollment L rt devKey r } } } } }"

definition enrollEnrollmentToken ::
    "'n agentlib \<Rightarrow> cli_root \<Rightarrow> string \<Rightarrow> string \<Rightarrow> string \<Rightarrow> string \<Rightarrow> ('n, unit result) aprog" where
  "enrollEnrollmentToken L rt inline fromFile keyAlg ticket = do {
     t \<leftarrow> resolveToken inline fromFile;
     case t of
       Inl e \<Rightarrow> State_Monad.return (Inl e)
     | Inr token \<Rightarrow> do {
         c \<leftarrow> httpclient_New L (rt_MISTrustAnchor rt);
         case c of
           Inl e \<Rightarrow> State_Monad.return (Inl e)
         | Inr client \<Rightarrow> do {
             k \<leftarrow> keygen_Generate keyAlg;
             case k of
               Inl e \<Rightarrow> State_Monad.return (Inl e)
             | Inr devKey \<Rightarrow> do {
                 r \<leftarrow> enroll_token L client (rt_MISBaseURL rt) token devKey (replacementAuthorizationForTicket ticket);
                 finish_enrollment L rt devKey r } } } }"

section \<open>Renewal\<close>

text \<open>The client and the bearer token; the exchange is asked for without the chain of the SVID.\<close>

definition renewSVID_client ::
    "'n agentlib \<Rightarrow> cli_root \<Rightarrow> string \<Rightarrow> string \<Rightarrow> ('n, (http_client \<times> string) result) aprog" where
  "renewSVID_client L rt auth spiffeID =
     (case dataDirPaths rt of (_, svidCert, svidKey) \<Rightarrow>
      if auth = [] \<or> auth = ''mtls'' then do {
        c \<leftarrow> httpclient_NewMTLS L (rt_MISTrustAnchor rt) svidCert svidKey;
        State_Monad.return (case c of Inl e \<Rightarrow> Inl e | Inr client \<Rightarrow> Inr (client, [])) }
      else if auth = ''bearer'' then do {
        c \<leftarrow> httpclient_New L (rt_MISTrustAnchor rt);
        case c of
          Inl e \<Rightarrow> State_Monad.return (Inl e)
        | Inr client \<Rightarrow> do {
            s \<leftarrow> LoadSigner L svidKey;
            case s of
              Inl e \<Rightarrow> State_Monad.return (Inl e)
            | Inr signer \<Rightarrow> do {
                x \<leftarrow> jwtsvid_Exchange L \<lparr>xq_Client = client, xq_MISBaseURL = rt_MISBaseURL rt, xq_SPIFFEID = spiffeID,
                  xq_Audiences = [RenewalURL (rt_MISBaseURL rt) spiffeID], xq_TTL = 5 * Minute,
                  xq_Mode = ModeClientAssertion, xq_SigningKey = Some signer, xq_SVIDChain = []\<rparr>;
                State_Monad.return (case x of
                  Inl e \<Rightarrow> Inl e
                | Inr exchange \<Rightarrow>
                    if \<not> is_2xx (xr_HTTPStatus exchange) then Inl [Opaque ''renewal bearer exchange'']
                    else Inr (client, JP_JWT (xr_Response exchange))) } } }
      else State_Monad.return (Inl [Opaque ''unsupported renewal auth mode'']))"

definition renewSVID :: "'n agentlib \<Rightarrow> cli_root \<Rightarrow> bool \<Rightarrow> string \<Rightarrow> string \<Rightarrow> ('n, unit result) aprog" where
  "renewSVID L rt sameKey keyAlg auth =
     (case dataDirPaths rt of (stateFile, _, svidKey) \<Rightarrow> do {
        st \<leftarrow> agentstate_Load L stateFile;
        case st of
          Inl e \<Rightarrow> State_Monad.return (Inl e)
        | Inr s \<Rightarrow>
            if SPIFFEID s = [] then State_Monad.return (Inl [Opaque ''no spiffe_id''])
            else do {
              k \<leftarrow> (if sameKey then LoadSigner L svidKey else keygen_Generate keyAlg);
              case k of
                Inl e \<Rightarrow> State_Monad.return (Inl e)
              | Inr devKey \<Rightarrow> do {
                  c \<leftarrow> renewSVID_client L rt auth (SPIFFEID s);
                  case c of
                    Inl e \<Rightarrow> State_Monad.return (Inl e)
                  | Inr (client, bearerToken) \<Rightarrow> do {
                      r \<leftarrow> renew_Renew L client (rt_MISBaseURL rt) (SPIFFEID s) devKey bearerToken;
                      finish_enrollment L rt devKey r } } } })"

section \<open>The other commands\<close>

definition discover :: "'n agentlib \<Rightarrow> cli_root \<Rightarrow> ('n, (http_client \<times> DiscoveryResponseDTO) result) aprog" where
  "discover L rt = do {
     c \<leftarrow> httpclient_New L (rt_MISTrustAnchor rt);
     case c of
       Inl e \<Rightarrow> State_Monad.return (Inl e)
     | Inr client \<Rightarrow> do {
         d \<leftarrow> discovery_Fetch L client (rt_MISBaseURL rt);
         State_Monad.return (case d of Inl e \<Rightarrow> Inl e | Inr doc \<Rightarrow> Inr (client, doc)) } }"

definition getDiscovery :: "'n agentlib \<Rightarrow> cli_root \<Rightarrow> ('n, DiscoveryResponseDTO result) aprog" where
  "getDiscovery L rt = do {
     d \<leftarrow> discover L rt;
     State_Monad.return (case d of Inl e \<Rightarrow> Inl e | Inr (_, doc) \<Rightarrow> Inr doc) }"

text \<open>What is printed of a bundle map: nothing new, or the validator and the document.\<close>

definition getBundle ::
    "'n agentlib \<Rightarrow> (bytes \<Rightarrow> json option) \<Rightarrow> cli_root \<Rightarrow> string \<Rightarrow> ('n, (string \<times> json) option result) aprog" where
  "getBundle L parse rt ifModifiedSince = do {
     d \<leftarrow> discover L rt;
     case d of
       Inl e \<Rightarrow> State_Monad.return (Inl e)
     | Inr (client, doc) \<Rightarrow> do {
         r \<leftarrow> bundle_Fetch L client (DR_TrustBundleURI doc) ifModifiedSince;
         State_Monad.return (case r of
           Inl e \<Rightarrow> Inl e
         | Inr res \<Rightarrow>
             if br_NotModified res then Inr None
             else (case parse (br_Body res) of
               None \<Rightarrow> Inl [Opaque ''parse bundle map''] | Some j \<Rightarrow> Inr (Some (br_LastModified res, j)))) } }"

datatype revocation_status = CachedCopyValid | Revoked10 | Clean

definition checkRevocations ::
    "'n agentlib \<Rightarrow> cli_root \<Rightarrow> string \<Rightarrow> string \<Rightarrow> ('n, revocation_status result) aprog" where
  "checkRevocations L rt ifNoneMatch ifModifiedSince = do {
     d \<leftarrow> discover L rt;
     case d of
       Inl e \<Rightarrow> State_Monad.return (Inl e)
     | Inr (client, doc) \<Rightarrow> do {
         r \<leftarrow> revocations_Fetch L client (TrimRight (DR_MargoIdentityServiceBaseURI doc) ''/'' @ ''/api/v1/revocations'')
           ifNoneMatch ifModifiedSince;
         case r of
           Inl e \<Rightarrow> State_Monad.return (Inl e)
         | Inr res \<Rightarrow>
             if 400 \<le> rr_HTTPStatus res then State_Monad.return (Inl [Opaque ''revocations returned''])
             else if rr_NotModified res then State_Monad.return (Inr CachedCopyValid)
             else case dataDirPaths rt of (_, svidCert, _) \<Rightarrow> do {
               raw \<leftarrow> os_ReadFile_disk svidCert;
               State_Monad.return (case raw of
                 None \<Rightarrow> Inl [Opaque ''read svid-cert'']
               | Some certPEM \<Rightarrow> (case pem_Decode (al_os L) certPEM of
                   None \<Rightarrow> Inl [Opaque ''no CERTIFICATE PEM block'']
                 | Some (typ, der, _) \<Rightarrow>
                     if typ \<noteq> ''CERTIFICATE'' then Inl [Opaque ''no CERTIFICATE PEM block'']
                     else if ContainsFingerprint res (hex_EncodeToString (sha256 (al_go L) der)) then Inr Revoked10
                     else Inr Clean)) } } }"

definition jwtExchange_client ::
    "'n agentlib \<Rightarrow> cli_root \<Rightarrow> string \<Rightarrow> ('n, (http_client \<times> Mode \<times> certificate list) result) aprog" where
  "jwtExchange_client L rt auth =
     (case dataDirPaths rt of (_, svidCert, svidKey) \<Rightarrow>
      if auth = ''mtls'' then do {
        c \<leftarrow> httpclient_NewMTLS L (rt_MISTrustAnchor rt) svidCert svidKey;
        State_Monad.return (case c of Inl e \<Rightarrow> Inl e | Inr client \<Rightarrow> Inr (client, ModeMTLS, [])) }
      else if auth = ''client-assertion'' then do {
        c \<leftarrow> httpclient_New L (rt_MISTrustAnchor rt);
        case c of
          Inl e \<Rightarrow> State_Monad.return (Inl e)
        | Inr client \<Rightarrow> do {
            ch \<leftarrow> LoadSVIDChain L svidCert;
            State_Monad.return (case ch of Inl e \<Rightarrow> Inl e | Inr chain \<Rightarrow> Inr (client, ModeClientAssertion, chain)) } }
      else State_Monad.return (Inl [Opaque ''--auth must be mtls or client-assertion'']))"

text \<open>The token, which is printed when no file is named.\<close>

definition jwtExchange ::
    "'n agentlib \<Rightarrow> cli_root \<Rightarrow> string \<Rightarrow> string list \<Rightarrow> duration \<Rightarrow> string \<Rightarrow> ('n, string result) aprog" where
  "jwtExchange L rt auth audiences ttl out =
     (case dataDirPaths rt of (stateFile, _, svidKeyPath) \<Rightarrow> do {
        st \<leftarrow> agentstate_Load L stateFile;
        case st of
          Inl e \<Rightarrow> State_Monad.return (Inl e)
        | Inr s \<Rightarrow>
            if SPIFFEID s = [] then State_Monad.return (Inl [Opaque ''no spiffe_id''])
            else do {
              k \<leftarrow> LoadSigner L svidKeyPath;
              case k of
                Inl e \<Rightarrow> State_Monad.return (Inl e)
              | Inr svidKey \<Rightarrow> do {
                  c \<leftarrow> jwtExchange_client L rt auth;
                  case c of
                    Inl e \<Rightarrow> State_Monad.return (Inl e)
                  | Inr (client, mode, svidChain) \<Rightarrow> do {
                      x \<leftarrow> jwtsvid_Exchange L \<lparr>xq_Client = client, xq_MISBaseURL = rt_MISBaseURL rt, xq_SPIFFEID = SPIFFEID s,
                        xq_Audiences = audiences, xq_TTL = ttl, xq_Mode = mode, xq_SigningKey = Some svidKey,
                        xq_SVIDChain = svidChain\<rparr>;
                      case x of
                        Inl e \<Rightarrow> State_Monad.return (Inl e)
                      | Inr res \<Rightarrow>
                          if \<not> is_2xx (xr_HTTPStatus res) then State_Monad.return (Inl [Opaque ''jwt-svid status''])
                          else if out = [] then State_Monad.return (Inr (JP_JWT (xr_Response res)))
                          else do {
                            ok \<leftarrow> os_WriteFile out (JP_JWT (xr_Response res));
                            State_Monad.return (if ok then Inr (JP_JWT (xr_Response res)) else Inl [Opaque ''write --out'']) } } } } })"

text \<open>\<^verbatim>\<open>verify-jwt\<close>, with the subject of a valid token.\<close>

definition verifyJWT ::
    "'n agentlib \<Rightarrow> envelope_decoder \<Rightarrow> cli_root \<Rightarrow> string \<Rightarrow> string \<Rightarrow> string list \<Rightarrow> ('n, string result) aprog" where
  "verifyJWT L decode rt inline fromFile audience = do {
     t \<leftarrow> resolveToken inline fromFile;
     case t of
       Inl e \<Rightarrow> State_Monad.return (Inl e)
     | Inr token \<Rightarrow> do {
         d \<leftarrow> discover L rt;
         case d of
           Inl e \<Rightarrow> State_Monad.return (Inl e)
         | Inr (client, doc) \<Rightarrow> do {
             r \<leftarrow> bundle_Fetch L client (DR_TrustBundleURI doc) [];
             State_Monad.return (case r of
               Inl e \<Rightarrow> Inl e
             | Inr res \<Rightarrow> (case TrustDomainFromString (al_wire L) (DR_TrustDomain doc) of
                 None \<Rightarrow> Inl [Opaque ''trust domain'']
               | Some td \<Rightarrow> (case SourceFromBundleMap (al_wire L) decode (br_Body res) td of
                   Inl e \<Rightarrow> Inl e
                 | Inr src \<Rightarrow> (case ParseAndValidate (al_wire L) token td src audience of
                     None \<Rightarrow> Inl [Opaque ''invalid''] | Some subject \<Rightarrow> Inr subject)))) } } }"

section \<open>The daemon's commands\<close>

definition runDaemon ::
    "'n agentlib \<Rightarrow> cli_root \<Rightarrow> string \<Rightarrow> string \<Rightarrow> duration \<Rightarrow> duration \<Rightarrow> rat \<Rightarrow> duration \<Rightarrow> ('n, daemon result) aprog" where
  "runDaemon L rt renewAuth sock bundleEvery revocationsEvery ratio cacheTTL =
     (case dataDirPaths rt of (stateFile, svidCert, svidKey) \<Rightarrow>
      daemon_start L \<lparr>dc_StateFile = stateFile, dc_SVIDCertFile = svidCert, dc_SVIDKeyFile = svidKey,
        dc_MISBaseURL = rt_MISBaseURL rt, dc_MISTrustAnchor = rt_MISTrustAnchor rt, dc_RenewAuth = renewAuth,
        dc_SocketPath = sock, dc_BundleEvery = bundleEvery, dc_RevocationsEvery = revocationsEvery,
        dc_RenewalRatio = ratio, dc_JWTCacheTTL = cacheTTL\<rparr>)"

text \<open>
  With the default flags the cache never serves a token: the lifetime that is asked for is the
  remaining lifetime the cache wants, so the token is too old at any later reading of the clock.
\<close>

lemma default_cache_serves_nothing:
  assumes "ca_threshold c = cmd_Duration (agent_flag_defaults ''daemon'') ''jwt-cache-ttl''"
    and "ce_ExpiresAt e \<le> t + cmd_Duration (agent_flag_defaults ''exchange-jwt'') ''ttl''" "t < now"
  shows "near_expiry c now e"
  using assms by (simp add: near_expiry_def agent_flag_defaults_def time_sub_def Minute_def Second_def maxDuration_def minDuration_def)

definition ctlStatus :: ctl_Request where
  "ctlStatus = \<lparr>cq_Cmd = ''status'', cq_Audiences = [], cq_TTLSeconds = 0\<rparr>"

definition ctlExchangeJWT :: "string list \<Rightarrow> duration \<Rightarrow> ctl_Request" where
  "ctlExchangeJWT audiences ttl =
     \<lparr>cq_Cmd = ''exchange-jwt'', cq_Audiences = audiences, cq_TTLSeconds = trunc_seconds ttl\<rparr>"

definition ctlForceRenew :: ctl_Request where
  "ctlForceRenew = \<lparr>cq_Cmd = ''force-renew'', cq_Audiences = [], cq_TTLSeconds = 0\<rparr>"

definition ctlForceBundle :: ctl_Request where
  "ctlForceBundle = \<lparr>cq_Cmd = ''force-bundle-refresh'', cq_Audiences = [], cq_TTLSeconds = 0\<rparr>"

definition ctlForceRevocations :: ctl_Request where
  "ctlForceRevocations = \<lparr>cq_Cmd = ''force-revocations-check'', cq_Audiences = [], cq_TTLSeconds = 0\<rparr>"

lemmas ctl_defs = ctlStatus_def ctlExchangeJWT_def ctlForceRenew_def ctlForceBundle_def ctlForceRevocations_def

text \<open>Each request of the command line is the command of the manager it is named after.\<close>

lemma socket_command_ctl:
  "socket_command (Some ctlStatus) = Inr CmdStatus" "socket_command (Some ctlForceRenew) = Inr CmdRenew"
  "socket_command (Some ctlForceBundle) = Inr CmdRefresh" "socket_command (Some ctlForceRevocations) = Inr CmdCheck"
  "socket_command (Some (ctlExchangeJWT auds ttl)) = Inr (CmdJWT auds (int64 (trunc_seconds ttl * Second)))"
  by (simp_all add: socket_command_def ctl_defs)

end
