(* ===== verification/Agent_Laws.thy ===== *)
theory Agent_Laws
  imports Agent_Daemon Agent_Commands
begin

text \<open>
  What the programs of the agent keep. \<open>ends P m Q\<close> is the triple of a program: from a world with
  \<open>P\<close> it ends with a result and a world that satisfy \<open>Q\<close>. The state file is replaced whole or not
  at all, whatever the schedule of failures, so that a revocation once written is there for good.
\<close>

section \<open>Triples\<close>

definition ends :: "('s \<Rightarrow> bool) \<Rightarrow> ('s, 'a) state \<Rightarrow> ('a \<Rightarrow> 's \<Rightarrow> bool) \<Rightarrow> bool" where
  "ends P m Q \<longleftrightarrow> (\<forall>w x w'. P w \<longrightarrow> run_state m w = (x, w') \<longrightarrow> Q x w')"

named_theorems ends_intros "rules of triples"

lemma endsD: "ends P m Q \<Longrightarrow> P w \<Longrightarrow> run_state m w = (x, w') \<Longrightarrow> Q x w'"
  by (simp add: ends_def)

lemma ends_return [ends_intros]: "(\<And>w. P w \<Longrightarrow> Q x w) \<Longrightarrow> ends P (State_Monad.return x) Q"
  by (simp add: ends_def)

lemma ends_bind: "ends P m R \<Longrightarrow> (\<And>x. ends (R x) (f x) Q) \<Longrightarrow> ends P (State_Monad.bind m f) Q"
  by (fastforce simp: ends_def split: prod.splits)

lemma ends_keeps: "keeps P m \<Longrightarrow> (\<And>x. ends P (f x) Q) \<Longrightarrow> ends P (State_Monad.bind m f) Q"
  by (rule ends_bind [where R = "\<lambda>_. P"]) (auto simp: ends_def keeps_def)

lemma ends_if [ends_intros]: "(b \<Longrightarrow> ends P m Q) \<Longrightarrow> (\<not> b \<Longrightarrow> ends P n Q) \<Longrightarrow> ends P (if b then m else n) Q"
  by simp

lemma ends_sum [ends_intros]:
  "(\<And>e. r = Inl e \<Longrightarrow> ends P (f e) Q) \<Longrightarrow> (\<And>x. r = Inr x \<Longrightarrow> ends P (g x) Q) \<Longrightarrow>
    ends P (case r of Inl e \<Rightarrow> f e | Inr x \<Rightarrow> g x) Q"
  by (cases r) auto

lemma ends_option [ends_intros]:
  "(r = None \<Longrightarrow> ends P f Q) \<Longrightarrow> (\<And>x. r = Some x \<Longrightarrow> ends P (g x) Q) \<Longrightarrow>
    ends P (case r of None \<Rightarrow> f | Some x \<Rightarrow> g x) Q"
  by (cases r) auto

lemma ends_prod [ends_intros]: "(\<And>a b. p = (a, b) \<Longrightarrow> ends P (f a b) Q) \<Longrightarrow> ends P (case p of (a, b) \<Rightarrow> f a b) Q"
  by (cases p) auto

lemma ends_weaken: "ends P m Q \<Longrightarrow> (\<And>w. P' w \<Longrightarrow> P w) \<Longrightarrow> (\<And>x w. Q x w \<Longrightarrow> Q' x w) \<Longrightarrow> ends P' m Q'"
  unfolding ends_def by blast

section \<open>Programs that only read\<close>

text \<open>Everything but writing, renaming and removing leaves the files and the clock.\<close>

abbreviation of_files :: "((string \<Rightarrow> bytes option) \<Rightarrow> (nat \<Rightarrow> gotime) \<Rightarrow> bool) \<Rightarrow> 'n agent \<Rightarrow> bool" where
  "of_files P \<equiv> \<lambda>w. P (disk w) (ag_clock w)"

lemmas agent_prims = io_next_def os_MkdirAll_def os_ReadFile_disk_def os_WriteFile_def os_Rename_def os_Remove_def
  Clock_Now_def agent_uuid_def State_Monad.get_def State_Monad.set_def

lemma keeps_os_reads [inv_intros]:
  "keeps (of_files P) io_next" "keeps (of_files P) (os_MkdirAll p)" "keeps (of_files P) (os_ReadFile_disk p)"
  "keeps (of_files P) Clock_Now" "keeps (of_files P) agent_uuid"
  by (simp_all add: keeps_def agent_prims)

lemma keeps_send [inv_intros]: "keeps (of_files P) (send L cli meth url hdr body)"
  by (simp add: keeps_def send_def agent_prims split: prod.split)

lemma keeps_keys [inv_intros]: "keeps (of_files P) (keygen_Generate alg)" "keeps (of_files P) (csr_Build L key)"
  by (simp_all add: keeps_def keygen_Generate_def csr_Build_def agent_prims split: prod.split sum.split)

lemma keeps_clients [inv_intros]:
  "keeps (of_files P) (LoadSigner L path)" "keeps (of_files P) (LoadSVIDChain L path)"
  "keeps (of_files P) (httpclient_New L ta)" "keeps (of_files P) (httpclient_NewMTLS L ta cf kf)"
  "keeps (of_files P) (bundle_Fetch L cli uri ims)" "keeps (of_files P) (revocations_Fetch L cli uri et lm)"
  unfolding LoadSigner_def LoadSVIDChain_def httpclient_New_def httpclient_NewMTLS_def loadPEMPool_def
    bundle_Fetch_def revocations_Fetch_def by (intro inv_intros)+

lemma keeps_post_enrollment [inv_intros]: "keeps (of_files P) (post_enrollment L strict cli url hdr dto)"
  unfolding post_enrollment_def by (intro inv_intros)

lemma keeps_renew_Renew [inv_intros]: "keeps (of_files P) (renew_Renew L cli base sp key tok)"
  unfolding renew_Renew_def by (intro inv_intros)

lemma keeps_Exchange [inv_intros]: "keeps (of_files P) (jwtsvid_Exchange L req)"
proof -
  have "keeps (of_files P) (exchange_assertion L req)"
    unfolding exchange_assertion_def BuildClientAssertion_def by (cases "xq_Mode req") (simp, intro inv_intros, simp, intro inv_intros)
  then show ?thesis unfolding jwtsvid_Exchange_def by (intro inv_intros)
qed

lemma keeps_renew_client [inv_intros]: "keeps (of_files P) (renew_client L cfg m)"
  unfolding renew_client_def by (intro inv_intros)

section \<open>The state file\<close>

text \<open>
  \<open>remembers L path D w\<close>: no reading of the clock is the zero time and, if \<open>D\<close>, the state file holds a
  state that is marked revoked. The law of the JSON codec is \<open>state_codec\<close>.
\<close>

definition marked :: "agent_state \<Rightarrow> bool" where
  "marked s \<longleftrightarrow> \<not> IsZero (RevokedAt s)"

definition state_codec :: "'n agentlib \<Rightarrow> bool" where
  "state_codec L \<longleftrightarrow> (\<forall>s b. json_State L s = Some b \<longrightarrow> (\<exists>s'. parse_State L b = Some s' \<and> RevokedAt s' = RevokedAt s))"

definition remembers :: "'n agentlib \<Rightarrow> string \<Rightarrow> bool \<Rightarrow> 'n agent \<Rightarrow> bool" where
  "remembers L path D = of_files (\<lambda>d c. (\<forall>n. \<not> IsZero (c n)) \<and>
     (D \<longrightarrow> (\<exists>b s. d path = Some b \<and> parse_State L b = Some s \<and> marked s)))"

lemma remembers_mono: "remembers L path D w \<Longrightarrow> (D' \<Longrightarrow> D) \<Longrightarrow> remembers L path D' w"
  by (auto simp: remembers_def)

lemma Save_outcome:
  assumes "run_state (agentstate_Save L path s) w = (r, w')"
  shows "ag_clock w' = ag_clock w"
    "disk w' path = disk w path \<and> r \<noteq> Inr () \<or> (\<exists>b. json_State L s = Some b \<and> disk w' path = Some b \<and> r = Inr ())"
  using assms
  by (auto simp: agentstate_Save_def agent_prims Let_def split: option.splits if_splits io_outcome.splits)

lemma ends_persist:
  assumes "state_codec L" "D \<Longrightarrow> marked (mg_state m)"
  shows "ends (remembers L (mc_StateFile cfg) D) (persist L cfg m)
    (\<lambda>r. remembers L (mc_StateFile cfg) (D \<or> r = Inr () \<and> marked (mg_state m)))"
  unfolding ends_def
proof (intro allI impI)
  fix w r w' assume I: "remembers L (mc_StateFile cfg) D w" and r: "run_state (persist L cfg m) w = (r, w')"
  from Save_outcome [OF r [unfolded persist_def]] I assms
  show "remembers L (mc_StateFile cfg) (D \<or> r = Inr () \<and> marked (mg_state m)) w'"
    by (fastforce simp: remembers_def state_codec_def marked_def)
qed

lemma keeps_writeFile:
  assumes "p \<noteq> path"
  shows "keeps (remembers L path D) (writeFile p b)"
  using assms by (auto simp: keeps_def remembers_def writeFile_def agent_prims split: io_outcome.splits)

section \<open>Revocation\<close>

text \<open>The manager: its flag agrees with its state and, if \<open>D\<close>, is set.\<close>

definition man_ok :: "bool \<Rightarrow> Manager \<Rightarrow> bool" where
  "man_ok D m \<longleftrightarrow> mg_revoked m = marked (mg_state m) \<and> (D \<longrightarrow> mg_revoked m)"

lemma man_ok_marked: "man_ok D m \<Longrightarrow> D \<Longrightarrow> marked (mg_state m)"
  by (auto simp: man_ok_def)

text \<open>A reply that a revoked device may get: no renewed certificate and no token.\<close>

definition refused :: "Reply \<Rightarrow> bool" where
  "refused r = (case r of
     RRenew x \<Rightarrow> x = renew_err 0 no_problem [Opaque ''device is revoked'']
   | RJWT x \<Rightarrow> x = jwt_err 0 no_problem [Opaque ''device is revoked'']
   | _ \<Rightarrow> True)"

definition listed :: "Reply \<Rightarrow> bool" where
  "listed r = (case r of RCheck c \<Rightarrow> cy_OwnSVIDListed c | _ \<Rightarrow> False)"

text \<open>What a command leaves behind.\<close>

definition after :: "'n agentlib \<Rightarrow> ManagerConfig \<Rightarrow> bool \<Rightarrow> Reply \<times> Manager \<Rightarrow> 'n agent \<Rightarrow> bool" where
  "after L cfg D = (\<lambda>(r, m) w. man_ok (D \<or> listed r) m \<and> remembers L (mc_StateFile cfg) (D \<or> listed r) w \<and>
     (D \<longrightarrow> refused r))"

lemma ends_remembers:
  "keeps (remembers L path D) m \<Longrightarrow> (\<And>x. ends (remembers L path D) (f x) Q) \<Longrightarrow>
    ends (remembers L path D) (State_Monad.bind m f) Q"
  by (rule ends_keeps)

lemma ends_Clock:
  assumes "\<And>now. \<not> IsZero now \<Longrightarrow> ends (remembers L path D) (f now) Q"
  shows "ends (remembers L path D) (State_Monad.bind Clock_Now f) Q"
proof (rule ends_bind [where R = "\<lambda>now w. remembers L path D w \<and> \<not> IsZero now"])
  show "ends (remembers L path D) Clock_Now (\<lambda>now w. remembers L path D w \<and> \<not> IsZero now)"
    by (auto simp: ends_def remembers_def Clock_Now_def)
  show "ends (\<lambda>w. remembers L path D w \<and> \<not> IsZero now) (f now) Q" for now
    using assms [of now] by (auto simp: ends_def)
qed

lemma ends_persist_bind:
  assumes "state_codec L" "man_ok D m"
    "\<And>r w. remembers L (mc_StateFile cfg) (D \<or> r = Inr () \<and> marked (mg_state m)) w \<Longrightarrow> Q (g r) w"
  shows "ends (remembers L (mc_StateFile cfg) D) (State_Monad.bind (persist L cfg m) (\<lambda>r. State_Monad.return (g r))) Q"
  using ends_persist [OF assms(1)] assms(2,3)
  by (intro ends_bind [OF ends_persist [OF assms(1)]] ends_return) (auto dest: man_ok_marked)

lemma ends_handleRefreshBundle:
  assumes "state_codec L" "man_ok D m"
  shows "ends (remembers L (mc_StateFile cfg) D) (handleRefreshBundle L cfg m)
    (\<lambda>(r, m'). after L cfg D (RRefresh r, m'))"
  unfolding handleRefreshBundle_def Let_def
  using assms
  by (intro ends_intros ends_Clock ends_persist_bind ends_remembers;
      (unfold remembers_def, intro inv_intros)?)
    (auto simp: after_def man_ok_def marked_def listed_def refused_def elim: remembers_mono split: sum.splits)

lemma bind_if: "State_Monad.bind (if b then p else q) f = (if b then State_Monad.bind p f else State_Monad.bind q f)"
  by simp

text \<open>The end of a check: the mark of a listed device, written with the state.\<close>

lemma ends_marking:
  assumes "state_codec L" "man_ok D m"
    "\<And>m' r w. mg_state m' = mg_state m \<and> mg_revoked m' = mg_revoked m \<or> marked (mg_state m') \<Longrightarrow>
      man_ok (D \<or> revokedNow) m' \<Longrightarrow> remembers L (mc_StateFile cfg) (D \<or> r = Inr () \<and> revokedNow) w \<Longrightarrow> Q (g r m') w"
  shows "ends (remembers L (mc_StateFile cfg) D)
    (State_Monad.bind (if revokedNow \<and> IsZero (RevokedAt (mg_state m)) then do {
         since \<leftarrow> Clock_Now;
         State_Monad.return (m\<lparr>mg_state := (mg_state m)\<lparr>RevokedAt := since\<rparr>, mg_revoked := True\<rparr>) }
       else State_Monad.return m)
      (\<lambda>m2. State_Monad.bind (persist L cfg m2) (\<lambda>r. State_Monad.return (g r m2)))) Q"
  unfolding bind_if State_Monad.bind_assoc
  using assms
  by (intro ends_if ends_Clock) (auto intro!: ends_persist_bind assms(3) elim!: remembers_mono simp: man_ok_def marked_def)

lemma ends_handleCheckRevocations:
  assumes "state_codec L" "man_ok D m"
  shows "ends (remembers L (mc_StateFile cfg) D) (handleCheckRevocations L cfg m)
    (\<lambda>(r, m'). after L cfg D (RCheck r, m'))"
  unfolding handleCheckRevocations_def Let_def
  using assms
  by (intro ends_intros ends_Clock ends_marking ends_remembers;
      (unfold remembers_def, intro inv_intros)?)
    (auto simp: after_def man_ok_def marked_def listed_def refused_def check_err_def elim: remembers_mono split: sum.splits)

text \<open>Renewal writes the certificate and the key, which are other files than the state.\<close>

definition files_apart :: "ManagerConfig \<Rightarrow> bool" where
  "files_apart cfg \<longleftrightarrow> mc_SVIDCertFile cfg \<noteq> mc_StateFile cfg \<and> mc_SVIDKeyFile cfg \<noteq> mc_StateFile cfg"

lemma ends_store_renewal:
  assumes "state_codec L" "files_apart cfg" "man_ok False m"
  shows "ends (remembers L (mc_StateFile cfg) False) (store_renewal L cfg m key res)
    (\<lambda>(r, m'). after L cfg False (RRenew r, m'))"
  unfolding store_renewal_def Let_def
  using assms
  by (intro ends_intros ends_Clock ends_persist_bind ends_remembers)
    (auto simp: after_def man_ok_def marked_def listed_def refused_def files_apart_def
      intro: keeps_writeFile elim: remembers_mono split: sum.splits)

lemma ends_handleRenew:
  assumes "state_codec L" "files_apart cfg" "man_ok D m"
  shows "ends (remembers L (mc_StateFile cfg) D) (handleRenew L cfg m) (\<lambda>(r, m'). after L cfg D (RRenew r, m'))"
proof (cases "mg_revoked m")
  case True
  with assms(3) show ?thesis
    by (auto simp: handleRenew_def after_def listed_def refused_def intro!: ends_return)
next
  case False
  with assms(3) have D: "\<not> D" and m: "man_ok False m" by (auto simp: man_ok_def)
  from False D m show ?thesis
    unfolding handleRenew_def
    by (intro ends_intros ends_remembers ends_store_renewal [OF assms(1,2) m, THEN ends_weaken];
        (unfold remembers_def, intro inv_intros)?)
      (auto simp: after_def listed_def elim: remembers_mono)
qed

lemma ends_handleExchangeJWT:
  assumes "man_ok D m"
  shows "ends (remembers L (mc_StateFile cfg) D) (handleExchangeJWT L cfg m auds ttl)
    (\<lambda>(r, m'). after L cfg D (RJWT r, m'))"
proof (cases "mg_revoked m")
  case True
  with assms show ?thesis
    by (auto simp: handleExchangeJWT_def after_def listed_def refused_def intro!: ends_return)
next
  case False
  with assms have D: "\<not> D" by (auto simp: man_ok_def)
  with False assms show ?thesis
    unfolding handleExchangeJWT_def Let_def
    by (intro ends_intros ends_remembers; (unfold remembers_def, intro inv_intros)?)
      (auto simp: after_def listed_def man_ok_def elim: remembers_mono split: sum.splits)
qed

lemma ends_dispatch:
  assumes "state_codec L" "files_apart cfg" "man_ok D m"
  shows "ends (remembers L (mc_StateFile cfg) D) (dispatch L cfg c m) (after L cfg D)"
  using assms
  by (cases c) (auto simp: dispatch_def after_def listed_def refused_def man_ok_def
      intro!: ends_return ends_bind [OF ends_handleRenew [OF assms]] ends_bind [OF ends_handleRefreshBundle [OF assms(1,3)]]
        ends_bind [OF ends_handleCheckRevocations [OF assms(1,3)]] ends_bind [OF ends_handleExchangeJWT [OF assms(3)]])

section \<open>The daemon\<close>

lemma manager_loop_one:
  "run_state (manager_loop L cfg [c] m) w = (case run_state (dispatch L cfg c m) w of ((r, m'), w') \<Rightarrow> (([r], m'), w'))"
  by (simp split: prod.split)

definition daemon_ok :: "ManagerConfig \<Rightarrow> bool \<Rightarrow> daemon \<Rightarrow> bool" where
  "daemon_ok cfg D d \<longleftrightarrow> dm_config d = cfg \<and> (case dm_manager d of None \<Rightarrow> True | Some m \<Rightarrow> man_ok D m)"

text \<open>What an event leaves behind, with the reply it caused.\<close>

definition stepped :: "'n agentlib \<Rightarrow> ManagerConfig \<Rightarrow> bool \<Rightarrow> Reply option \<times> daemon \<Rightarrow> 'n agent \<Rightarrow> bool" where
  "stepped L cfg D = (\<lambda>(r, d) w.
     daemon_ok cfg (D \<or> list_ex listed (case r of None \<Rightarrow> [] | Some x \<Rightarrow> [x])) d \<and>
     remembers L (mc_StateFile cfg) (D \<or> list_ex listed (case r of None \<Rightarrow> [] | Some x \<Rightarrow> [x])) w \<and>
     (D \<longrightarrow> (case r of None \<Rightarrow> True | Some x \<Rightarrow> refused x)))"

lemma ends_ask_manager:
  assumes "state_codec L" "files_apart cfg" "daemon_ok cfg D d"
  shows "ends (remembers L (mc_StateFile cfg) D) (ask_manager L d c) (stepped L cfg D)"
proof (cases "dm_manager d")
  case None
  with assms(3) show ?thesis by (auto simp: ask_manager_def stepped_def intro: ends_return)
next
  case (Some m)
  with assms(3) have m: "man_ok D m" "dm_config d = cfg" by (auto simp: daemon_ok_def)
  have "stepped L cfg D x w'"
    if w: "remembers L (mc_StateFile cfg) D w" and a: "run_state (ask_manager L d c) w = (x, w')" for w x w'
  proof -
    obtain r m' where d: "run_state (dispatch L cfg c m) w = ((r, m'), w')" "x = (Some r, d\<lparr>dm_manager := Some m'\<rparr>)"
      using a m(2) Some by (auto simp: ask_manager_def manager_loop_one split: prod.splits simp del: manager_loop.simps)
    from endsD [OF ends_dispatch [OF assms(1,2) m(1)] w d(1)] m(2) show ?thesis
      by (auto simp: d(2) stepped_def after_def daemon_ok_def)
  qed
  then show ?thesis by (simp add: ends_def)
qed

lemma keeps_rearm [inv_intros]: "keeps (of_files P) (rearm sc tm r)"
  unfolding rearm_def by (cases r) (simp_all add: Let_def, (intro inv_intros impI conjI)+)

lemma stepped_timers: "stepped L cfg D (r, d) w \<Longrightarrow> stepped L cfg D (r, d\<lparr>dm_timers := tm\<rparr>) w"
  by (simp add: stepped_def daemon_ok_def)

lemma stepped_rearm:
  "keeps (stepped L cfg D (r, d)) (case r' of None \<Rightarrow> State_Monad.return None | Some x \<Rightarrow> rearm sc tm x)"
proof -
  have "keeps (remembers L path E) (case r' of None \<Rightarrow> State_Monad.return None | Some x \<Rightarrow> rearm sc tm x)" for path E
    unfolding remembers_def by (intro inv_intros)
  then show ?thesis by (simp add: keeps_def stepped_def)
qed

lemma ends_daemon_step:
  assumes "state_codec L" "files_apart cfg" "daemon_ok cfg D d"
  shows "ends (remembers L (mc_StateFile cfg) D) (daemon_step L ev d) (stepped L cfg D)"
proof (cases ev)
  case (Fire t)
  show ?thesis
  proof (cases "dm_timers d")
    case None
    with assms(3) show ?thesis by (auto simp: Fire daemon_step_def stepped_def intro: ends_return)
  next
    case (Some tm)
    have "ends (remembers L (mc_StateFile cfg) D) (evict_round d tm) (\<lambda>d' w. stepped L cfg D (None, d') w)"
      unfolding evict_round_def using assms(3)
      by (intro ends_Clock ends_return) (auto simp: stepped_def daemon_ok_def man_ok_def split: option.splits)
    then show ?thesis
      using ends_ask_manager [OF assms, of "timer_command t"]
      by (auto simp: Fire Some daemon_step_def intro!: ends_intros ends_bind [of _ "evict_round d tm"]
          ends_bind [of _ "ask_manager L d (timer_command t)"] ends_keeps [OF stepped_rearm] stepped_timers)
  qed
next
  case (Ask q)
  then show ?thesis
    using ends_ask_manager [OF assms] assms(3)
    by (cases "socket_command q") (auto simp: daemon_step_def stepped_def intro: ends_return)
next
  case (Signal b)
  then show ?thesis
    using ends_ask_manager [OF assms, of CmdStop] assms(3)
    by (cases b) (auto simp: daemon_step_def stepped_def daemon_ok_def intro!: ends_return ends_bind [of _ "ask_manager L d CmdStop"])
qed

lemma run_remembers:
  assumes L: "state_codec L" "files_apart cfg"
    and "daemon_ok cfg D d" "remembers L (mc_StateFile cfg) D w" "run_state (daemon_run L evs d) w = ((rs, d'), w')"
  shows "daemon_ok cfg (D \<or> list_ex listed rs) d' \<and> remembers L (mc_StateFile cfg) (D \<or> list_ex listed rs) w' \<and>
    (\<forall>j<length rs. D \<or> (\<exists>i<j. listed (rs ! i)) \<longrightarrow> refused (rs ! j))"
  using assms(3-)
proof (induction evs arbitrary: D d w rs)
  case Nil
  then show ?case by simp
next
  case (Cons ev evs)
  obtain r d1 w1 where s: "run_state (daemon_step L ev d) w = ((r, d1), w1)" by (metis surj_pair)
  obtain rs' where r: "run_state (daemon_run L evs d1) w1 = ((rs', d'), w')"
    "rs = (case r of None \<Rightarrow> rs' | Some x \<Rightarrow> x # rs')"
    using Cons.prems(3) s by (auto split: prod.splits)
  from endsD [OF ends_daemon_step [OF L Cons.prems(1)] Cons.prems(2) s]
  have "stepped L cfg D (r, d1) w1" .
  note st = this [unfolded stepped_def, simplified]
  from Cons.IH [OF conjunct1 [OF st] conjunct1 [OF conjunct2 [OF st]] r(1)] st
  show ?case
  proof (cases r)
    case (Some x)
    with Cons.IH [OF conjunct1 [OF st] conjunct1 [OF conjunct2 [OF st]] r(1)] st r(2)
    have IH: "daemon_ok cfg (D \<or> list_ex listed rs) d'" "remembers L (mc_StateFile cfg) (D \<or> list_ex listed rs) w'"
      "\<And>j. j < length rs' \<Longrightarrow> D \<or> listed x \<or> (\<exists>i<j. listed (rs' ! i)) \<Longrightarrow> refused (rs' ! j)" "D \<Longrightarrow> refused x"
      by (auto simp: disj_assoc)
    have "refused (rs ! j)" if "j < length rs" "D \<or> (\<exists>i<j. listed (rs ! i))" for j
      using that IH(3,4) by (cases j) (auto simp: r(2) Some Ex_less_Suc2)
    with IH(1,2) show ?thesis by blast
  qed (simp add: r(2))
qed

section \<open>Starting\<close>

lemma ends_manager_start:
  "ends (remembers L (mc_StateFile cfg) D) (manager_start L cfg cache)
    (\<lambda>r w. remembers L (mc_StateFile cfg) D w \<and> (\<forall>m. r = Inr m \<longrightarrow> man_ok D m))"
  by (auto simp: ends_def remembers_def manager_start_def agentstate_Load_def agent_prims man_ok_def marked_def
      split: option.splits if_splits)

definition daemon_files_apart :: "daemon_Config \<Rightarrow> bool" where
  "daemon_files_apart dc \<longleftrightarrow> dc_SVIDCertFile dc \<noteq> dc_StateFile dc \<and> dc_SVIDKeyFile dc \<noteq> dc_StateFile dc"

lemma manager_config_files [simp]:
  "mc_StateFile (manager_config dc doc) = dc_StateFile dc"
  "files_apart (manager_config dc doc) = daemon_files_apart dc"
  by (simp_all add: manager_config_def files_apart_def daemon_files_apart_def)

lemma keeps_socket_Start: "keeps (\<lambda>w. remembers L path False w \<and> Q) (socket_Start sp)"
  by (auto simp: keeps_def remembers_def socket_Start_def agent_prims)

lemma keeps_start [inv_intros]:
  "keeps (of_files P) (agentstate_Load L p)" "keeps (of_files P) (readLeaf L p)"
  "keeps (of_files P) (discovery_Fetch L cli base)"
  unfolding agentstate_Load_def readLeaf_def discovery_Fetch_def by (intro inv_intros)+

text \<open>A daemon that starts on a marked state has a manager that is revoked.\<close>

lemma ends_daemon_start:
  "ends (remembers L (dc_StateFile dc) D) (daemon_start L dc)
    (\<lambda>r w. remembers L (dc_StateFile dc) False w \<and>
      (\<forall>d. r = Inr d \<longrightarrow> (\<exists>doc. dm_config d = manager_config dc doc \<and> daemon_ok (manager_config dc doc) D d)))"
proof -
  have tail: "ends (remembers L (dc_StateFile dc) D)
     (do { m \<leftarrow> manager_start L (manager_config dc doc) cache; tm \<leftarrow> sched_start sc; s \<leftarrow> socket_Start sp;
           State_Monad.return (case s of Inl e \<Rightarrow> Inl e
             | Inr _ \<Rightarrow> Inr \<lparr>dm_config = manager_config dc doc, dm_sched = sc,
                 dm_manager = (case m of Inl _ \<Rightarrow> None | Inr mgr \<Rightarrow> Some mgr), dm_timers = Some tm\<rparr>) })
     (\<lambda>r w. remembers L (dc_StateFile dc) False w \<and>
       (\<forall>d. r = Inr d \<longrightarrow> (\<exists>doc. dm_config d = manager_config dc doc \<and> daemon_ok (manager_config dc doc) D d)))"
    for doc cache sc sp
  proof (rule ends_bind [where R = "\<lambda>m w. remembers L (dc_StateFile dc) False w \<and> (\<forall>m'. m = Inr m' \<longrightarrow> man_ok D m')"])
    show "ends (remembers L (dc_StateFile dc) D) (manager_start L (manager_config dc doc) cache)
      (\<lambda>m w. remembers L (dc_StateFile dc) False w \<and> (\<forall>m'. m = Inr m' \<longrightarrow> man_ok D m'))"
      by (rule ends_weaken [OF ends_manager_start [of L "manager_config dc doc"]]) (auto elim: remembers_mono)
  next
    have "keeps (\<lambda>w. remembers L (dc_StateFile dc) False w \<and> Q) (sched_start sc)" for Q
      by (simp add: keeps_def sched_start_def remembers_def agent_prims)
    then show "ends (\<lambda>w. remembers L (dc_StateFile dc) False w \<and> (\<forall>m'. m = Inr m' \<longrightarrow> man_ok D m'))
       (do { tm \<leftarrow> sched_start sc; s \<leftarrow> socket_Start sp;
           State_Monad.return (case s of Inl e \<Rightarrow> Inl e
             | Inr _ \<Rightarrow> Inr \<lparr>dm_config = manager_config dc doc, dm_sched = sc,
                 dm_manager = (case m of Inl _ \<Rightarrow> None | Inr mgr \<Rightarrow> Some mgr), dm_timers = Some tm\<rparr>) })
       (\<lambda>r w. remembers L (dc_StateFile dc) False w \<and>
         (\<forall>d. r = Inr d \<longrightarrow> (\<exists>doc. dm_config d = manager_config dc doc \<and> daemon_ok (manager_config dc doc) D d)))" for m
      by (intro ends_keeps keeps_socket_Start ends_return) (auto simp: daemon_ok_def split: sum.splits)
  qed
  show ?thesis
    unfolding daemon_start_def Let_def
    by (intro ends_intros ends_remembers tail; (unfold remembers_def, intro inv_intros)?) (auto elim: remembers_mono)
qed

lemma revoked_dispatch:
  assumes "mg_revoked m" "c = CmdRenew \<or> (\<exists>auds ttl. c = CmdJWT auds ttl)"
  shows "\<exists>r. refused r \<and> run_state (dispatch L cfg c m) w = ((r, m), w)"
  using assms by (auto simp: dispatch_def handleRenew_def handleExchangeJWT_def refused_def)

end
