(* ===== verification/Agent_Files.thy ===== *)
theory Agent_Files
  imports Agent_Laws
begin

text \<open>
  The files the agent reads and writes: the loop over the PEM blocks of a certificate file ends
  and finds exactly the certificates, what an enrollment stores is what the daemon starts with,
  and when a certificate is due for renewal.
\<close>

section \<open>PEM files\<close>

text \<open>The law of \<^verbatim>\<open>pem.Decode\<close> the loop rests on: the rest is shorter than the input.\<close>

definition pem_consumes :: "oslib \<Rightarrow> bool" where
  "pem_consumes L \<longleftrightarrow> (\<forall>b t d r. pem_Decode L b = Some (t, d, r) \<longrightarrow> length r < length b)"

text \<open>The blocks of a file.\<close>

inductive blocks_of :: "oslib \<Rightarrow> bytes \<Rightarrow> (string \<times> bytes) list \<Rightarrow> bool" for L where
  no_block: "pem_Decode L b = None \<Longrightarrow> blocks_of L b []"
| a_block: "pem_Decode L b = Some (t, d, r) \<Longrightarrow> blocks_of L r bs \<Longrightarrow> blocks_of L b ((t, d) # bs)"

lemma blocks_of_unique: "blocks_of L b bs \<Longrightarrow> blocks_of L b cs \<Longrightarrow> bs = cs"
proof (induction arbitrary: cs rule: blocks_of.induct)
  case (no_block b)
  from no_block(2,1) show ?case by (cases rule: blocks_of.cases) simp_all
next
  case (a_block b t d r bs)
  from a_block.prems a_block.hyps(1) a_block.IH show ?case by (cases rule: blocks_of.cases) simp_all
qed

lemma blocks_of_ex: "pem_consumes L \<Longrightarrow> \<exists>bs. blocks_of L b bs"
proof (induction b rule: length_induct)
  case (1 b)
  show ?case
  proof (cases "pem_Decode L b")
    case (Some p)
    obtain t d r where p: "p = (t, d, r)" by (metis surj_pair)
    with Some 1(2) have "length r < length b" unfolding pem_consumes_def by blast
    with 1 obtain bs where "blocks_of L r bs" by blast
    with Some p show ?thesis by (auto intro: a_block)
  qed (auto intro: no_block)
qed

text \<open>The certificates of a list of blocks: what the loop computes.\<close>

definition certificates_of :: "golib \<Rightarrow> (string \<times> bytes) list \<Rightarrow> certificate list option" where
  "certificates_of G bs = those (map (\<lambda>(t, d). ParseCertificate G d) (filter (\<lambda>(t, d). t = ''CERTIFICATE'') bs))"

lemma chain_blocks_of:
  "blocks_of L b bs \<Longrightarrow> chain_blocks G L b acc =
    Some (case certificates_of G bs of None \<Rightarrow> Inl [Opaque ''parse''] | Some cs \<Rightarrow> Inr (acc @ cs))"
proof (induction arbitrary: acc rule: blocks_of.induct)
  case (no_block b)
  then show ?case by (simp add: chain_blocks.simps certificates_of_def)
next
  case (a_block b t d r bs)
  then show ?case
    by (auto simp: chain_blocks.simps [of G L b] certificates_of_def split: option.splits)
qed

lemma run_LoadSVIDChain:
  assumes "disk w path = Some b" "io w (io_count w) = IO_ok" "blocks_of (al_os L) b bs"
  shows "fst (run_state (LoadSVIDChain L path) w) = (case certificates_of (al_go L) bs of
      None \<Rightarrow> Inl [Opaque ''parse'']
    | Some cs \<Rightarrow> if cs = [] then Inl [Opaque ''no CERTIFICATE blocks''] else Inr cs)"
  using assms
  by (simp add: LoadSVIDChain_def chain_of_file_def chain_blocks_of agent_prims split: option.split)

section \<open>What an enrollment stores\<close>

definition paths_apart :: "string \<times> string \<times> string \<Rightarrow> bool" where
  "paths_apart p = (case p of (stateF, certF, keyF) \<Rightarrow>
     distinct [certF, keyF, stateF] \<and> stateF @ ''.tmp'' \<notin> {certF, keyF})"

lemma writeFile_Inr:
  assumes "run_state (writeFile p b) w = (Inr (), w')"
  shows "disk w' = (disk w)(p \<mapsto> b)"
  using assms by (auto simp: writeFile_def agent_prims split: if_splits io_outcome.splits)

lemma Save_Inr:
  assumes "run_state (agentstate_Save L p s) w = (Inr (), w')"
  shows "\<exists>b. json_State L s = Some b \<and> disk w' = (disk w)(p @ ''.tmp'' := None, p \<mapsto> b)"
  using assms by (auto simp: agentstate_Save_def agent_prims Let_def split: if_splits io_outcome.splits option.splits)

lemma enrolled_Inr:
  assumes "run_state (persistEnrollmentResult L rt chain key) w = (Inr (), w')" "dataDirPaths rt = (stateF, certF, keyF)"
  obtains leafPEM rest t der r leaf keyDER now b where "chain = leafPEM # rest"
    "pem_Decode (al_os L) leafPEM = Some (t, der, r)" "ParseCertificate (al_go L) der = Some leaf"
    "MarshalPKCS8PrivateKey L key = Some keyDER" "json_State L (enrolled_state leaf now) = Some b"
    "disk w' = (disk w)(certF \<mapsto> concat chain, keyF \<mapsto> pem_EncodeToMemory L ''PRIVATE KEY'' keyDER,
       stateF @ ''.tmp'' := None, stateF \<mapsto> b)"
proof -
  obtain leafPEM rest where c: "chain = leafPEM # rest"
    using assms(1) by (cases chain) (auto simp: persistEnrollmentResult_def)
  from assms obtain t der r leaf keyDER where
    p: "pem_Decode (al_os L) leafPEM = Some (t, der, r)" "ParseCertificate (al_go L) der = Some leaf"
      "MarshalPKCS8PrivateKey L key = Some keyDER"
    by (auto simp: c persistEnrollmentResult_def split: option.splits)
  obtain now w1 where now: "run_state Clock_Now w = (now, w1)" "disk w1 = disk w"
    by (simp add: Clock_Now_def)
  from assms obtain w2 w3 where
    "run_state (writeFile certF (joinPEM chain)) w1 = (Inr (), w2)"
    "run_state (writeFile keyF (pem_EncodeToMemory L ''PRIVATE KEY'' keyDER)) w2 = (Inr (), w3)"
    "run_state (agentstate_Save L stateF (enrolled_state leaf now)) w3 = (Inr (), w')"
    by (auto simp: persistEnrollmentResult_def c p now split: prod.splits sum.splits)
  from writeFile_Inr [OF this(1)] writeFile_Inr [OF this(2)] Save_Inr [OF this(3)] now(2)
  obtain b where "json_State L (enrolled_state leaf now) = Some b"
    "disk w' = (disk w)(certF \<mapsto> concat chain, keyF \<mapsto> pem_EncodeToMemory L ''PRIVATE KEY'' keyDER,
       stateF @ ''.tmp'' := None, stateF \<mapsto> b)"
    by (auto simp: joinPEM_def)
  with c p show thesis by (rule that)
qed

section \<open>The bearer mode of the renewal command\<close>

text \<open>
  \<^verbatim>\<open>device-agent renew --auth bearer\<close> never succeeds: the exchange it makes needs the chain of
  the SVID, which the command does not load. Nothing is sent and no file is touched.
\<close>

lemma exchange_without_chain:
  assumes "xq_Mode req = ModeClientAssertion" "xq_SVIDChain req = []"
  shows "\<exists>e. run_state (jwtsvid_Exchange L req) w = (Inl e, w)"
  using assms by (auto simp: jwtsvid_Exchange_def exchange_assertion_def split: option.split)

lemma renewSVID_client_bearer:
  "ends P (renewSVID_client L rt ''bearer'' sp) (\<lambda>r w. \<exists>e. r = Inl e)"
proof -
  have "run_state (jwtsvid_Exchange L (r :: xch_Request)) w = (Inr x, w') \<Longrightarrow> xq_Mode r = ModeClientAssertion \<Longrightarrow>
      xq_SVIDChain r = [] \<Longrightarrow> False" for r w x w'
    using exchange_without_chain [of r L w] by auto
  then show ?thesis
    by (fastforce simp: ends_def renewSVID_client_def split: prod.splits sum.splits)
qed

lemma keeps_renewSVID_client [inv_intros]: "keeps (of_files P) (renewSVID_client L rt auth sp)"
  unfolding renewSVID_client_def by (intro inv_intros)

theorem renew_bearer_fails:
  "ends (of_files (\<lambda>d c. d = d0)) (renewSVID L rt sameKey keyAlg ''bearer'') (\<lambda>r w. (\<exists>e. r = Inl e) \<and> disk w = d0)"
proof -
  have "ends (of_files (\<lambda>d c. d = d0)) (renewSVID_client L rt ''bearer'' sp) (\<lambda>r w. (\<exists>e. r = Inl e) \<and> disk w = d0)" for sp
    using endsD [OF renewSVID_client_bearer [of "\<lambda>_. True"]] keepsD' [OF keeps_renewSVID_client [of "\<lambda>d c. d = d0"]]
    unfolding ends_def by blast
  then have tail: "ends (of_files (\<lambda>d c. d = d0)) (State_Monad.bind (renewSVID_client L rt ''bearer'' sp)
      (\<lambda>c. case c of Inl e \<Rightarrow> State_Monad.return (Inl e) | Inr p \<Rightarrow> g p)) (\<lambda>r w. (\<exists>e. r = Inl e) \<and> disk w = d0)"
    for sp and g :: "_ \<Rightarrow> (_, unit result) aprog"
    by (rule ends_bind) (auto simp: ends_def split: sum.splits)
  note reads = keeps_start(1) [of "\<lambda>d c. d = d0"] keeps_if [OF keeps_clients(1) keeps_keys(1), of "\<lambda>d c. d = d0"]
  show ?thesis
    unfolding renewSVID_def by (intro ends_intros tail reads [THEN ends_keeps]) auto
qed

end
