(* ===== verification/Agent_Schedule.thy ===== *)
theory Agent_Schedule
  imports Agent_Daemon
begin

text \<open>
  When a renewal is due. The code computes the instant in \<^verbatim>\<open>float64\<close>; for lifetimes below
  \<open>2 ^ 53\<close> nanoseconds, which is 104 days, the rounding keeps it within the lifetime and makes
  the middle exact.
\<close>

lemma bitlen_less: "n < 2 ^ k \<Longrightarrow> bitlen n \<le> k"
proof (induction k arbitrary: n)
  case 0
  then show ?case by (simp add: bitlen.simps)
next
  case (Suc k)
  show ?case
  proof (cases "n = 0")
    case False
    from Suc.prems have "n div 2 < 2 ^ k" by (simp add: less_mult_imp_div_less mult.commute)
    from Suc.IH [OF this] False show ?thesis by (simp add: bitlen.simps [of n])
  qed (simp add: bitlen.simps)
qed

lemma round_even_le: "x \<le> of_int n \<Longrightarrow> round_even x \<le> n"
proof -
  assume x: "x \<le> of_int n"
  then have "\<lfloor>x\<rfloor> \<le> n" by linarith
  moreover have "\<lfloor>x\<rfloor> = n \<Longrightarrow> x - of_int \<lfloor>x\<rfloor> \<le> 0" using x by simp
  ultimately show ?thesis by (cases "\<lfloor>x\<rfloor> = n") (auto simp: round_even_def Let_def)
qed

lemma round_even_nonneg: "0 \<le> x \<Longrightarrow> 0 \<le> round_even x"
  by (auto simp: round_even_def Let_def)

lemma round_even_of_int [simp]: "round_even (of_int n) = n"
  by (simp add: round_even_def)

lemma ulp64_pos: "0 < ulp64 x"
  by (simp add: ulp64_def)

text \<open>A whole number is a multiple of the step of the numbers below \<open>2 ^ 53\<close>.\<close>

lemma ulp64_divides:
  assumes "0 \<le> x" "x < 2 ^ 53"
  shows "\<exists>k. of_int n = of_int k * ulp64 x"
proof -
  have "nat \<lfloor>\<bar>x\<bar>\<rfloor> < 2 ^ 53"
    using assms by (simp add: nat_less_iff floor_less_iff)
  then have "bitlen (nat \<lfloor>\<bar>x\<bar>\<rfloor>) \<le> 53" by (rule bitlen_less)
  then have "(2 :: rat) ^ 53 = 2 ^ (53 - bitlen (nat \<lfloor>\<bar>x\<bar>\<rfloor>)) * 2 ^ bitlen (nat \<lfloor>\<bar>x\<bar>\<rfloor>)"
    by (metis le_add_diff_inverse2 power_add)
  then show ?thesis
    by (intro exI [of _ "n * 2 ^ (53 - bitlen (nat \<lfloor>\<bar>x\<bar>\<rfloor>))"]) (simp add: ulp64_def)
qed

lemma float64_nonneg: "0 \<le> x \<Longrightarrow> 0 \<le> float64 x"
  using ulp64_pos [of x] by (simp add: float64_def round_even_nonneg sgn_if)

lemma float64_le:
  assumes "0 \<le> x" "x \<le> of_int n" "n < 2 ^ 53"
  shows "float64 x \<le> of_int n"
proof (cases "x = 0")
  case False
  have "x < 2 ^ 53" using assms by (metis le_less_trans of_int_less_iff of_int_numeral of_int_power)
  from ulp64_divides [OF assms(1) this, of n] obtain k where k: "of_int n = of_int k * ulp64 x" by blast
  with assms(2) have "x / ulp64 x \<le> of_int k" using ulp64_pos [of x] by (simp add: divide_le_eq)
  from round_even_le [OF this] have "of_int (round_even (x / ulp64 x)) * ulp64 x \<le> of_int k * ulp64 x"
    using ulp64_pos [of x] by simp
  with k False assms(1) show ?thesis by (simp add: float64_def sgn_if)
qed (use assms in \<open>simp add: float64_def\<close>)

lemma float64_of_int:
  assumes "0 \<le> n" "n < 2 ^ 53"
  shows "float64 (of_int n) = of_int n"
proof -
  have "(of_int n :: rat) < 2 ^ 53" using assms(2) by (metis of_int_less_iff of_int_numeral of_int_power)
  from ulp64_divides [OF _ this, of n] assms(1) obtain k where k: "of_int n = of_int k * ulp64 (of_int n)" by auto
  then have "\<bar>of_int n\<bar> / ulp64 (of_int n) = of_int k"
    using ulp64_pos [of "of_int n"] assms(1) by (simp add: field_simps)
  with k assms(1) show ?thesis by (simp add: float64_def sgn_if)
qed

lemma RenewAt_within:
  assumes "notBefore \<le> notAfter" "notAfter - notBefore < 2 ^ 53"
  shows "notBefore \<le> RenewAt notBefore notAfter ratio" "RenewAt notBefore notAfter ratio \<le> notAfter"
proof -
  define n where "n = notAfter - notBefore"
  define r where "r = (if ratio \<le> 0 \<or> 1 \<le> ratio then 1 / 2 else ratio)"
  have n: "0 \<le> n" "n < 2 ^ 53" "time_sub notAfter notBefore = n"
    using assms by (auto simp: n_def time_sub_def minDuration_def maxDuration_def)
  have r: "0 < r" "r < 1" by (auto simp: r_def)
  have "0 \<le> of_int n * r" "of_int n * r \<le> of_int n"
    using n(1) r by (simp_all add: mult_left_le)
  from float64_nonneg [OF this(1)] float64_le [OF this n(2)]
  have "0 \<le> trunc_rat (float64 (of_int n * r))" "trunc_rat (float64 (of_int n * r)) \<le> n"
    by (auto simp: trunc_rat_def floor_le_iff)
  moreover have "RenewAt notBefore notAfter ratio = notBefore + trunc_rat (float64 (of_int n * r))"
    by (simp add: RenewAt_def Let_def n(3) float64_of_int [OF n(1,2)] flip: r_def)
  ultimately show "notBefore \<le> RenewAt notBefore notAfter ratio" "RenewAt notBefore notAfter ratio \<le> notAfter"
    by (simp_all add: n_def)
qed

end
