(* ===== verification/Agent_Cache.thy ===== *)
theory Agent_Cache
  imports Agent_State "HOL-Library.Multiset"
begin

text \<open>
  The cache of JWT SVIDs against its contract: a map from the audiences, without their order, to
  the token stored last, from which tokens near their expiry are not handed out. The contract is the
  interface \<open>token_cache\<close>; the cache of \<^verbatim>\<open>pkg/device-agent/jwtsvid/cache\<close> provides it for
  audiences without the NUL that separates them in its keys.
\<close>

datatype ('k, 'e) cache_op = PutOp 'k 'e | EvictOp gotime

text \<open>The abstract cache: what was stored last under each key.\<close>

fun latest :: "('k \<Rightarrow> 'a) \<Rightarrow> ('a \<rightharpoonup> 'e) \<Rightarrow> ('k, 'e) cache_op \<Rightarrow> ('a \<rightharpoonup> 'e)" where
  "latest absk m (PutOp k e) = m(absk k \<mapsto> e)"
| "latest absk m (EvictOp t) = m"

fun cache_step :: "('c \<Rightarrow> 'k \<Rightarrow> 'e \<Rightarrow> 'c) \<Rightarrow> ('c \<Rightarrow> gotime \<Rightarrow> 'c) \<Rightarrow> 'c \<Rightarrow> ('k, 'e) cache_op \<Rightarrow> 'c" where
  "cache_step put evict c (PutOp k e) = put c k e"
| "cache_step put evict c (EvictOp t) = evict c t"

text \<open>The operations on proper keys whose evictions are not after the time \<open>t\<close>.\<close>

fun proper_op :: "('k \<Rightarrow> bool) \<Rightarrow> gotime \<Rightarrow> ('k, 'e) cache_op \<Rightarrow> bool" where
  "proper_op ok t (PutOp k e) = ok k"
| "proper_op ok t (EvictOp u) = (u \<le> t)"

locale token_cache =
  fixes fresh_cache :: 'c
    and put :: "'c \<Rightarrow> 'k \<Rightarrow> 'e \<Rightarrow> 'c"
    and lookup :: "'c \<Rightarrow> 'k \<Rightarrow> gotime \<Rightarrow> 'e option"
    and evict :: "'c \<Rightarrow> gotime \<Rightarrow> 'c"
    and cinv :: "'c \<Rightarrow> bool"
    and ok :: "'k \<Rightarrow> bool"
    and absk :: "'k \<Rightarrow> 'a"
    and usable :: "gotime \<Rightarrow> 'e \<Rightarrow> bool"
  assumes cinv_new: "cinv fresh_cache"
    and cinv_put: "cinv c \<Longrightarrow> cinv (put c k e)"
    and cinv_evict: "cinv c \<Longrightarrow> cinv (evict c t)"
    and lookup_new: "lookup fresh_cache k t = None"
    and lookup_put: "cinv c \<Longrightarrow> ok k \<Longrightarrow> ok k' \<Longrightarrow>
      lookup (put c k e) k' t = (if absk k = absk k' then (if usable t e then Some e else None) else lookup c k' t)"
    and lookup_evict: "cinv c \<Longrightarrow> u \<le> t \<Longrightarrow> lookup (evict c u) k t = lookup c k t"
begin

lemma run_from:
  assumes "cinv c" "ok k" "list_all (proper_op ok t) ops"
    "lookup c k t = (case m (absk k) of None \<Rightarrow> None | Some e \<Rightarrow> if usable t e then Some e else None)"
  shows "lookup (foldl (cache_step put evict) c ops) k t =
    (case foldl (latest absk) m ops (absk k) of None \<Rightarrow> None | Some e \<Rightarrow> if usable t e then Some e else None)"
  using assms
proof (induction ops arbitrary: c m)
  case (Cons p ops)
  show ?case
  proof (cases p)
    case (PutOp k' e)
    with Cons.prems show ?thesis
      by (simp add: Cons.IH cinv_put lookup_put)
  next
    case (EvictOp u)
    with Cons.prems show ?thesis
      by (simp add: Cons.IH cinv_evict lookup_evict)
  qed
qed simp

lemma run_new:
  "ok k \<Longrightarrow> list_all (proper_op ok t) ops \<Longrightarrow>
    lookup (foldl (cache_step put evict) fresh_cache ops) k t =
    (case foldl (latest absk) Map.empty ops (absk k) of None \<Rightarrow> None | Some e \<Rightarrow> if usable t e then Some e else None)"
  by (rule run_from) (simp_all add: cinv_new lookup_new)

end

section \<open>The cache provides it\<close>

definition proper_audiences :: "string list \<Rightarrow> bool" where
  "proper_audiences auds \<longleftrightarrow> auds \<noteq> [] \<and> list_all (\<lambda>a. CHR 0x00 \<notin> set a) auds"

definition lasting :: "duration \<Rightarrow> gotime \<Rightarrow> cache_Entry \<Rightarrow> bool" where
  "lasting threshold t e \<longleftrightarrow> threshold \<le> time_sub (ce_ExpiresAt e) t"

lemma lasting_near: "ca_threshold c = th \<Longrightarrow> near_expiry c t e \<longleftrightarrow> \<not> lasting th t e"
  by (auto simp: lasting_def near_expiry_def)

lemma near_expiry_later: "near_expiry c u e \<Longrightarrow> u \<le> t \<Longrightarrow> near_expiry c t e"
  by (auto simp: near_expiry_def time_sub_def)

lemma split_cache_key: "proper_audiences as \<Longrightarrow> split_on (CHR 0x00) (cache_key as) = sort as"
  unfolding cache_key_def
proof (rule split_join)
  assume as: "proper_audiences as"
  then have "length (sort as) \<noteq> 0" by (simp add: proper_audiences_def)
  then show "sort as \<noteq> []" by (metis length_0_conv)
  show "CHR 0x00 \<notin> set s" if "s \<in> set (sort as)" for s
    using as that by (simp add: proper_audiences_def list_all_iff)
qed

lemma cache_key_eq:
  assumes "proper_audiences as" "proper_audiences bs"
  shows "cache_key as = cache_key bs \<longleftrightarrow> mset as = mset bs"
proof
  assume "cache_key as = cache_key bs"
  with assms have "sort as = sort bs" by (metis split_cache_key)
  then show "mset as = mset bs" by (metis mset_sort)
next
  assume "mset as = mset bs"
  then have "sort as = sort bs" by (metis mset_sort properties_for_sort sorted_sort)
  then show "cache_key as = cache_key bs" by (simp add: cache_key_def)
qed

lemma map_of_filter_neq: "k \<noteq> k' \<Longrightarrow> map_of (filter (\<lambda>p. fst p \<noteq> k') xs) k = map_of xs k"
  by (induction xs) auto

lemma map_of_filter_snd:
  "distinct (map fst xs) \<Longrightarrow>
    map_of (filter (\<lambda>p. P (snd p)) xs) k = (case map_of xs k of None \<Rightarrow> None | Some v \<Rightarrow> if P v then Some v else None)"
  by (induction xs) (auto simp: map_of_eq_None_iff[THEN iffD2] image_iff split: option.splits)

definition jwt_cache_ok :: "duration \<Rightarrow> Cache \<Rightarrow> bool" where
  "jwt_cache_ok th c \<longleftrightarrow> ca_threshold c = th \<and> distinct (map fst (ca_entries c))"

lemma jwt_cache_ok_Put: "jwt_cache_ok th c \<Longrightarrow> jwt_cache_ok th (cache_Put c k e)"
  by (auto simp: jwt_cache_ok_def cache_Put_def distinct_map_filter)

lemma jwt_cache_ok_Evict: "jwt_cache_ok th c \<Longrightarrow> jwt_cache_ok th (cache_EvictExpired c t)"
  by (simp add: jwt_cache_ok_def cache_EvictExpired_def distinct_map_filter)

lemma Get_Put:
  assumes "jwt_cache_ok th c" "proper_audiences k" "proper_audiences k'"
  shows "cache_Get (cache_Put c k e) k' t =
    (if mset k = mset k' then (if lasting th t e then Some e else None) else cache_Get c k' t)"
  using assms cache_key_eq [OF assms(3,2)]
  by (auto simp: cache_Get_def cache_Put_def jwt_cache_ok_def near_expiry_def lasting_def map_of_filter_neq split: option.splits)

lemma Get_Evict:
  assumes "jwt_cache_ok th c" "u \<le> t"
  shows "cache_Get (cache_EvictExpired c u) k t = cache_Get c k t"
proof -
  have "near_expiry (cache_EvictExpired c u) t = near_expiry c t"
    by (rule ext) (simp add: near_expiry_def cache_EvictExpired_def)
  with assms show ?thesis
    by (auto simp: cache_Get_def cache_EvictExpired_def jwt_cache_ok_def map_of_filter_snd [where P = "\<lambda>e. \<not> near_expiry c u e"]
        split: option.splits dest: near_expiry_later)
qed

interpretation jwt_cache: token_cache "cache_New th" cache_Put cache_Get cache_EvictExpired "jwt_cache_ok th"
  proper_audiences mset "lasting th" for th
  by unfold_locales (simp_all add: jwt_cache_ok_Put jwt_cache_ok_Evict Get_Put Get_Evict, simp_all add: jwt_cache_ok_def cache_New_def cache_Get_def)

end
