(* ===== verification/Agent_Bundle.thy ===== *)
theory Agent_Bundle
  imports MIS_Answers Agent_Clients
begin

text \<open>
  The bundle map from the service to the agent: what \<^verbatim>\<open>pkg/mis/bundlemap\<close> renders, the
  extractors of \<^verbatim>\<open>pkg/device-agent/bundle\<close> and \<^verbatim>\<open>jwtsvid/verify\<close> read back.
\<close>

section \<open>Decoding the envelope\<close>

text \<open>
  What \<^verbatim>\<open>json.Unmarshal\<close> makes of a key: the texts of its fields, empty where a field is
  missing. \<open>envelope_law\<close> is the law of the codec, for documents of ASCII texts whose keys have the
  fields of the bundle map only: other texts may be changed in encoding and other names may match
  a field up to case.
\<close>

definition text_or :: "(string \<times> json) list \<Rightarrow> string \<Rightarrow> string" where
  "text_or ps f = (case text_of ps f of None \<Rightarrow> [] | Some s \<Rightarrow> s)"

definition texts_of :: "json \<Rightarrow> string list" where
  "texts_of j = (case j of JArray js \<Rightarrow> map (\<lambda>x. case x of JString s \<Rightarrow> s | _ \<Rightarrow> []) js | _ \<Rightarrow> [])"

definition key_of_json :: "json \<Rightarrow> bundle_key" where
  "key_of_json j = (let ps = (case j of JObject qs \<Rightarrow> qs | _ \<Rightarrow> []) in
     \<lparr>bk_Use = text_or ps ''use'', bk_Kid = text_or ps ''kid'', bk_Kty = text_or ps ''kty'', bk_Crv = text_or ps ''crv'',
      bk_X = text_or ps ''x'', bk_Y = text_or ps ''y'', bk_N = text_or ps ''n'', bk_E = text_or ps ''e'',
      bk_X5C = (case map_of ps ''x5c'' of None \<Rightarrow> [] | Some v \<Rightarrow> texts_of v)\<rparr>)"

definition plain_field :: "string \<times> json \<Rightarrow> bool" where
  "plain_field p = (case p of
     (f, JString s) \<Rightarrow> f \<in> {''use'', ''kid'', ''kty'', ''crv'', ''x'', ''y'', ''n'', ''e''} \<and> ascii s
   | (f, JArray js) \<Rightarrow> f = ''x5c'' \<and> list_all (\<lambda>j. case j of JString s \<Rightarrow> ascii s | _ \<Rightarrow> False) js
   | _ \<Rightarrow> False)"

definition plain_key :: "json \<Rightarrow> bool" where
  "plain_key j = (case j of JObject ps \<Rightarrow> list_all plain_field ps | _ \<Rightarrow> False)"

definition bundle_document :: "string \<Rightarrow> json list \<Rightarrow> (string \<times> json) list \<Rightarrow> json" where
  "bundle_document td ks sq = JObject [(''trust_domains'', JObject [(td, JObject ((''keys'', JArray ks) # sq))])]"

definition envelope_law :: "wirelib \<Rightarrow> envelope_decoder \<Rightarrow> bool" where
  "envelope_law J decode \<longleftrightarrow> (\<forall>td ks sq. ascii td \<longrightarrow> list_all plain_key ks \<longrightarrow> fst ` set sq \<subseteq> {''spiffe_sequence''} \<longrightarrow>
     decode (json_Marshal J (bundle_document td ks sq)) = Some [(td, map key_of_json ks)])"

section \<open>Keys\<close>

definition key_fits :: "pubkey \<Rightarrow> bool" where
  "key_fits k \<longleftrightarrow> key_in_range k \<and> (case k of RSA_PublicKey n e \<Rightarrow> e < 2 ^ 63 | _ \<Rightarrow> True)"

lemma plain_params:
  assumes "publicKeyParams k = Inr ps"
  shows "list_all plain_field ps"
  using assms
  by (cases k) (auto simp: publicKeyParams_def plain_field_def b64urlFixed_def b64url_def ascii_RawURL ecCurveName_def Let_def
      split: curve.splits sum.splits, simp_all add: ascii_def)

lemma decode_published:
  assumes "publicKeyParams k = Inr ps" "key_fits k"
  shows "decodeJWTKey (text_or (ps @ qs) ''kty'') (text_or (ps @ qs) ''crv'') (text_or (ps @ qs) ''x'')
    (text_or (ps @ qs) ''y'') (text_or (ps @ qs) ''n'') (text_or (ps @ qs) ''e'') = Inr k"
  using assms
  by (cases k) (auto simp: publicKeyParams_def decodeJWTKey_def ecCurveName_def ecCurveByName_def text_or_def text_of_def
      b64urlFixed_def b64url_def big_Bytes_def key_fits_def key_in_range_def int64_def Let_def split: curve.splits sum.splits)

section \<open>Authorities\<close>

lemma text_or_append:
  "map_of ps f = None \<Longrightarrow> text_or (ps @ qs) f = text_or qs f"
  by (simp add: text_or_def text_of_def map_add_def split: option.split)

text \<open>The published key of a certificate and of a JWT authority, as the agent sees it.\<close>

definition reads_cert :: "certificate \<Rightarrow> json \<Rightarrow> bool" where
  "reads_cert c k \<longleftrightarrow> plain_key k \<and> bk_Use (key_of_json k) = ''x509-svid'' \<and>
     bk_X5C (key_of_json k) = [Std_EncodeToString (cert_Raw c)]"

definition reads_jwt :: "jwt_authority \<Rightarrow> json \<Rightarrow> bool" where
  "reads_jwt a k \<longleftrightarrow> plain_key k \<and> bk_Use (key_of_json k) = ''jwt-svid'' \<and> bk_Kid (key_of_json k) = JA_KeyID a \<and>
     (case key_of_json k of b \<Rightarrow> decodeJWTKey (bk_Kty b) (bk_Crv b) (bk_X b) (bk_Y b) (bk_N b) (bk_E b)) = Inr (JA_PublicKey a)"

lemma reads_cert_key:
  assumes "publicKeyParams (cert_PublicKey c) = Inr ps"
  shows "reads_cert c (JObject (ps @ [(''use'', JString ''x509-svid''),
    (''x5c'', JArray [JString (Std_EncodeToString (cert_Raw c))])]))"
proof -
  have "ascii ''x509-svid''" by (simp add: ascii_def)
  with plain_params [OF assms] publicKeyParams_fields [OF assms] show ?thesis
    by (simp add: reads_cert_def plain_key_def plain_field_def ascii_Std key_of_json_def Let_def text_or_append)
      (simp add: text_or_def text_of_def texts_of_def map_add_def)
qed

lemma reads_jwt_key:
  assumes "publicKeyParams (JA_PublicKey a) = Inr ps" "key_fits (JA_PublicKey a)" "ascii (JA_KeyID a)"
    "qs = (''use'', JString ''jwt-svid'') # (if JA_KeyID a \<noteq> [] then [(''kid'', JString (JA_KeyID a))] else [])"
  shows "reads_jwt a (JObject (ps @ qs))"
proof -
  have q: "text_or qs ''use'' = ''jwt-svid''" "text_or qs ''kid'' = JA_KeyID a" "list_all plain_field qs"
    using assms(3) by (simp_all add: assms(4) text_or_def text_of_def plain_field_def) (simp_all add: ascii_def)
  from plain_params [OF assms(1)] publicKeyParams_fields [OF assms(1)] decode_published [OF assms(1,2), of qs] q
  show ?thesis
    by (simp add: reads_jwt_def plain_key_def key_of_json_def Let_def text_or_append)
qed

lemma x509_keys_reads: "x509_keys cs = Inr ks \<Longrightarrow> list_all2 reads_cert cs ks"
  by (induction cs arbitrary: ks) (auto simp: reads_cert_key split: sum.splits)

lemma jwt_keys_reads:
  "jwt_keys as = Inr ks \<Longrightarrow> \<forall>a\<in>set as. key_fits (JA_PublicKey a) \<and> ascii (JA_KeyID a) \<Longrightarrow> list_all2 reads_jwt as ks"
  by (induction as arbitrary: ks)
    (auto intro: reads_jwt_key split: sum.splits if_splits)

lemma read_certs:
  assumes "list_all2 reads_cert cs ks" "\<forall>c\<in>set cs. ParseCertificate G (cert_Raw c) = Some c"
  shows "list_all plain_key ks \<and>
    x509_authorities G (map key_of_json ks @ rest) = (case x509_authorities G rest of Inl e \<Rightarrow> Inl e | Inr ds \<Rightarrow> Inr (cs @ ds)) \<and>
    jwt_authorities (map key_of_json ks @ rest) = jwt_authorities rest \<and>
    add_authorities J (map key_of_json ks @ rest) b = add_authorities J rest b"
  using assms
proof (induction rule: list_all2_induct)
  case Nil
  then show ?case by (simp split: sum.split)
next
  case (Cons c cs k ks)
  then show ?case by (auto simp: reads_cert_def split: sum.split)
qed

lemma read_jwts:
  assumes "list_all2 reads_jwt as ks" "list_all (AddJWTAuthority J) as"
  shows "list_all plain_key ks \<and> x509_authorities G (map key_of_json ks) = Inr [] \<and>
    jwt_authorities (map key_of_json ks) = Inr as \<and> add_authorities J (map key_of_json ks) b = Inr (b @ as)"
  using assms
proof (induction arbitrary: b rule: list_all2_induct)
  case Nil
  then show ?case by simp
next
  case (Cons a as k ks)
  then show ?case by (cases a) (simp add: reads_jwt_def Let_def)
qed

lemma Build_document:
  assumes "Build J anchors = Inr body"
  obtains xs js sq where "x509_keys (TS_X509Authorities anchors) = Inr xs" "jwt_keys (TS_JWTAuthorities anchors) = Inr js"
    "fst ` set sq \<subseteq> {''spiffe_sequence''}" "body = json_Marshal J (bundle_document (TS_TrustDomain anchors) (xs @ js) sq)"
proof -
  from assms obtain xs js where "x509_keys (TS_X509Authorities anchors) = Inr xs" "jwt_keys (TS_JWTAuthorities anchors) = Inr js"
    "body = json_Marshal J (bundle_document (TS_TrustDomain anchors) (xs @ js)
      (if 0 < TS_SequenceNumber anchors then [(''spiffe_sequence'', JInt (int (TS_SequenceNumber anchors)))] else []))"
    by (auto simp: Build_def buildEntry_def bundle_document_def split: if_splits sum.splits)
  then show thesis by (intro that) auto
qed

text \<open>The entry of the trust domain, decoded.\<close>

lemma published_entry:
  assumes "Build J anchors = Inr body" "envelope_law J decode" "ascii (TS_TrustDomain anchors)"
    "\<forall>c\<in>set (TS_X509Authorities anchors). ParseCertificate G (cert_Raw c) = Some c"
    "\<forall>a\<in>set (TS_JWTAuthorities anchors). key_fits (JA_PublicKey a) \<and> ascii (JA_KeyID a) \<and> AddJWTAuthority J a"
  obtains ks where "decode body = Some [(TS_TrustDomain anchors, ks)]"
    "x509_authorities G ks = Inr (TS_X509Authorities anchors)" "jwt_authorities ks = Inr (TS_JWTAuthorities anchors)"
    "add_authorities J ks [] = Inr (TS_JWTAuthorities anchors)"
proof -
  from Build_document [OF assms(1)] obtain xs js sq where b:
    "x509_keys (TS_X509Authorities anchors) = Inr xs" "jwt_keys (TS_JWTAuthorities anchors) = Inr js"
    "fst ` set sq \<subseteq> {''spiffe_sequence''}" "body = json_Marshal J (bundle_document (TS_TrustDomain anchors) (xs @ js) sq)" .
  note x = read_certs [OF x509_keys_reads [OF b(1)] assms(4), of "map key_of_json js" J "[]"]
  have "list_all2 reads_jwt (TS_JWTAuthorities anchors) js" "list_all (AddJWTAuthority J) (TS_JWTAuthorities anchors)"
    using jwt_keys_reads [OF b(2)] assms(5) by (simp_all add: list_all_iff)
  note j = read_jwts [OF this, of G "[]"]
  have "decode body = Some [(TS_TrustDomain anchors, map key_of_json (xs @ js))]"
    using assms(2,3) x j b(3) unfolding envelope_law_def b(4) by simp
  with x j show thesis by (intro that [of "map key_of_json xs @ map key_of_json js"]) simp_all
qed

end
