(* ===== verification/Agent_Example.thy ===== *)
theory Agent_Example
  imports Agent_Files Agent_Schedule Agent_Cache Agent_Bundle MIS_Server_Example "HOL-Library.Countable"
begin

text \<open>
  A device: a library with blocks of one character, a codec of two states, a network that answers
  the discovery and a revocation list naming the certificate of the device, and a disk that never
  fails. The properties of the agent are applied to it.
\<close>

definition ex_leaf :: certificate where
  "ex_leaf = \<lparr>cert_Raw = ''xa'', cert_SerialNumber = 7, cert_NotBefore = 0, cert_NotAfter = 4, cert_PublicKey = ex_key,
     cert_URIs = [ex_url ''spiffe://td/margo/device/u''], cert_IsCA = False, cert_KeyUsageCertSign = False\<rparr>"

definition ex_alib :: golib where
  "ex_alib = ex_lib\<lparr>ParseCertificate := (\<lambda>b. if b = ''xa'' then Some ex_leaf else None)\<rparr>"

definition ex_doc :: DiscoveryResponseDTO where
  "ex_doc = \<lparr>DR_TrustDomain = ''td'', DR_TrustBundleURI = ''https://mis/b'', DR_MargoIdentityServiceBaseURI = ''https://mis/'',
     DR_SupportedBootstrapMethods = [], DR_SVIDProfilesSupported = []\<rparr>"

definition ex_fingerprint :: string where
  "ex_fingerprint = hex_EncodeToString (sha256 ex_alib (cert_Raw ex_leaf))"

definition ex_list :: RevocationListDTO where
  "ex_list = \<lparr>RL_LastUpdated = [], RL_RevokedSVIDs =
     [\<lparr>RV_CertFingerprintSHA256 = ex_fingerprint, RV_SerialNumber = [], RV_RevokedAt = []\<rparr>]\<rparr>"

text \<open>The state after enrolling, and after a check at time 1 that finds the device listed.\<close>

definition ex_live :: agent_state where
  "ex_live = enrolled_state ex_leaf 1"

definition ex_dead :: agent_state where
  "ex_dead = ex_live\<lparr>LastRevocationsCheckAt := 1, RevokedAt := 1\<rparr>"

definition ex_Do ::
    "http_client \<Rightarrow> string \<Rightarrow> string \<Rightarrow> http_header \<Rightarrow> bytes \<Rightarrow> unit \<Rightarrow> http_reply option \<times> unit" where
  "ex_Do cli meth url hdr body n =
     (if url = ''https://mis/.well-known/margo'' then Some \<lparr>rp_Status = 200, rp_Header = [], rp_Body = Some ''doc''\<rparr>
      else if url = ''https://mis/api/v1/revocations'' then Some \<lparr>rp_Status = 200, rp_Header = [], rp_Body = Some ''list''\<rparr>
      else None, n)"

definition ex_os :: oslib where
  "ex_os = \<lparr>os_ReadFile = (\<lambda>p. None),
     pem_Decode = (\<lambda>b. case b of [] \<Rightarrow> None | c # r \<Rightarrow> if c = CHR ''C'' then Some (''CERTIFICATE'', ''xa'', r)
       else if c = CHR ''K'' then Some (''PRIVATE KEY'', ''k'', r) else None),
     ParsePKCS8PrivateKey = (\<lambda>d. Some (Some ex_key)), ParseECPrivateKey = (\<lambda>d. None), ParsePKCS1PrivateKey = (\<lambda>d. None)\<rparr>"

definition ex_agentlib :: "unit agentlib" where
  "ex_agentlib = \<lparr>al_go = ex_alib, al_os = ex_os, al_wire = ex_wire,
     json_State = (\<lambda>s. if s = ex_live then Some ''live'' else if s = ex_dead then Some ''dead'' else None),
     parse_State = (\<lambda>b. if b = ''live'' then Some ex_live else if b = ''dead'' then Some ex_dead else None),
     json_of_EnrollmentRequest = (\<lambda>d. []), parse_EnrollmentResponse = (\<lambda>b. None),
     json_of_JWTSVIDRequest = (\<lambda>d. []), parse_JWTSVIDResponse = (\<lambda>b. None),
     parse_RevocationList = (\<lambda>b. if b = ''list'' then Some ex_list else None),
     parse_Discovery = (\<lambda>b. if b = ''doc'' then Some ex_doc else None), parse_Problem = (\<lambda>b. None),
     CreateCertificateRequest = (\<lambda>n alg k. Some ''req''), MarshalPKCS8PrivateKey = (\<lambda>k. Some ''k''),
     pem_EncodeToMemory = (\<lambda>t d. ''K''), AppendCertsFromPEM = (\<lambda>b. True), LoadX509KeyPair = (\<lambda>c k. True),
     jose_Sign = (\<lambda>alg k x5c cl. Some ''jws''), http_NewRequest = (\<lambda>u. True), al_Do = ex_Do\<rparr>"

definition ex_agent :: "unit agent" where
  "ex_agent = \<lparr>disk = [''s'' \<mapsto> ''live'', ''c'' \<mapsto> ''C''], io = (\<lambda>n. IO_ok), io_count = 0, ag_clock = (\<lambda>n. 1), ag_ticks = 0,
     ag_keys = (\<lambda>n. Some (1, 2)), ag_uuids = (\<lambda>n. ''u''), ag_draws = 0, net = ()\<rparr>"

definition ex_daemon :: daemon_Config where
  "ex_daemon = \<lparr>dc_StateFile = ''s'', dc_SVIDCertFile = ''c'', dc_SVIDKeyFile = ''k'', dc_MISBaseURL = ''https://mis'',
     dc_MISTrustAnchor = [], dc_RenewAuth = ''mtls'', dc_SocketPath = ''sock'', dc_BundleEvery = 0, dc_RevocationsEvery = 0,
     dc_RenewalRatio = 0, dc_JWTCacheTTL = 0\<rparr>"

lemma ex_states: "ex_live \<noteq> ex_dead" "RevokedAt ex_live = 0" "RevokedAt ex_dead = 1"
  by (simp_all add: ex_dead_def ex_live_def enrolled_state_def zero_time_def)

lemma ex_codec:
  "json_State ex_agentlib s = Some b \<longrightarrow> parse_State ex_agentlib b = Some s" "state_codec ex_agentlib"
  using ex_states(1) by (auto simp: state_codec_def ex_agentlib_def split: if_splits)

lemmas ex_agent_defs = ex_agentlib_def ex_agent_def ex_daemon_def ex_alib_def ex_os_def ex_Do_def ex_lib_def

lemma ex_renew_at: "RenewAt 0 4 (1 / 2) = 2"
  using float64_of_int [of 4] float64_of_int [of 2]
  by (simp add: RenewAt_def time_sub_def minDuration_def maxDuration_def trunc_rat_def)

lemma ex_starts:
  "\<exists>w. run_state (daemon_start ex_agentlib ex_daemon) ex_agent =
    (Inr \<lparr>dm_config = manager_config ex_daemon ex_doc, dm_sched = sched_config ex_daemon ex_leaf,
      dm_manager = Some \<lparr>mg_state = ex_live, mg_revoked = False, mg_stopped = False, mg_cache = Some (cache_New (5 * Minute))\<rparr>,
      dm_timers = Some \<lparr>tm_renew = 1, tm_bundle = Hour, tm_rev = 5 * Minute, tm_jwt = 30 * Second\<rparr>\<rparr>, w) \<and>
    w = ex_agent\<lparr>io_count := io_count w, ag_ticks := ag_ticks w, disk := (disk ex_agent)(''sock'' := None)\<rparr>"
  by (simp add: daemon_start_def agentstate_Load_def readLeaf_def httpclient_New_def loadPEMPool_def discovery_Fetch_def send_def
      manager_start_def sched_start_def socket_Start_def agent_prims Let_def ex_agent_defs TrimRight_def
      sched_config_def scheduler_New_def ex_leaf_def ex_states IsZero_def zero_time_def ex_renew_at at_least_ms_def time_sub_def
      minDuration_def maxDuration_def)


text \<open>A check by the timer finds the device listed; the request to renew that follows is refused.\<close>

lemma ex_runs:
  assumes "w = ex_agent\<lparr>io_count := i, ag_ticks := t, disk := (disk ex_agent)(''sock'' := None)\<rparr>"
    "d = \<lparr>dm_config = manager_config ex_daemon ex_doc, dm_sched = sc, dm_manager = Some \<lparr>mg_state = ex_live, mg_revoked = False,
      mg_stopped = False, mg_cache = cache\<rparr>, dm_timers = Some tm\<rparr>"
  shows "\<exists>r d' w'. run_state (daemon_run ex_agentlib [Fire TRev, Ask (Some ctlForceRenew)] d) w =
      (([RCheck r, RRenew (renew_err 0 no_problem [Opaque ''device is revoked''])], d'), w') \<and> cy_OwnSVIDListed r"
  by (simp add: assms daemon_step_def timer_command_def ask_manager_def dispatch_def handleCheckRevocations_def httpclient_New_def
      loadPEMPool_def revocations_Fetch_def send_def agent_prims Let_def ex_agent_defs manager_config_def ex_doc_def TrimRight_def
      Header_Get_def Header_Values_def is_2xx_def own_listed_def ContainsFingerprint_def ex_list_def ex_fingerprint_def ex_leaf_def persist_def
      agentstate_Save_def dirOf_def ex_live_def ex_dead_def enrolled_state_def IsZero_def zero_time_def rearm_def
      socket_command_def ctl_defs handleRenew_def)

text \<open>A file of two certificates with a key between them, and the cache of one token.\<close>

lemma ex_pem_consumes: "pem_consumes ex_os"
  by (auto simp: pem_consumes_def ex_os_def split: list.splits if_splits)

lemma ex_blocks: "blocks_of ex_os ''CKC'' [(''CERTIFICATE'', ''xa''), (''PRIVATE KEY'', ''k''), (''CERTIFICATE'', ''xa'')]"
  by (rule a_block [where r = "''KC''"], simp add: ex_os_def, rule a_block [where r = "''C''"], simp add: ex_os_def,
      rule a_block [where r = "[]"], simp add: ex_os_def, rule no_block, simp add: ex_os_def)

text \<open>Storing an enrollment in the directory \<^verbatim>\<open>/d\<close>.\<close>

definition ex_root :: cli_root where
  "ex_root = \<lparr>rt_MISBaseURL = ''https://mis'', rt_MISTrustAnchor = [], rt_DataDir = ''/d'', rt_StateFile = [],
     rt_SVIDCert = [], rt_SVIDKey = []\<rparr>"

lemma ex_paths: "dataDirPaths ex_root = (''/d/state.json'', ''/d/svid.pem'', ''/d/svid.key'')"
  by (simp add: dataDirPaths_def ex_root_def filepath_Join_def filepath_Clean_def HasPrefix_def)

definition ex_answer :: enr_Result where
  "ex_answer = \<lparr>en_HTTPStatus = 201, en_RetryAfter = [], en_Problem = no_problem,
     en_Response = \<lparr>EP_SVIDProfileURI = [], EP_SVID = \<lparr>XS_CertificateChainPEM = [''C'', ''C'']\<rparr>\<rparr>\<rparr>"

lemma ex_stored: "\<exists>w. run_state (finish_enrollment ex_agentlib ex_root ex_key (Inr ex_answer)) ex_agent = (Inr (), w) \<and>
    io w = (\<lambda>n. IO_ok)"
  by (simp add: finish_enrollment_def ex_answer_def is_2xx_def persistEnrollmentResult_def ex_paths writeFile_def
      agentstate_Save_def dirOf_def agent_prims Let_def ex_agent_defs ex_live_def joinPEM_def)

text \<open>A bundle map: any document is written as as many letters as its number says.\<close>

instance json :: countable
  by countable_datatype

definition ex_decode :: envelope_decoder where
  "ex_decode b = (case from_nat (length b) of
     JObject [(_, JObject [(td, JObject ((_, JArray ks) # _))])] \<Rightarrow> Some [(td, map key_of_json ks)] | _ \<Rightarrow> None)"

definition ex_bwire :: wirelib where
  "ex_bwire = ex_wire\<lparr>json_Marshal := (\<lambda>j. replicate (to_nat j) (CHR ''x''))\<rparr>"

lemma ex_envelope: "envelope_law ex_bwire ex_decode"
  by (simp add: envelope_law_def ex_decode_def ex_bwire_def bundle_document_def)

definition ex_anchors :: TrustAnchorSet where
  "ex_anchors = \<lparr>TS_TrustDomain = ''td'', TS_X509Authorities = [ex_leaf],
     TS_JWTAuthorities = [\<lparr>JA_KeyID = ''k1'', JA_PublicKey = RSA_PublicKey 77 65537\<rparr>], TS_SequenceNumber = 3\<rparr>"

lemma ex_built: "\<exists>body. Build ex_bwire ex_anchors = Inr body"
  by (simp add: Build_def buildEntry_def ex_anchors_def publicKeyParams_def ex_leaf_def ex_key_def ecCurveName_def)

end
