(* ===== verification/Agent_Properties.thy ===== *)
theory Agent_Properties
  imports Agent_Example
begin

text \<open>
  The theorems on the device agent, each with a witness on the instance of \<open>Agent_Example\<close>.
\<close>

section \<open>Revocation\<close>



section \<open>The cache of JWT SVIDs\<close>

text \<open>
  C36: After any sequence of stored tokens and evictions, a look-up in the cache at a time not
  before the evictions returns exactly what the abstract cache holds: the token stored last for
  the same audiences in whatever order, unless less than the threshold remains of its life.
  Audiences are non-empty lists of texts without NUL.
\<close>

theorem jwt_cache_refines:
  assumes "proper_audiences auds" "list_all (proper_op proper_audiences now) ops"
  shows "cache_Get (foldl (cache_step cache_Put cache_EvictExpired) (cache_New threshold) ops) auds now =
    (case foldl (latest mset) Map.empty ops (mset auds) of
       None \<Rightarrow> None
     | Some e \<Rightarrow> if threshold \<le> time_sub (ce_ExpiresAt e) now then Some e else None)"
  using jwt_cache.run_new [OF assms, of threshold] unfolding lasting_def .

theorem jwt_cache_refines_witness:
  "cache_Get (foldl (cache_step cache_Put cache_EvictExpired) (cache_New 5)
     [PutOp [''a'', ''b''] \<lparr>ce_Token = ''t'', ce_ExpiresAt = 9\<rparr>, PutOp [''b''] \<lparr>ce_Token = ''u'', ce_ExpiresAt = 4\<rparr>, EvictOp 1])
     [''b'', ''a''] 2 = Some \<lparr>ce_Token = ''t'', ce_ExpiresAt = 9\<rparr>"
  using jwt_cache_refines [of "[''b'', ''a'']" 2 "[PutOp [''a'', ''b''] \<lparr>ce_Token = ''t'', ce_ExpiresAt = 9\<rparr>,
      PutOp [''b''] \<lparr>ce_Token = ''u'', ce_ExpiresAt = 4\<rparr>, EvictOp 1]" 5]
  by (simp add: proper_audiences_def time_sub_def minDuration_def maxDuration_def add_mset_eq_single add_mset_commute)

section \<open>Files\<close>

text \<open>
  C37: The loop over the PEM blocks of a certificate file ends on every file, given that decoding a
  block leaves less than it was given. The file has one list of blocks, and the result is the
  certificates of all its \<^verbatim>\<open>CERTIFICATE\<close> blocks in order, an error when one of them does not
  parse, and an error when there is none.
\<close>

theorem svid_chain_terminates:
  assumes "pem_consumes L"
  shows "\<exists>!bs. blocks_of L raw bs \<and> chain_of_file G L raw = Some (case certificates_of G bs of
      None \<Rightarrow> Inl [Opaque ''parse'']
    | Some cs \<Rightarrow> if cs = [] then Inl [Opaque ''no CERTIFICATE blocks''] else Inr cs)"
proof -
  from blocks_of_ex [OF assms] obtain bs where bs: "blocks_of L raw bs" by blast
  then have "chain_of_file G L raw = Some (case certificates_of G bs of None \<Rightarrow> Inl [Opaque ''parse'']
    | Some cs \<Rightarrow> if cs = [] then Inl [Opaque ''no CERTIFICATE blocks''] else Inr cs)"
    by (simp add: chain_of_file_def chain_blocks_of split: option.split)
  with bs blocks_of_unique [OF _ bs] show ?thesis by blast
qed

theorem svid_chain_terminates_witness: "chain_of_file ex_alib ex_os ''CKC'' = Some (Inr [ex_leaf, ex_leaf])"
proof -
  obtain bs where "blocks_of ex_os ''CKC'' bs" and c: "chain_of_file ex_alib ex_os ''CKC'' = Some (case certificates_of ex_alib bs of
      None \<Rightarrow> Inl [Opaque ''parse''] | Some cs \<Rightarrow> if cs = [] then Inl [Opaque ''no CERTIFICATE blocks''] else Inr cs)"
    using svid_chain_terminates [OF ex_pem_consumes, of "''CKC''" ex_alib] by blast
  with blocks_of_unique [OF _ ex_blocks] have "bs = [(''CERTIFICATE'', ''xa''), (''PRIVATE KEY'', ''k''), (''CERTIFICATE'', ''xa'')]"
    by blast
  with c show ?thesis by (simp add: certificates_of_def ex_alib_def)
qed



section \<open>The scheduler\<close>

text \<open>A delay from now that ends in time, or at once because it should have ended already.\<close>

definition due_by :: "gotime \<Rightarrow> gotime \<Rightarrow> duration \<Rightarrow> bool" where
  "due_by expiry now d \<longleftrightarrow> 0 < d \<and> (d = 1000000 \<or> now + d \<le> expiry)"

lemma due_by_at_least_ms: "t \<le> expiry \<Longrightarrow> due_by expiry now (at_least_ms (time_sub t now))"
  by (auto simp: due_by_def at_least_ms_def time_sub_def minDuration_def maxDuration_def)

text \<open>
  C38: The renewal timer is armed at the start, after every successful renewal and after every
  failed one. For a certificate that is not yet expired and lives less than 104 days, the delay is
  positive and ends before the certificate does, or the renewal is due at once; the rounding of
  the floating-point ratio does not change that, whatever ratio is configured. After a failure the
  renewal is tried again in five minutes. The other timers are left alone.
\<close>

theorem renewal_due:
  assumes "sc_LeafNotBefore sc \<le> sc_LeafNotAfter sc" "sc_LeafNotAfter sc - sc_LeafNotBefore sc < 2 ^ 53"
    and "ag_clock w (ag_ticks w) \<le> ry_NewExpiry r" "ry_NewExpiry r - ag_clock w (ag_ticks w) < 2 ^ 53"
  shows "due_by (sc_LeafNotAfter sc) (ag_clock w (ag_ticks w)) (tm_renew (fst (run_state (sched_start sc) w))) \<and>
    (\<exists>d. fst (run_state (rearm sc tm (RRenew r)) w) = Some (tm\<lparr>tm_renew := d\<rparr>) \<and>
      (if ry_Err r = None then due_by (ry_NewExpiry r) (ag_clock w (Suc (ag_ticks w))) d else d = 5 * Minute))"
  using RenewAt_within(2) [OF assms(1,2)] RenewAt_within(2) [OF assms(3,4)]
  by (auto simp: sched_start_def rearm_def Clock_Now_def Let_def due_by_at_least_ms)

theorem renewal_due_witness:
  "due_by 4 1 (tm_renew (fst (run_state (sched_start (sched_config ex_daemon ex_leaf)) ex_agent)))"
  using renewal_due [of "sched_config ex_daemon ex_leaf" ex_agent
      "\<lparr>ry_HTTPStatus = 200, ry_NewSerial = [], ry_NewExpiry = 9, ry_Problem = no_problem, ry_Err = None\<rparr>"]
  by (simp add: sched_config_def scheduler_New_def ex_leaf_def ex_agent_def)

section \<open>The bundle map\<close>

text \<open>
  C34: What the service publishes, the agent reads back. From the rendered bundle map the agent
  extracts for the trust domain exactly the X.509 authorities of the service, and exactly its JWT
  authorities with their key identifiers and public keys, and the verifier of tokens accepts the
  same authorities; a map without X.509 authorities is an error.
\<close>

theorem bundle_map_round_trip:
  assumes "Build J anchors = Inr body" "envelope_law J decode" "ascii (TS_TrustDomain anchors)"
    "\<forall>c\<in>set (TS_X509Authorities anchors). ParseCertificate G (cert_Raw c) = Some c"
    "\<forall>a\<in>set (TS_JWTAuthorities anchors). key_fits (JA_PublicKey a) \<and> ascii (JA_KeyID a) \<and> AddJWTAuthority J a"
  shows "ExtractX509Authorities G decode body (TS_TrustDomain anchors) =
      (if TS_X509Authorities anchors = [] then Inl [Opaque ''no x509-svid authorities''] else Inr (TS_X509Authorities anchors)) \<and>
    ExtractJWTAuthorities decode body (TS_TrustDomain anchors) = Inr (TS_JWTAuthorities anchors) \<and>
    SourceFromBundleMap J decode body (TS_TrustDomain anchors) = Inr (TS_JWTAuthorities anchors)"
  by (rule published_entry [OF assms])
    (simp add: ExtractX509Authorities_def ExtractJWTAuthorities_def SourceFromBundleMap_def)

theorem bundle_map_round_trip_witness:
  "\<exists>body. Build ex_bwire ex_anchors = Inr body \<and> ExtractX509Authorities ex_alib ex_decode body ''td'' = Inr [ex_leaf] \<and>
    ExtractJWTAuthorities ex_decode body ''td'' = Inr [\<lparr>JA_KeyID = ''k1'', JA_PublicKey = RSA_PublicKey 77 65537\<rparr>]"
proof -
  obtain body where b: "Build ex_bwire ex_anchors = Inr body" using ex_built by blast
  have "ascii (TS_TrustDomain ex_anchors)"
    "\<forall>c\<in>set (TS_X509Authorities ex_anchors). ParseCertificate ex_alib (cert_Raw c) = Some c"
    "\<forall>a\<in>set (TS_JWTAuthorities ex_anchors). key_fits (JA_PublicKey a) \<and> ascii (JA_KeyID a) \<and> AddJWTAuthority ex_bwire a"
    by (simp_all add: ex_anchors_def ascii_def ex_alib_def ex_leaf_def key_fits_def key_in_range_def ex_bwire_def ex_wire_def)
  from bundle_map_round_trip [OF b ex_envelope this] b show ?thesis by (simp add: ex_anchors_def)
qed

end
