(* ===== verification/Spec2Isabelle.thy ===== *)
theory Spec2Isabelle
  imports MIS_Properties MIS_Store_Properties MIS_HTTP_Properties MIS_Operator_Properties WFM_Properties Agent_Properties
begin

text \<open>
  The Go programs of this repository, verified.

  \<^bold>\<open>The Margo Identity Service\<close> (\<^verbatim>\<open>completed/miaf-poc\<close>) gives edge devices SPIFFE
  identities. A device proves itself with a bootstrap credential; the service binds the subject
  it derives from the proof (the ESI) to a logical device identity (the LDI), issues X.509 SVIDs
  for it, renews and revokes them and exchanges them for JWT SVIDs. Its client on the device is
  \<^bold>\<open>the device agent\<close>, a set of commands and a daemon that renews the certificate, follows the
  bundle map and the revocation list and hands out tokens over a local socket.
  \<^bold>\<open>The workload fleet manager\<close> (\<^verbatim>\<open>completed/sup_desired_state_via_manifest_api\<close>) keeps
  for each device a versioned manifest of deployments and serves it with content-addressed
  descriptors and bundles; its client polls and reconciles.

  \<^bold>\<open>How Go is modelled.\<close> A function that changes state is a program of the state monad over a
  world: the tables of the database, and everything the program takes from outside as functions
  of a counter, namely the readings of the clock, the draws of the random generator and, for
  every SQL statement in turn, whether the database fails it. A theorem that quantifies over the
  world quantifies over every schedule of them. Errors are values of a sum type: the list of
  sentinels that \<^verbatim>\<open>errors.Is\<close> finds in the chain. Cryptography and the parsers of foreign
  formats (X.509, PKCS\#10, PEM, JSON, YAML, JWS, tar) are fields of the records \<open>golib\<close>, \<open>oslib\<close>,
  \<open>ralib\<close> and \<open>wfmlib\<close>, arguments of every definition that calls them; what a theorem relies on of them is
  a hypothesis of it. The world of the agent is another one: its files, with a schedule that says
  of every file operation whether it succeeds, fails or tears, its clock and its network. Base64, hexadecimal texts and RFC 3339 times are defined to the character.

  \<^bold>\<open>Theories.\<close>
  \<^item> \<open>Prelude\<close>, \<open>Go_Time\<close>, \<open>Go_Lib\<close>, \<open>Go_HTTP\<close>: Go's strings, times, base64, errors, HTTP messages;
    \<open>keeps\<close>, the invariants of programs; the round trips of times and base64 and where the order
    of the texts of times is their order.
  \<^item> \<open>MIS_State\<close>: tables of \<^verbatim>\<open>pkg/mis/store/schema.sql\<close>, statements and transactions.
    \<open>MIS_Identities\<close>, \<open>MIS_SVIDs\<close>, \<open>MIS_Credentials\<close>, \<open>MIS_RateLimit\<close>: the stores of
    \<^verbatim>\<open>pkg/mis/store\<close>, with the interfaces \<open>single_use\<close> (tokens and tickets), \<open>replay_store\<close>
    (the table and the map in memory) and \<open>rate_limiter\<close>.
  \<^item> \<open>MIS_CSR\<close> (\<^verbatim>\<open>pkg/mis/csr\<close>), \<open>MIS_Identity\<close> (\<^verbatim>\<open>pkg/mis/identity\<close>), \<open>MIS_CA\<close>
    (\<^verbatim>\<open>pkg/mis/ca\<close>), \<open>MIS_StepCA\<close> (\<^verbatim>\<open>pkg/mis/ra/stepca\<close>), \<open>MIS_Backend\<close>: requests, the service
    and its two issuers, connected by \<open>service_env\<close>; the flags and paths of \<^verbatim>\<open>cmd/mis\<close> and its
    choice of the issuer. Every theorem on the service holds for both backends.
    \<open>MIS_Flows\<close>: what enrollment, renewal and revocation achieve. \<open>MIS_System\<close>: the service as a
    state machine; \<open>system_invariant\<close> turns a predicate every statement keeps into an invariant of
    all runs.
  \<^item> \<open>MIS_Bootstrap\<close> (\<^verbatim>\<open>pkg/mis/bootstrap\<close>): the registry and the validators behind the
    interface \<open>bootstrap_validator\<close>. \<open>MIS_JWTExchange\<close> (\<^verbatim>\<open>pkg/mis/jwtexchange\<close>).
  \<^item> \<open>MIS_Wire\<close>, \<open>MIS_Handlers\<close>, \<open>MIS_Server\<close>: problem details, wire types and bundle map; the handlers of
    \<^verbatim>\<open>pkg/mis/transport/http\<close>; routes, middleware, the operator interface of
    \<^verbatim>\<open>pkg/mis/transport/admin\<close>, their assembly in \<^verbatim>\<open>cmd/mis\<close>, its start and the running program.
    \<open>MIS_Admin\<close>: the admin client and the three commands of the operator, with the server behind
    them. \<open>MIS_Operator_Properties\<close>: theorems on these commands and on the two backends.
    \<open>MIS_HTTP_Laws\<close>, \<open>MIS_Answers\<close>: what a run leaves alone, recorded outcomes and retries, the shape of
    every answer, what accepted assertions prove. \<open>MIS_Server_Example\<close>, \<open>MIS_HTTP_Properties\<close>: an
    assembled instance, theorems, witnesses.
  \<^item> \<open>Agent_State\<close>, \<open>Agent_Clients\<close>, \<open>Agent_Manager\<close>: the state file, keys, HTTP clients and cache; the
    clients of the service; the identity manager, all under \<^verbatim>\<open>pkg/device-agent\<close>.
    \<open>Agent_Daemon\<close>: scheduler, control socket and daemon as a machine of events. \<open>Agent_Commands\<close>:
    \<^verbatim>\<open>cmd/device-agent\<close>. \<open>Agent_Laws\<close>: the triples \<open>ends\<close>, the state file that is replaced whole
    or not at all, and what a revocation leaves behind. \<open>Agent_Cache\<close>: the interface \<open>token_cache\<close>.
    \<open>Agent_Files\<close>: PEM files, what an enrollment stores, and that the renewal command fails in
    bearer mode. \<open>Agent_Schedule\<close>: the instant of renewal in floating point. \<open>Agent_Bundle\<close>: the
    bundle map from the service to the agent. \<open>Agent_Example\<close>, \<open>Agent_Properties\<close>: instance,
    theorems, witnesses.
  \<^item> \<open>MIS_Example\<close>, \<open>MIS_Properties\<close>, \<open>MIS_Store_Properties\<close>: a concrete instance, and the theorems
    on the service and on its stores with their witnesses.
  \<^item> \<open>WFM_State\<close>, \<open>WFM_Service\<close>: the statements of \<^verbatim>\<open>query.sql.go\<close>, the repository and the
    deployment service. \<open>WFM_Laws\<close>, \<open>WFM_System\<close>, \<open>WFM_Runs\<close>: their invariant (\<open>manifest_update\<close>,
    \<open>saved_stable\<close>), the abstract fleet they refine and what holds along every run.
    \<open>WFM_HTTP\<close>: the handlers and the \<^verbatim>\<open>If-None-Match\<close> scanner. \<open>WFM_Client\<close>:
    \<^verbatim>\<open>cmd/wfm-client\<close>. \<open>WFM_Exchange\<close>: client and server together. \<open>WFM_Example\<close>,
    \<open>WFM_Properties\<close>: instance, theorems, witnesses.

  \<^bold>\<open>Bounds.\<close> The loop over PEM blocks of \<open>root_certs\<close> has as much fuel as the file has bytes and one
  more, and every block consumes a byte. \<open>client_loop\<close> runs a given number of polls. Times are
  unbounded integers where Go's have 64 bits, except for serial numbers and differences of times,
  which wrap and saturate as in Go; the loop over PEM blocks of the agent has no bound, and ends.
  The rounding of \<open>float64\<close> is exact from one half up, all that a truncated result needs. Texts of times round-trip for years of four digits, a
  hypothesis (\<open>four_digit_year\<close>) where it is needed.

  \<^bold>\<open>Not modelled.\<close> Contexts and their cancellation, logging, the texts of error details, the
  listening sockets and TLS handshakes, the interleaving of two requests inside one handler
  (a step runs one operation to its end). Step CA itself (the model ends at the exchange with it), the
  parsing of command lines, the start of the fleet manager, serialization of signed tokens and
  the interoperability demonstration of the agent are not modelled. The goroutines of the daemon
  are its events, one at a time: each waits for the manager's reply.
\<close>

end
